(* ===== verification/Prelude.thy ===== *)
theory Prelude
  imports Main "HOL-Library.Word" "HOL-Library.While_Combinator"
begin

unbundle bit_operations_syntax

text \<open>
  Shared vocabulary of the development: the fixed-width integer types of the C sources, the
  macro \<^verbatim>\<open>BITMASK\<close>, the shift \<^verbatim>\<open>1<<n\<close>, the collections of
  rewrite rules the component theories feed, and the generic lemmas on words that their proofs
  share.
\<close>

section \<open>Machine integers\<close>

type_synonym u8 = "8 word"
type_synonym u16 = "16 word"
type_synonym u32 = "32 word"

text \<open>
  \<^verbatim>\<open>BITMASK(x)\<close> of \<^verbatim>\<open>dsp_cpu.c\<close> is
  \<^verbatim>\<open>((1<<(x))-1)\<close>; \<open>shl1 n\<close> is \<^verbatim>\<open>(1<<n)\<close>.
\<close>

definition BITMASK :: "nat \<Rightarrow> u32" where
  "BITMASK x = push_bit x 1 - 1"

abbreviation shl1 :: "nat \<Rightarrow> u32" where
  "shl1 n \<equiv> push_bit n 1"

text \<open>The C conversion of a comparison to 0 or 1.\<close>

abbreviation c_bool :: "bool \<Rightarrow> u32" where
  "c_bool b \<equiv> of_bool b"

text \<open>The results of \<open>n\<close> calls in a row of an operation that returns a value and a new state.\<close>

primrec results :: "('s \<Rightarrow> 'b \<times> 's) \<Rightarrow> nat \<Rightarrow> 's \<Rightarrow> 'b list \<times> 's" where
  "results f 0 s = ([], s)"
| "results f (Suc n) s = (let (b, s) = f s; (bs, s) = results f n s in (b # bs, s))"

text \<open>The fields of the host's \<^verbatim>\<open>struct tm\<close> that the sources read.\<close>

record tm =
  tm_sec :: nat
  tm_min :: nat
  tm_hour :: nat
  tm_mday :: nat
  tm_mon :: nat
  tm_year :: nat
  tm_wday :: nat

section \<open>Rule collections\<close>

named_theorems uint_simps \<open>machine operations as integer arithmetic\<close>

section \<open>Words\<close>

lemma BITMASK_eq_mask: "BITMASK n = mask n"
  by (simp add: BITMASK_def mask_eq_exp_minus_1 push_bit_eq_mult)

lemma BITMASK_numeral [simp]:
  "BITMASK (numeral k) = push_bit (numeral k) 1 - 1" "BITMASK 0 = 0" "BITMASK 1 = 1"
  by (simp_all add: BITMASK_def)

lemma and_1_cases: "(x :: 'a::len word) AND 1 = 0 \<or> x AND 1 = 1"
  by (simp add: and_one_eq mod2_eq_if)

lemma and_1_neq_0 [simp]: "(x :: 'a::len word) AND 1 \<noteq> 0 \<longleftrightarrow> x AND 1 = 1"
  using and_1_cases [of x] by auto

lemma unat_and_BITMASK: "unat (x AND BITMASK n) = unat x mod 2 ^ n"
  unfolding BITMASK_eq_mask take_bit_eq_mask [symmetric] unsigned_take_bit_eq
  by (rule take_bit_eq_mod)

lemma unat_and_BITMASK_less: "unat (x AND BITMASK n) < 2 ^ n"
  by (simp add: unat_and_BITMASK)

lemma uint_and_BITMASK [uint_simps]: "uint (x AND BITMASK n) = uint x mod 2 ^ n"
  unfolding BITMASK_eq_mask take_bit_eq_mask [symmetric] unsigned_take_bit_eq
  by (rule take_bit_eq_mod)

lemma uint_drop_bit [uint_simps]: "uint (drop_bit n (x :: 'a::len word)) = uint x div 2 ^ n"
  unfolding unsigned_drop_bit_eq by (simp add: drop_bit_eq_div take_bit_int_eq_self)

lemma uint_push_bit [uint_simps]:
  "uint (push_bit n (x :: 'a::len word)) = (uint x * 2 ^ n) mod 2 ^ LENGTH('a)"
  unfolding unsigned_push_bit_eq by (simp only: take_bit_eq_mod push_bit_eq_mult)

lemma uint_and_1 [uint_simps]: "uint ((x :: 'a::len word) AND 1) = uint x mod 2"
  unfolding unsigned_and_eq by (simp add: and_one_eq)

lemma uint_or_add:
  "(x :: 'a::len word) AND y = 0 \<Longrightarrow> uint (x OR y) = (uint x + uint y) mod 2 ^ LENGTH('a)"
  by (simp add: disjunctive_add_eq_or [symmetric] uint_word_ariths)

section \<open>Integers written in digits\<close>

lemma mod_mult_add:
  fixes z l :: int
  assumes "0 \<le> l" "l < 2 ^ n"
  shows "(z * 2 ^ n + l) mod 2 ^ (n + m) = (z mod 2 ^ m) * 2 ^ n + l"
proof -
  have "(z * 2 ^ n + l) div 2 ^ n = z" using assms by (simp add: add.commute)
  moreover have "(z * 2 ^ n + l) mod 2 ^ n = l" using assms by simp
  ultimately show ?thesis
    using zmod_zmult2_eq [of "2 ^ m" "z * 2 ^ n + l" "2 ^ n"]
    by (simp add: power_add ac_simps)
qed

lemma digit_less_iff:
  fixes a b c d :: int
  assumes "0 \<le> b" "b < B" "0 \<le> d" "d < B"
  shows "a * B + b < c * B + d \<longleftrightarrow> a < c \<or> a = c \<and> b < d"
proof (cases a c rule: linorder_cases)
  case less
  then have "(a + 1) * B \<le> c * B" using assms by (intro mult_right_mono) auto
  with less assms show ?thesis by (simp add: algebra_simps)
next
  case greater
  then have "(c + 1) * B \<le> a * B" using assms by (intro mult_right_mono) auto
  with greater assms show ?thesis by (simp add: algebra_simps)
qed simp

lemma uint_add_small: "uint x + uint y < 2 ^ 32 \<Longrightarrow> uint (x + y :: u32) = uint x + uint y"
  by (simp add: uint_word_ariths)

lemma mod_mod_32 [simp]: "(a :: int) mod 4294967296 mod 16777216 = a mod 16777216"
  "(a :: int) mod 4294967296 mod 256 = a mod 256"
  by (simp_all add: mod_mod_cancel)

lemma uint_not_masked:
  assumes "uint x < 2 ^ n" "n < 32"
  shows "uint (NOT x AND BITMASK n) = 2 ^ n - 1 - uint x"
proof -
  have "uint (NOT x) = - uint x - 1 + 2 ^ 32"
    using unsigned_less [of x, where 'a = int]
    by (simp add: unsigned_not_eq take_bit_not_eq_mask_diff mask_eq_exp_minus_1 take_bit_int_eq_self)
  also have "\<dots> = (2 ^ n - 1 - uint x) + (2 ^ (32 - n) - 1) * 2 ^ n"
    using assms(2) by (simp add: algebra_simps power_add [symmetric])
  finally have "uint (NOT x AND BITMASK n) = (2 ^ n - 1 - uint x) mod 2 ^ n"
    by (simp add: uint_and_BITMASK)
  moreover have "0 \<le> 2 ^ n - 1 - uint x" "2 ^ n - 1 - uint x < 2 ^ n"
    using assms(1) uint_ge_0 [of x] by linarith+
  ultimately show ?thesis by simp
qed

lemma ucast_of_bool [simp]: "ucast (of_bool b :: u32) = (of_bool b :: u16)"
  by (cases b) simp_all

lemma uint_or_push:
  fixes x y :: "'a::len word"
  assumes "uint x < 2 ^ n"
  shows "uint (x OR push_bit n y) = (uint x + uint y * 2 ^ n) mod 2 ^ LENGTH('a)"
proof -
  have "take_bit n x AND push_bit n y = 0"
    by (rule bit_word_eqI) (auto simp: bit_simps)
  moreover have "take_bit n x = x"
    using assms by (simp add: word_uint_eq_iff unsigned_take_bit_eq take_bit_int_eq_self)
  ultimately show ?thesis
    by (simp add: uint_or_add uint_push_bit mod_simps)
qed

lemma digit_div:
  fixes x :: int
  assumes "0 \<le> x" "x < 2 ^ (n + m)"
  shows "0 \<le> x div 2 ^ m" "x div 2 ^ m < 2 ^ n" "x div 2 ^ m mod 2 ^ n = x div 2 ^ m"
proof -
  show *: "0 \<le> x div 2 ^ m" using assms by (simp add: div_int_pos_iff)
  have "x div 2 ^ m * 2 ^ m = x - x mod 2 ^ m" by (rule minus_mod_eq_div_mult [symmetric])
  moreover have "0 \<le> x mod 2 ^ m" by simp
  ultimately have "x div 2 ^ m * 2 ^ m < 2 ^ n * 2 ^ m"
    using assms(2) unfolding power_add by linarith
  then show "x div 2 ^ m < 2 ^ n" by simp
  with * show "x div 2 ^ m mod 2 ^ n = x div 2 ^ m" by simp
qed

lemma and_shl1: "x AND shl1 n = push_bit n (drop_bit n x AND 1)"
  by (rule bit_word_eqI) (auto simp: bit_simps)

lemma and_shl1_neq_0: "x AND shl1 n \<noteq> 0 \<longleftrightarrow> bit x n"
  by (simp add: push_bit_of_1 and_exp_eq_0_iff_not_bit)

lemma top_bit:
  fixes w :: "'a::len word"
  shows "bit (uint w) (LENGTH('a) - 1) \<longleftrightarrow> 2 ^ (LENGTH('a) - 1) \<le> uint w"
proof -
  let ?b = "2 ^ (LENGTH('a) - 1) :: int"
  have "uint w < 2 ^ LENGTH('a)" by (rule unsigned_less)
  then have w: "0 \<le> uint w" "uint w < 2 * ?b" by (simp_all flip: power_Suc)
  have "uint w div ?b = of_bool (?b \<le> uint w)"
    using w by (auto intro!: int_div_pos_eq [of _ _ _ "uint w - ?b"])
  then show ?thesis by (simp add: bit_iff_odd)
qed

lemma sint_uint_if:
  fixes w :: "'a::len word"
  shows "sint w = uint w - 2 ^ LENGTH('a) * of_bool (2 ^ (LENGTH('a) - 1) \<le> uint w)"
  using top_bit [of w] unsigned_less [of w, where 'a = int]
  by (simp add: sint_uint signed_take_bit_eq_take_bit_minus take_bit_int_eq_self)

lemma uint_mult_small:
  "uint x < 2 ^ 16 \<Longrightarrow> uint y < 2 ^ 16 \<Longrightarrow> uint (x * y :: u32) = uint x * uint y"
  using mult_strict_mono' [of "uint x" "2 ^ 16" "uint y" "2 ^ 16"] by (simp add: uint_word_ariths)

lemma digit_shift: "x div 2 ^ n * 2 ^ (n + m) + x mod 2 ^ n * 2 ^ m = (x :: int) * 2 ^ m"
proof -
  have "d * 2 ^ (n + m) + r * 2 ^ m = (d * 2 ^ n + r) * 2 ^ m" for d r :: int
    by (simp add: power_add distrib_right)
  then show ?thesis by (simp only: div_mult_mod_eq)
qed

lemma split_24:
  fixes x :: int
  shows "x mod 2 ^ 24 mod 2 ^ 12 = x mod 2 ^ 12" "x mod 2 ^ 24 div 2 ^ 12 = x div 2 ^ 12 mod 2 ^ 12"
proof -
  have "x mod 2 ^ 24 = 2 ^ 12 * (x div 2 ^ 12 mod 2 ^ 12) + x mod 2 ^ 12"
    using zmod_zmult2_eq [of "2 ^ 12" x "2 ^ 12"] by simp
  then show "x mod 2 ^ 24 mod 2 ^ 12 = x mod 2 ^ 12" "x mod 2 ^ 24 div 2 ^ 12 = x div 2 ^ 12 mod 2 ^ 12"
    by (simp_all only:) simp_all
qed

lemma uint_and_le: "uint (x AND y :: u32) \<le> uint x"
  by (simp add: unsigned_and_eq AND_upper1)

lemma pow2_u16: "i \<le> 15 \<Longrightarrow> unat (2 ^ i :: u16) = 2 ^ i"
proof -
  assume "i \<le> 15"
  moreover have "unat (push_bit i 1 :: u16) = take_bit 16 (push_bit i 1)"
    unfolding unsigned_push_bit_eq by simp
  ultimately show ?thesis by simp
qed

lemma zero_iff_bits: "x = 0 \<longleftrightarrow> (\<forall>n. \<not> bit x n)" for x :: "'a::len word"
  by (auto intro: bit_word_eqI)

end
