(* ===== verification/Dsp_State.thy ===== *)
theory Dsp_State
  imports Prelude
begin

text \<open>
  The state of the DSP 56001 emulation: \<^verbatim>\<open>struct dsp_core_s\<close> of
  \<^verbatim>\<open>src/include/dsp_core.h\<close> together with the static variables of
  \<^verbatim>\<open>src/dsp_cpu.c\<close>, the constants both headers define, and the primitive updates every
  other theory is written with.

  A C array is a function from its index. Two fields are not variables of the program.
  \<open>calls\<close> is the sequence (newest first) of the calls made through the function pointers
  \<^verbatim>\<open>lockMutex\<close>, \<^verbatim>\<open>unlockMutex\<close>, \<^verbatim>\<open>pauseThread\<close> and
  \<^verbatim>\<open>resumeThread\<close> and of the SDL calls that create and destroy the thread objects: SDL
  is not part of the repository, so its calls are outputs of the model. \<open>ub\<close> becomes true
  when an index leaves a C array, where the behaviour of the program is undefined; it is never
  reset.
\<close>

section \<open>Constants of dsp\_core.h\<close>

abbreviation DSP_RAMSIZE :: u16 where "DSP_RAMSIZE \<equiv> 32768"

text \<open>Host port, CPU side: indices into \<^verbatim>\<open>hostport\<close>, then bit numbers.\<close>

abbreviation CPU_HOST_ICR :: nat where "CPU_HOST_ICR \<equiv> 0"
abbreviation CPU_HOST_CVR :: nat where "CPU_HOST_CVR \<equiv> 1"
abbreviation CPU_HOST_ISR :: nat where "CPU_HOST_ISR \<equiv> 2"
abbreviation CPU_HOST_IVR :: nat where "CPU_HOST_IVR \<equiv> 3"
abbreviation CPU_HOST_RXH :: nat where "CPU_HOST_RXH \<equiv> 5"
abbreviation CPU_HOST_RXM :: nat where "CPU_HOST_RXM \<equiv> 6"
abbreviation CPU_HOST_RXL :: nat where "CPU_HOST_RXL \<equiv> 7"
abbreviation CPU_HOST_TX0 :: nat where "CPU_HOST_TX0 \<equiv> 4"
abbreviation CPU_HOST_TXH :: nat where "CPU_HOST_TXH \<equiv> 5"
abbreviation CPU_HOST_TXM :: nat where "CPU_HOST_TXM \<equiv> 6"
abbreviation CPU_HOST_TXL :: nat where "CPU_HOST_TXL \<equiv> 7"

abbreviation CPU_HOST_CVR_HC :: nat where "CPU_HOST_CVR_HC \<equiv> 7"
abbreviation CPU_HOST_ISR_RXDF :: nat where "CPU_HOST_ISR_RXDF \<equiv> 0"
abbreviation CPU_HOST_ISR_TXDE :: nat where "CPU_HOST_ISR_TXDE \<equiv> 1"
abbreviation CPU_HOST_ISR_TRDY :: nat where "CPU_HOST_ISR_TRDY \<equiv> 2"
abbreviation CPU_HOST_ISR_HF2 :: nat where "CPU_HOST_ISR_HF2 \<equiv> 3"
abbreviation CPU_HOST_ISR_HF3 :: nat where "CPU_HOST_ISR_HF3 \<equiv> 4"

text \<open>Host port, DSP side: indices into \<^verbatim>\<open>periph\<close>, then bit numbers.\<close>

abbreviation DSP_HOST_HCR :: u16 where "DSP_HOST_HCR \<equiv> 0x28"
abbreviation DSP_HOST_HSR :: u16 where "DSP_HOST_HSR \<equiv> 0x29"
abbreviation DSP_HOST_HRX :: u16 where "DSP_HOST_HRX \<equiv> 0x2b"
abbreviation DSP_HOST_HTX :: u16 where "DSP_HOST_HTX \<equiv> 0x2b"
abbreviation DSP_SSI_CRB :: u16 where "DSP_SSI_CRB \<equiv> 0x2d"
abbreviation DSP_SSI_SR :: u16 where "DSP_SSI_SR \<equiv> 0x2e"
abbreviation DSP_BCR :: u16 where "DSP_BCR \<equiv> 0x3e"
abbreviation DSP_IPR :: u16 where "DSP_IPR \<equiv> 0x3f"

abbreviation DSP_HOST_HCR_HRIE :: nat where "DSP_HOST_HCR_HRIE \<equiv> 0"
abbreviation DSP_HOST_HCR_HTIE :: nat where "DSP_HOST_HCR_HTIE \<equiv> 1"
abbreviation DSP_HOST_HCR_HCIE :: nat where "DSP_HOST_HCR_HCIE \<equiv> 2"
abbreviation DSP_HOST_HSR_HRDF :: nat where "DSP_HOST_HSR_HRDF \<equiv> 0"
abbreviation DSP_HOST_HSR_HTDE :: nat where "DSP_HOST_HSR_HTDE \<equiv> 1"
abbreviation DSP_HOST_HSR_HCP :: nat where "DSP_HOST_HSR_HCP \<equiv> 2"
abbreviation DSP_HOST_HSR_HF0 :: nat where "DSP_HOST_HSR_HF0 \<equiv> 3"
abbreviation DSP_HOST_HSR_HF1 :: nat where "DSP_HOST_HSR_HF1 \<equiv> 4"
abbreviation DSP_SSI_CRB_TIE :: nat where "DSP_SSI_CRB_TIE \<equiv> 0xe"
abbreviation DSP_SSI_CRB_RIE :: nat where "DSP_SSI_CRB_RIE \<equiv> 0xf"
abbreviation DSP_SSI_SR_TUE :: nat where "DSP_SSI_SR_TUE \<equiv> 4"
abbreviation DSP_SSI_SR_ROE :: nat where "DSP_SSI_SR_ROE \<equiv> 5"
abbreviation DSP_SSI_SR_TDF :: nat where "DSP_SSI_SR_TDF \<equiv> 6"
abbreviation DSP_SSI_SR_RDF :: nat where "DSP_SSI_SR_RDF \<equiv> 7"

abbreviation DSP_INTERRUPT_NONE :: u16 where "DSP_INTERRUPT_NONE \<equiv> 0"
abbreviation DSP_INTERRUPT_FAST :: u16 where "DSP_INTERRUPT_FAST \<equiv> 1"
abbreviation DSP_INTERRUPT_LONG :: u16 where "DSP_INTERRUPT_LONG \<equiv> 2"

section \<open>Constants of dsp\_cpu.h\<close>

abbreviation DSP_OMR_DE :: nat where "DSP_OMR_DE \<equiv> 2"

abbreviation DSP_SR_C :: nat where "DSP_SR_C \<equiv> 0"
abbreviation DSP_SR_V :: nat where "DSP_SR_V \<equiv> 1"
abbreviation DSP_SR_Z :: nat where "DSP_SR_Z \<equiv> 2"
abbreviation DSP_SR_N :: nat where "DSP_SR_N \<equiv> 3"
abbreviation DSP_SR_U :: nat where "DSP_SR_U \<equiv> 4"
abbreviation DSP_SR_E :: nat where "DSP_SR_E \<equiv> 5"
abbreviation DSP_SR_L :: nat where "DSP_SR_L \<equiv> 6"
abbreviation DSP_SR_I0 :: nat where "DSP_SR_I0 \<equiv> 8"
abbreviation DSP_SR_I1 :: nat where "DSP_SR_I1 \<equiv> 9"
abbreviation DSP_SR_S0 :: nat where "DSP_SR_S0 \<equiv> 0xa"
abbreviation DSP_SR_S1 :: nat where "DSP_SR_S1 \<equiv> 0xb"
abbreviation DSP_SR_T :: nat where "DSP_SR_T \<equiv> 0xd"
abbreviation DSP_SR_LF :: nat where "DSP_SR_LF \<equiv> 0xf"

text \<open>Register numbers: indices into \<^verbatim>\<open>registers\<close>.\<close>

abbreviation DSP_REG_NULL :: u32 where "DSP_REG_NULL \<equiv> 0"
abbreviation DSP_REG_X0 :: u32 where "DSP_REG_X0 \<equiv> 0x04"
abbreviation DSP_REG_X1 :: u32 where "DSP_REG_X1 \<equiv> 0x05"
abbreviation DSP_REG_Y0 :: u32 where "DSP_REG_Y0 \<equiv> 0x06"
abbreviation DSP_REG_Y1 :: u32 where "DSP_REG_Y1 \<equiv> 0x07"
abbreviation DSP_REG_A0 :: u32 where "DSP_REG_A0 \<equiv> 0x08"
abbreviation DSP_REG_B0 :: u32 where "DSP_REG_B0 \<equiv> 0x09"
abbreviation DSP_REG_A2 :: u32 where "DSP_REG_A2 \<equiv> 0x0a"
abbreviation DSP_REG_B2 :: u32 where "DSP_REG_B2 \<equiv> 0x0b"
abbreviation DSP_REG_A1 :: u32 where "DSP_REG_A1 \<equiv> 0x0c"
abbreviation DSP_REG_B1 :: u32 where "DSP_REG_B1 \<equiv> 0x0d"
abbreviation DSP_REG_A :: u32 where "DSP_REG_A \<equiv> 0x0e"
abbreviation DSP_REG_B :: u32 where "DSP_REG_B \<equiv> 0x0f"
abbreviation DSP_REG_R0 :: u32 where "DSP_REG_R0 \<equiv> 0x10"
abbreviation DSP_REG_N0 :: u32 where "DSP_REG_N0 \<equiv> 0x18"
abbreviation DSP_REG_M0 :: u32 where "DSP_REG_M0 \<equiv> 0x20"
abbreviation DSP_REG_LCSAVE :: u32 where "DSP_REG_LCSAVE \<equiv> 0x30"
abbreviation DSP_REG_SR :: u32 where "DSP_REG_SR \<equiv> 0x39"
abbreviation DSP_REG_OMR :: u32 where "DSP_REG_OMR \<equiv> 0x3a"
abbreviation DSP_REG_SP :: u32 where "DSP_REG_SP \<equiv> 0x3b"
abbreviation DSP_REG_SSH :: u32 where "DSP_REG_SSH \<equiv> 0x3c"
abbreviation DSP_REG_SSL :: u32 where "DSP_REG_SSL \<equiv> 0x3d"
abbreviation DSP_REG_LA :: u32 where "DSP_REG_LA \<equiv> 0x3e"
abbreviation DSP_REG_LC :: u32 where "DSP_REG_LC \<equiv> 0x3f"

abbreviation DSP_SPACE_X :: u32 where "DSP_SPACE_X \<equiv> 0"
abbreviation DSP_SPACE_Y :: u32 where "DSP_SPACE_Y \<equiv> 1"
abbreviation DSP_SPACE_P :: u32 where "DSP_SPACE_P \<equiv> 2"

section \<open>The state\<close>

datatype sdl_call =
    LockMutex | UnlockMutex | PauseThread | ResumeThread
  | WaitThread | DestroySemaphore | DestroyMutex
  | CreateSemaphore | CreateMutex | CreateThread

text \<open>
  \<^verbatim>\<open>parmove_dest_u\<close>: every host pointer the code stores there is
  \<^verbatim>\<open>&dsp_core->registers[n]\<close>, kept as the index \<open>n\<close>.
\<close>

datatype parmove_dest_u = Host_pointer u32 | Dsp_address u32

record dsp =
  thread :: bool
  semaphore :: bool
  mutex :: bool
  use_thread :: bool
  running :: bool
  pc :: u16
  registers :: "u32 \<Rightarrow> u32"
  stack :: "nat \<Rightarrow> u32 \<Rightarrow> u16"
  ram :: "u32 \<Rightarrow> u16 \<Rightarrow> u32"
  rom :: "u32 \<Rightarrow> u16 \<Rightarrow> u32"
  ramint :: "u32 \<Rightarrow> u16 \<Rightarrow> u32"
  periph :: "u32 \<Rightarrow> u16 \<Rightarrow> u32"
  hostport :: "nat \<Rightarrow> u8"
  loop_rep :: u32
  swi_inter :: u32
  bootstrap_pos :: u16
  interrupt_state :: u16
  interrupt_instr_fetch :: u32
  interrupt_save_pc :: u32
  cur_inst_len :: u32
  cur_inst :: u32
  tmp_parmove_src :: "nat \<Rightarrow> nat \<Rightarrow> u32"
  tmp_parmove_dest :: "nat \<Rightarrow> nat \<Rightarrow> parmove_dest_u"
  tmp_parmove_start :: "nat \<Rightarrow> nat"
  tmp_parmove_len :: "nat \<Rightarrow> nat"
  tmp_parmove_type :: "nat \<Rightarrow> bool"
  tmp_parmove_space :: "nat \<Rightarrow> u32"
  pc_on_rep :: u32
  calls :: "sdl_call list"
  ub :: bool

text \<open>The static storage of the program as the C runtime zero-initialises it.\<close>

definition static_storage :: dsp where
  "static_storage =
     \<lparr>thread = False, semaphore = False, mutex = False, use_thread = False, running = False, pc = 0,
      registers = (\<lambda>_. 0), stack = (\<lambda>_ _. 0), ram = (\<lambda>_ _. 0), rom = (\<lambda>_ _. 0),
      ramint = (\<lambda>_ _. 0), periph = (\<lambda>_ _. 0), hostport = (\<lambda>_. 0), loop_rep = 0,
      swi_inter = 0, bootstrap_pos = 0, interrupt_state = 0, interrupt_instr_fetch = 0,
      interrupt_save_pc = 0, cur_inst_len = 0, cur_inst = 0, tmp_parmove_src = (\<lambda>_ _. 0),
      tmp_parmove_dest = (\<lambda>_ _. Dsp_address 0), tmp_parmove_start = (\<lambda>_. 0),
      tmp_parmove_len = (\<lambda>_. 0), tmp_parmove_type = (\<lambda>_. False),
      tmp_parmove_space = (\<lambda>_. 0), pc_on_rep = 0, calls = [], ub = False\<rparr>"

section \<open>Primitive updates\<close>

text \<open>
  One abbreviation per form of assignment in the sources, over the update functions of the record,
  so that the rewrite rules of the record package read every field of the result.
\<close>

text \<open>\<^verbatim>\<open>registers[r] = v\<close>, \<^verbatim>\<open>registers[r] &= v\<close>,
  \<^verbatim>\<open>registers[r] |= v\<close>.\<close>

abbreviation set_reg :: "u32 \<Rightarrow> u32 \<Rightarrow> dsp \<Rightarrow> dsp" where
  "set_reg r v \<equiv> registers_update (\<lambda>f. f(r := v))"

abbreviation and_reg :: "u32 \<Rightarrow> u32 \<Rightarrow> dsp \<Rightarrow> dsp" where
  "and_reg r v \<equiv> registers_update (\<lambda>f. f(r := f r AND v))"

abbreviation or_reg :: "u32 \<Rightarrow> u32 \<Rightarrow> dsp \<Rightarrow> dsp" where
  "or_reg r v \<equiv> registers_update (\<lambda>f. f(r := f r OR v))"

text \<open>\<^verbatim>\<open>stack[i][j] = v\<close>, \<^verbatim>\<open>ram[sp][a] = v\<close>,
  \<^verbatim>\<open>ramint[sp][a] = v\<close>.\<close>

abbreviation set_stack :: "nat \<Rightarrow> u32 \<Rightarrow> u16 \<Rightarrow> dsp \<Rightarrow> dsp" where
  "set_stack i j v \<equiv> stack_update (\<lambda>f. f(i := (f i)(j := v)))"

abbreviation set_ram :: "u32 \<Rightarrow> u16 \<Rightarrow> u32 \<Rightarrow> dsp \<Rightarrow> dsp" where
  "set_ram sp a v \<equiv> ram_update (\<lambda>f. f(sp := (f sp)(a := v)))"

abbreviation set_ramint :: "u32 \<Rightarrow> u16 \<Rightarrow> u32 \<Rightarrow> dsp \<Rightarrow> dsp" where
  "set_ramint sp a v \<equiv> ramint_update (\<lambda>f. f(sp := (f sp)(a := v)))"

text \<open>\<^verbatim>\<open>periph[sp][i] = v\<close>, \<^verbatim>\<open>periph[sp][i] &= v\<close>,
  \<^verbatim>\<open>periph[sp][i] |= v\<close>, and the same for \<^verbatim>\<open>hostport[i]\<close>.\<close>

abbreviation set_periph :: "u32 \<Rightarrow> u16 \<Rightarrow> u32 \<Rightarrow> dsp \<Rightarrow> dsp" where
  "set_periph sp i v \<equiv> periph_update (\<lambda>f. f(sp := (f sp)(i := v)))"

abbreviation and_periph :: "u32 \<Rightarrow> u16 \<Rightarrow> u32 \<Rightarrow> dsp \<Rightarrow> dsp" where
  "and_periph sp i v \<equiv> periph_update (\<lambda>f. f(sp := (f sp)(i := f sp i AND v)))"

abbreviation or_periph :: "u32 \<Rightarrow> u16 \<Rightarrow> u32 \<Rightarrow> dsp \<Rightarrow> dsp" where
  "or_periph sp i v \<equiv> periph_update (\<lambda>f. f(sp := (f sp)(i := f sp i OR v)))"

abbreviation set_hostport :: "nat \<Rightarrow> u8 \<Rightarrow> dsp \<Rightarrow> dsp" where
  "set_hostport i v \<equiv> hostport_update (\<lambda>f. f(i := v))"

abbreviation and_hostport :: "nat \<Rightarrow> u8 \<Rightarrow> dsp \<Rightarrow> dsp" where
  "and_hostport i v \<equiv> hostport_update (\<lambda>f. f(i := f i AND v))"

abbreviation or_hostport :: "nat \<Rightarrow> u8 \<Rightarrow> dsp \<Rightarrow> dsp" where
  "or_hostport i v \<equiv> hostport_update (\<lambda>f. f(i := f i OR v))"

text \<open>\<^verbatim>\<open>tmp_parmove_src[i][j] = v\<close>, \<^verbatim>\<open>tmp_parmove_dest[i][j] = d\<close>,
  \<^verbatim>\<open>tmp_parmove_start[i] = start; tmp_parmove_len[i] = len\<close>,
  \<^verbatim>\<open>tmp_parmove_type[i] = t\<close> and \<^verbatim>\<open>tmp_parmove_space[i] = sp\<close>.\<close>

abbreviation set_pm_src :: "nat \<Rightarrow> nat \<Rightarrow> u32 \<Rightarrow> dsp \<Rightarrow> dsp" where
  "set_pm_src i j v \<equiv> tmp_parmove_src_update (\<lambda>f. f(i := (f i)(j := v)))"

abbreviation set_pm_dest :: "nat \<Rightarrow> nat \<Rightarrow> parmove_dest_u \<Rightarrow> dsp \<Rightarrow> dsp" where
  "set_pm_dest i j d \<equiv> tmp_parmove_dest_update (\<lambda>f. f(i := (f i)(j := d)))"

abbreviation set_pm_range :: "nat \<Rightarrow> nat \<Rightarrow> nat \<Rightarrow> dsp \<Rightarrow> dsp" where
  "set_pm_range i start len s \<equiv>
     tmp_parmove_len_update (\<lambda>f. f(i := len)) (tmp_parmove_start_update (\<lambda>f. f(i := start)) s)"

abbreviation set_pm_type :: "nat \<Rightarrow> bool \<Rightarrow> dsp \<Rightarrow> dsp" where
  "set_pm_type i t \<equiv> tmp_parmove_type_update (\<lambda>f. f(i := t))"

abbreviation set_pm_space :: "nat \<Rightarrow> u32 \<Rightarrow> dsp \<Rightarrow> dsp" where
  "set_pm_space i sp \<equiv> tmp_parmove_space_update (\<lambda>f. f(i := sp))"

text \<open>A call through a function pointer, and an index that has left its array.\<close>

abbreviation call :: "sdl_call \<Rightarrow> dsp \<Rightarrow> dsp" where
  "call c \<equiv> calls_update (\<lambda>cs. c # cs)"

abbreviation out_of_bounds :: "dsp \<Rightarrow> dsp" where
  "out_of_bounds \<equiv> ub_update (\<lambda>_. True)"

end
