(* ===== verification/Dsp_Alu56.thy ===== *)
theory Dsp_Alu56
  imports Dsp_State
begin

text \<open>
  The 56-bit arithmetic of \<^verbatim>\<open>src/dsp_cpu.c\<close>. An accumulator is the C array of three
  words \<^verbatim>\<open>dest[0]\<close> (bits 55..48), \<^verbatim>\<open>dest[1]\<close> (bits 47..24) and
  \<^verbatim>\<open>dest[2]\<close> (bits 23..0), here a triple. The contract of each routine is stated over
  \<open>acc_word\<close>, the same accumulator as one 56-bit machine word.
\<close>

type_synonym acc = "u32 \<times> u32 \<times> u32"

section \<open>The routines\<close>

text \<open>The status bits the routines return: L and V from the overflow, C from the carry.\<close>

definition newsr_flags :: "u16 \<Rightarrow> u16 \<Rightarrow> u16" where
  "newsr_flags overflow carry =
     push_bit DSP_SR_L overflow OR push_bit DSP_SR_V overflow OR push_bit DSP_SR_C carry"

text \<open>The three nested comparisons that compute the carry.\<close>

definition acc_less :: "acc \<Rightarrow> acc \<Rightarrow> bool" where
  "acc_less = (\<lambda>(x0, x1, x2) (y0, y1, y2).
     if x0 < y0 then True
     else if x0 = y0 then (if x1 < y1 then True else if x1 = y1 then x2 < y2 else False)
     else False)"

definition dsp_sub56 :: "acc \<Rightarrow> acc \<Rightarrow> u16 \<times> acc" where
  "dsp_sub56 = (\<lambda>(s0, s1, s2) (d0, d1, d2).
     let r2 = d2 - s2;
         r1 = d1 - (s1 + (drop_bit 24 r2 AND 1));
         r0 = d0 - (s0 + (drop_bit 24 r1 AND 1));
         r2 = r2 AND BITMASK 24;
         r1 = r1 AND BITMASK 24;
         r0 = r0 AND BITMASK 8;
         flg_s = ucast (drop_bit 7 s0 AND 1) :: u16;
         flg_d = ucast (drop_bit 7 d0 AND 1);
         flg_r = ucast (drop_bit 7 r0 AND 1);
         overflow = (flg_s XOR flg_d) AND (flg_r XOR flg_d);
         carry = (if acc_less (d0, d1, d2) (s0, s1, s2) then 1 else 0)
     in (newsr_flags overflow carry, (r0, r1, r2)))"

definition dsp_abs56 :: "acc \<Rightarrow> u16 \<times> acc" where
  "dsp_abs56 d = (if fst d AND shl1 7 \<noteq> 0 then dsp_sub56 d (0, 0, 0) else (0, d))"

definition dsp_asl56 :: "acc \<Rightarrow> u16 \<times> acc" where
  "dsp_asl56 = (\<lambda>(d0, d1, d2).
     let carry = ucast (drop_bit 7 d0 AND 1) :: u16;
         r0 = (push_bit 1 d0 OR (drop_bit 23 d1 AND 1)) AND BITMASK 8;
         r1 = (push_bit 1 d1 OR (drop_bit 23 d2 AND 1)) AND BITMASK 24;
         r2 = push_bit 1 d2 AND BITMASK 24;
         overflow = of_bool (ucast carry \<noteq> drop_bit 7 r0 AND (1 :: u32))
     in (newsr_flags overflow carry, (r0, r1, r2)))"

definition dsp_asr56 :: "acc \<Rightarrow> u16 \<times> acc" where
  "dsp_asr56 = (\<lambda>(d0, d1, d2).
     let carry = ucast (d2 AND 1) :: u16;
         r2 = (drop_bit 1 d2 AND BITMASK 23) OR push_bit 23 (d1 AND 1);
         r1 = (drop_bit 1 d1 AND BITMASK 23) OR push_bit 23 (d0 AND 1);
         r0 = drop_bit 1 d0 AND BITMASK 7;
         r0 = r0 OR push_bit 1 (r0 AND shl1 6)
     in (push_bit DSP_SR_C carry, (r0, r1, r2)))"

definition dsp_add56 :: "acc \<Rightarrow> acc \<Rightarrow> u16 \<times> acc" where
  "dsp_add56 = (\<lambda>(s0, s1, s2) (d0, d1, d2).
     let flg_s = ucast (drop_bit 7 s0 AND 1) :: u16;
         flg_d = ucast (drop_bit 7 d0 AND 1);
         not_dest = (NOT d0 AND BITMASK 8, NOT d1 AND BITMASK 24, NOT d2 AND BITMASK 24);
         r2 = d2 + s2;
         r1 = d1 + (s1 + (drop_bit 24 r2 AND 1));
         r0 = d0 + (s0 + (drop_bit 24 r1 AND 1));
         r2 = r2 AND BITMASK 24;
         r1 = r1 AND BITMASK 24;
         r0 = r0 AND BITMASK 8;
         flg_r = ucast (drop_bit 7 r0 AND 1);
         overflow = (flg_s XOR flg_r) AND (flg_d XOR flg_r);
         carry = (if acc_less not_dest (s0, s1, s2) then 1 else 0)
     in (newsr_flags overflow carry, (r0, r1, r2)))"

text \<open>The sign split, the four partial products with their carries, then the final shift.\<close>

definition mul_operand :: "u32 \<Rightarrow> bool \<times> u32" where
  "mul_operand source =
     (if source AND shl1 23 \<noteq> 0 then (True, shl1 24 - (source AND BITMASK 24)) else (False, source))"

definition mul_parts :: "u32 \<Rightarrow> u32 \<Rightarrow> acc" where
  "mul_parts source1 source2 =
     (let part0 = (source1 AND BITMASK 12) * (source2 AND BITMASK 12);
          part1 = (drop_bit 12 source1 AND BITMASK 12) * (source2 AND BITMASK 12);
          part2 = (source1 AND BITMASK 12) * (drop_bit 12 source2 AND BITMASK 12);
          part3 = (drop_bit 12 source1 AND BITMASK 12) * (drop_bit 12 source2 AND BITMASK 12);
          d2 = part0 + push_bit 12 (part1 AND BITMASK 12) + push_bit 12 (part2 AND BITMASK 12);
          d1 = (drop_bit 12 part1 AND BITMASK 12) + (drop_bit 12 part2 AND BITMASK 12) + part3;
          d0 = 0;
          value = drop_bit 24 d2 AND BITMASK 8;
          (d1, d2) = (if value \<noteq> 0 then (d1 + value, d2 AND BITMASK 24) else (d1, d2));
          value = drop_bit 24 d1 AND BITMASK 8;
          (d0, d1) = (if value \<noteq> 0 then (d0 + value, d1 AND BITMASK 24) else (d0, d1))
      in (d0, d1, d2))"

definition dsp_mul56 :: "u32 \<Rightarrow> u32 \<Rightarrow> acc" where
  "dsp_mul56 source1 source2 =
     (let (neg1, source1) = mul_operand source1;
          (neg2, source2) = mul_operand source2;
          d = snd (dsp_asl56 (mul_parts source1 source2))
      in if neg1 \<noteq> neg2 then snd (dsp_sub56 d (0, 0, 0)) else d)"

definition dsp_rnd56 :: "dsp \<Rightarrow> acc \<Rightarrow> acc" where
  "dsp_rnd56 s dest =
     (if registers s DSP_REG_SR AND shl1 DSP_SR_S0 \<noteq> 0
      then let (d0, d1, d2) = snd (dsp_add56 (0, 1, 0) dest);
               d1 = (if d2 = 0 \<and> d1 AND 1 = 0 then d1 AND (0xffffff - 0x3) else d1)
           in (d0, d1 AND 0xfffffe, 0)
      else if registers s DSP_REG_SR AND shl1 DSP_SR_S1 \<noteq> 0
      then let (d0, d1, d2) = snd (dsp_add56 (0, 0, shl1 22) dest);
               d2 = (if d2 AND 0x7fffff = 0 then 0 else d2)
           in (d0, d1, d2 AND 0x800000)
      else let (d0, d1, d2) = snd (dsp_add56 (0, 0, shl1 23) dest);
               d1 = (if d2 = 0 then d1 AND 0xfffffe else d1)
           in (d0, d1, 0))"

section \<open>An accumulator as one number\<close>

definition acc_ok :: "acc \<Rightarrow> bool" where
  "acc_ok = (\<lambda>(d0, d1, d2). uint d0 < 2 ^ 8 \<and> uint d1 < 2 ^ 24 \<and> uint d2 < 2 ^ 24)"

definition acc_val :: "acc \<Rightarrow> int" where
  "acc_val = (\<lambda>(d0, d1, d2). uint d0 * 2 ^ 48 + uint d1 * 2 ^ 24 + uint d2)"

definition acc_word :: "acc \<Rightarrow> 56 word" where
  "acc_word d = word_of_int (acc_val d)"

text \<open>
  Convergent rounding to a multiple of \<open>2 ^ k\<close>: to the nearest one, a tie to the even one;
  \<open>clear_low\<close> is how the code gets it from the sum with one half.
\<close>

definition round_even :: "nat \<Rightarrow> int \<Rightarrow> int" where
  "round_even k z =
     (let q = z div 2 ^ k; f = z mod 2 ^ k
      in (if 2 * f < 2 ^ k \<or> 2 * f = 2 ^ k \<and> even q then q else q + 1) * 2 ^ k)"

definition clear_low :: "nat \<Rightarrow> int \<Rightarrow> int" where
  "clear_low k w = (if 2 ^ k dvd w then w - w mod 2 ^ (k + 1) else w - w mod 2 ^ k)"

text \<open>The lowest bit that rounding keeps, by the scaling mode.\<close>

definition rnd_position :: "dsp \<Rightarrow> nat" where
  "rnd_position s = (if bit (registers s DSP_REG_SR) DSP_SR_S0 then 25
     else if bit (registers s DSP_REG_SR) DSP_SR_S1 then 23 else 24)"

section \<open>Lemmas\<close>

lemma acc_carry:
  fixes a0 a1 a2 :: int
  defines "c1 \<equiv> a1 + a2 div 2 ^ 24"
  shows "(a0 * 2 ^ 48 + a1 * 2 ^ 24 + a2) mod 2 ^ 56 =
    ((a0 + c1 div 2 ^ 24) mod 2 ^ 8) * 2 ^ 48 + (c1 mod 2 ^ 24) * 2 ^ 24 + a2 mod 2 ^ 24"
proof -
  define l where "l = (c1 mod 2 ^ 24) * 2 ^ 24 + a2 mod 2 ^ 24"
  have "a0 * 2 ^ 48 + a1 * 2 ^ 24 + a2 = (a0 + c1 div 2 ^ 24) * 2 ^ 48 + l"
    unfolding l_def c1_def by (simp add: minus_mult_div_eq_mod [symmetric] algebra_simps)
  moreover have "0 \<le> l" by (simp add: l_def)
  moreover have "l < 2 ^ 48"
    using pos_mod_bound [of "2 ^ 24" c1] pos_mod_bound [of "2 ^ 24" a2] by (simp add: l_def)
  ultimately show ?thesis
    using mod_mult_add [of l 48 "a0 + c1 div 2 ^ 24" 8] unfolding l_def by (simp only: add_ac) simp
qed

lemma acc_val_bounds: "acc_ok d \<Longrightarrow> 0 \<le> acc_val d \<and> acc_val d < 2 ^ 56"
  by (auto simp: acc_ok_def acc_val_def split: prod.splits)

lemma uint_acc_word: "acc_ok d \<Longrightarrow> uint (acc_word d) = acc_val d"
  using acc_val_bounds [of d] by (simp add: acc_word_def uint_word_of_int)

lemma acc_val_alt: "acc_val (d0, d1, d2) = (uint d0 * 2 ^ 24 + uint d1) * 2 ^ 24 + uint d2"
  by (simp add: acc_val_def)

lemma acc_less_iff:
  assumes "acc_ok x" "acc_ok y"
  shows "acc_less x y \<longleftrightarrow> acc_val x < acc_val y"
proof -
  obtain x0 x1 x2 y0 y1 y2 where xy: "x = (x0, x1, x2)" "y = (y0, y1, y2)"
    by (cases x; cases y)
  let ?X = "uint x0 * 2 ^ 24 + uint x1" and ?Y = "uint y0 * 2 ^ 24 + uint y1"
  have "acc_val x < acc_val y \<longleftrightarrow> ?X < ?Y \<or> ?X = ?Y \<and> uint x2 < uint y2"
    unfolding xy acc_val_alt by (rule digit_less_iff) (use assms xy in \<open>auto simp: acc_ok_def\<close>)
  moreover have "?X < ?Y \<longleftrightarrow> uint x0 < uint y0 \<or> uint x0 = uint y0 \<and> uint x1 < uint y1"
    by (rule digit_less_iff) (use assms xy in \<open>auto simp: acc_ok_def\<close>)
  moreover have "?Y < ?X \<longleftrightarrow> uint y0 < uint x0 \<or> uint y0 = uint x0 \<and> uint y1 < uint x1"
    by (rule digit_less_iff) (use assms xy in \<open>auto simp: acc_ok_def\<close>)
  ultimately show ?thesis
    by (auto simp: xy acc_less_def word_less_def word_uint_eq_iff)
qed

lemma acc_masked:
  assumes "uint r2 mod 2 ^ 24 = a2 mod 2 ^ 24"
    and "uint r1 mod 2 ^ 24 = (a1 + a2 div 2 ^ 24) mod 2 ^ 24"
    and "uint r0 mod 2 ^ 8 = (a0 + (a1 + a2 div 2 ^ 24) div 2 ^ 24) mod 2 ^ 8"
  shows "acc_val (r0 AND BITMASK 8, r1 AND BITMASK 24, r2 AND BITMASK 24) =
    (a0 * 2 ^ 48 + a1 * 2 ^ 24 + a2) mod 2 ^ 56"
  by (simp only: acc_val_def prod.case uint_and_BITMASK assms acc_carry)

lemma acc_ok_masked: "acc_ok (r0 AND BITMASK 8, r1 AND BITMASK 24, r2 AND BITMASK 24)"
  by (simp add: acc_ok_def uint_and_BITMASK del: BITMASK_numeral)

lemma uint_bit_24: "uint (drop_bit 24 (x :: u32) AND 1) = uint x div 2 ^ 24 mod 2"
  by (simp add: uint_simps)

lemma uint_carry_bit:
  assumes "uint x < 2 ^ 25"
  shows "uint (drop_bit 24 (x :: u32) AND 1) = uint x div 2 ^ 24"
proof -
  have "0 \<le> uint x div 2 ^ 24" "uint x div 2 ^ 24 < 2"
    using assms by (simp_all add: div_less_iff_less_mult div_int_pos_iff)
  then show ?thesis by (simp only: uint_bit_24 mod_pos_pos_trivial)
qed

lemma uint_borrow_bit:
  assumes "uint x = D mod 2 ^ 32" "- (2 ^ 24) \<le> D" "D < 2 ^ 24"
  shows "uint (drop_bit 24 (x :: u32) AND 1) = - (D div 2 ^ 24)"
proof (cases "0 \<le> D")
  case True
  with assms show ?thesis by (simp add: uint_simps)
next
  case False
  then have "uint x = D + 2 ^ 32"
    using assms mod_pos_pos_trivial [of "D + 2 ^ 32" "2 ^ 32"] by simp
  moreover have "(D + 2 ^ 32) div 2 ^ 24 = 255" "D div 2 ^ 24 = - 1"
    using assms False by (auto intro: int_div_pos_eq [of _ _ _ "D + 2 ^ 24"])
  ultimately show ?thesis by (simp add: uint_simps)
qed

lemma borrow_range:
  fixes x y :: int
  assumes "0 \<le> x" "x < 2 ^ 24" "0 \<le> y" "y < 2 ^ 24"
  shows "- 1 \<le> (x - y) div 2 ^ 24" "(x - y) div 2 ^ 24 < 1"
proof -
  have "- (2 ^ 24) \<le> x - y" "x - y < 2 ^ 24" using assms by linarith+
  then show "- 1 \<le> (x - y) div 2 ^ 24" "(x - y) div 2 ^ 24 < 1"
    using zdiv_mono1 [of "- (2 ^ 24)" "x - y" "2 ^ 24"] by (simp_all add: div_less_iff_less_mult)
qed

lemma add56_val:
  assumes "acc_ok s" "acc_ok d"
  shows "acc_ok (snd (dsp_add56 s d))"
    and "acc_val (snd (dsp_add56 s d)) = (acc_val d + acc_val s) mod 2 ^ 56"
proof -
  obtain s0 s1 s2 d0 d1 d2 where sd: "s = (s0, s1, s2)" "d = (d0, d1, d2)"
    by (cases s; cases d)
  let ?r2 = "d2 + s2"
  let ?r1 = "d1 + (s1 + (drop_bit 24 ?r2 AND 1))"
  let ?r0 = "d0 + (s0 + (drop_bit 24 ?r1 AND 1))"
  have b: "uint s1 < 2 ^ 24" "uint s2 < 2 ^ 24" "uint d1 < 2 ^ 24" "uint d2 < 2 ^ 24"
    using assms by (auto simp: sd acc_ok_def)
  have r: "snd (dsp_add56 s d) = (?r0 AND BITMASK 8, ?r1 AND BITMASK 24, ?r2 AND BITMASK 24)"
    by (simp only: sd dsp_add56_def Let_def prod.case snd_conv)
  show "acc_ok (snd (dsp_add56 s d))"
    unfolding r by (rule acc_ok_masked)
  have u2: "uint ?r2 = uint d2 + uint s2" using b by (simp add: uint_add_small)
  have c2: "uint (drop_bit 24 ?r2 AND 1) = (uint d2 + uint s2) div 2 ^ 24"
    using b u2 by (simp add: uint_carry_bit)
  have h2: "(uint d2 + uint s2) div 2 ^ 24 < 2" using b by (simp add: div_less_iff_less_mult)
  then have u1: "uint ?r1 = (uint d1 + uint s1) + (uint d2 + uint s2) div 2 ^ 24"
    using b c2 by (simp add: uint_add_small)
  have c1: "uint (drop_bit 24 ?r1 AND 1) = uint ?r1 div 2 ^ 24"
    using b u1 h2 by (intro uint_carry_bit) simp
  have u0: "uint ?r0 mod 2 ^ 8 = (uint d0 + uint s0 + uint ?r1 div 2 ^ 24) mod 2 ^ 8"
    unfolding c1 [symmetric] by (simp add: uint_word_ariths mod_simps add.assoc)
  have "acc_val d + acc_val s =
      (uint d0 + uint s0) * 2 ^ 48 + (uint d1 + uint s1) * 2 ^ 24 + (uint d2 + uint s2)"
    by (simp add: sd acc_val_def)
  then show "acc_val (snd (dsp_add56 s d)) = (acc_val d + acc_val s) mod 2 ^ 56"
    unfolding r using u0 by (simp only: acc_masked u1 u2)
qed

lemma sub56_val:
  assumes "acc_ok s" "acc_ok d"
  shows "acc_ok (snd (dsp_sub56 s d))"
    and "acc_val (snd (dsp_sub56 s d)) = (acc_val d - acc_val s) mod 2 ^ 56"
proof -
  obtain s0 s1 s2 d0 d1 d2 where sd: "s = (s0, s1, s2)" "d = (d0, d1, d2)"
    by (cases s; cases d)
  let ?r2 = "d2 - s2"
  let ?r1 = "d1 - (s1 + (drop_bit 24 ?r2 AND 1))"
  let ?r0 = "d0 - (s0 + (drop_bit 24 ?r1 AND 1))"
  have b: "uint s1 < 2 ^ 24" "uint s2 < 2 ^ 24" "uint d1 < 2 ^ 24" "uint d2 < 2 ^ 24"
    "0 \<le> uint s1" "0 \<le> uint s2" "0 \<le> uint d1" "0 \<le> uint d2"
    using assms by (auto simp: sd acc_ok_def)
  have r: "snd (dsp_sub56 s d) = (?r0 AND BITMASK 8, ?r1 AND BITMASK 24, ?r2 AND BITMASK 24)"
    by (simp only: sd dsp_sub56_def Let_def prod.case snd_conv)
  show "acc_ok (snd (dsp_sub56 s d))"
    unfolding r by (rule acc_ok_masked)
  have u2: "uint ?r2 = (uint d2 - uint s2) mod 2 ^ 32" by (simp add: uint_word_ariths)
  have c2: "uint (drop_bit 24 ?r2 AND 1) = - ((uint d2 - uint s2) div 2 ^ 24)"
    using b by (intro uint_borrow_bit [OF u2]) linarith+
  let ?D1 = "uint d1 - uint s1 + (uint d2 - uint s2) div 2 ^ 24"
  have u1: "uint ?r1 = ?D1 mod 2 ^ 32"
    using c2 by (simp add: uint_word_ariths mod_simps algebra_simps)
  have c1: "uint (drop_bit 24 ?r1 AND 1) = - (?D1 div 2 ^ 24)"
    using b borrow_range [of "uint d2" "uint s2"] by (intro uint_borrow_bit [OF u1]) linarith+
  have u0: "uint ?r0 mod 2 ^ 8 = (uint d0 - uint s0 + ?D1 div 2 ^ 24) mod 2 ^ 8"
    by (simp add: uint_word_ariths c1 mod_simps algebra_simps)
  have "acc_val d - acc_val s =
      (uint d0 - uint s0) * 2 ^ 48 + (uint d1 - uint s1) * 2 ^ 24 + (uint d2 - uint s2)"
    by (simp add: sd acc_val_def)
  moreover have "uint ?r2 mod 2 ^ 24 = (uint d2 - uint s2) mod 2 ^ 24"
    "uint ?r1 mod 2 ^ 24 = ?D1 mod 2 ^ 24"
    by (simp_all add: u1 u2)
  ultimately show "acc_val (snd (dsp_sub56 s d)) = (acc_val d - acc_val s) mod 2 ^ 56"
    unfolding r using u0 by (simp only: acc_masked)
qed

lemma sign_flag: "acc_ok d \<Longrightarrow> drop_bit 7 (fst d) AND 1 = of_bool (2 ^ 55 \<le> acc_val d)"
proof -
  assume ok: "acc_ok d"
  obtain d0 d1 d2 where d: "d = (d0, d1, d2)" by (cases d)
  have u: "uint d0 < 2 ^ 8" "uint d1 < 16777216" "uint d2 < 16777216"
      "0 \<le> uint d1" "0 \<le> uint d2"
    using ok by (simp_all add: d acc_ok_def)
  have "uint d0 div 2 ^ 7 = of_bool (2 ^ 7 \<le> uint d0)"
    using u by (auto intro: int_div_pos_eq [of _ _ _ "uint d0 - 2 ^ 7"])
  moreover have "2 ^ 7 \<le> uint d0 \<longleftrightarrow> 2 ^ 55 \<le> acc_val d"
    unfolding d acc_val_def prod.case by simp (intro iffI; use u in linarith)
  ultimately show ?thesis
    by (simp add: word_uint_eq_iff uint_simps d)
qed

lemma acc_word_eqI: "acc_ok r \<Longrightarrow> acc_val r = z mod 2 ^ 56 \<Longrightarrow> acc_word r = word_of_int z"
  by (simp add: word_uint_eq_iff uint_acc_word uint_word_of_int)

lemma sint_acc_word:
  "acc_ok d \<Longrightarrow> sint (acc_word d) = acc_val d - 2 ^ 56 * of_bool (2 ^ 55 \<le> acc_val d)"
  using sint_uint_if [of "acc_word d"] by (simp add: uint_acc_word)

lemma acc_complement:
  assumes "acc_ok (d0, d1, d2)"
  shows "acc_val (NOT d0 AND BITMASK 8, NOT d1 AND BITMASK 24, NOT d2 AND BITMASK 24) =
    2 ^ 56 - 1 - acc_val (d0, d1, d2)"
  using assms by (simp add: acc_val_def acc_ok_def uint_not_masked del: BITMASK_numeral)

lemma overflow_add:
  fixes x y r :: int
  assumes "0 \<le> x" "x < 2 ^ 56" "0 \<le> y" "y < 2 ^ 56" "r = (x + y) mod 2 ^ 56"
  shows "(of_bool (2 ^ 55 \<le> y) XOR of_bool (2 ^ 55 \<le> r)) AND
      (of_bool (2 ^ 55 \<le> x) XOR of_bool (2 ^ 55 \<le> r)) =
    (of_bool (x - 2 ^ 56 * of_bool (2 ^ 55 \<le> x) + (y - 2 ^ 56 * of_bool (2 ^ 55 \<le> y)) \<noteq>
      r - 2 ^ 56 * of_bool (2 ^ 55 \<le> r)) :: u16)"
proof -
  have "r = x + y \<and> x + y < 2 ^ 56 \<or> r = x + y - 2 ^ 56 \<and> 2 ^ 56 \<le> x + y"
    using assms mod_pos_pos_trivial [of "x + y - 2 ^ 56" "2 ^ 56"]
    by (cases "x + y < 2 ^ 56") simp_all
  with assms(1-4) show ?thesis
    by (cases "2 ^ 55 \<le> x"; cases "2 ^ 55 \<le> y"; cases "2 ^ 55 \<le> r"; simp; linarith)
qed

lemma overflow_sub:
  fixes x y r :: int
  assumes "0 \<le> x" "x < 2 ^ 56" "0 \<le> y" "y < 2 ^ 56" "r = (x - y) mod 2 ^ 56"
  shows "(of_bool (2 ^ 55 \<le> y) XOR of_bool (2 ^ 55 \<le> x)) AND
      (of_bool (2 ^ 55 \<le> r) XOR of_bool (2 ^ 55 \<le> x)) =
    (of_bool (x - 2 ^ 56 * of_bool (2 ^ 55 \<le> x) - (y - 2 ^ 56 * of_bool (2 ^ 55 \<le> y)) \<noteq>
      r - 2 ^ 56 * of_bool (2 ^ 55 \<le> r)) :: u16)"
proof -
  have "r = x - y \<and> 0 \<le> x - y \<or> r = x - y + 2 ^ 56 \<and> x - y < 0"
    using assms mod_pos_pos_trivial [of "x - y + 2 ^ 56" "2 ^ 56"]
    by (cases "0 \<le> x - y") simp_all
  with assms(1-4) show ?thesis
    by (cases "2 ^ 55 \<le> x"; cases "2 ^ 55 \<le> y"; cases "2 ^ 55 \<le> r"; simp; linarith)
qed
lemma acc_valid_range: "acc_ok d \<Longrightarrow> 0 \<le> acc_val d" "acc_ok d \<Longrightarrow> acc_val d < 2 ^ 56"
  using acc_val_bounds [of d] by simp_all

lemma add56_sr:
  assumes "acc_ok s" "acc_ok d"
  shows "fst (dsp_add56 s d) = newsr_flags
      (of_bool (sint (acc_word d) + sint (acc_word s) \<noteq> sint (acc_word (snd (dsp_add56 s d)))))
      (of_bool (2 ^ 56 \<le> uint (acc_word d) + uint (acc_word s)))"
proof -
  obtain s0 s1 s2 d0 d1 d2 where sd: "s = (s0, s1, s2)" "d = (d0, d1, d2)"
    by (cases s; cases d)
  let ?r = "snd (dsp_add56 s d)"
  let ?n = "(NOT d0 AND BITMASK 8, NOT d1 AND BITMASK 24, NOT d2 AND BITMASK 24)"
  have f: "fst (dsp_add56 s d) = newsr_flags
     ((ucast (drop_bit 7 (fst s) AND 1) XOR ucast (drop_bit 7 (fst ?r) AND 1)) AND
      (ucast (drop_bit 7 (fst d) AND 1) XOR ucast (drop_bit 7 (fst ?r) AND 1)))
     (if acc_less ?n s then 1 else 0)"
    unfolding sd dsp_add56_def Let_def by (simp only: prod.case fst_conv snd_conv)
  have "acc_less ?n s \<longleftrightarrow> acc_val ?n < acc_val s"
    using assms acc_ok_masked by (intro acc_less_iff)
  also have "\<dots> \<longleftrightarrow> 2 ^ 56 \<le> acc_val d + acc_val s"
    using acc_complement [of d0 d1 d2] assms(2) unfolding sd by (simp only:) linarith
  finally have c: "(if acc_less ?n s then 1 else 0) = (of_bool (2 ^ 56 \<le> acc_val d + acc_val s) :: u16)"
    by simp
  show ?thesis
    unfolding f c using assms add56_val [OF assms]
    by (simp only: sign_flag sint_acc_word uint_acc_word ucast_of_bool
        overflow_add [OF acc_valid_range(1,2) [OF assms(2)] acc_valid_range(1,2) [OF assms(1)]])
qed

lemma sub56_sr:
  assumes "acc_ok s" "acc_ok d"
  shows "fst (dsp_sub56 s d) = newsr_flags
      (of_bool (sint (acc_word d) - sint (acc_word s) \<noteq> sint (acc_word (snd (dsp_sub56 s d)))))
      (of_bool (uint (acc_word d) < uint (acc_word s)))"
proof -
  obtain s0 s1 s2 d0 d1 d2 where sd: "s = (s0, s1, s2)" "d = (d0, d1, d2)"
    by (cases s; cases d)
  let ?r = "snd (dsp_sub56 s d)"
  have f: "fst (dsp_sub56 s d) = newsr_flags
     ((ucast (drop_bit 7 (fst s) AND 1) XOR ucast (drop_bit 7 (fst d) AND 1)) AND
      (ucast (drop_bit 7 (fst ?r) AND 1) XOR ucast (drop_bit 7 (fst d) AND 1)))
     (if acc_less d s then 1 else 0)"
    unfolding sd dsp_sub56_def Let_def by (simp only: prod.case fst_conv snd_conv)
  have c: "(if acc_less d s then 1 else 0) = (of_bool (acc_val d < acc_val s) :: u16)"
    using assms by (simp add: acc_less_iff)
  show ?thesis
    unfolding f c using assms sub56_val [OF assms]
    by (simp only: sign_flag sint_acc_word uint_acc_word ucast_of_bool
        overflow_sub [OF acc_valid_range(1,2) [OF assms(2)] acc_valid_range(1,2) [OF assms(1)]])
qed

lemma uint_shl_or:
  fixes x y :: u32
  assumes "n \<le> 32"
  shows "uint (push_bit 1 x OR (y AND 1)) mod 2 ^ n = (2 * uint x + uint y mod 2) mod 2 ^ n"
proof -
  have "uint ((y AND 1) OR push_bit 1 x) = (uint y mod 2 + uint x * 2 ^ 1) mod 2 ^ 32"
    using uint_or_push [of "y AND 1" 1 x] by (simp add: uint_and_1)
  then show ?thesis
    using mod_mod_cancel [OF le_imp_power_dvd [OF assms, of "2 :: int"]] by (simp add: or.commute add.commute mult.commute)
qed

lemma asl56_val:
  assumes "acc_ok d"
  shows "acc_ok (snd (dsp_asl56 d))"
    and "acc_val (snd (dsp_asl56 d)) = (2 * acc_val d) mod 2 ^ 56"
proof -
  obtain d0 d1 d2 where d: "d = (d0, d1, d2)" by (cases d)
  let ?r0 = "push_bit 1 d0 OR (drop_bit 23 d1 AND 1)"
  let ?r1 = "push_bit 1 d1 OR (drop_bit 23 d2 AND 1)"
  have r: "snd (dsp_asl56 d) = (?r0 AND BITMASK 8, ?r1 AND BITMASK 24, push_bit 1 d2 AND BITMASK 24)"
    by (simp only: d dsp_asl56_def Let_def prod.case snd_conv)
  show "acc_ok (snd (dsp_asl56 d))" unfolding r by (rule acc_ok_masked)
  have t: "uint d2 div 2 ^ 23 mod 2 = 2 * uint d2 div 2 ^ 24"
      "uint d1 div 2 ^ 23 mod 2 = uint d1 div 2 ^ 23"
    using assms digit_div [of "uint d1" 1 23] digit_div [of "uint d2" 1 23]
    by (simp_all add: d acc_ok_def)
  have "(2 * uint d1 + 2 * uint d2 div 2 ^ 24) div 2 ^ 24 = uint d1 div 2 ^ 23"
    unfolding t(1) [symmetric]
    using zdiv_zmult2_eq [of "2 ^ 23" "2 * uint d1 + uint d2 div 2 ^ 23 mod 2" 2] by simp
  then have "acc_val (snd (dsp_asl56 d)) =
      (2 * uint d0 * 2 ^ 48 + 2 * uint d1 * 2 ^ 24 + 2 * uint d2) mod 2 ^ 56"
    unfolding r
    by (intro acc_masked)
      (simp_all only: uint_shl_or uint_drop_bit t, simp_all add: uint_word_ariths mult.commute)
  then show "acc_val (snd (dsp_asl56 d)) = (2 * acc_val d) mod 2 ^ 56"
    by (simp add: d acc_val_def)
qed

lemma asl56_sr:
  assumes "acc_ok d"
  shows "fst (dsp_asl56 d) = newsr_flags
      (of_bool (2 * sint (acc_word d) \<noteq> sint (acc_word (snd (dsp_asl56 d)))))
      (of_bool (2 ^ 56 \<le> 2 * uint (acc_word d)))"
proof -
  obtain d0 d1 d2 where d: "d = (d0, d1, d2)" by (cases d)
  let ?r = "snd (dsp_asl56 d)"
  have f: "fst (dsp_asl56 d) = newsr_flags
     (of_bool (ucast (ucast (drop_bit 7 (fst d) AND 1) :: u16) \<noteq> drop_bit 7 (fst ?r) AND (1 :: u32)))
     (ucast (drop_bit 7 (fst d) AND 1))"
    by (simp only: d dsp_asl56_def Let_def prod.case snd_conv fst_conv)
  have v: "0 \<le> acc_val d" "acc_val d < 2 ^ 56" using assms by (rule acc_valid_range)+
  have "(2 * acc_val d) mod 2 ^ 56 = 2 * acc_val d - 2 ^ 56 * of_bool (2 ^ 55 \<le> acc_val d)"
    using v mod_pos_pos_trivial [of "2 * acc_val d - 2 ^ 56" "2 ^ 56"]
    by (cases "2 ^ 55 \<le> acc_val d") simp_all
  then show ?thesis
    unfolding f using asl56_val [OF assms] v
    by (cases "2 ^ 55 \<le> acc_val d"; cases "2 ^ 55 \<le> acc_val ?r")
      (simp_all add: sign_flag assms sint_acc_word uint_acc_word)
qed

lemma uint_shr_or:
  fixes x y :: u32
  assumes "uint x < 2 ^ 24"
  shows "uint ((drop_bit 1 x AND BITMASK 23) OR push_bit 23 (y AND 1)) =
    uint x div 2 + 2 ^ 23 * (uint y mod 2)"
proof -
  have "uint (drop_bit 1 x AND BITMASK 23) = uint x div 2"
    unfolding uint_and_BITMASK uint_drop_bit using digit_div(3) [of "uint x" 23 1] assms by simp
  moreover have h: "0 \<le> uint x div 2" "uint x div 2 < 2 ^ 23"
    using digit_div [of "uint x" 23 1] assms by simp_all
  ultimately have "uint ((drop_bit 1 x AND BITMASK 23) OR push_bit 23 (y AND 1)) =
      (uint x div 2 + (uint y mod 2) * 2 ^ 23) mod 2 ^ 32"
    by (simp only: uint_or_push uint_and_1) simp
  with h show ?thesis by simp
qed

lemma sign_extend_shr:
  fixes x :: u32
  assumes "uint x < 2 ^ 8"
  defines "r \<equiv> drop_bit 1 x AND BITMASK 7"
  shows "uint (r OR push_bit 1 (r AND shl1 6)) = uint x div 2 + 2 ^ 7 * (uint x div 2 ^ 7)"
proof -
  have r: "uint r = uint x div 2"
    unfolding r_def uint_and_BITMASK uint_drop_bit using digit_div(3) [of "uint x" 7 1] assms by simp
  moreover have h: "0 \<le> uint x div 2" "uint x div 2 < 2 ^ 7"
    using digit_div [of "uint x" 7 1] assms by simp_all
  ultimately have "uint (r OR push_bit 7 (drop_bit 6 r AND 1)) =
      (uint x div 2 + (uint x div 2 div 2 ^ 6 mod 2) * 2 ^ 7) mod 2 ^ 32"
    by (simp only: uint_or_push uint_and_1 uint_drop_bit) simp
  moreover have "push_bit 1 (r AND shl1 6) = push_bit 7 (drop_bit 6 r AND 1)"
    by (simp only: and_shl1 push_bit_push_bit) simp
  moreover have "uint x div 2 div 2 ^ 6 mod 2 = uint x div 2 ^ 7" "uint x div 2 ^ 7 < 2"
    using zdiv_zmult2_eq [of "2 ^ 6" "uint x" 2] digit_div [of "uint x" 1 7] assms by simp_all
  ultimately show ?thesis using h
    by simp
qed

lemma halve_digits:
  fixes x0 x1 x2 :: int
  shows "(x0 * 2 ^ 48 + x1 * 2 ^ 24 + x2) div 2 =
    x0 div 2 * 2 ^ 48 + (x1 div 2 + 2 ^ 23 * (x0 mod 2)) * 2 ^ 24 + (x2 div 2 + 2 ^ 23 * (x1 mod 2))"
    (is "_ = ?R")
proof -
  define q0 m0 q1 m1 q2 m2
    where "q0 = x0 div 2" "m0 = x0 mod 2" "q1 = x1 div 2" "m1 = x1 mod 2" "q2 = x2 div 2" "m2 = x2 mod 2"
  note q = this
  have x: "x0 = 2 * q0 + m0" "x1 = 2 * q1 + m1" "x2 = 2 * q2 + m2" and m: "0 \<le> m2" "m2 < 2"
    by (simp_all add: q)
  have "?R = q0 * 2 ^ 48 + (q1 + 2 ^ 23 * m0) * 2 ^ 24 + (q2 + 2 ^ 23 * m1)"
    by (simp only: q)
  moreover have "x0 * 2 ^ 48 + x1 * 2 ^ 24 + x2 =
      2 * (q0 * 2 ^ 48 + (q1 + 2 ^ 23 * m0) * 2 ^ 24 + (q2 + 2 ^ 23 * m1)) + m2"
    unfolding x by (simp only: ring_distribs) simp
  moreover have "(2 * R + m2) div 2 = R" for R using m by simp
  ultimately show ?thesis by (simp only:)
qed

lemma asr56_val:
  assumes "acc_ok d"
  shows "acc_ok (snd (dsp_asr56 d))"
    and "acc_val (snd (dsp_asr56 d)) = acc_val d div 2 + 2 ^ 55 * of_bool (2 ^ 55 \<le> acc_val d)"
proof -
  obtain d0 d1 d2 where d: "d = (d0, d1, d2)" by (cases d)
  have b: "uint d0 < 2 ^ 8" "uint d1 < 2 ^ 24" "uint d2 < 2 ^ 24"
    using assms by (simp_all add: d acc_ok_def)
  let ?r0 = "drop_bit 1 d0 AND BITMASK 7"
  have r: "snd (dsp_asr56 d) = (?r0 OR push_bit 1 (?r0 AND shl1 6),
      (drop_bit 1 d1 AND BITMASK 23) OR push_bit 23 (d0 AND 1),
      (drop_bit 1 d2 AND BITMASK 23) OR push_bit 23 (d1 AND 1))"
    by (simp only: d dsp_asr56_def Let_def prod.case snd_conv)
  have h: "uint d0 div 2 < 2 ^ 7" "uint d1 div 2 < 2 ^ 23" "uint d2 div 2 < 2 ^ 23" "uint d0 div 2 ^ 7 < 2"
    using digit_div(2) [of "uint d0" 7 1] digit_div(2) [of "uint d1" 23 1]
      digit_div(2) [of "uint d2" 23 1] digit_div(2) [of "uint d0" 1 7] b by simp_all
  have m: "uint d0 mod 2 \<le> 1" "uint d1 mod 2 \<le> 1" by simp_all
  show "acc_ok (snd (dsp_asr56 d))"
    unfolding r acc_ok_def prod.case uint_shr_or [OF b(2)] uint_shr_or [OF b(3)] sign_extend_shr [OF b(1)]
    using h m by simp
  have "uint d0 div 2 ^ 7 = uint (drop_bit 7 (fst d) AND 1)"
    using digit_div(3) [of "uint d0" 1 7] b by (simp add: uint_simps d)
  then have s: "uint d0 div 2 ^ 7 = of_bool (2 ^ 55 \<le> acc_val d)"
    unfolding sign_flag [OF assms] by simp
  have "2 ^ 7 * t * 2 ^ 48 = 2 ^ 55 * t" for t :: int by simp
  then show "acc_val (snd (dsp_asr56 d)) = acc_val d div 2 + 2 ^ 55 * of_bool (2 ^ 55 \<le> acc_val d)"
    unfolding r s [symmetric]
    unfolding d acc_val_def prod.case halve_digits
      uint_shr_or [OF b(2)] uint_shr_or [OF b(3)] sign_extend_shr [OF b(1)]
    by (simp only: distrib_right add_ac)
qed

lemma mul_operand_correct:
  fixes x :: u32
  defines "z \<equiv> sint (ucast x :: 24 word)"
  shows "fst (mul_operand x) \<longleftrightarrow> z < 0" "uint (snd (mul_operand x)) mod 2 ^ 24 = \<bar>z\<bar>"
proof -
  let ?w = "ucast x :: 24 word"
  have u: "uint ?w = uint x mod 2 ^ 24" by (simp add: unsigned_ucast_eq take_bit_eq_mod)
  have z: "z = uint ?w - 2 ^ 24 * of_bool (2 ^ 23 \<le> uint ?w)"
    unfolding z_def using sint_uint_if [of ?w] by simp
  have s: "x AND shl1 23 \<noteq> 0 \<longleftrightarrow> 2 ^ 23 \<le> uint ?w"
    unfolding and_shl1_neq_0 using top_bit [of ?w] by (simp add: bit_simps)
  have b: "0 \<le> uint ?w" "uint ?w < 2 ^ 24" unfolding u by simp_all
  show "fst (mul_operand x) \<longleftrightarrow> z < 0"
    unfolding mul_operand_def s z using b by simp
  show "uint (snd (mul_operand x)) mod 2 ^ 24 = \<bar>z\<bar>"
  proof (cases "2 ^ 23 \<le> uint ?w")
    case True
    have "uint (shl1 24 - (x AND BITMASK 24)) = (2 ^ 24 - uint ?w) mod 2 ^ 32"
      by (simp add: uint_word_ariths uint_and_BITMASK u mod_simps del: BITMASK_numeral)
    also have "\<dots> = 2 ^ 24 - uint ?w" using True b by simp
    finally have "uint (shl1 24 - (x AND BITMASK 24)) mod 2 ^ 24 = (2 ^ 24 - uint ?w) mod 2 ^ 24"
      by (simp only:)
    also have "\<dots> = 2 ^ 24 - uint ?w"
      using b by (intro mod_pos_pos_trivial) (use True in simp_all)
    finally show ?thesis
      unfolding mul_operand_def s z using True b by (simp del: BITMASK_numeral)
  next
    case False
    with b show ?thesis unfolding mul_operand_def s z by (simp add: u)
  qed
qed

lemma mul_digits:
  fixes a b :: int
  defines "al \<equiv> a mod 2 ^ 12" and "ah \<equiv> a div 2 ^ 12" and "bl \<equiv> b mod 2 ^ 12" and "bh \<equiv> b div 2 ^ 12"
  shows "(ah * bl div 2 ^ 12 + al * bh div 2 ^ 12 + ah * bh) * 2 ^ 24 +
    (al * bl + (ah * bl mod 2 ^ 12) * 2 ^ 12 + (al * bh mod 2 ^ 12) * 2 ^ 12) = a * b"
proof -
  have ab: "a = ah * 2 ^ 12 + al" "b = bh * 2 ^ 12 + bl"
    by (simp_all add: al_def ah_def bl_def bh_def)
  note q = digit_shift [of _ 12 12, simplified numeral_plus_numeral add_num_simps]
  have "a * b = ah * bh * 2 ^ 24 + (ah * bl) * 2 ^ 12 + (al * bh) * 2 ^ 12 + al * bl"
    unfolding ab by (simp add: algebra_simps)
  then show ?thesis using q [of "ah * bl"] q [of "al * bh"] by (simp only: distrib_right)
qed

lemma uint_top_byte: "uint (drop_bit 24 (x :: u32) AND BITMASK 8) = uint x div 2 ^ 24"
  unfolding uint_and_BITMASK uint_drop_bit
  using digit_div(3) [of "uint x" 8 24] unsigned_less [of x, where 'a = int] by simp

lemma carry_split:
  fixes x y :: u32
  shows "(if drop_bit 24 x AND BITMASK 8 \<noteq> 0
      then (y + (drop_bit 24 x AND BITMASK 8), x AND BITMASK 24) else (y, x)) =
    (y + (drop_bit 24 x AND BITMASK 8), x AND BITMASK 24)"
proof (cases "drop_bit 24 x AND BITMASK 8 = 0")
  case True
  then have "uint x div 2 ^ 24 = 0" using uint_top_byte [of x] by simp
  then have "uint x < 2 ^ 24" by (simp add: div_eq_0_iff)
  then have "x AND BITMASK 24 = x" unfolding word_uint_eq_iff uint_and_BITMASK by simp
  with True show ?thesis by (simp del: BITMASK_numeral)
qed (simp del: BITMASK_numeral)

lemma mul_parts_val:
  shows "acc_ok (mul_parts a b)"
    and "acc_val (mul_parts a b) = (uint a mod 2 ^ 24) * (uint b mod 2 ^ 24)"
proof -
  let ?al = "a AND BITMASK 12" and ?ah = "drop_bit 12 a AND BITMASK 12"
  let ?bl = "b AND BITMASK 12" and ?bh = "drop_bit 12 b AND BITMASK 12"
  define p0 p1 p2 p3 where p: "p0 = ?al * ?bl" "p1 = ?ah * ?bl" "p2 = ?al * ?bh" "p3 = ?ah * ?bh"
  define e2 where "e2 = p0 + push_bit 12 (p1 AND BITMASK 12) + push_bit 12 (p2 AND BITMASK 12)"
  define e1 where "e1 = (drop_bit 12 p1 AND BITMASK 12) + (drop_bit 12 p2 AND BITMASK 12) + p3"
  define f1 where "f1 = e1 + (drop_bit 24 e2 AND BITMASK 8)"
  have d: "uint ?al < 2 ^ 12" "uint ?ah < 2 ^ 12" "uint ?bl < 2 ^ 12" "uint ?bh < 2 ^ 12"
    by (simp_all only: uint_and_BITMASK) simp_all
  have up: "uint p0 = uint ?al * uint ?bl" "uint p1 = uint ?ah * uint ?bl"
    "uint p2 = uint ?al * uint ?bh" "uint p3 = uint ?ah * uint ?bh"
    unfolding p using d by (auto intro!: uint_mult_small simp del: BITMASK_numeral)
  have pb: "uint p0 < 2 ^ 24" "uint p1 < 2 ^ 24" "uint p2 < 2 ^ 24" "uint p3 < 2 ^ 24"
    unfolding up using d mult_strict_mono' [of _ "2 ^ 12" _ "2 ^ 12 :: int"] by simp_all
  have pd: "0 \<le> uint x div 2 ^ 12" "uint x div 2 ^ 12 < 2 ^ 12" "uint x div 2 ^ 12 mod 2 ^ 12 = uint x div 2 ^ 12"
      "0 \<le> uint x mod 2 ^ 12" "uint x mod 2 ^ 12 < 2 ^ 12"
    if "uint x < 2 ^ 24" for x :: u32
    using digit_div [of "uint x" 12 12] that by simp_all
  have e2: "uint e2 = uint p0 + (uint p1 mod 2 ^ 12) * 2 ^ 12 + (uint p2 mod 2 ^ 12) * 2 ^ 12"
  proof -
    have "uint (push_bit 12 (x AND BITMASK 12)) = uint x mod 2 ^ 12 * 2 ^ 12" if "uint x < 2 ^ 24" for x :: u32
      unfolding uint_push_bit uint_and_BITMASK using pd(4,5) [OF that] by simp
    then show ?thesis
      unfolding e2_def using pb pd(4,5) [OF pb(2)] pd(4,5) [OF pb(3)]
      by (simp add: uint_add_small del: BITMASK_numeral)
  qed
  have e1: "uint e1 = uint p1 div 2 ^ 12 + uint p2 div 2 ^ 12 + uint p3"
    unfolding e1_def using pb pd [OF pb(2)] pd [OF pb(3)]
    by (simp add: uint_add_small uint_and_BITMASK uint_drop_bit del: BITMASK_numeral)
  have e2d: "uint e2 div 2 ^ 24 < 2 ^ 8"
    using digit_div(2) [of "uint e2" 8 24] unsigned_less [of e2, where 'a = int] by simp
  have f1: "uint f1 = uint e1 + uint e2 div 2 ^ 24"
    unfolding f1_def using e1 pb pd [OF pb(2)] pd [OF pb(3)] e2d
    by (simp add: uint_add_small uint_top_byte del: BITMASK_numeral)
  have r: "mul_parts a b = (drop_bit 24 f1 AND BITMASK 8, f1 AND BITMASK 24, e2 AND BITMASK 24)"
    unfolding mul_parts_def Let_def p [symmetric] e2_def [symmetric] e1_def [symmetric] carry_split
      prod.case f1_def [symmetric] by simp
  show "acc_ok (mul_parts a b)" unfolding r by (rule acc_ok_masked)
  have "acc_val (mul_parts a b) = uint f1 * 2 ^ 24 + uint e2 mod 2 ^ 24"
    unfolding r acc_val_def prod.case uint_top_byte
    using digit_shift [of "uint f1" 24 24] by (simp add: uint_and_BITMASK del: BITMASK_numeral)
  also have "\<dots> = uint e1 * 2 ^ 24 + uint e2"
    unfolding f1 using div_mult_mod_eq [of "uint e2" "2 ^ 24"] by (simp only: distrib_right)
  also have "\<dots> = (uint a mod 2 ^ 24) * (uint b mod 2 ^ 24)"
    using mul_digits [of "uint a mod 2 ^ 24" "uint b mod 2 ^ 24"]
    unfolding e1 e2 up uint_and_BITMASK uint_drop_bit split_24 by (simp only: ac_simps)
  finally show "acc_val (mul_parts a b) = (uint a mod 2 ^ 24) * (uint b mod 2 ^ 24)" .
qed

lemma mul56_val:
  fixes x y :: u32
  shows "acc_ok (dsp_mul56 x y)"
    and "acc_word (dsp_mul56 x y) =
      word_of_int (2 * (sint (ucast x :: 24 word) * sint (ucast y :: 24 word)))"
proof -
  obtain n1 u n2 v where o: "mul_operand x = (n1, u)" "mul_operand y = (n2, v)"
    by (cases "mul_operand x"; cases "mul_operand y")
  let ?p = "snd (dsp_asl56 (mul_parts u v))"
  let ?z = "sint (ucast x :: 24 word)" and ?w = "sint (ucast y :: 24 word)"
  have z: "n1 \<longleftrightarrow> ?z < 0" "uint u mod 2 ^ 24 = \<bar>?z\<bar>" "n2 \<longleftrightarrow> ?w < 0" "uint v mod 2 ^ 24 = \<bar>?w\<bar>"
    using mul_operand_correct [of x] mul_operand_correct [of y] o by simp_all
  have p: "acc_ok ?p" "acc_val ?p = (2 * (\<bar>?z\<bar> * \<bar>?w\<bar>)) mod 2 ^ 56"
    using asl56_val [OF mul_parts_val(1), of u v] mul_parts_val(2) [of u v] z by simp_all
  have r: "dsp_mul56 x y = (if n1 \<noteq> n2 then snd (dsp_sub56 ?p (0, 0, 0)) else ?p)"
    by (simp add: dsp_mul56_def o)
  have 0: "acc_ok (0, 0, 0)" "acc_val (0, 0, 0) = 0" by (simp_all add: acc_ok_def acc_val_def)
  show "acc_ok (dsp_mul56 x y)"
    unfolding r using p(1) sub56_val(1) [OF p(1) 0(1)] by simp
  have "acc_val (dsp_mul56 x y) = (2 * (?z * ?w)) mod 2 ^ 56"
    unfolding r using p sub56_val(2) [OF p(1) 0(1)] 0(2) z(1,3)
    by (auto simp: abs_if mod_simps)
  then show "acc_word (dsp_mul56 x y) = word_of_int (2 * (?z * ?w))"
    using \<open>acc_ok (dsp_mul56 x y)\<close> by (intro acc_word_eqI)
qed
lemma sint_of_small: "- (2 ^ 55) \<le> n \<Longrightarrow> n < 2 ^ 55 \<Longrightarrow> sint (word_of_int n :: 56 word) = n"
  by (simp add: sint_sbintrunc' signed_take_bit_int_eq_self)

lemma sint_24_range: "- (2 ^ 23) \<le> sint (w :: 24 word)" "sint (w :: 24 word) < 2 ^ 23"
  using sint_range_size [of w] by (simp_all add: word_size)

lemma mul56_sint:
  "sint (acc_word (dsp_mul56 x y)) = 2 * (sint (ucast x :: 24 word) * sint (ucast y :: 24 word))"
proof -
  have "\<bar>sint (ucast x :: 24 word)\<bar> \<le> 2 ^ 23" "\<bar>sint (ucast y :: 24 word)\<bar> \<le> 2 ^ 23"
    using sint_24_range [of "ucast x"] sint_24_range [of "ucast y"] by simp_all
  then have "\<bar>sint (ucast x :: 24 word) * sint (ucast y :: 24 word)\<bar> \<le> 2 ^ 23 * 2 ^ 23"
    unfolding abs_mult by (intro mult_mono) simp_all
  then show ?thesis unfolding mul56_val(2) by (intro sint_of_small) (simp_all add: abs_le_iff)
qed

lemma round_even_clear_low: "round_even (Suc n) z = clear_low (Suc n) (z + 2 ^ n)"
proof -
  define h q f where "h = (2 :: int) ^ n" and "q = z div (2 * h)" and "f = z mod (2 * h)"
  have h: "0 < h" and z: "z = q * (2 * h) + f" and f: "0 \<le> f" "f < 2 * h"
    unfolding h_def q_def f_def by (simp_all only: div_mult_mod_eq) simp_all
  consider "f < h" | "f = h" | "h < f" by linarith
  then show ?thesis
  proof cases
    case 1
    have "(z + h) mod (2 * h) = f + h" unfolding z using 1 f h by (simp add: add.assoc)
    moreover have "z + h - (f + h) = q * (2 * h)" by (simp add: z)
    ultimately show ?thesis
      using 1 f h by (simp add: round_even_def clear_low_def Let_def h_def [symmetric] q_def [symmetric]
          f_def [symmetric] dvd_eq_mod_eq_0)
  next
    case 2
    have e: "z + h = (q + 1) * (2 * h)" by (simp add: z 2 algebra_simps)
    have "(q + 1) * (2 * h) mod (2 * (2 * h)) = (q + 1) mod 2 * (2 * h)"
      by (rule mult_mod_left [symmetric])
    then show ?thesis
      using 2 h by (simp add: round_even_def clear_low_def Let_def h_def [symmetric] q_def [symmetric]
          f_def [symmetric] e mod2_eq_if) (simp add: algebra_simps)
  next
    case 3
    have e: "z + h = (q + 1) * (2 * h) + (f - h)" by (simp add: z algebra_simps)
    have "((q + 1) * (2 * h) + (f - h)) mod (2 * h) = f - h" using 3 f by simp
    then show ?thesis
      using 3 f h by (simp add: round_even_def clear_low_def Let_def h_def [symmetric] q_def [symmetric]
          f_def [symmetric] dvd_eq_mod_eq_0 e)
  qed
qed

lemma clear_low_mod:
  assumes "k < m"
  shows "clear_low k (w mod 2 ^ m) mod 2 ^ m = clear_low k w mod 2 ^ m"
proof -
  have "(2 :: int) ^ k dvd 2 ^ m" "(2 :: int) ^ (k + 1) dvd 2 ^ m"
    using assms by (simp_all only: le_imp_power_dvd)
  then show ?thesis
    unfolding clear_low_def by (simp add: mod_mod_cancel dvd_mod_iff mod_diff_left_eq del: power_Suc)
qed

lemma uint_and_high:
  assumes "uint (x :: u32) < 2 ^ 24"
  shows "uint (x AND 0xfffffe) = uint x - uint x mod 2"
    "uint (x AND (0xffffff - 0x3)) = uint x - uint x mod 4"
    "uint (x AND 0x800000) = uint x - uint x mod 2 ^ 23"
    "uint (x AND 0x7fffff) = uint x mod 2 ^ 23"
proof -
  have h: "uint (x AND mask (m + n) AND NOT (mask n)) = uint x - uint x mod 2 ^ n" if "m + n = 24" for m n
  proof -
    have "uint x div 2 ^ n mod 2 ^ m = uint x div 2 ^ n"
      using digit_div(3) [of "uint x" m n] assms that by simp
    then have r: "uint (x AND mask (m + n) AND NOT (mask n)) = (uint x div 2 ^ n * 2 ^ n) mod 2 ^ 32"
      by (simp add: slice_eq_mask [symmetric] uint_push_bit unsigned_take_bit_eq uint_drop_bit)
        (simp add: take_bit_eq_mod)
    have "0 \<le> uint x mod 2 ^ n" "uint x mod 2 ^ n \<le> uint x"
      by (simp_all add: zmod_le_nonneg_dividend)
    moreover have "uint x < 2 ^ 32" using assms by simp
    ultimately have "(uint x - uint x mod 2 ^ n) mod 2 ^ 32 = uint x - uint x mod 2 ^ n"
      by (intro mod_pos_pos_trivial) linarith+
    then show ?thesis using r
      unfolding minus_mod_eq_div_mult [symmetric] by simp
  qed
  show "uint (x AND 0xfffffe) = uint x - uint x mod 2"
    using h [of 23 1] by (simp add: mask_eq_exp_minus_1 and.assoc)
  show "uint (x AND (0xffffff - 0x3)) = uint x - uint x mod 4"
    using h [of 22 2] by (simp add: mask_eq_exp_minus_1 and.assoc)
  show "uint (x AND 0x800000) = uint x - uint x mod 2 ^ 23"
    using h [of 1 23] by (simp add: mask_eq_exp_minus_1 and.assoc)
  show "uint (x AND 0x7fffff) = uint x mod 2 ^ 23"
    using uint_and_BITMASK [of x 23] by simp
qed
lemma acc_val_mod:
  assumes "acc_ok (d0, d1, d2)" "n \<le> 24"
  shows "acc_val (d0, d1, d2) mod 2 ^ n = uint d2 mod 2 ^ n"
    "acc_val (d0, d1, d2) mod 2 ^ (24 + n) = (uint d1 mod 2 ^ n) * 2 ^ 24 + uint d2"
proof -
  have "acc_val (d0, d1, d2) = (uint d0 * 2 ^ 24 + uint d1) * 2 ^ 24 + uint d2" 
    by (rule acc_val_alt)
  have d2: "0 \<le> uint d2" "uint d2 < 2 ^ 24" using assms by (simp_all add: acc_ok_def)
  have m: "(x * 2 ^ 24 + y) mod 2 ^ n = y mod 2 ^ n" for x y :: int
  proof -
    have "(2 :: int) ^ n dvd 2 ^ 24" using assms(2) by (rule le_imp_power_dvd)
    then obtain c where "(2 :: int) ^ 24 = 2 ^ n * c" by (rule dvdE)
    then have "x * 2 ^ 24 + y = y + (x * c) * 2 ^ n" by (simp only: ac_simps)
    then show ?thesis by (simp only: mod_mult_self1)
  qed
  show "acc_val (d0, d1, d2) mod 2 ^ n = uint d2 mod 2 ^ n"
    unfolding acc_val_alt by (rule m)
  show "acc_val (d0, d1, d2) mod 2 ^ (24 + n) = (uint d1 mod 2 ^ n) * 2 ^ 24 + uint d2"
    unfolding acc_val_alt mod_mult_add [OF d2] m ..
qed

lemma clear_low_acc:
  assumes "acc_ok (d0, d1, d2)"
  defines "v \<equiv> acc_val (d0, d1, d2)"
  shows "clear_low 25 v = acc_val (d0, (if d2 = 0 \<and> d1 AND 1 = 0 then d1 AND (0xffffff - 0x3) else d1) AND 0xfffffe, 0)"
    "clear_low 24 v = acc_val (d0, if d2 = 0 then d1 AND 0xfffffe else d1, 0)"
    "clear_low 23 v = acc_val (d0, d1, (if d2 AND 0x7fffff = 0 then 0 else d2) AND 0x800000)"
proof -
  have u: "uint d1 < 2 ^ 24" "uint d2 < 2 ^ 24" using assms by (simp_all add: acc_ok_def)
  note vm = acc_val_mod [OF assms(1), folded v_def]
  have v: "v = uint d0 * 2 ^ 48 + uint d1 * 2 ^ 24 + uint d2" by (simp add: v_def acc_val_def)
  have n: "(24 :: nat) + 1 = 25" "(24 :: nat) + 2 = 26" "(23 :: nat) + 1 = 24" "(25 :: nat) + 1 = 26"
    "(2 :: int) ^ 1 = 2" "(2 :: int) ^ 2 = 4" "uint d2 mod 2 ^ 24 = uint d2"
    using u(2) by simp_all
  have m: "v mod 2 ^ 23 = uint d2 mod 2 ^ 23" "v mod 2 ^ 24 = uint d2"
    "v mod 2 ^ 25 = uint d1 mod 2 * 2 ^ 24 + uint d2" "v mod 2 ^ 26 = uint d1 mod 4 * 2 ^ 24 + uint d2"
    using vm(1) [of 23] vm(1) [of 24] vm(2) [of 1] vm(2) [of 2] unfolding n by (simp_all only:)
  note uh = uint_and_high [OF u(1)] uint_and_high [OF u(2)]
  have c24: "clear_low 24 v = (if uint d2 = 0 then v - (uint d1 mod 2 * 2 ^ 24 + uint d2) else v - uint d2)"
    by (simp only: clear_low_def dvd_eq_mod_eq_0 n m)
  show "clear_low 24 v = acc_val (d0, if d2 = 0 then d1 AND 0xfffffe else d1, 0)"
    unfolding c24 unfolding v by (cases "uint d2 = 0") (simp_all add: acc_val_def uh word_uint_eq_iff algebra_simps)
  have c23: "clear_low 23 v = (if uint d2 mod 2 ^ 23 = 0 then v - uint d2 else v - uint d2 mod 2 ^ 23)"
    by (simp only: clear_low_def dvd_eq_mod_eq_0 n m)
  show "clear_low 23 v = acc_val (d0, d1, (if d2 AND 0x7fffff = 0 then 0 else d2) AND 0x800000)"
    unfolding c23 unfolding v by (simp add: acc_val_def uh word_uint_eq_iff)
  have c25: "clear_low 25 v = (if uint d1 mod 2 * 2 ^ 24 + uint d2 = 0
      then v - (uint d1 mod 4 * 2 ^ 24 + uint d2) else v - (uint d1 mod 2 * 2 ^ 24 + uint d2))"
    by (simp only: clear_low_def dvd_eq_mod_eq_0 n m)
  have z: "uint d1 mod 2 * 2 ^ 24 + uint d2 = 0 \<longleftrightarrow> d2 = 0 \<and> d1 AND 1 = 0"
    by (simp add: add_nonneg_eq_0_iff word_uint_eq_iff uint_and_1 conj_commute)
  have "uint (d1 AND (0xffffff - 0x3)) < 2 ^ 24" unfolding uh using u(1) by simp
  then have "uint ((d1 AND (0xffffff - 0x3)) AND 0xfffffe) =
      uint d1 - uint d1 mod 4 - (uint d1 - uint d1 mod 4) mod 2"
    unfolding uh(2) [symmetric] by (rule uint_and_high(1))
  also have "(uint d1 - uint d1 mod 4) mod 2 = 0" by (simp add: minus_mod_eq_mult_div)
  finally show "clear_low 25 v = acc_val (d0, (if d2 = 0 \<and> d1 AND 1 = 0 then d1 AND (0xffffff - 0x3) else d1) AND 0xfffffe, 0)"
    unfolding c25 z unfolding v acc_val_def prod.case if_distrib [of "\<lambda>x. x AND _"] if_distrib [of uint] uh
    by (simp add: algebra_simps)
qed

lemma rnd56_val:
  assumes "acc_ok d"
  shows "acc_ok (dsp_rnd56 s d)"
    and "acc_val (dsp_rnd56 s d) =
      clear_low (rnd_position s) ((acc_val d + 2 ^ (rnd_position s - 1)) mod 2 ^ 56)"
proof -
  define c :: acc where "c = (if bit (registers s DSP_REG_SR) DSP_SR_S0 then (0, 1, 0)
     else if bit (registers s DSP_REG_SR) DSP_SR_S1 then (0, 0, shl1 22) else (0, 0, shl1 23))"
  have c: "acc_ok c" "acc_val c = 2 ^ (rnd_position s - 1)"
    by (simp_all add: c_def acc_ok_def acc_val_def rnd_position_def)
  obtain d0 d1 d2 where r: "snd (dsp_add56 c d) = (d0, d1, d2)" by (cases "snd (dsp_add56 c d)")
  have ok: "acc_ok (d0, d1, d2)" and v: "acc_val (d0, d1, d2) = (acc_val d + 2 ^ (rnd_position s - 1)) mod 2 ^ 56"
    using add56_val [OF c(1) assms] c(2) by (simp_all add: r)
  have u: "uint (x AND y) < 2 ^ 24" if "uint x < 2 ^ 24" for x y :: u32
    using that uint_and_le [of x y] by linarith
  let ?S0 = "bit (registers s DSP_REG_SR) DSP_SR_S0" and ?S1 = "bit (registers s DSP_REG_SR) DSP_SR_S1"
  have e: "dsp_rnd56 s d =
     (if ?S0 then (d0, (if d2 = 0 \<and> d1 AND 1 = 0 then d1 AND (0xffffff - 0x3) else d1) AND 0xfffffe, 0)
      else if ?S1 then (d0, d1, (if d2 AND 0x7fffff = 0 then 0 else d2) AND 0x800000)
      else (d0, if d2 = 0 then d1 AND 0xfffffe else d1, 0))"
    using r unfolding dsp_rnd56_def and_shl1_neq_0 c_def by (cases ?S0; cases ?S1) simp_all
  show "acc_ok (dsp_rnd56 s d)"
    unfolding e using ok u [of d1] u [of d2] u [of "d1 AND (0xffffff - 0x3)"] by (simp add: acc_ok_def)
  show "acc_val (dsp_rnd56 s d) =
      clear_low (rnd_position s) ((acc_val d + 2 ^ (rnd_position s - 1)) mod 2 ^ 56)"
    unfolding v [symmetric] unfolding e rnd_position_def
    by (cases ?S0; cases ?S1) (simp_all only: clear_low_acc [OF ok] if_True if_False simp_thms)
qed

lemma rnd56_word:
  assumes "acc_ok d"
  shows "acc_word (dsp_rnd56 s d) = word_of_int (round_even (rnd_position s) (sint (acc_word d)))"
proof -
  let ?k = "rnd_position s"
  obtain n where k: "?k = Suc n" and n: "Suc n < 56"
    by (rule that [of "?k - 1"]) (simp_all add: rnd_position_def)
  have "sint (acc_word d) + 2 ^ n =
      acc_val d + 2 ^ n + (2 ^ 56) * (- of_bool (2 ^ 55 \<le> acc_val d))"
    using sint_acc_word [OF assms] by simp
  then have "(sint (acc_word d) + 2 ^ n) mod 2 ^ 56 = (acc_val d + 2 ^ n) mod 2 ^ 56"
    by (simp only: mod_mult_self2)
  then have "clear_low ?k ((acc_val d + 2 ^ n) mod 2 ^ 56) mod 2 ^ 56 =
      clear_low ?k (sint (acc_word d) + 2 ^ n) mod 2 ^ 56"
    unfolding k clear_low_mod [OF n, symmetric, of "sint _ + _"] by simp
  then show ?thesis
    using rnd56_val(2) [OF assms, of s] unfolding k round_even_clear_low
    by (simp add: word_uint_eq_iff uint_word_of_int acc_word_def)
qed

section \<open>The contracts\<close>

text \<open>
  C2. \<^verbatim>\<open>dsp_add56\<close> adds modulo \<open>2 ^ 56\<close>: on well-formed accumulators the result is
  well formed and is the 56-bit sum, C is the carry out of bit 55, and V and L are set exactly when
  the signed sum does not fit 56 bits.
\<close>

theorem dsp_add56_refines:
  assumes "acc_ok s" "acc_ok d" "dsp_add56 s d = (newsr, r)"
  shows "acc_ok r \<and> acc_word r = acc_word d + acc_word s \<and>
    newsr = newsr_flags (of_bool (sint (acc_word r) \<noteq> sint (acc_word d) + sint (acc_word s)))
      (of_bool (2 ^ 56 \<le> uint (acc_word d) + uint (acc_word s)))"
proof -
  have "acc_ok r" "acc_val r = (acc_val d + acc_val s) mod 2 ^ 56"
    using add56_val [OF assms(1,2)] assms(3) by simp_all
  then have "acc_word r = acc_word d + acc_word s"
    by (simp add: acc_word_eqI) (simp add: acc_word_def)
  with \<open>acc_ok r\<close> show ?thesis
    using add56_sr [OF assms(1,2)] assms(3) by (simp add: eq_commute)
qed

theorem dsp_add56_refines_witness:
  "acc_word (0x80, 0, 0) = acc_word (0x7f, 0xffffff, 1) + acc_word (0, 0, 0xffffff) \<and>
   dsp_add56 (0, 0, 0xffffff) (0x7f, 0xffffff, 1) = (newsr_flags 1 0, (0x80, 0, 0))"
  using dsp_add56_refines [of "(0, 0, 0xffffff)" "(0x7f, 0xffffff, 1)" "newsr_flags 1 0" "(0x80, 0, 0)"]
  by (simp add: acc_ok_def dsp_add56_def acc_less_def newsr_flags_def)

text \<open>
  C3. \<^verbatim>\<open>dsp_sub56\<close> subtracts modulo \<open>2 ^ 56\<close>: the result is the 56-bit difference, C is
  the borrow (the unsigned comparison of the operands), V and L are set exactly when the signed
  difference does not fit 56 bits.
\<close>

theorem dsp_sub56_refines:
  assumes "acc_ok s" "acc_ok d" "dsp_sub56 s d = (newsr, r)"
  shows "acc_ok r \<and> acc_word r = acc_word d - acc_word s \<and>
    newsr = newsr_flags (of_bool (sint (acc_word r) \<noteq> sint (acc_word d) - sint (acc_word s)))
      (of_bool (acc_word d < acc_word s))"
proof -
  have "acc_ok r" "acc_val r = (acc_val d - acc_val s) mod 2 ^ 56"
    using sub56_val [OF assms(1,2)] assms(3) by simp_all
  then have "acc_word r = acc_word d - acc_word s"
    by (simp add: acc_word_eqI) (simp add: acc_word_def)
  with \<open>acc_ok r\<close> show ?thesis
    using sub56_sr [OF assms(1,2)] assms(3) by (simp add: eq_commute word_less_def)
qed

theorem dsp_sub56_refines_witness:
  "acc_word (0xff, 0xffffff, 0xffffff) = acc_word (0, 0, 0) - acc_word (0, 0, 1) \<and>
   dsp_sub56 (0, 0, 1) (0, 0, 0) = (newsr_flags 0 1, (0xff, 0xffffff, 0xffffff))"
proof -
  have "dsp_sub56 (0, 0, 1) (0, 0, 0) = (newsr_flags 0 1, (0xff, 0xffffff, 0xffffff))" by code_simp
  then show ?thesis
    using dsp_sub56_refines [of "(0, 0, 1)" "(0, 0, 0)" "newsr_flags 0 1" "(0xff, 0xffffff, 0xffffff)"]
    by (simp add: acc_ok_def)
qed

text \<open>
  The shifts: \<^verbatim>\<open>dsp_asl56\<close> doubles the 56-bit word, with C the bit shifted out and V
  and L set exactly when doubling changes the sign; \<^verbatim>\<open>dsp_asr56\<close> halves the signed value,
  rounding down, with C the bit shifted out.
\<close>

theorem dsp_shift56_refines:
  assumes "acc_ok d" "dsp_asl56 d = (lsr, l)" "dsp_asr56 d = (rsr, r)"
  shows "acc_ok l \<and> acc_word l = 2 * acc_word d \<and>
    lsr = newsr_flags (of_bool (sint (acc_word l) \<noteq> 2 * sint (acc_word d)))
      (of_bool (bit (acc_word d) 55)) \<and>
    acc_ok r \<and> sint (acc_word r) = sint (acc_word d) div 2 \<and>
    rsr = of_bool (odd (acc_word d))"
proof -
  have l: "acc_ok l" "acc_val l = (2 * acc_val d) mod 2 ^ 56"
    using asl56_val [OF assms(1)] assms(2) by simp_all
  have r: "acc_ok r" "acc_val r = acc_val d div 2 + 2 ^ 55 * of_bool (2 ^ 55 \<le> acc_val d)"
    using asr56_val [OF assms(1)] assms(3) by simp_all
  have d: "0 \<le> acc_val d" "acc_val d < 2 ^ 56" by (rule acc_valid_range [OF assms(1)])+
  have "acc_word l = 2 * acc_word d"
    using acc_word_eqI [OF l] by (simp add: acc_word_def)
  moreover have "bit (acc_word d) 55 \<longleftrightarrow> 2 ^ 55 \<le> acc_val d"
    using top_bit [of "acc_word d"] bit_uint_iff [of "acc_word d" 55]
    by (simp add: uint_acc_word [OF assms(1)])
  then have "lsr = newsr_flags (of_bool (sint (acc_word l) \<noteq> 2 * sint (acc_word d)))
      (of_bool (bit (acc_word d) 55))"
    using asl56_sr [OF assms(1)] assms(1,2) by (simp add: eq_commute uint_acc_word)
  moreover have "sint (acc_word r) = sint (acc_word d) div 2"
    unfolding sint_acc_word [OF assms(1)] sint_acc_word [OF r(1)] r(2) using d
    by (cases "2 ^ 55 \<le> acc_val d") simp_all
  moreover have "rsr = of_bool (odd (acc_word d))"
  proof -
    obtain d0 d1 d2 where e: "d = (d0, d1, d2)" by (cases d)
    have "odd (acc_word d) \<longleftrightarrow> odd (acc_val d)"
      using bit_uint_iff [of "acc_word d" 0] by (simp add: uint_acc_word [OF assms(1)] bit_0)
    also have "\<dots> \<longleftrightarrow> odd d2"
      using bit_uint_iff [of d2 0] by (simp add: e acc_val_def bit_0)
    finally show ?thesis using assms(3) by (auto simp: e dsp_asr56_def Let_def and_one_eq mod2_eq_if)
  qed
  ultimately show ?thesis using l(1) r(1) by simp
qed

theorem dsp_shift56_refines_witness:
  "acc_word (0xff, 0xffffff, 0xfffffe) = 2 * acc_word (0xff, 0xffffff, 0xffffff) \<and>
   sint (acc_word (0xff, 0xffffff, 0xffffff)) = sint (acc_word (0xff, 0xffffff, 0xffffff)) div 2"
  using dsp_shift56_refines [of "(0xff, 0xffffff, 0xffffff)" "newsr_flags 0 1" "(0xff, 0xffffff, 0xfffffe)"
      1 "(0xff, 0xffffff, 0xffffff)"]
  by (simp add: acc_ok_def dsp_asl56_def dsp_asr56_def)

text \<open>
  \<^verbatim>\<open>dsp_abs56\<close> computes the absolute value of the signed accumulator. Only the most
  negative value has none: it is left unchanged and V and L are set.
\<close>

theorem dsp_abs56_refines:
  assumes "acc_ok d" "dsp_abs56 d = (newsr, r)"
  shows "acc_ok r \<and>
    sint (acc_word r) = (if sint (acc_word d) = - (2 ^ 55) then - (2 ^ 55) else \<bar>sint (acc_word d)\<bar>) \<and>
    newsr = (if sint (acc_word d) < 0
             then newsr_flags (of_bool (sint (acc_word d) = - (2 ^ 55))) 1 else 0)"
proof (cases "2 ^ 55 \<le> acc_val d")
  case False
  have "fst d AND shl1 7 = 0"
    unfolding and_shl1 sign_flag [OF assms(1)] using False by simp
  then show ?thesis
    using assms False acc_valid_range(1) [OF assms(1)]
    by (simp add: dsp_abs56_def sint_acc_word)
next
  case True
  have 0: "acc_ok (0, 0, 0)" "acc_val (0, 0, 0) = 0" by (simp_all add: acc_ok_def acc_val_def)
  have "fst d AND shl1 7 \<noteq> 0"
    unfolding and_shl1 sign_flag [OF assms(1)] using True by simp
  then have r: "dsp_sub56 d (0, 0, 0) = (newsr, r)" using assms(2) by (simp add: dsp_abs56_def)
  have v: "acc_val d < 2 ^ 56" by (rule acc_valid_range [OF assms(1)])
  have ok: "acc_ok r" "acc_val r = (- acc_val d) mod 2 ^ 56"
    using sub56_val [OF assms(1) 0(1)] r 0(2) by simp_all
  have "acc_val r = 2 ^ 56 - acc_val d"
    unfolding ok(2) using True v mod_pos_pos_trivial [of "2 ^ 56 - acc_val d" "2 ^ 56"] by simp
  then show ?thesis
    using sub56_sr [OF assms(1) 0(1)] r ok(1) True v 0 assms(1)
    by (auto simp: sint_acc_word uint_acc_word)
qed

theorem dsp_abs56_refines_witness:
  "sint (acc_word (0, 0, 5)) = \<bar>sint (acc_word (0xff, 0xffffff, 0xfffffb))\<bar>"
  using dsp_abs56_refines [of "(0xff, 0xffffff, 0xfffffb)" "newsr_flags 0 1" "(0, 0, 5)"]
  by (simp add: acc_ok_def dsp_abs56_def dsp_sub56_def acc_less_def newsr_flags_def acc_word_def acc_val_def)

text \<open>
  C4. \<^verbatim>\<open>dsp_mul56\<close>, built from four 12-bit partial products with manual carries and a
  sign split, computes twice the product of the two operands read as signed 24-bit numbers (the
  fractional product), exactly and for every pair of operands, \<open>-1 * -1\<close> included.
\<close>

theorem dsp_mul56_exact:
  "acc_ok (dsp_mul56 x y) \<and>
   sint (acc_word (dsp_mul56 x y)) = 2 * sint (ucast x :: 24 word) * sint (ucast y :: 24 word)"
  using mul56_val(1) [of x y] mul56_sint [of x y] by simp

text \<open>
  C5. \<^verbatim>\<open>dsp_rnd56\<close> is convergent rounding: the signed accumulator goes to the nearest
  multiple of \<open>2 ^ k\<close>, a tie to the even one, with \<open>k\<close> = 24, 25 or 23 for no scaling,
  scaling down (S0) and scaling up (S1).
\<close>

theorem dsp_rnd56_convergent:
  assumes "acc_ok d"
  shows "acc_ok (dsp_rnd56 s d) \<and>
    acc_word (dsp_rnd56 s d) = word_of_int (round_even (rnd_position s) (sint (acc_word d)))"
  using rnd56_val(1) [OF assms] rnd56_word [OF assms] by simp

theorem dsp_rnd56_convergent_witness:
  "acc_word (dsp_rnd56 static_storage (0, 1, 0x800000)) = word_of_int (round_even 24 0x1800000) \<and>
   acc_word (dsp_rnd56 static_storage (0, 2, 0x800000)) = word_of_int (round_even 24 0x2800000) \<and>
   round_even 24 0x1800000 = 0x2000000 \<and> round_even 24 0x2800000 = 0x2000000"
  using dsp_rnd56_convergent [of "(0, 1, 0x800000)" static_storage]
    dsp_rnd56_convergent [of "(0, 2, 0x800000)" static_storage]
  by (simp add: acc_ok_def acc_val_def acc_word_def rnd_position_def round_even_def
      static_storage_def)

end
