(* ===== verification/Dsp_Rom.thy ===== *)
theory Dsp_Rom
  imports Dsp_State
begin

text \<open>
  The internal ROM tables of \<^verbatim>\<open>src/dsp_core.c\<close>: the mu-law and A-law expansion
  tables (X memory) and the sine table (Y memory).
\<close>

definition x_rom :: "u32 list" where
  "x_rom = [
    0x7D7C00, 0x797C00, 0x757C00, 0x717C00, 0x6D7C00, 0x697C00, 0x657C00, 0x617C00,
    0x5D7C00, 0x597C00, 0x557C00, 0x517C00, 0x4D7C00, 0x497C00, 0x457C00, 0x417C00,
    0x3E7C00, 0x3C7C00, 0x3A7C00, 0x387C00, 0x367C00, 0x347C00, 0x327C00, 0x307C00,
    0x2E7C00, 0x2C7C00, 0x2A7C00, 0x287C00, 0x267C00, 0x247C00, 0x227C00, 0x207C00,
    0x1EFC00, 0x1DFC00, 0x1CFC00, 0x1BFC00, 0x1AFC00, 0x19FC00, 0x18FC00, 0x17FC00,
    0x16FC00, 0x15FC00, 0x14FC00, 0x13FC00, 0x12FC00, 0x11FC00, 0x10FC00, 0x0FFC00,
    0x0F3C00, 0x0EBC00, 0x0E3C00, 0x0DBC00, 0x0D3C00, 0x0CBC00, 0x0C3C00, 0x0BBC00,
    0x0B3C00, 0x0ABC00, 0x0A3C00, 0x09BC00, 0x093C00, 0x08BC00, 0x083C00, 0x07BC00,
    0x075C00, 0x071C00, 0x06DC00, 0x069C00, 0x065C00, 0x061C00, 0x05DC00, 0x059C00,
    0x055C00, 0x051C00, 0x04DC00, 0x049C00, 0x045C00, 0x041C00, 0x03DC00, 0x039C00,
    0x036C00, 0x034C00, 0x032C00, 0x030C00, 0x02EC00, 0x02CC00, 0x02AC00, 0x028C00,
    0x026C00, 0x024C00, 0x022C00, 0x020C00, 0x01EC00, 0x01CC00, 0x01AC00, 0x018C00,
    0x017400, 0x016400, 0x015400, 0x014400, 0x013400, 0x012400, 0x011400, 0x010400,
    0x00F400, 0x00E400, 0x00D400, 0x00C400, 0x00B400, 0x00A400, 0x009400, 0x008400,
    0x007800, 0x007000, 0x006800, 0x006000, 0x005800, 0x005000, 0x004800, 0x004000,
    0x003800, 0x003000, 0x002800, 0x002000, 0x001800, 0x001000, 0x000800, 0x000000,
    0x158000, 0x148000, 0x178000, 0x168000, 0x118000, 0x108000, 0x138000, 0x128000,
    0x1D8000, 0x1C8000, 0x1F8000, 0x1E8000, 0x198000, 0x188000, 0x1B8000, 0x1A8000,
    0x0AC000, 0x0A4000, 0x0BC000, 0x0B4000, 0x08C000, 0x084000, 0x09C000, 0x094000,
    0x0EC000, 0x0E4000, 0x0FC000, 0x0F4000, 0x0CC000, 0x0C4000, 0x0DC000, 0x0D4000,
    0x560000, 0x520000, 0x5E0000, 0x5A0000, 0x460000, 0x420000, 0x4E0000, 0x4A0000,
    0x760000, 0x720000, 0x7E0000, 0x7A0000, 0x660000, 0x620000, 0x6E0000, 0x6A0000,
    0x2B0000, 0x290000, 0x2F0000, 0x2D0000, 0x230000, 0x210000, 0x270000, 0x250000,
    0x3B0000, 0x390000, 0x3F0000, 0x3D0000, 0x330000, 0x310000, 0x370000, 0x350000,
    0x015800, 0x014800, 0x017800, 0x016800, 0x011800, 0x010800, 0x013800, 0x012800,
    0x01D800, 0x01C800, 0x01F800, 0x01E800, 0x019800, 0x018800, 0x01B800, 0x01A800,
    0x005800, 0x004800, 0x007800, 0x006800, 0x001800, 0x000800, 0x003800, 0x002800,
    0x00D800, 0x00C800, 0x00F800, 0x00E800, 0x009800, 0x008800, 0x00B800, 0x00A800,
    0x056000, 0x052000, 0x05E000, 0x05A000, 0x046000, 0x042000, 0x04E000, 0x04A000,
    0x076000, 0x072000, 0x07E000, 0x07A000, 0x066000, 0x062000, 0x06E000, 0x06A000,
    0x02B000, 0x029000, 0x02F000, 0x02D000, 0x023000, 0x021000, 0x027000, 0x025000,
    0x03B000, 0x039000, 0x03F000, 0x03D000, 0x033000, 0x031000, 0x037000, 0x035000]"

definition y_rom :: "u32 list" where
  "y_rom = [
    0x000000, 0x03242b, 0x0647d9, 0x096a90, 0x0c8bd3, 0x0fab27, 0x12c810, 0x15e214,
    0x18f8b8, 0x1c0b82, 0x1f19f9, 0x2223a5, 0x25280c, 0x2826b9, 0x2b1f35, 0x2e110a,
    0x30fbc5, 0x33def3, 0x36ba20, 0x398cdd, 0x3c56ba, 0x3f174a, 0x41ce1e, 0x447acd,
    0x471ced, 0x49b415, 0x4c3fe0, 0x4ebfe9, 0x5133cd, 0x539b2b, 0x55f5a5, 0x5842dd,
    0x5a827a, 0x5cb421, 0x5ed77d, 0x60ec38, 0x62f202, 0x64e889, 0x66cf81, 0x68a69f,
    0x6a6d99, 0x6c2429, 0x6dca0d, 0x6f5f03, 0x70e2cc, 0x72552d, 0x73b5ec, 0x7504d3,
    0x7641af, 0x776c4f, 0x788484, 0x798a24, 0x7a7d05, 0x7b5d04, 0x7c29fc, 0x7ce3cf,
    0x7d8a5f, 0x7e1d94, 0x7e9d56, 0x7f0992, 0x7f6237, 0x7fa737, 0x7fd888, 0x7ff622,
    0x7fffff, 0x7ff622, 0x7fd888, 0x7fa737, 0x7f6237, 0x7f0992, 0x7e9d56, 0x7e1d94,
    0x7d8a5f, 0x7ce3cf, 0x7c29fc, 0x7b5d04, 0x7a7d05, 0x798a24, 0x788484, 0x776c4f,
    0x7641af, 0x7504d3, 0x73b5ec, 0x72552d, 0x70e2cc, 0x6f5f03, 0x6dca0d, 0x6c2429,
    0x6a6d99, 0x68a69f, 0x66cf81, 0x64e889, 0x62f202, 0x60ec38, 0x5ed77d, 0x5cb421,
    0x5a827a, 0x5842dd, 0x55f5a5, 0x539b2b, 0x5133cd, 0x4ebfe9, 0x4c3fe0, 0x49b415,
    0x471ced, 0x447acd, 0x41ce1e, 0x3f174a, 0x3c56ba, 0x398cdd, 0x36ba20, 0x33def3,
    0x30fbc5, 0x2e110a, 0x2b1f35, 0x2826b9, 0x25280c, 0x2223a5, 0x1f19f9, 0x1c0b82,
    0x18f8b8, 0x15e214, 0x12c810, 0x0fab27, 0x0c8bd3, 0x096a90, 0x0647d9, 0x03242b,
    0x000000, 0xfcdbd5, 0xf9b827, 0xf69570, 0xf3742d, 0xf054d9, 0xed37f0, 0xea1dec,
    0xe70748, 0xe3f47e, 0xe0e607, 0xdddc5b, 0xdad7f4, 0xd7d947, 0xd4e0cb, 0xd1eef6,
    0xcf043b, 0xcc210d, 0xc945e0, 0xc67323, 0xc3a946, 0xc0e8b6, 0xbe31e2, 0xbb8533,
    0xb8e313, 0xb64beb, 0xb3c020, 0xb14017, 0xaecc33, 0xac64d5, 0xaa0a5b, 0xa7bd23,
    0xa57d86, 0xa34bdf, 0xa12883, 0x9f13c8, 0x9d0dfe, 0x9b1777, 0x99307f, 0x975961,
    0x959267, 0x93dbd7, 0x9235f3, 0x90a0fd, 0x8f1d34, 0x8daad3, 0x8c4a14, 0x8afb2d,
    0x89be51, 0x8893b1, 0x877b7c, 0x8675dc, 0x8582fb, 0x84a2fc, 0x83d604, 0x831c31,
    0x8275a1, 0x81e26c, 0x8162aa, 0x80f66e, 0x809dc9, 0x8058c9, 0x802778, 0x8009de,
    0x800000, 0x8009de, 0x802778, 0x8058c9, 0x809dc9, 0x80f66e, 0x8162aa, 0x81e26c,
    0x8275a1, 0x831c31, 0x83d604, 0x84a2fc, 0x8582fb, 0x8675dc, 0x877b7c, 0x8893b1,
    0x89be51, 0x8afb2d, 0x8c4a14, 0x8daad3, 0x8f1d34, 0x90a0fd, 0x9235f3, 0x93dbd7,
    0x959267, 0x975961, 0x99307f, 0x9b1777, 0x9d0dfe, 0x9f13c8, 0xa12883, 0xa34bdf,
    0xa57d86, 0xa7bd23, 0xaa0a5b, 0xac64d5, 0xaecc33, 0xb14017, 0xb3c020, 0xb64beb,
    0xb8e313, 0xbb8533, 0xbe31e2, 0xc0e8b6, 0xc3a946, 0xc67323, 0xc945e0, 0xcc210d,
    0xcf043b, 0xd1eef6, 0xd4e0cb, 0xd7d947, 0xdad7f4, 0xdddc5b, 0xe0e607, 0xe3f47e,
    0xe70748, 0xea1dec, 0xed37f0, 0xf054d9, 0xf3742d, 0xf69570, 0xf9b827, 0xfcdbd5]"

text \<open>The generator of the mu-law table that the source keeps next to the table.\<close>

definition mulaw_base :: "u32 list" where
  "mulaw_base = [0x7d7c, 0x3e7c, 0x1efc, 0x0f3c, 0x075c, 0x036c, 0x0174, 0x0078]"

fun mulaw_row :: "nat \<Rightarrow> u32 \<Rightarrow> u32 \<Rightarrow> u32 list" where
  "mulaw_row 0 value offset = []"
| "mulaw_row (Suc j) value offset = value # mulaw_row j (value - offset) offset"

fun mulaw_rows :: "u32 list \<Rightarrow> u32 \<Rightarrow> u32 list" where
  "mulaw_rows [] offset = []"
| "mulaw_rows (b # bs) offset = mulaw_row 16 (push_bit 8 b) offset @ mulaw_rows bs (drop_bit 1 offset)"

text \<open>The A-law expansion of code \<open>i\<close> (sign bit clear) of ITU-T G.711, left-aligned in a
  24-bit word.\<close>

definition alaw_expand :: "nat \<Rightarrow> u32" where
  "alaw_expand i =
     (let a = of_nat i XOR 0x55 :: u32;
          t = push_bit 4 (a AND 0xf);
          seg = unat (drop_bit 4 (a AND 0x70))
      in push_bit 8 (if seg = 0 then t + 8 else push_bit (seg - 1) (t + 0x108)))"

lemma length_rom [simp]: "length x_rom = 256" "length y_rom = 256"
  by (simp_all add: x_rom_def y_rom_def)

lemma rom_words: "list_all (\<lambda>v. v < 0x1000000) x_rom" "list_all (\<lambda>v. v < 0x1000000) y_rom"
  by (simp_all add: x_rom_def y_rom_def)

text \<open>
  The X table is the output of the mu-law generator followed by the A-law expansion of the 128
  codes.
\<close>

theorem x_rom_companding:
  "x_rom = mulaw_rows mulaw_base 0x040000 @ map alaw_expand [0..<128]"
  by code_simp

text \<open>
  The Y table is one period of a sine: it starts at zero, rises over the first quarter, the
  second quarter mirrors the first, and the second half is the negation of the first, up to the
  saturation of +1.0 at entry 64.
\<close>

theorem y_rom_sine_symmetry:
  "list_all (\<lambda>i. y_rom ! (i + 128) = (if i = 64 then 0x800000 else (- (y_rom ! i)) AND 0xffffff)) [0..<128] \<and>
   list_all (\<lambda>i. y_rom ! (128 - i) = y_rom ! i) [0..<65] \<and> y_rom ! 0 = 0 \<and>
   list_all (\<lambda>i. y_rom ! i < y_rom ! (i + 1)) [0..<64]"
  by code_simp

end
