(* ===== verification/Dsp_Core.thy ===== *)
theory Dsp_Core
  imports Dsp_Rom
begin

text \<open>
  \<^verbatim>\<open>src/dsp_core.c\<close>: initialisation, shutdown and reset of the emulation, the thread
  wrappers, and the host port through which the 68040 and the DSP exchange bytes and words.
\<close>

section \<open>Thread wrappers\<close>

text \<open>
  \<^verbatim>\<open>dsp_core_init\<close> stores the \<^verbatim>\<open>...Thread\<close> or the
  \<^verbatim>\<open>...Null\<close> variants in the function pointers, by \<^verbatim>\<open>use_thread\<close>; the
  \<^verbatim>\<open>Null\<close> variants do nothing.
\<close>

definition lockMutex :: "dsp \<Rightarrow> dsp" where
  "lockMutex s = (if use_thread s then call LockMutex s else s)"

definition unlockMutex :: "dsp \<Rightarrow> dsp" where
  "unlockMutex s = (if use_thread s then call UnlockMutex s else s)"

definition pauseThread :: "dsp \<Rightarrow> dsp" where
  "pauseThread s = (if use_thread s then call PauseThread s else s)"

definition resumeThread :: "dsp \<Rightarrow> dsp" where
  "resumeThread s = (if use_thread s then call ResumeThread s else s)"

lemmas thread_defs = lockMutex_def unlockMutex_def pauseThread_def resumeThread_def

section \<open>Initialisation, shutdown, reset\<close>

text \<open>
  The \<^verbatim>\<open>memset\<close> clears the structure, the two \<^verbatim>\<open>memcpy\<close> fill the upper
  halves of the ROMs. The static variables of \<^verbatim>\<open>dsp_cpu.c\<close> keep their values.
\<close>

definition rom_image :: "u32 \<Rightarrow> u16 \<Rightarrow> u32" where
  "rom_image sp a =
     (if 0x100 \<le> a \<and> a < 0x200
      then (if sp = DSP_SPACE_X then x_rom ! unat (a - 0x100)
            else if sp = DSP_SPACE_Y then y_rom ! unat (a - 0x100) else 0)
      else 0)"

definition dsp_core_init :: "bool \<Rightarrow> dsp \<Rightarrow> dsp" where
  "dsp_core_init threaded s =
     s\<lparr>thread := False, semaphore := False, mutex := False, use_thread := threaded,
       running := False, pc := 0, registers := (\<lambda>_. 0), stack := (\<lambda>_ _. 0),
       ram := (\<lambda>_ _. 0), rom := rom_image, ramint := (\<lambda>_ _. 0), periph := (\<lambda>_ _. 0),
       hostport := (\<lambda>_. 0), loop_rep := 0, swi_inter := 0, bootstrap_pos := 0,
       interrupt_state := 0, interrupt_instr_fetch := 0, interrupt_save_pc := 0\<rparr>"

definition dsp_core_shutdown :: "dsp \<Rightarrow> dsp" where
  "dsp_core_shutdown s =
     (let s = s\<lparr>running := False\<rparr>;
          s = (if thread s then (call WaitThread (resumeThread s))\<lparr>thread := False\<rparr> else s);
          s = (if semaphore s then (call DestroySemaphore s)\<lparr>semaphore := False\<rparr> else s);
          s = (if mutex s then (call DestroyMutex s)\<lparr>mutex := False\<rparr> else s)
      in s)"

text \<open>
  The SDL constructors may fail: \<open>created c\<close> says whether the call \<open>c\<close> returns a
  non-null pointer.
\<close>

definition reset_registers :: "u32 \<Rightarrow> u32" where
  "reset_registers r =
     (if r = DSP_REG_OMR then 0x02
      else if DSP_REG_M0 \<le> r \<and> r < DSP_REG_M0 + 8 then 0x00ffff else 0)"

definition dsp_core_reset :: "(sdl_call \<Rightarrow> bool) \<Rightarrow> dsp \<Rightarrow> dsp" where
  "dsp_core_reset created s =
     (let s = dsp_core_shutdown s;
          s = s\<lparr>periph := (\<lambda>_ _. 0), stack := (\<lambda>_ _. 0), registers := reset_registers,
                bootstrap_pos := 0, pc := 0,
                interrupt_state := DSP_INTERRUPT_NONE, interrupt_instr_fetch := -1,
                interrupt_save_pc := -1, swi_inter := 0\<rparr>;
          s = set_periph DSP_SPACE_X DSP_HOST_HSR (shl1 DSP_HOST_HSR_HTDE) s;
          s = set_hostport CPU_HOST_CVR 0x12 s;
          s = set_hostport CPU_HOST_ISR
                (push_bit CPU_HOST_ISR_TRDY 1 OR push_bit CPU_HOST_ISR_TXDE 1) s;
          s = set_hostport CPU_HOST_IVR 0x0f s;
          s = set_periph DSP_SPACE_X DSP_IPR 0 s;
          s = set_periph DSP_SPACE_X DSP_BCR 0xffff s;
          s = s\<lparr>loop_rep := 0\<rparr>
      in if use_thread s
         then let s = (if \<not> semaphore s
                       then (call CreateSemaphore s)\<lparr>semaphore := created CreateSemaphore\<rparr> else s);
                  s = (if \<not> mutex s
                       then (call CreateMutex s)\<lparr>mutex := created CreateMutex\<rparr> else s);
                  s = (if \<not> thread s
                       then (call CreateThread s)\<lparr>thread := created CreateThread\<rparr> else s)
              in s
         else s)"

section \<open>Host port transfers\<close>

definition dsp_core_hostport_update_trdy :: "dsp \<Rightarrow> dsp" where
  "dsp_core_hostport_update_trdy s =
     (let s = and_hostport CPU_HOST_ISR (0xff - push_bit CPU_HOST_ISR_TRDY 1) s;
          trdy = drop_bit CPU_HOST_ISR_TXDE (ucast (hostport s CPU_HOST_ISR)) AND
                 NOT (drop_bit DSP_HOST_HSR_HRDF (periph s DSP_SPACE_X DSP_HOST_HSR)) :: u32
      in or_hostport CPU_HOST_ISR (ucast (push_bit CPU_HOST_ISR_TRDY (trdy AND 1))) s)"

definition dsp_core_dsp2host :: "dsp \<Rightarrow> dsp" where
  "dsp_core_dsp2host s =
     (if hostport s CPU_HOST_ISR AND push_bit CPU_HOST_ISR_RXDF 1 \<noteq> 0 then s
      else if periph s DSP_SPACE_X DSP_HOST_HSR AND shl1 DSP_HOST_HSR_HTDE \<noteq> 0 then s
      else
        let s = set_hostport CPU_HOST_RXL (ucast (periph s DSP_SPACE_X DSP_HOST_HTX)) s;
            s = set_hostport CPU_HOST_RXM (ucast (drop_bit 8 (periph s DSP_SPACE_X DSP_HOST_HTX))) s;
            s = set_hostport CPU_HOST_RXH (ucast (drop_bit 16 (periph s DSP_SPACE_X DSP_HOST_HTX))) s;
            s = or_periph DSP_SPACE_X DSP_HOST_HSR (shl1 DSP_HOST_HSR_HTDE) s
        in or_hostport CPU_HOST_ISR (push_bit CPU_HOST_ISR_RXDF 1) s)"

definition dsp_core_host2dsp :: "dsp \<Rightarrow> dsp" where
  "dsp_core_host2dsp s =
     (if hostport s CPU_HOST_ISR AND push_bit CPU_HOST_ISR_TXDE 1 \<noteq> 0 then s
      else if periph s DSP_SPACE_X DSP_HOST_HSR AND shl1 DSP_HOST_HSR_HRDF \<noteq> 0 then s
      else
        let s = set_periph DSP_SPACE_X DSP_HOST_HRX (ucast (hostport s CPU_HOST_TXL)) s;
            s = or_periph DSP_SPACE_X DSP_HOST_HRX (push_bit 8 (ucast (hostport s CPU_HOST_TXM))) s;
            s = or_periph DSP_SPACE_X DSP_HOST_HRX (push_bit 16 (ucast (hostport s CPU_HOST_TXH))) s;
            s = or_periph DSP_SPACE_X DSP_HOST_HSR (shl1 DSP_HOST_HSR_HRDF) s;
            s = or_hostport CPU_HOST_ISR (push_bit CPU_HOST_ISR_TXDE 1) s
        in dsp_core_hostport_update_trdy s)"

definition dsp_core_hostport_dspread :: "dsp \<Rightarrow> dsp" where
  "dsp_core_hostport_dspread s =
     (let s = and_periph DSP_SPACE_X DSP_HOST_HSR (0xff - shl1 DSP_HOST_HSR_HRDF) s;
          s = dsp_core_hostport_update_trdy s
      in dsp_core_host2dsp s)"

definition dsp_core_hostport_dspwrite :: "dsp \<Rightarrow> dsp" where
  "dsp_core_hostport_dspwrite s =
     (let s = and_periph DSP_SPACE_X DSP_HOST_HSR (0xff - shl1 DSP_HOST_HSR_HTDE) s
      in dsp_core_dsp2host s)"

definition dsp_core_hostport_cpuread :: "dsp \<Rightarrow> dsp" where
  "dsp_core_hostport_cpuread s =
     (let s = and_hostport CPU_HOST_ISR (0xff - push_bit CPU_HOST_ISR_RXDF 1) s
      in dsp_core_dsp2host s)"

definition dsp_core_hostport_cpuwrite :: "dsp \<Rightarrow> dsp" where
  "dsp_core_hostport_cpuwrite s =
     (let s = and_hostport CPU_HOST_ISR (0xff - push_bit CPU_HOST_ISR_TXDE 1) s;
          s = dsp_core_hostport_update_trdy s
      in dsp_core_host2dsp s)"

section \<open>Host accesses by the 68040\<close>

definition dsp_core_read_host :: "nat \<Rightarrow> dsp \<Rightarrow> u8 \<times> dsp" where
  "dsp_core_read_host addr s =
     (let s = lockMutex s;
          s = (if addr < 8 then s else out_of_bounds s);
          value = hostport s addr;
          s = (if addr = CPU_HOST_RXL then resumeThread (dsp_core_hostport_cpuread s) else s)
      in (value, unlockMutex s))"

text \<open>The cases of the \<^verbatim>\<open>switch\<close> in \<^verbatim>\<open>dsp_core_write_host\<close>.\<close>

definition write_host_ICR :: "u8 \<Rightarrow> dsp \<Rightarrow> dsp" where
  "write_host_ICR value s =
     (let s = set_hostport CPU_HOST_ICR (value AND 0xfb) s;
          s = and_periph DSP_SPACE_X DSP_HOST_HSR
                (0xff - (shl1 DSP_HOST_HSR_HF1 OR shl1 DSP_HOST_HSR_HF0)) s
      in or_periph DSP_SPACE_X DSP_HOST_HSR
           (ucast (hostport s CPU_HOST_ICR) AND (shl1 DSP_HOST_HSR_HF1 OR shl1 DSP_HOST_HSR_HF0)) s)"

definition write_host_CVR :: "u8 \<Rightarrow> dsp \<Rightarrow> dsp" where
  "write_host_CVR value s =
     (let s = set_hostport CPU_HOST_CVR (value AND 0x9f) s
      in if value AND push_bit 7 1 \<noteq> 0
         then resumeThread (or_periph DSP_SPACE_X DSP_HOST_HSR (shl1 DSP_HOST_HSR_HCP) s)
         else s)"

definition write_host_TXL :: "u8 \<Rightarrow> dsp \<Rightarrow> dsp" where
  "write_host_TXL value s =
     (let s = set_hostport CPU_HOST_TXL value s
      in if \<not> running s
         then let word = push_bit 16 (ucast (hostport s CPU_HOST_TXH)) OR
                         push_bit 8 (ucast (hostport s CPU_HOST_TXM)) OR
                         ucast (hostport s CPU_HOST_TXL);
                  s = (if bootstrap_pos s < 0x200
                       then set_ramint DSP_SPACE_P (bootstrap_pos s) word s
                       else out_of_bounds s);
                  s = s\<lparr>bootstrap_pos := bootstrap_pos s + 1\<rparr>
              in if bootstrap_pos s = 0x200
                 then resumeThread (s\<lparr>running := True\<rparr>) else s
         else resumeThread (dsp_core_hostport_cpuwrite s))"

definition dsp_core_write_host :: "nat \<Rightarrow> u8 \<Rightarrow> dsp \<Rightarrow> dsp" where
  "dsp_core_write_host addr value s =
     (let s = lockMutex s;
          s = (if addr = CPU_HOST_ICR then write_host_ICR value s
               else if addr = CPU_HOST_CVR then write_host_CVR value s
               else if addr = CPU_HOST_ISR \<or> addr = CPU_HOST_TX0 then s
               else if addr = CPU_HOST_IVR \<or> addr = CPU_HOST_TXH \<or> addr = CPU_HOST_TXM
               then set_hostport addr value s
               else if addr = CPU_HOST_TXL then write_host_TXL value s
               else s)
      in unlockMutex s)"

lemmas host_transfer_defs =
  dsp_core_hostport_update_trdy_def dsp_core_dsp2host_def dsp_core_host2dsp_def
  dsp_core_hostport_dspread_def dsp_core_hostport_dspwrite_def
  dsp_core_hostport_cpuread_def dsp_core_hostport_cpuwrite_def

end
