(* ===== verification/Dsp_Memory.thy ===== *)
theory Dsp_Memory
  imports Dsp_Core
begin

text \<open>
  Memory accesses and the hardware stack of \<^verbatim>\<open>src/dsp_cpu.c\<close>. On the Falcon the
  external X, Y and P memories are the same RAM; the peripheral page at \<^verbatim>\<open>0xffc0\<close>
  holds the host port.
\<close>

section \<open>Reading and writing memory\<close>

definition read_memory_p :: "dsp \<Rightarrow> u16 \<Rightarrow> u32" where
  "read_memory_p s address =
     (if address < 0x200 then ramint s DSP_SPACE_P address AND BITMASK 24
      else ram s DSP_SPACE_P (address AND (DSP_RAMSIZE - 1)) AND BITMASK 24)"

definition omr_de :: "dsp \<Rightarrow> bool" where
  "omr_de s \<longleftrightarrow> registers s DSP_REG_OMR AND shl1 DSP_OMR_DE \<noteq> 0"

definition read_memory :: "u32 \<Rightarrow> u16 \<Rightarrow> dsp \<Rightarrow> u32 \<times> dsp" where
  "read_memory space address s =
     (if address < 0x100 then (ramint s space address AND BITMASK 24, s)
      else if space = DSP_SPACE_P then (read_memory_p s address, s)
      else if omr_de s \<and> address < 0x200 then (rom s space address AND BITMASK 24, s)
      else if 0xffc0 \<le> address
      then let s = lockMutex s;
               s = (if space = DSP_SPACE_X \<and> address = 0xffc0 + DSP_HOST_HRX
                    then dsp_core_hostport_dspread s else s);
               value = periph s space (address - 0xffc0) AND BITMASK 24
           in (value, unlockMutex s)
      else let address = (if space = DSP_SPACE_X then address + drop_bit 1 DSP_RAMSIZE else address)
           in (ram s DSP_SPACE_P (address AND (DSP_RAMSIZE - 1)) AND BITMASK 24, s))"

text \<open>The peripheral \<^verbatim>\<open>switch\<close> of \<^verbatim>\<open>write_memory_raw\<close>, X space.\<close>

definition write_periph_x :: "u16 \<Rightarrow> u32 \<Rightarrow> dsp \<Rightarrow> dsp" where
  "write_periph_x i value s =
     (if i = DSP_HOST_HTX
      then dsp_core_hostport_dspwrite (set_periph DSP_SPACE_X DSP_HOST_HTX value s)
      else if i = DSP_HOST_HCR
      then let s = set_periph DSP_SPACE_X DSP_HOST_HCR value s;
               s = and_hostport CPU_HOST_ISR
                     (ucast (BITMASK 8 - (shl1 CPU_HOST_ISR_HF3 OR shl1 CPU_HOST_ISR_HF2))) s
           in or_hostport CPU_HOST_ISR
                (ucast (periph s DSP_SPACE_X DSP_HOST_HCR AND
                        (shl1 CPU_HOST_ISR_HF3 OR shl1 CPU_HOST_ISR_HF2))) s
      else if i = DSP_HOST_HSR then s
      else set_periph DSP_SPACE_X i value s)"

definition write_ram :: "u16 \<Rightarrow> u32 \<Rightarrow> dsp \<Rightarrow> dsp" where
  "write_ram address value s = set_ram DSP_SPACE_P (address AND (DSP_RAMSIZE - 1)) value s"

definition write_memory_raw :: "u32 \<Rightarrow> u16 \<Rightarrow> u32 \<Rightarrow> dsp \<Rightarrow> dsp" where
  "write_memory_raw space address value s =
     (let value = value AND BITMASK 24
      in if address < 0x100 then set_ramint space address value s
         else if space = DSP_SPACE_X
         then (if omr_de s \<and> address < 0x200 then s
               else if 0xffc0 \<le> address
               then unlockMutex (write_periph_x (address - 0xffc0) value (lockMutex s))
               else write_ram (address + drop_bit 1 DSP_RAMSIZE) value s)
         else if space = DSP_SPACE_Y
         then (if omr_de s \<and> address < 0x200 then s
               else if 0xffc0 \<le> address then set_periph DSP_SPACE_Y (address - 0xffc0) value s
               else write_ram address value s)
         else if space = DSP_SPACE_P
         then (if address < 0x200 then set_ramint DSP_SPACE_P address value s
               else write_ram address value s)
         else write_ram address value s)"

abbreviation write_memory :: "u32 \<Rightarrow> u16 \<Rightarrow> u32 \<Rightarrow> dsp \<Rightarrow> dsp" where
  "write_memory \<equiv> write_memory_raw"

section \<open>The hardware stack\<close>

text \<open>
  \<^verbatim>\<open>stack[2][15]\<close>: an index of 15 or more is outside the array.
\<close>

definition dsp_stack_push :: "u32 \<Rightarrow> u32 \<Rightarrow> dsp \<Rightarrow> dsp" where
  "dsp_stack_push curpc cursr s =
     (if registers s DSP_REG_SP = 0x0f then pauseThread s
      else
        let s = set_reg DSP_REG_SP (registers s DSP_REG_SP + 1) s;
            s = set_reg DSP_REG_SSH (registers s DSP_REG_SSH + 1) s;
            s = set_reg DSP_REG_SSL (registers s DSP_REG_SSL + 1) s;
            s = (if registers s DSP_REG_SSH < 15
                 then set_stack 0 (registers s DSP_REG_SSH) (ucast curpc) s else out_of_bounds s)
        in (if registers s DSP_REG_SSL < 15
            then set_stack 1 (registers s DSP_REG_SSL) (ucast cursr) s else out_of_bounds s))"

text \<open>
  The two pointer arguments of \<^verbatim>\<open>dsp_stack_pop\<close> are written only when the stack is
  not empty: the result is \<open>None\<close> when nothing is written.
\<close>

definition dsp_stack_pop :: "dsp \<Rightarrow> (u32 \<times> u32) option \<times> dsp" where
  "dsp_stack_pop s =
     (if registers s DSP_REG_SP = 0 then (None, pauseThread s)
      else
        let newpc = ucast (stack s 0 (registers s DSP_REG_SSH));
            newsr = ucast (stack s 1 (registers s DSP_REG_SSL));
            s = (if registers s DSP_REG_SSH < 15 \<and> registers s DSP_REG_SSL < 15
                 then s else out_of_bounds s);
            s = set_reg DSP_REG_SP (registers s DSP_REG_SP - 1) s;
            s = set_reg DSP_REG_SSH (registers s DSP_REG_SSH - 1) s;
            s = set_reg DSP_REG_SSL (registers s DSP_REG_SSL - 1) s
        in (Some (newpc, newsr), s))"

text \<open>\<^verbatim>\<open>dsp_stack_pop(&a, &registers[r])\<close> where \<open>a\<close> is a register, or a local
  variable that the caller does not read (\<open>None\<close>).\<close>

definition stack_pop_into :: "u32 option \<Rightarrow> u32 \<Rightarrow> dsp \<Rightarrow> dsp" where
  "stack_pop_into rpc rsr s =
     (case dsp_stack_pop s of
        (None, s) \<Rightarrow> s
      | (Some (newpc, newsr), s) \<Rightarrow>
          set_reg rsr newsr (case rpc of None \<Rightarrow> s | Some r \<Rightarrow> set_reg r newpc s))"

section \<open>Specification\<close>

text \<open>The addresses that are RAM: not the peripheral page, and not the ROM while it is enabled.\<close>

definition is_ram :: "u32 \<Rightarrow> u16 \<Rightarrow> dsp \<Rightarrow> bool" where
  "is_ram sp a s \<longleftrightarrow> sp = DSP_SPACE_P \<or>
     (sp = DSP_SPACE_X \<or> sp = DSP_SPACE_Y) \<and> a < 0xffc0 \<and> \<not> (omr_de s \<and> 0x100 \<le> a \<and> a < 0x200)"

text \<open>
  The physical location of an address: a word of one of the three internal memories, or a word of the
  external RAM that the three spaces share, X shifted by half its size.
\<close>

definition physical :: "u32 \<Rightarrow> u16 \<Rightarrow> (u32 \<times> u16) + u16" where
  "physical sp a =
     (if a < 0x100 \<or> sp = DSP_SPACE_P \<and> a < 0x200 then Inl (sp, a)
      else Inr ((if sp = DSP_SPACE_X then a + 0x4000 else a) AND 0x7fff))"

definition cell :: "dsp \<Rightarrow> (u32 \<times> u16) + u16 \<Rightarrow> u32" where
  "cell s l = (case l of Inl (sp, a) \<Rightarrow> ramint s sp a | Inr a \<Rightarrow> ram s DSP_SPACE_P a)"

text \<open>The three stack registers agree on the level \<open>n\<close>.\<close>

definition stack_level :: "nat \<Rightarrow> dsp \<Rightarrow> bool" where
  "stack_level n s \<longleftrightarrow> registers s DSP_REG_SP = of_nat n \<and> registers s DSP_REG_SSH = of_nat n \<and>
     registers s DSP_REG_SSL = of_nat n"

section \<open>Properties\<close>

lemma read_ram: "is_ram sp a s \<Longrightarrow> read_memory sp a s = (cell s (physical sp a) AND BITMASK 24, s)"
  by (auto simp: is_ram_def physical_def cell_def read_memory_def read_memory_p_def Let_def split: if_splits)

lemma write_ram_eq:
  "is_ram sp a s \<Longrightarrow> write_memory sp a v s =
     (case physical sp a of
        Inl (sp, a) \<Rightarrow> set_ramint sp a (v AND BITMASK 24) s
      | Inr a \<Rightarrow> set_ram DSP_SPACE_P a (v AND BITMASK 24) s)"
  by (auto simp: is_ram_def physical_def write_memory_raw_def write_ram_def Let_def split: if_splits)

lemma write_ram_cell:
  assumes "is_ram sp a s"
  shows "cell (write_memory sp a v s) = (cell s)(physical sp a := v AND BITMASK 24)"
    and "is_ram sp' a' (write_memory sp a v s) = is_ram sp' a' s"
  unfolding write_ram_eq [OF assms]
  by (simp_all add: cell_def is_ram_def omr_de_def fun_eq_iff split: sum.split)

text \<open>
  C20. X, Y and P are views of one memory: a write to a RAM address changes what is read at exactly
  the addresses with the same physical location, in whichever of the three spaces, and what is read
  there is the value written, cut to 24 bits.
\<close>

theorem write_read_memory:
  assumes "is_ram sp a s" and "is_ram sp' a' s"
  shows "fst (read_memory sp' a' (write_memory sp a v s)) =
     (if physical sp' a' = physical sp a then v AND BITMASK 24 else fst (read_memory sp' a' s))"
  using assms by (simp add: read_ram write_ram_cell and.assoc)

theorem write_read_memory_witness:
  "fst (read_memory DSP_SPACE_P 0x4300 (write_memory DSP_SPACE_X 0x300 0x5000005 static_storage)) = 5 \<and>
   fst (read_memory DSP_SPACE_Y 0x300 (write_memory DSP_SPACE_X 0x300 0x5000005 static_storage)) = 0"
  using write_read_memory [of DSP_SPACE_X "0x300" static_storage DSP_SPACE_P "0x4300" "0x5000005"]
    write_read_memory [of DSP_SPACE_X "0x300" static_storage DSP_SPACE_Y "0x300" "0x5000005"]
  by (simp add: is_ram_def omr_de_def physical_def read_memory_def static_storage_def)

lemma stack_index: "n < 14 \<Longrightarrow> (of_nat n :: u32) \<noteq> 15 \<and> (of_nat n :: u32) + 1 < 15 \<and> (of_nat n :: u32) + 1 \<noteq> 0"
proof -
  assume n: "n < 14"
  have u: "unat (of_nat m :: u32) = m" if "m < 15" for m
    using that by (simp add: unsigned_of_nat take_bit_nat_eq_self)
  have "(of_nat n :: u32) + 1 = of_nat (Suc n)" by simp
  moreover have "unat (15 :: u32) = 15" "unat (0 :: u32) = 0" by simp_all
  ultimately show ?thesis
    unfolding word_less_nat_alt using u [of n] u [of "Suc n"] n by (auto simp del: of_nat_Suc)
qed

text \<open>
  The hardware stack is a stack: with the three stack registers at level \<open>n\<close>, a push followed by
  a pop returns the pushed program counter and status register and restores the registers, as long as
  the push stays inside the array.
\<close>

theorem stack_push_pop:
  assumes "stack_level n s" and "n < 14"
  shows "case dsp_stack_pop (dsp_stack_push p r s) of
     (popped, t) \<Rightarrow> popped = Some (p AND BITMASK 16, r AND BITMASK 16) \<and> registers t = registers s \<and>
       stack_level (Suc n) (dsp_stack_push p r s) \<and> ub t = ub s"
proof -
  have n: "(of_nat n :: u32) \<noteq> 15" "(of_nat n :: u32) + 1 < 15" "(of_nat n :: u32) + 1 \<noteq> 0"
    using stack_index [OF assms(2)] by blast+
  have c: "ucast (ucast x :: u16) = x AND BITMASK 16" for x :: u32
    by (rule bit_eqI) (auto simp: BITMASK_eq_mask bit_simps simp del: BITMASK_numeral)
  have r: "(registers s)(DSP_REG_SP := of_nat n, DSP_REG_SSH := of_nat n, DSP_REG_SSL := of_nat n) = registers s"
    using assms(1) by (simp add: stack_level_def fun_eq_iff)
  show ?thesis
    using assms n by (simp add: stack_level_def dsp_stack_push_def dsp_stack_pop_def Let_def c r)
qed

theorem stack_push_pop_witness:
  "case dsp_stack_pop (dsp_stack_push 0x123 0x300 static_storage) of
     (popped, t) \<Rightarrow> popped = Some (0x123, 0x300) \<and> registers t = registers static_storage \<and> \<not> ub t"
  using stack_push_pop [of 0 static_storage "0x123" "0x300"]
  by (auto simp: stack_level_def static_storage_def)



end
