(* ===== verification/Dsp_Address.thy ===== *)
theory Dsp_Address
  imports Dsp_Memory
begin

text \<open>
  Effective addresses of \<^verbatim>\<open>src/dsp_cpu.c\<close>: the update of an address register in linear,
  modulo and bit-reversed mode, and the eight addressing modes. The signed 16-bit variables of the
  code are 16-bit words, read with \<open>sint\<close> where the code compares them.
\<close>

section \<open>Bit-reversed update\<close>

function revbits_loop :: "u32 \<Rightarrow> nat \<Rightarrow> nat" where
  "revbits_loop value revbits =
     (if revbits < 16
      then if value AND shl1 revbits \<noteq> 0 then revbits else revbits_loop value (revbits + 1)
      else revbits)"
  by auto
termination by (relation "measure (\<lambda>(_, n). 16 - n)") auto

declare revbits_loop.simps [simp del]

text \<open>The \<^verbatim>\<open>for\<close> loop that appears twice in the code.\<close>

definition reverse_loop :: "nat \<Rightarrow> u32 \<Rightarrow> u32 \<Rightarrow> u32" where
  "reverse_loop revbits r_reg value =
     fold (\<lambda>i value. if r_reg AND shl1 i \<noteq> 0 then value OR shl1 (revbits - i - 1) else value)
       [0..<revbits] value"

definition dsp_update_rn_bitreverse :: "u32 \<Rightarrow> dsp \<Rightarrow> dsp" where
  "dsp_update_rn_bitreverse numreg s =
     (let revbits = revbits_loop (registers s (DSP_REG_N0 + numreg)) 0 + 1;
          r_reg = registers s (DSP_REG_R0 + numreg);
          value = reverse_loop revbits r_reg (r_reg AND (BITMASK 16 - BITMASK revbits));
          value = (value + 1) AND BITMASK revbits;
          r_reg = (r_reg AND (BITMASK 16 - BITMASK revbits)) OR value;
          value = reverse_loop revbits r_reg (r_reg AND (BITMASK 16 - BITMASK revbits))
      in set_reg (DSP_REG_R0 + numreg) value s)"

section \<open>Modulo update\<close>

definition modulo_bufsize :: "u16 \<Rightarrow> u16 \<times> u16" where
  "modulo_bufsize mdl =
     while (\<lambda>(bufsize, bufmask). bufsize < mdl)
       (\<lambda>(bufsize, bufmask). (push_bit 1 bufsize, push_bit 1 bufmask)) (1, ucast (BITMASK 16))"

definition modulo_wrap_up :: "u16 \<Rightarrow> u16 \<times> u16 \<Rightarrow> u16 \<times> u16" where
  "modulo_wrap_up bufsize =
     while (\<lambda>(r_reg, modifier). uint bufsize < sint modifier)
       (\<lambda>(r_reg, modifier). (r_reg + bufsize, modifier - bufsize))"

definition modulo_wrap_down :: "u16 \<Rightarrow> u16 \<times> u16 \<Rightarrow> u16 \<times> u16" where
  "modulo_wrap_down bufsize =
     while (\<lambda>(r_reg, modifier). sint modifier < - uint bufsize)
       (\<lambda>(r_reg, modifier). (r_reg - bufsize, modifier + bufsize))"

definition dsp_update_rn_modulo :: "u32 \<Rightarrow> u16 \<Rightarrow> dsp \<Rightarrow> dsp" where
  "dsp_update_rn_modulo numreg modifier s =
     (let orig_modifier = modifier;
          mdl = ucast (registers s (DSP_REG_M0 + numreg) + 1) :: u16;
          (bufsize, bufmask) = modulo_bufsize mdl;
          lobound = ucast (registers s (DSP_REG_R0 + numreg) AND ucast bufmask) :: u16;
          hibound = lobound + mdl - 1;
          r_reg = ucast (registers s (DSP_REG_R0 + numreg)) :: u16;
          (r_reg, modifier) =
            (if uint mdl < sint orig_modifier
             then modulo_wrap_down bufsize (modulo_wrap_up bufsize (r_reg, modifier))
             else (r_reg, modifier));
          r_reg = r_reg + modifier;
          r_reg = (if sint orig_modifier \<noteq> uint mdl
                   then if uint hibound < sint r_reg then r_reg - mdl
                        else if sint r_reg < uint lobound then r_reg + mdl else r_reg
                   else r_reg)
      in set_reg (DSP_REG_R0 + numreg) (scast r_reg AND BITMASK 16) s)"

section \<open>Update of an address register\<close>

definition dsp_update_rn :: "u32 \<Rightarrow> u16 \<Rightarrow> dsp \<Rightarrow> dsp" where
  "dsp_update_rn numreg modifier s =
     (let m_reg = ucast (registers s (DSP_REG_M0 + numreg)) :: u16
      in if m_reg = 0 then dsp_update_rn_bitreverse numreg s
         else if 1 \<le> m_reg \<and> m_reg \<le> 32767 then dsp_update_rn_modulo numreg modifier s
         else if m_reg = 65535
         then let value = ucast (registers s (DSP_REG_R0 + numreg)) :: u16;
                  value = value + modifier
              in set_reg (DSP_REG_R0 + numreg) (scast value AND BITMASK 16) s
         else s)"

section \<open>Addressing modes\<close>

text \<open>
  The result is the return value (\<open>True\<close>: \<open>dst_addr\<close> is an immediate value), the
  address, and the new state.
\<close>

definition dsp_calc_ea :: "u32 \<Rightarrow> dsp \<Rightarrow> bool \<times> u32 \<times> dsp" where
  "dsp_calc_ea ea_mode s =
     (let value = drop_bit 3 ea_mode AND BITMASK 3;
          numreg = ea_mode AND BITMASK 3;
          rn = registers s (DSP_REG_R0 + numreg);
          nn = registers s (DSP_REG_N0 + numreg)
      in if value = 0 then (False, rn, dsp_update_rn numreg (ucast (- nn)) s)
         else if value = 1 then (False, rn, dsp_update_rn numreg (ucast nn) s)
         else if value = 2 then (False, rn, dsp_update_rn numreg (- 1) s)
         else if value = 3 then (False, rn, dsp_update_rn numreg 1 s)
         else if value = 4 then (False, rn, s)
         else if value = 5
         then let curreg = rn;
                  s = dsp_update_rn numreg (ucast nn) s;
                  dst_addr = registers s (DSP_REG_R0 + numreg)
              in (False, dst_addr, set_reg (DSP_REG_R0 + numreg) curreg s)
         else if value = 6
         then let dst_addr = read_memory_p s (pc s + 1);
                  s = s\<lparr>cur_inst_len := cur_inst_len s + 1\<rparr>
              in (numreg \<noteq> 0, dst_addr, s)
         else let s = dsp_update_rn numreg (- 1) s
              in (False, registers s (DSP_REG_R0 + numreg), s))"

section \<open>Reference definitions\<close>

text \<open>The state of the loop of \<^verbatim>\<open>dsp_update_rn_modulo\<close> after \<open>j\<close> iterations.\<close>

definition bufsize_step :: "nat \<Rightarrow> u16 \<times> u16" where
  "bufsize_step j = (2 ^ j, - (2 ^ j))"

text \<open>
  Address register \<open>numreg\<close> points into a modulo buffer of \<open>m\<close> words that starts at
  \<open>L\<close>, in the lower half of the address space, aligned to the next power of two.
\<close>

definition in_buffer :: "int \<Rightarrow> int \<Rightarrow> u32 \<Rightarrow> dsp \<Rightarrow> bool" where
  "in_buffer L m numreg s \<longleftrightarrow>
     uint (registers s (DSP_REG_M0 + numreg)) = m - 1 \<and> 2 \<le> m \<and> 0 \<le> L \<and> L + m \<le> 0x8000 \<and>
     L \<le> uint (registers s (DSP_REG_R0 + numreg)) \<and> uint (registers s (DSP_REG_R0 + numreg)) < L + m \<and>
     (\<forall>k. 2 ^ k < 2 * m \<longrightarrow> 2 ^ k dvd L)"

text \<open>The index that the low \<open>k\<close> bits of \<open>x\<close> spell when they are read backwards.\<close>

definition rev_index :: "nat \<Rightarrow> u32 \<Rightarrow> int" where
  "rev_index k x = horner_sum of_bool 2 (map (\<lambda>n. bit x (k - 1 - n)) [0..<k])"

section \<open>The loop of the modulo update\<close>

lemma bufsize_step_Suc: "bufsize_step (Suc j) = (push_bit 1 (fst (bufsize_step j)), push_bit 1 (snd (bufsize_step j)))"
  by (simp add: bufsize_step_def push_bit_eq_mult)

lemma bufsize_loop:
  assumes "\<And>i. j \<le> i \<Longrightarrow> i < k \<Longrightarrow> (2 ^ i :: u16) < mdl" "\<not> (2 ^ k :: u16) < mdl" "j \<le> k"
  shows "while_option (\<lambda>(bufsize, bufmask). bufsize < mdl)
      (\<lambda>(bufsize, bufmask). (push_bit 1 bufsize, push_bit 1 bufmask)) (bufsize_step j) = Some (bufsize_step k)"
  using assms
proof (induction "k - j" arbitrary: j)
  case 0
  then show ?case by (subst while_option_unfold) (simp add: bufsize_step_def)
next
  case (Suc d)
  then have "while_option (\<lambda>(bufsize, bufmask). bufsize < mdl)
      (\<lambda>(bufsize, bufmask). (push_bit 1 bufsize, push_bit 1 bufmask)) (bufsize_step (Suc j)) = Some (bufsize_step k)"
    by (intro Suc.hyps(1)) auto
  moreover have "(2 ^ j :: u16) < mdl" using Suc.hyps(2) Suc.prems(1) [of j] by simp
  ultimately show ?case
    by (subst while_option_unfold) (simp add: bufsize_step_Suc, simp add: bufsize_step_def)
qed

lemma bufsize_exponent:
  assumes "0 < mdl" "mdl \<le> 0x8000"
  obtains k where "k \<le> 15" "mdl \<le> 2 ^ k" "\<And>j. j < k \<Longrightarrow> 2 ^ j < (mdl :: u16)"
proof -
  define k where "k = (LEAST k. unat mdl \<le> 2 ^ k)"
  have top: "unat mdl \<le> 2 ^ 15" using assms(2) by (simp add: word_le_nat_alt)
  then have "unat mdl \<le> 2 ^ k" unfolding k_def by (rule LeastI)
  moreover have k: "k \<le> 15" unfolding k_def using top by (rule Least_le)
  moreover have "2 ^ j < unat mdl" if "j < k" for j
    using not_less_Least [of j "\<lambda>k. unat mdl \<le> 2 ^ k"] that unfolding k_def by simp
  ultimately show thesis
    by (intro that [of k]) (simp_all add: word_le_nat_alt word_less_nat_alt pow2_u16)
qed

text \<open>
  C22. The loop that computes the buffer size of the modulo addressing ends, for every modulus that
  \<^verbatim>\<open>dsp_update_rn\<close> passes to it, with the least power of two that is at least the modulus and the
  mask that clears the bits below it.
\<close>

theorem modulo_bufsize_terminates:
  fixes mdl :: u16
  assumes "0 < mdl" and "mdl \<le> 0x8000"
  shows "\<exists>k \<le> 15. while_option (\<lambda>(bufsize, bufmask). bufsize < mdl)
      (\<lambda>(bufsize, bufmask). (push_bit 1 bufsize, push_bit 1 bufmask)) (1, ucast (BITMASK 16)) =
        Some (modulo_bufsize mdl) \<and>
      modulo_bufsize mdl = (2 ^ k, - (2 ^ k)) \<and> mdl \<le> 2 ^ k \<and> (\<forall>j < k. 2 ^ j < mdl)"
proof -
  from bufsize_exponent [OF assms] obtain k
    where k: "k \<le> 15" "mdl \<le> 2 ^ k" "\<And>j. j < k \<Longrightarrow> 2 ^ j < mdl" by blast
  have "bufsize_step 0 = (1, ucast (BITMASK 16))"
    by (simp add: bufsize_step_def)
  then have L: "while_option (\<lambda>(bufsize, bufmask). bufsize < mdl)
      (\<lambda>(bufsize, bufmask). (push_bit 1 bufsize, push_bit 1 bufmask)) (1, ucast (BITMASK 16)) = Some (bufsize_step k)"
    using k bufsize_loop [of 0 k mdl] by (simp only: not_less le0 simp_thms)
  then have "modulo_bufsize mdl = bufsize_step k"
    by (simp only: modulo_bufsize_def while_def option.sel)
  with L k show ?thesis
    by (intro exI [of _ k]) (simp only: bufsize_step_def simp_thms, blast)
qed

theorem modulo_bufsize_terminates_witness:
  "\<exists>k \<le> 15. modulo_bufsize 5 = (2 ^ k, - (2 ^ k)) \<and> 5 \<le> (2 ^ k :: u16)"
  using modulo_bufsize_terminates [of 5] by auto

section \<open>Modulo addressing\<close>

lemma ucast_and_ucast: "(ucast (x AND ucast m) :: u16) = ucast x AND m" for x :: u32
  by (rule bit_word_eqI) (simp add: bit_simps)

lemma scast_masked: "scast r AND BITMASK 16 = (ucast r :: u32)" for r :: u16
proof (rule bit_word_eqI)
  fix n
  show "bit (scast r AND BITMASK 16) n = bit (ucast r :: u32) n"
    unfolding BITMASK_eq_mask
    by (cases "n < 15"; cases "n = 15") (auto simp: bit_simps min_def dest: bit_imp_le_length)
qed

lemma uint_and_neg_power: "uint (r AND - (2 ^ k)) = uint r - uint r mod 2 ^ k" for r :: "'a::len word"
proof -
  have "r AND - (2 ^ k) = r AND NOT (mask k)" by (simp add: minus_exp_eq_not_mask)
  also have "\<dots> = push_bit k (drop_bit k r)" by (rule bit_word_eqI) (auto simp: bit_simps)
  also have "uint \<dots> = (uint r div 2 ^ k * 2 ^ k) mod 2 ^ LENGTH('a)" by (simp add: uint_simps)
  also have "uint r div 2 ^ k * 2 ^ k = uint r - uint r mod 2 ^ k" by (simp add: minus_mod_eq_div_mult)
  also have "(uint r - uint r mod 2 ^ k) mod 2 ^ LENGTH('a) = uint r - uint r mod 2 ^ k"
  proof (rule mod_pos_pos_trivial)
    show "0 \<le> uint r - uint r mod 2 ^ k" using zmod_le_nonneg_dividend [of "uint r" "2 ^ k"] by simp
    have "uint r - uint r mod 2 ^ k \<le> uint r" by simp
    then show "uint r - uint r mod 2 ^ k < 2 ^ LENGTH('a)"
      using unsigned_less [of r, where 'a = int] by linarith
  qed
  finally show ?thesis .
qed

lemma sint_add_exact: "- 0x8000 \<le> sint x + sint y \<Longrightarrow> sint x + sint y < 0x8000 \<Longrightarrow> sint (x + y :: u16) = sint x + sint y"
  by (simp add: sint_word_ariths signed_take_bit_int_eq_self)

lemma sint_small: "uint x < 0x8000 \<Longrightarrow> sint x = uint x" "0 \<le> sint x \<Longrightarrow> uint x = sint x" for x :: u16
  using unsigned_less [of x, where 'a = int] by (auto simp: sint_uint_if split: if_splits)

lemma uint_of_int_u16: "x = word_of_int v \<Longrightarrow> 0 \<le> v \<Longrightarrow> v < 0x10000 \<Longrightarrow> uint x = v" for x :: u16
  by (simp add: unsigned_of_int take_bit_int_eq_self)

lemma uint_ucast_u32: "uint (ucast x :: u32) = uint x" for x :: u16
  using unsigned_less [of x, where 'a = int] by (simp add: unsigned_ucast_eq take_bit_int_eq_self_iff)

lemma bufsize_unique:
  assumes "0 < mdl" "mdl \<le> 0x8000" "mdl \<le> 2 ^ k" "\<And>j. j < k \<Longrightarrow> 2 ^ j < mdl" "k \<le> 15"
  shows "modulo_bufsize mdl = (2 ^ k, - (2 ^ k))"
proof -
  have "while_option (\<lambda>(bufsize, bufmask). bufsize < mdl)
      (\<lambda>(bufsize, bufmask). (push_bit 1 bufsize, push_bit 1 bufmask)) (bufsize_step 0) = Some (bufsize_step k)"
    using assms bufsize_loop [of 0 k mdl] by (simp only: not_less le0 simp_thms)
  moreover have "bufsize_step 0 = (1, ucast (BITMASK 16))" by (simp add: bufsize_step_def)
  ultimately show ?thesis by (simp only: modulo_bufsize_def while_def option.sel bufsize_step_def)
qed

text \<open>One modulo update on 16-bit words: base \<open>l\<close>, modulus \<open>mdl\<close>, register \<open>r\<close>, modifier \<open>n\<close>.\<close>

lemma modulo_step:
  fixes l mdl r n :: u16
  assumes "uint l + uint mdl \<le> 0x8000" "uint l \<le> uint r" "uint r < uint l + uint mdl"
    "- uint mdl \<le> sint n" "sint n < uint mdl" "uint r + sint n < 0x8000"
  defines "r' \<equiv> if uint (l + mdl - 1) < sint (r + n) then r + n - mdl
                 else if sint (r + n) < uint l then r + n + mdl else r + n"
  shows "uint r' = uint l + (uint r - uint l + sint n) mod uint mdl"
proof -
  define L m R where "L = uint l" and "m = uint mdl" and "R = uint r"
  note d = L_def m_def R_def
  have b: "0 \<le> L" "0 < m" "m \<le> 0x8000" "R < 0x8000" using assms(1-3) uint_ge_0 [of l] uint_ge_0 [of mdl] unfolding d by linarith+
  note a = assms(1-6) [folded d]
  have hi: "uint (l + mdl - 1) = L + m - 1"
    using b a(1) by (intro uint_of_int_u16) (simp add: d, linarith+)
  have "sint r = R" using b(4) unfolding d by (rule sint_small)
  then have rn: "sint (r + n) = R + sint n"
    using a b by (subst sint_add_exact) linarith+
  consider (above) "L + m - 1 < R + sint n" | (below) "R + sint n < L"
    | (inside) "L \<le> R + sint n" "R + sint n \<le> L + m - 1" by linarith
  then show ?thesis
  proof cases
    case above
    have "(R - L + sint n) mod m = (R - L + sint n - m) mod m" by simp
    also have "\<dots> = R - L + sint n - m"
      using above assms(1-6) b unfolding d by (intro mod_pos_pos_trivial) linarith+
    finally have "(R - L + sint n) mod m = R - L + sint n - m" .
    moreover have "r' = r + n - mdl" using above by (simp add: r'_def hi rn)
    moreover have "uint (r + n - mdl) = R + sint n - m"
      using above a b by (intro uint_of_int_u16) (simp add: d, linarith+)
    ultimately show ?thesis by (simp add: d)
  next
    case below
    have "(R - L + sint n) mod m = (R - L + sint n + m) mod m" by simp
    also have "\<dots> = R - L + sint n + m"
      using below assms(1-6) b unfolding d by (intro mod_pos_pos_trivial) linarith+
    finally have "(R - L + sint n) mod m = R - L + sint n + m" .
    moreover have "r' = r + n + mdl" using below b by (simp add: r'_def hi rn d)
    moreover have "uint (r + n + mdl) = R + sint n + m"
      using below a b by (intro uint_of_int_u16) (simp add: d, linarith+)
    ultimately show ?thesis by (simp add: d)
  next
    case inside
    then have "r' = r + n" by (simp add: r'_def hi rn d)
    moreover have "(R - L + sint n) mod m = R - L + sint n"
      using inside by (intro mod_pos_pos_trivial) linarith+
    moreover have "uint (r + n) = R + sint n"
      using inside a b by (intro uint_of_int_u16) (simp add: d, linarith+)
    ultimately show ?thesis by (simp add: d)
  qed
qed

lemma in_buffer_bufsize:
  assumes "in_buffer L m numreg s"
  defines "mdl \<equiv> ucast (registers s (DSP_REG_M0 + numreg) + 1) :: u16"
    and "R \<equiv> registers s (DSP_REG_R0 + numreg)"
  shows "uint mdl = m" "uint (ucast R :: u16) = uint R"
    "uint (ucast (R AND ucast (snd (modulo_bufsize mdl))) :: u16) = L"
proof -
  let ?M = "registers s (DSP_REG_M0 + numreg)"
  have M: "uint ?M = m - 1" "2 \<le> m" "L + m \<le> 0x8000" "0 \<le> L" "L \<le> uint R" "uint R < L + m"
    using assms(1) unfolding in_buffer_def R_def by blast+
  have "uint (?M + 1) = m" using M by (simp add: uint_word_ariths mod_pos_pos_trivial)
  then show m: "uint mdl = m"
    using M by (simp add: mdl_def unsigned_ucast_eq take_bit_int_eq_self)
  show R: "uint (ucast R :: u16) = uint R"
    using M by (simp add: unsigned_ucast_eq take_bit_int_eq_self)
  have "0 < mdl" "mdl \<le> 0x8000" using m M by (simp_all add: word_less_def word_le_def)
  from bufsize_exponent [OF this] obtain k where
    k: "k \<le> 15" "mdl \<le> 2 ^ k" "\<And>j. j < k \<Longrightarrow> 2 ^ j < mdl" by blast
  have b: "snd (modulo_bufsize mdl) = - (2 ^ k)"
    using bufsize_unique [OF \<open>0 < mdl\<close> \<open>mdl \<le> 0x8000\<close> k(2,3,1)] by simp
  have pow: "uint (2 ^ i :: u16) = 2 ^ i" if "i \<le> 15" for i
    using pow2_u16 [OF that] by (metis of_nat_numeral of_nat_power uint_nat)
  have mk: "m \<le> 2 ^ k" using k(1,2) m pow [of k] by (simp add: word_le_def)
  have "(2 :: int) ^ k < 2 * m"
  proof (cases k)
    case (Suc j)
    then show ?thesis using k(1) k(3) [of j] m pow [of j] by (simp add: word_less_def)
  qed (use M in simp)
  then obtain c where c: "L = 2 ^ k * c" using assms(1) unfolding in_buffer_def by (metis dvdE)
  have "uint R mod 2 ^ k = uint R - L"
  proof -
    have "uint R mod 2 ^ k = (uint R - L) mod 2 ^ k" using c by (simp add: mod_diff_right_eq [symmetric])
    also have "\<dots> = uint R - L" using M mk by (intro mod_pos_pos_trivial) linarith+
    finally show ?thesis .
  qed
  then show "uint (ucast (R AND ucast (snd (modulo_bufsize mdl))) :: u16) = L"
    unfolding b ucast_and_ucast uint_and_neg_power R by simp
qed

text \<open>
  C23. Modulo addressing stays in the buffer: an update by \<open>n\<close>, at most one buffer length, moves the
  offset by \<open>n\<close> modulo the buffer length, for a buffer in the lower half of the address space and
  as long as the sum does not leave it.
\<close>

theorem modulo_update:
  assumes "in_buffer L m numreg s" and "- m \<le> sint n" and "sint n < m"
    and "uint (registers s (DSP_REG_R0 + numreg)) + sint n < 0x8000"
  shows "uint (registers (dsp_update_rn_modulo numreg n s) (DSP_REG_R0 + numreg)) =
     L + (uint (registers s (DSP_REG_R0 + numreg)) - L + sint n) mod m"
proof -
  let ?M = "registers s (DSP_REG_M0 + numreg)" and ?R = "registers s (DSP_REG_R0 + numreg)"
  let ?mdl = "ucast (?M + 1) :: u16" and ?r = "ucast ?R :: u16"
  let ?l = "ucast (?R AND ucast (snd (modulo_bufsize ?mdl))) :: u16"
  have b: "L + m \<le> 0x8000" "L \<le> uint ?R" "uint ?R < L + m"
    using assms(1) unfolding in_buffer_def by blast+
  have w: "uint ?mdl = m" "uint ?r = uint ?R" "uint ?l = L" by (rule in_buffer_bufsize [OF assms(1)])+
  have "registers (dsp_update_rn_modulo numreg n s) (DSP_REG_R0 + numreg) =
      ucast (if uint (?l + ?mdl - 1) < sint (?r + n) then ?r + n - ?mdl
             else if sint (?r + n) < uint ?l then ?r + n + ?mdl else ?r + n)"
    using assms(3) w(1)
    by (simp add: dsp_update_rn_modulo_def Let_def case_prod_unfold scast_masked del: BITMASK_numeral)
  then show ?thesis
    using modulo_step [of ?l ?mdl ?r n] w b assms(2-4) by (simp add: uint_ucast_u32)
qed

theorem modulo_update_witness:
  "uint (registers (dsp_update_rn_modulo 0 5
      (static_storage\<lparr>registers := (\<lambda>_. 0)(DSP_REG_M0 := 7, DSP_REG_R0 := 0x105)\<rparr>)) DSP_REG_R0) = 0x102"
proof -
  let ?s = "static_storage\<lparr>registers := (\<lambda>_. 0)(DSP_REG_M0 := 7, DSP_REG_R0 := 0x105)\<rparr>"
  have "(2 :: int) ^ k dvd 2 ^ 8" if "(2 :: int) ^ k < 2 ^ 4" for k
    using that by (intro le_imp_power_dvd) (simp add: power_strict_increasing_iff del: power_numeral)
  then have "in_buffer 0x100 8 0 ?s" by (simp add: in_buffer_def)
  then show ?thesis using modulo_update [of "0x100" 8 0 ?s 5] by simp
qed

text \<open>
  C24. In the upper half of the address space the signed comparison of the register with the unsigned
  bounds goes wrong: a step that stays inside the buffer is moved on by a whole buffer length.
\<close>

theorem modulo_update_upper_half:
  assumes "uint (registers s (DSP_REG_M0 + numreg)) = m - 1" and "2 \<le> m" and "m \<le> 0x8000"
    and "0x8000 \<le> uint (registers s (DSP_REG_R0 + numreg))"
    and "uint (registers s (DSP_REG_R0 + numreg)) + sint n < 0x10000" and "0 \<le> sint n" and "sint n < m"
  shows "uint (registers (dsp_update_rn_modulo numreg n s) (DSP_REG_R0 + numreg)) =
     (uint (registers s (DSP_REG_R0 + numreg)) + sint n + m) mod 0x10000"
proof -
  let ?M = "registers s (DSP_REG_M0 + numreg)" and ?R = "registers s (DSP_REG_R0 + numreg)"
  let ?mdl = "ucast (?M + 1) :: u16" and ?r = "ucast ?R :: u16"
  let ?l = "ucast (?R AND ucast (snd (modulo_bufsize ?mdl))) :: u16"
  have "uint (?M + 1) = m" using assms(1-3) by (simp add: uint_word_ariths mod_pos_pos_trivial)
  then have m: "uint ?mdl = m"
    using assms(2,3) by (simp add: unsigned_ucast_eq take_bit_int_eq_self)
  have r: "uint ?r = uint ?R"
    using assms(4-6) by (simp add: unsigned_ucast_eq take_bit_int_eq_self)
  have "0 < ?mdl" "?mdl \<le> 0x8000" using m assms(2,3) by (simp_all add: word_less_def word_le_def)
  from bufsize_exponent [OF this] obtain k where
    k: "k \<le> 15" "?mdl \<le> 2 ^ k" "\<And>j. j < k \<Longrightarrow> 2 ^ j < ?mdl" by blast
  have "snd (modulo_bufsize ?mdl) = - (2 ^ k)"
    using bufsize_unique [OF \<open>0 < ?mdl\<close> \<open>?mdl \<le> 0x8000\<close> k(2,3,1)] by simp
  then have l: "uint ?l = uint ?R div 2 ^ k * 2 ^ k"
    by (simp add: ucast_and_ucast uint_and_neg_power r minus_mod_eq_div_mult)
  have "(2 :: int) ^ 15 div 2 ^ k * 2 ^ k \<le> uint ?R div 2 ^ k * 2 ^ k"
    using assms(4) by (intro mult_right_mono zdiv_mono1) simp_all
  moreover have "(2 :: int) ^ 15 div 2 ^ k * 2 ^ k = 2 ^ 15"
    using k(1) by (simp add: le_imp_power_dvd del: power_numeral)
  ultimately have "2 ^ 15 \<le> uint ?l" unfolding l by (simp only:)
  then have low: "0x8000 \<le> uint ?l" by simp
  have rn: "?r + n = word_of_int (uint ?R + sint n)"
    unfolding r [symmetric] by simp
  then have rn: "uint (?r + n) = uint ?R + sint n"
    using assms(4-6) by (intro uint_of_int_u16) linarith+
  then have neg: "sint (?r + n) < 0"
    using assms(4-6) by (simp add: sint_uint_if)
  have c: "\<not> uint ?mdl < sint n" "sint n \<noteq> uint ?mdl" "sint (?r + n) < uint ?l"
    "\<not> uint (?l + ?mdl - 1) < sint (?r + n)"
    using assms(7) m low neg uint_ge_0 [of "?l + ?mdl - 1"] by linarith+
  have "registers (dsp_update_rn_modulo numreg n s) (DSP_REG_R0 + numreg) = ucast (?r + n + ?mdl)"
    unfolding dsp_update_rn_modulo_def Let_def case_prod_unfold scast_masked
    by (simp only: c if_False if_True simp_thms fst_conv snd_conv not_False_eq_True) simp
  then show ?thesis
    using rn m by (simp add: uint_ucast_u32 uint_word_ariths)
qed

theorem modulo_update_upper_half_witness:
  "uint (registers (dsp_update_rn_modulo 0 1
      (static_storage\<lparr>registers := (\<lambda>_. 0)(DSP_REG_M0 := 7, DSP_REG_R0 := 0x8000)\<rparr>)) DSP_REG_R0) = 0x8009"
  using modulo_update_upper_half [of "static_storage\<lparr>registers := (\<lambda>_. 0)(DSP_REG_M0 := 7, DSP_REG_R0 := 0x8000)\<rparr>" 0 8 1]
  by simp

section \<open>Bit-reversed addressing\<close>

lemma bit_power: "bit (2 ^ i :: u32) n \<longleftrightarrow> n = i \<and> i < 32"
  by (auto simp: bit_simps)

lemma bit_reverse_prefix:
  "m \<le> k \<Longrightarrow> k \<le> 32 \<Longrightarrow>
   bit (fold (\<lambda>i v. if r AND shl1 i \<noteq> 0 then v OR shl1 (k - i - 1) else v) [0..<m] v) n \<longleftrightarrow>
     bit v n \<or> (\<exists>i < m. n = k - i - 1 \<and> bit r i)"
proof (induction m)
  case (Suc m)
  then show ?case
    by (auto simp: and_exp_eq_0_iff_not_bit bit_or_iff bit_power less_Suc_eq)
qed simp

lemma bit_reverse_loop:
  assumes "k \<le> 32"
  shows "bit (reverse_loop k r v) n \<longleftrightarrow> bit v n \<or> n < k \<and> bit r (k - 1 - n)"
proof -
  have "(\<exists>i < k. n = k - i - 1 \<and> bit r i) \<longleftrightarrow> n < k \<and> bit r (k - 1 - n)"
    by (auto intro!: exI [of _ "k - 1 - n"])
  then show ?thesis unfolding reverse_loop_def bit_reverse_prefix [OF order.refl assms] by simp
qed

lemma bit_high_mask: "k \<le> 16 \<Longrightarrow> bit (BITMASK 16 - BITMASK k) n \<longleftrightarrow> k \<le> n \<and> n < 16"
proof -
  assume k: "k \<le> 16"
  let ?h = "mask 16 AND NOT (mask k) :: u32"
  have "?h AND mask k = 0" by (rule bit_word_eqI) (auto simp: bit_simps)
  then have "?h + mask k = ?h OR mask k" by (rule disjunctive_add_eq_or)
  also have "\<dots> = mask 16" by (rule bit_word_eqI) (use k in \<open>auto simp: bit_simps\<close>)
  finally have "BITMASK 16 - BITMASK k = ?h" unfolding BITMASK_eq_mask by (simp only: eq_diff_eq [symmetric])
  then show ?thesis by (auto simp: bit_simps)
qed

lemma revbits_loop_lowest:
  assumes "bit value (m :: nat)" "\<And>j. j < m \<Longrightarrow> \<not> bit value j" "m < 16" "i \<le> m"
  shows "revbits_loop value i = m"
  using assms(4)
proof (induction "m - i" arbitrary: i)
  case 0
  then show ?case using assms by (subst revbits_loop.simps) (simp add: and_exp_eq_0_iff_not_bit)
next
  case (Suc d)
  then show ?case using assms by (subst revbits_loop.simps) (simp add: and_exp_eq_0_iff_not_bit)
qed

lemma rev_index_eq:
  fixes x y :: u32
  assumes "\<And>n. n < k \<Longrightarrow> bit x (k - 1 - n) = bit y n"
  shows "rev_index k x = uint y mod 2 ^ k"
proof -
  have "map (\<lambda>n. bit x (k - 1 - n)) [0..<k] = map (bit (uint y)) [0..<k]"
    using assms by (auto simp: bit_uint_iff dest: bit_imp_le_length)
  then show ?thesis
    unfolding rev_index_def by (simp only: horner_sum_bit_eq_take_bit take_bit_eq_mod)
qed

text \<open>
  C25. Bit-reversed addressing: when the lowest set bit of the offset register is bit \<open>k - 1\<close>, the
  update increments the low \<open>k\<close> bits of the address register read backwards, modulo
  \<open>2 ^ k\<close>, and leaves the bits above alone.
\<close>

theorem bitreverse_update:
  fixes R :: u32
  assumes "bit (registers s (DSP_REG_N0 + numreg)) (k - 1)"
    and "\<forall>j < k - 1. \<not> bit (registers s (DSP_REG_N0 + numreg)) j" and "1 \<le> k" and "k \<le> 16"
    and "registers s (DSP_REG_R0 + numreg) < 0x10000"
  defines "R \<equiv> registers s (DSP_REG_R0 + numreg)"
    and "R' \<equiv> registers (dsp_update_rn_bitreverse numreg s) (DSP_REG_R0 + numreg)"
  shows "rev_index k R' = (rev_index k R + 1) mod 2 ^ k \<and> drop_bit k R' = drop_bit k R"
proof -
  have k: "revbits_loop (registers s (DSP_REG_N0 + numreg)) 0 + 1 = k"
    using assms(1-4) by (subst revbits_loop_lowest [of _ "k - 1"]) auto
  define hi :: u32 where "hi = BITMASK 16 - BITMASK k"
  define v1 where "v1 = reverse_loop k R (R AND hi)"
  define v2 where "v2 = (v1 + 1) AND BITMASK k"
  define r2 where "r2 = (R AND hi) OR v2"
  have R': "R' = reverse_loop k r2 (r2 AND hi)"
    unfolding R'_def dsp_update_rn_bitreverse_def Let_def k
    by (simp add: r2_def v2_def v1_def hi_def R_def)
  have "take_bit 16 (uint R) = uint R" using assms(5) by (simp add: R_def word_less_def take_bit_int_eq_self)
  then have R16: "bit R n \<Longrightarrow> n < 16" for n by (metis bit_take_bit_iff bit_uint_iff bit_imp_le_length)
  have hi: "bit hi n \<longleftrightarrow> k \<le> n \<and> n < 16" for n unfolding hi_def using assms(4) by (rule bit_high_mask)
  have v1: "bit v1 n \<longleftrightarrow> (if n < k then bit R (k - 1 - n) else bit R n)" for n
    using assms(4) R16 by (auto simp: v1_def bit_reverse_loop bit_and_iff hi)
  have v2: "n < k \<longleftrightarrow> True" if "bit v2 n" for n
    using that assms(4) by (auto simp: v2_def BITMASK_eq_mask bit_simps)
  have r2: "bit r2 n \<longleftrightarrow> (if n < k then bit v2 n else bit R n)" for n
    using v2 R16 by (auto simp: r2_def bit_or_iff bit_and_iff hi)
  have fin: "bit R' n \<longleftrightarrow> (if n < k then bit v2 (k - 1 - n) else bit R n)" for n
    using assms(4) R16 by (auto simp: R' bit_reverse_loop bit_and_iff hi r2)
  have d: "(2 :: int) ^ k dvd 2 ^ 32" using assms(4) by (intro le_imp_power_dvd) simp
  have "rev_index k R' = uint v2 mod 2 ^ k" by (rule rev_index_eq) (simp add: fin)
  also have "\<dots> = (uint v1 + 1) mod 2 ^ k"
    using mod_mod_cancel [OF d, of "uint v1 + 1"]
    by (simp add: v2_def uint_and_BITMASK uint_word_ariths del: BITMASK_numeral)
  also have "\<dots> = (rev_index k R + 1) mod 2 ^ k"
    using rev_index_eq [of k R v1] by (simp add: v1 mod_add_left_eq)
  finally show ?thesis
    by (auto simp: fin bit_simps intro!: bit_word_eqI)
qed

theorem bitreverse_update_witness:
  "rev_index 3 (registers (dsp_update_rn_bitreverse 0
      (static_storage\<lparr>registers := (\<lambda>_. 0)(DSP_REG_N0 := 4, DSP_REG_R0 := 0x104)\<rparr>)) DSP_REG_R0) = 2"
proof -
  let ?s = "static_storage\<lparr>registers := (\<lambda>_. 0)(DSP_REG_N0 := 4, DSP_REG_R0 := 0x104)\<rparr>"
  have "bit (4 :: u32) 2" "\<forall>j < 2. \<not> bit (4 :: u32) j" by (simp_all add: numeral_2_eq_2 less_Suc_eq)
  then show ?thesis
    using bitreverse_update [of ?s 0 3] by (simp add: rev_index_def upt_rec)
qed

end
