(* ===== verification/Dsp_Ccr.thy ===== *)
theory Dsp_Ccr
  imports Dsp_State
begin

text \<open>
  The condition code register of \<^verbatim>\<open>src/dsp_cpu.c\<close>: the four routines that set E, U, N
  and Z from an accumulator, and the test of a condition code.
\<close>

section \<open>Setting the condition codes\<close>

definition sr_scaling :: "dsp \<Rightarrow> u32" where
  "sr_scaling s = drop_bit DSP_SR_S0 (registers s DSP_REG_SR) AND BITMASK 2"

definition dsp_ccr_extension :: "u32 \<Rightarrow> u32 \<Rightarrow> dsp \<Rightarrow> dsp" where
  "dsp_ccr_extension reg0 reg1 s =
     (let scaling = sr_scaling s;
          value = reg0 AND 0xff
      in if scaling = 3 then s
         else
           let (value, numbits) =
                 (if scaling = 0 then (push_bit 1 value OR (drop_bit 23 reg1 AND 1), 9)
                  else if scaling = 1 then (value, 8)
                  else (push_bit 2 value OR (drop_bit 22 reg1 AND 3), 10));
               sr_extension = (if value = 0 \<or> value = BITMASK numbits then 0 else shl1 DSP_SR_E);
               s = and_reg DSP_REG_SR (BITMASK 16 - shl1 DSP_SR_E) s
           in or_reg DSP_REG_SR sr_extension s)"

definition dsp_ccr_unnormalized :: "u32 \<Rightarrow> u32 \<Rightarrow> dsp \<Rightarrow> dsp" where
  "dsp_ccr_unnormalized reg0 reg1 s =
     (let scaling = sr_scaling s
      in if scaling = 3 then s
         else
           let value =
                 (if scaling = 0 then drop_bit 22 reg1 AND 3
                  else if scaling = 1 then (push_bit 1 reg0 AND 2) OR (drop_bit 23 reg1 AND 1)
                  else drop_bit 21 reg1 AND 3);
               s = and_reg DSP_REG_SR (BITMASK 16 - shl1 DSP_SR_U) s
           in or_reg DSP_REG_SR (push_bit DSP_SR_U (c_bool (value = 0 \<or> value = BITMASK 2))) s)"

definition dsp_ccr_negative :: "u32 \<Rightarrow> dsp \<Rightarrow> dsp" where
  "dsp_ccr_negative reg0 s =
     (let s = and_reg DSP_REG_SR (BITMASK 16 - shl1 DSP_SR_N) s
      in or_reg DSP_REG_SR (push_bit DSP_SR_N (drop_bit 7 reg0 AND 1)) s)"

definition dsp_ccr_zero :: "u32 \<Rightarrow> u32 \<Rightarrow> u32 \<Rightarrow> dsp \<Rightarrow> dsp" where
  "dsp_ccr_zero reg0 reg1 reg2 s =
     (let zeroed = (if reg2 AND BITMASK 24 \<noteq> 0 then 0
                    else if reg1 AND BITMASK 24 \<noteq> 0 then 0
                    else if reg0 AND BITMASK 8 \<noteq> 0 then 0 else 1);
          s = and_reg DSP_REG_SR (BITMASK 16 - shl1 DSP_SR_Z) s
      in or_reg DSP_REG_SR (push_bit DSP_SR_Z zeroed) s)"

section \<open>Testing a condition code\<close>

abbreviation DSP_SR_NV :: nat where "DSP_SR_NV \<equiv> 8"
abbreviation DSP_SR_ZUE :: nat where "DSP_SR_ZUE \<equiv> 9"
abbreviation DSP_SR_ZNV :: nat where "DSP_SR_ZNV \<equiv> 10"

definition CCR_BIT :: "u16 \<Rightarrow> nat \<Rightarrow> u16" where
  "CCR_BIT x y = drop_bit y x AND 1"

definition cc_code_map :: "nat list" where
  "cc_code_map =
     [DSP_SR_C, DSP_SR_NV, DSP_SR_Z, DSP_SR_N, DSP_SR_ZUE, DSP_SR_E, DSP_SR_L, DSP_SR_ZNV]"

definition dsp_calc_cc :: "u32 \<Rightarrow> dsp \<Rightarrow> bool" where
  "dsp_calc_cc cc_code s =
     (let value = ucast (registers s DSP_REG_SR AND BITMASK 8) :: u16;
          value = value OR push_bit DSP_SR_NV (CCR_BIT value DSP_SR_N XOR CCR_BIT value DSP_SR_V);
          value = value OR push_bit DSP_SR_ZUE
                    ((CCR_BIT value DSP_SR_Z OR
                      (NOT (CCR_BIT value DSP_SR_U) AND NOT (CCR_BIT value DSP_SR_E))) AND 1);
          value = value OR push_bit DSP_SR_ZNV (CCR_BIT value DSP_SR_Z OR CCR_BIT value DSP_SR_NV)
      in ucast (CCR_BIT value (cc_code_map ! unat (cc_code AND BITMASK 3))) =
         drop_bit 3 cc_code AND (1 :: u32))"

end
