(* ===== verification/Dsp_Parmove.thy ===== *)
theory Dsp_Parmove
  imports Dsp_Address Dsp_Ccr
begin

text \<open>
  The parallel moves of \<^verbatim>\<open>src/dsp_cpu.c\<close>. An instruction first reads the sources of up to
  two moves into \<^verbatim>\<open>tmp_parmove_src\<close>, then computes, then writes the destinations noted in
  \<^verbatim>\<open>tmp_parmove_dest\<close>.
\<close>

section \<open>Register tables\<close>

definition registers_lmove :: "(u32 \<times> u32) list" where
  "registers_lmove =
     [(DSP_REG_A1, DSP_REG_A0), (DSP_REG_B1, DSP_REG_B0), (DSP_REG_X1, DSP_REG_X0),
      (DSP_REG_Y1, DSP_REG_Y0), (DSP_REG_A, DSP_REG_A), (DSP_REG_B, DSP_REG_B),
      (DSP_REG_A, DSP_REG_B), (DSP_REG_B, DSP_REG_A)]"

definition registers_mask :: "nat list" where
  "registers_mask =
     [0, 0, 0, 0, 24, 24, 24, 24, 24, 24, 8, 8, 24, 24, 24, 24,
      16, 16, 16, 16, 16, 16, 16, 16, 16, 16, 16, 16, 16, 16, 16, 16,
      16, 16, 16, 16, 16, 16, 16, 16, 0, 0, 0, 0, 0, 0, 0, 0,
      0, 0, 0, 0, 0, 0, 0, 0, 0, 16, 8, 6, 6, 6, 16, 16]"

abbreviation reg_mask :: "u32 \<Rightarrow> u32" where
  "reg_mask numreg \<equiv> BITMASK (registers_mask ! unat numreg)"

abbreviation is_accu :: "u32 \<Rightarrow> bool" where
  "is_accu numreg \<equiv> numreg = DSP_REG_A \<or> numreg = DSP_REG_B"

section \<open>Reading an accumulator, choosing a destination\<close>

text \<open>
  \<open>accu24_limited\<close> is what \<^verbatim>\<open>dsp_pm_read_accu24\<close> computes: whether the
  accumulator is limited, and the 24-bit value. \<open>store\<close> writes the location the pointer
  argument \<^verbatim>\<open>dest\<close> names; the code writes it before it sets the L bit.
\<close>

definition accu24_limited :: "u32 \<Rightarrow> dsp \<Rightarrow> bool \<times> u32" where
  "accu24_limited numreg s =
     (let scaling = sr_scaling s;
          numreg = numreg AND 1;
          value = registers s (DSP_REG_A2 + numreg) AND 0xff;
          (value, numbits) =
            (if scaling = 0
             then (push_bit 1 value OR (drop_bit 23 (registers s (DSP_REG_A1 + numreg)) AND 1), 9)
             else if scaling = 2
             then (push_bit 2 value OR (drop_bit 22 (registers s (DSP_REG_A1 + numreg)) AND 3), 10)
             else (value, 8))
      in if value = 0 \<or> value = BITMASK numbits
         then (False, registers s (DSP_REG_A1 + numreg))
         else if registers s (DSP_REG_A2 + numreg) AND shl1 7 \<noteq> 0 then (True, 0x00800000)
         else (True, 0x007fffff))"

definition dsp_pm_read_accu24 :: "u32 \<Rightarrow> (u32 \<Rightarrow> dsp \<Rightarrow> dsp) \<Rightarrow> dsp \<Rightarrow> bool \<times> dsp" where
  "dsp_pm_read_accu24 numreg store s =
     (let (got_limited, value) = accu24_limited numreg s;
          s = store value s
      in (got_limited, if got_limited then or_reg DSP_REG_SR (shl1 DSP_SR_L) s else s))"

definition dsp_pm_writereg :: "u32 \<Rightarrow> nat \<Rightarrow> dsp \<Rightarrow> dsp" where
  "dsp_pm_writereg numreg position s =
     (if is_accu numreg
      then let s = set_pm_dest position 0 (Host_pointer (DSP_REG_A2 + (numreg AND 1))) s;
               s = set_pm_dest position 1 (Host_pointer (DSP_REG_A1 + (numreg AND 1))) s;
               s = set_pm_dest position 2 (Host_pointer (DSP_REG_A0 + (numreg AND 1))) s
           in set_pm_range position 0 3 s
      else let s = set_pm_dest position 1 (Host_pointer numreg) s
           in set_pm_range position 1 1 s)"

text \<open>
  Three blocks the moves share. \<open>pm_set_value\<close> is the "Write D" block: the three source words
  of a sign-extended 24-bit value and the register that receives it. \<open>pm_set_source\<close> is the
  "Read S" block: a register or a limited accumulator as source word 1. \<open>pm_set_memory\<close> notes a
  memory destination.
\<close>

definition pm_set_value :: "u32 \<Rightarrow> nat \<Rightarrow> u32 \<Rightarrow> dsp \<Rightarrow> dsp" where
  "pm_set_value numreg i value s =
     (let s = set_pm_src i 0 (if value AND shl1 23 \<noteq> 0 then 0x0000ff else 0) s;
          s = set_pm_src i 1 (value AND reg_mask numreg) s;
          s = set_pm_src i 2 0 s;
          s = dsp_pm_writereg numreg i s
      in set_pm_type i False s)"

definition pm_set_source :: "u32 \<Rightarrow> nat \<Rightarrow> dsp \<Rightarrow> dsp" where
  "pm_set_source numreg i s =
     (if is_accu numreg then snd (dsp_pm_read_accu24 numreg (set_pm_src i 1) s)
      else set_pm_src i 1 (registers s numreg) s)"

definition pm_set_memory :: "nat \<Rightarrow> u32 \<Rightarrow> u32 \<Rightarrow> dsp \<Rightarrow> dsp" where
  "pm_set_memory i memspace addr s =
     (let s = set_pm_dest i 1 (Dsp_address addr) s;
          s = set_pm_range i 1 1 s;
          s = set_pm_type i True s
      in set_pm_space i memspace s)"

section \<open>The moves\<close>

definition dsp_pm_0 :: "dsp \<Rightarrow> dsp" where
  "dsp_pm_0 s =
     (let memspace = drop_bit 15 (cur_inst s) AND 1;
          numreg = drop_bit 16 (cur_inst s) AND 1;
          (retour, dummy, s) = dsp_calc_ea (drop_bit 8 (cur_inst s) AND BITMASK 6) s;
          s = snd (dsp_pm_read_accu24 numreg (set_pm_src 0 1) s);
          s = pm_set_memory 0 memspace dummy s;
          value = registers s (DSP_REG_X0 + push_bit 1 memspace);
          s = set_pm_src 1 0 (if value AND shl1 23 \<noteq> 0 then 0x0000ff else 0) s;
          s = set_pm_src 1 1 value s;
          s = set_pm_src 1 2 0 s;
          s = set_pm_dest 1 0 (Host_pointer (DSP_REG_A2 + numreg)) s;
          s = set_pm_dest 1 1 (Host_pointer (DSP_REG_A1 + numreg)) s;
          s = set_pm_dest 1 2 (Host_pointer (DSP_REG_A0 + numreg)) s;
          s = set_pm_range 1 0 3 s
      in set_pm_type 1 False s)"

text \<open>The two register \<^verbatim>\<open>switch\<close>es, which appear in \<^verbatim>\<open>dsp_pm_1\<close> and
  \<^verbatim>\<open>dsp_pm_8\<close>.\<close>

definition pm_x_register :: "u32 \<Rightarrow> u32" where
  "pm_x_register inst = [DSP_REG_X0, DSP_REG_X1, DSP_REG_A, DSP_REG_B] !
     unat (drop_bit 18 inst AND BITMASK 2)"

definition pm_y_register :: "u32 \<Rightarrow> u32" where
  "pm_y_register inst = [DSP_REG_Y0, DSP_REG_Y1, DSP_REG_A, DSP_REG_B] !
     unat (drop_bit 16 inst AND BITMASK 2)"

definition dsp_pm_1 :: "dsp \<Rightarrow> dsp" where
  "dsp_pm_1 s =
     (let (retour, xy_addr, s) = dsp_calc_ea (drop_bit 8 (cur_inst s) AND BITMASK 6) s;
          memspace = drop_bit 14 (cur_inst s) AND 1;
          numreg = (if memspace \<noteq> 0 then pm_y_register (cur_inst s) else pm_x_register (cur_inst s));
          s = (if cur_inst s AND shl1 15 \<noteq> 0
               then let (value, s) = (if retour then (xy_addr, s)
                                      else read_memory memspace (ucast xy_addr) s)
                    in pm_set_value numreg 0 value s
               else pm_set_memory 0 memspace xy_addr (pm_set_source numreg 0 s));
          numreg = (if memspace \<noteq> 0 then DSP_REG_A + (drop_bit 19 (cur_inst s) AND 1)
                    else DSP_REG_A + (drop_bit 17 (cur_inst s) AND 1));
          s = snd (dsp_pm_read_accu24 numreg (set_pm_src 1 1) s);
          numreg = (if memspace \<noteq> 0 then DSP_REG_X0 + (drop_bit 18 (cur_inst s) AND 1)
                    else DSP_REG_Y0 + (drop_bit 16 (cur_inst s) AND 1));
          s = set_pm_src 1 1 (tmp_parmove_src s 1 1 AND reg_mask numreg) s;
          s = set_pm_dest 1 1 (Host_pointer numreg) s;
          s = set_pm_range 1 1 1 s
      in set_pm_type 1 False s)"

definition dsp_pm_2_2 :: "dsp \<Rightarrow> dsp" where
  "dsp_pm_2_2 s =
     (let srcreg = drop_bit 13 (cur_inst s) AND BITMASK 5;
          dstreg = drop_bit 8 (cur_inst s) AND BITMASK 5;
          s = set_pm_src 0 0 0 (set_pm_src 0 1 0 (set_pm_src 0 2 0 s));
          s = (if is_accu srcreg
               then let s = snd (dsp_pm_read_accu24 srcreg (set_pm_src 0 1) s)
                    in if tmp_parmove_src s 0 1 AND shl1 23 \<noteq> 0 then set_pm_src 0 0 0x0000ff s else s
               else if is_accu dstreg
               then let s = set_pm_src 0 1 (registers s srcreg AND reg_mask srcreg) s
                    in if tmp_parmove_src s 0 1 AND shl1 23 \<noteq> 0 then set_pm_src 0 0 0x0000ff s else s
               else set_pm_src 0 1 (registers s srcreg AND reg_mask srcreg) s);
          s = dsp_pm_writereg dstreg 0 s
      in set_pm_type 0 False s)"

definition dsp_pm_3 :: "dsp \<Rightarrow> dsp" where
  "dsp_pm_3 s =
     (let dest = drop_bit 16 (cur_inst s) AND BITMASK 5;
          srcvalue = drop_bit 8 (cur_inst s) AND BITMASK 8;
          srcvalue = (if dest \<in> {DSP_REG_X0, DSP_REG_X1, DSP_REG_Y0, DSP_REG_Y1, DSP_REG_A, DSP_REG_B}
                      then push_bit 16 srcvalue else srcvalue);
          s = set_pm_src 0 0 (if is_accu dest \<and> srcvalue AND shl1 23 \<noteq> 0 then 0x0000ff else 0) s;
          s = set_pm_src 0 1 (srcvalue AND reg_mask dest) s;
          s = set_pm_src 0 2 0 s;
          s = dsp_pm_writereg dest 0 s
      in set_pm_type 0 False s)"

definition dsp_pm_2 :: "dsp \<Rightarrow> dsp" where
  "dsp_pm_2 s =
     (if drop_bit 8 (cur_inst s) AND 0xffff = 0x2000 then s
      else if drop_bit 8 (cur_inst s) AND 0xffe0 = 0x2040
      then (case dsp_calc_ea (drop_bit 8 (cur_inst s) AND BITMASK 5) s of (retour, dummy, s) \<Rightarrow> s)
      else if drop_bit 8 (cur_inst s) AND 0xfc00 = 0x2000 then dsp_pm_2_2 s
      else dsp_pm_3 s)"

definition dsp_pm_4x :: "bool \<Rightarrow> u32 \<Rightarrow> dsp \<Rightarrow> dsp" where
  "dsp_pm_4x immediat l_addr s =
     (let l_addr = l_addr AND BITMASK 16;
          numreg = (drop_bit 16 (cur_inst s) AND BITMASK 2) OR (drop_bit 17 (cur_inst s) AND shl1 2);
          (reg1, reg2) = registers_lmove ! unat numreg
      in if cur_inst s AND shl1 15 \<noteq> 0
         then
           let (value, s) = read_memory DSP_SPACE_X (ucast l_addr) s;
               s = set_pm_src 0 0 (if value AND shl1 23 \<noteq> 0 then 0xff else 0) s;
               s = set_pm_src 0 1 (value AND reg_mask reg1) s;
               s = set_pm_src 0 2 0 s;
               (value, s) = read_memory DSP_SPACE_Y (ucast l_addr) s;
               s = (if reg1 = reg2 then set_pm_src 0 2 (value AND reg_mask reg2) s
                    else let s = set_pm_src 1 0 (if value AND shl1 23 \<noteq> 0 then 0xff else 0) s;
                             s = set_pm_src 1 1 (value AND reg_mask reg2) s
                         in set_pm_src 1 2 0 s);
               s = set_pm_type 0 False (dsp_pm_writereg reg1 0 s)
           in if reg1 \<noteq> reg2 then set_pm_type 1 False (dsp_pm_writereg reg2 1 s) else s
         else
           let s = (if numreg < 4
                    then set_pm_src 1 1 (registers s reg2) (set_pm_src 0 1 (registers s reg1) s)
                    else if numreg < 6
                    then (case dsp_pm_read_accu24 reg1 (set_pm_src 0 1) s of
                            (True, s) \<Rightarrow>
                              set_pm_src 1 1 (if tmp_parmove_src s 0 1 AND shl1 23 \<noteq> 0 then 0 else 0xffffff) s
                          | (False, s) \<Rightarrow> set_pm_src 1 1 (registers s (DSP_REG_A0 + (reg1 AND 1))) s)
                    else let s = snd (dsp_pm_read_accu24 reg1 (set_pm_src 0 1) s)
                         in snd (dsp_pm_read_accu24 reg2 (set_pm_src 1 1) s));
               s = pm_set_memory 0 DSP_SPACE_X l_addr s
           in pm_set_memory 1 DSP_SPACE_Y l_addr s)"

definition dsp_pm_5 :: "dsp \<Rightarrow> dsp" where
  "dsp_pm_5 s =
     (let value = drop_bit 8 (cur_inst s) AND BITMASK 6;
          (retour, xy_addr, s) = (if cur_inst s AND shl1 14 \<noteq> 0 then dsp_calc_ea value s
                                  else (False, value, s));
          memspace = drop_bit 19 (cur_inst s) AND 1;
          numreg = (drop_bit 16 (cur_inst s) AND BITMASK 3) OR
                   (drop_bit 17 (cur_inst s) AND push_bit 3 (BITMASK 2))
      in if cur_inst s AND shl1 15 \<noteq> 0
         then let (value, s) = (if retour then (xy_addr, s) else read_memory memspace (ucast xy_addr) s)
              in pm_set_value numreg 0 value s
         else pm_set_memory 0 memspace xy_addr (pm_set_source numreg 0 s))"

definition dsp_pm_4 :: "dsp \<Rightarrow> dsp" where
  "dsp_pm_4 s =
     (let value = (drop_bit 16 (cur_inst s) AND BITMASK 3) OR
                  (drop_bit 17 (cur_inst s) AND push_bit 3 (BITMASK 2))
      in if drop_bit 2 value = 0
         then let value = drop_bit 8 (cur_inst s) AND BITMASK 6;
                  (retour, l_addr, s) = (if cur_inst s AND shl1 14 \<noteq> 0 then dsp_calc_ea value s
                                         else (False, value, s))
              in dsp_pm_4x retour l_addr s
         else dsp_pm_5 s)"

definition dsp_pm_8 :: "dsp \<Rightarrow> dsp" where
  "dsp_pm_8 s =
     (let ea1 = drop_bit 8 (cur_inst s) AND BITMASK 5;
          ea1 = (if drop_bit 3 ea1 = 0 then ea1 OR shl1 5 else ea1);
          ea2 = (drop_bit 13 (cur_inst s) AND BITMASK 2) OR
                (drop_bit 17 (cur_inst s) AND push_bit 3 (BITMASK 2));
          ea2 = (if ea1 AND shl1 2 = 0 then ea2 OR shl1 2 else ea2);
          ea2 = (if drop_bit 3 ea2 = 0 then ea2 OR shl1 5 else ea2);
          (retour1, dummy1, s) = dsp_calc_ea ea1 s;
          (retour2, dummy2, s) = dsp_calc_ea ea2 s;
          numreg1 = pm_x_register (cur_inst s);
          numreg2 = pm_y_register (cur_inst s);
          s = (if cur_inst s AND shl1 15 \<noteq> 0
               then let (value, s) = read_memory DSP_SPACE_X (ucast dummy1) s
                    in pm_set_value numreg1 0 value s
               else pm_set_memory 0 DSP_SPACE_X dummy1 (pm_set_source numreg1 0 s))
      in if cur_inst s AND shl1 22 \<noteq> 0
         then let (value, s) = read_memory DSP_SPACE_Y (ucast dummy2) s
              in pm_set_value numreg2 1 value s
         else pm_set_memory 1 DSP_SPACE_Y dummy2 (pm_set_source numreg2 1 s))"

section \<open>Reading and writing of an instruction's moves\<close>

definition opcodes_parmove :: "(dsp \<Rightarrow> dsp) list" where
  "opcodes_parmove =
     [dsp_pm_0, dsp_pm_1, dsp_pm_2, dsp_pm_3, dsp_pm_4, dsp_pm_5, dsp_pm_5, dsp_pm_5,
      dsp_pm_8, dsp_pm_8, dsp_pm_8, dsp_pm_8, dsp_pm_8, dsp_pm_8, dsp_pm_8, dsp_pm_8]"

definition dsp_parmove_read :: "dsp \<Rightarrow> dsp" where
  "dsp_parmove_read s =
     (let s = tmp_parmove_len_update (\<lambda>f. f(1 := 0)) s;
          s = tmp_parmove_len_update (\<lambda>f. f(0 := 0)) s;
          value = drop_bit 20 (cur_inst s) AND BITMASK 4
      in (opcodes_parmove ! unat value) s)"

text \<open>
  A destination of the wrong kind for \<^verbatim>\<open>tmp_parmove_type\<close> would read the other member of
  the union.
\<close>

definition parmove_write_one :: "nat \<Rightarrow> nat \<Rightarrow> dsp \<Rightarrow> dsp" where
  "parmove_write_one i j s =
     (if tmp_parmove_type s i
      then (case tmp_parmove_dest s i j of
              Dsp_address a \<Rightarrow> write_memory (tmp_parmove_space s i) (ucast a) (tmp_parmove_src s i j) s
            | Host_pointer _ \<Rightarrow> out_of_bounds s)
      else (case tmp_parmove_dest s i j of
              Host_pointer r \<Rightarrow> set_reg r (tmp_parmove_src s i j) s
            | Dsp_address _ \<Rightarrow> out_of_bounds s))"

definition dsp_parmove_write :: "dsp \<Rightarrow> dsp" where
  "dsp_parmove_write s =
     fold (\<lambda>i s. if tmp_parmove_len s i = 0 then s
                 else fold (parmove_write_one i)
                        [tmp_parmove_start s i..<tmp_parmove_start s i + tmp_parmove_len s i] s)
       [0, 1] s"

end
