(* ===== verification/Dsp_AluInstr.thy ===== *)
theory Dsp_AluInstr
  imports Dsp_Alu56 Dsp_Parmove
begin

text \<open>
  The arithmetic and logic instructions of \<^verbatim>\<open>src/dsp_cpu.c\<close>, those that run between the
  read and the write of the parallel moves. The messages that the code prints on
  \<^verbatim>\<open>stderr\<close> are not modelled.
\<close>

section \<open>Operands and results\<close>

text \<open>
  The statement groups that the instructions repeat: load and store of accumulator \<open>n\<close> (0 for A,
  1 for B), the four condition code updates, the update of V and C.
\<close>

definition get_acc :: "u32 \<Rightarrow> dsp \<Rightarrow> acc" where
  "get_acc n s = (registers s (DSP_REG_A2 + n), registers s (DSP_REG_A1 + n), registers s (DSP_REG_A0 + n))"

definition set_acc :: "u32 \<Rightarrow> acc \<Rightarrow> dsp \<Rightarrow> dsp" where
  "set_acc n = (\<lambda>(d0, d1, d2) s.
     set_reg (DSP_REG_A0 + n) d2 (set_reg (DSP_REG_A1 + n) d1 (set_reg (DSP_REG_A2 + n) d0 s)))"

definition ccr_all :: "acc \<Rightarrow> dsp \<Rightarrow> dsp" where
  "ccr_all = (\<lambda>(d0, d1, d2) s.
     dsp_ccr_zero d0 d1 d2 (dsp_ccr_negative d0 (dsp_ccr_unnormalized d0 d1 (dsp_ccr_extension d0 d1 s))))"

definition sr_set_vc :: "u16 \<Rightarrow> dsp \<Rightarrow> dsp" where
  "sr_set_vc newsr s =
     (let s = and_reg DSP_REG_SR (BITMASK 16 - (shl1 DSP_SR_V OR shl1 DSP_SR_C)) s
      in or_reg DSP_REG_SR (ucast newsr) s)"

definition sr_set_v :: "u32 \<Rightarrow> dsp \<Rightarrow> dsp" where
  "sr_set_v bits s =
     (let s = and_reg DSP_REG_SR (BITMASK 16 - shl1 DSP_SR_V) s
      in or_reg DSP_REG_SR bits s)"

definition sr_clear_v :: "dsp \<Rightarrow> dsp" where
  "sr_clear_v s = and_reg DSP_REG_SR (BITMASK 16 - shl1 DSP_SR_V) s"

definition sign_byte :: "u32 \<Rightarrow> u32" where
  "sign_byte value = (if value AND shl1 23 \<noteq> 0 then 0x0000ff else 0)"

text \<open>A 24-bit register, and the 48-bit X or Y, as a 56-bit operand.\<close>

definition source_24 :: "u32 \<Rightarrow> dsp \<Rightarrow> acc" where
  "source_24 r s = (sign_byte (registers s r), registers s r, 0)"

definition source_x :: "dsp \<Rightarrow> acc" where
  "source_x s = (sign_byte (registers s DSP_REG_X1), registers s DSP_REG_X1, registers s DSP_REG_X0)"

definition source_y :: "dsp \<Rightarrow> acc" where
  "source_y s = (sign_byte (registers s DSP_REG_Y1), registers s DSP_REG_Y1, registers s DSP_REG_Y0)"

text \<open>The \<^verbatim>\<open>switch(srcreg)\<close> of ADD and SUB, and that of CMP, CMPM and TFR; \<open>None\<close> is
  the \<^verbatim>\<open>default\<close> case.\<close>

definition source_add :: "u32 \<Rightarrow> u32 \<Rightarrow> dsp \<Rightarrow> acc option" where
  "source_add srcreg destreg s =
     (if srcreg = 1 then Some (get_acc (destreg XOR 1) s)
      else if srcreg = 2 then Some (source_x s)
      else if srcreg = 3 then Some (source_y s)
      else if srcreg = 4 then Some (source_24 DSP_REG_X0 s)
      else if srcreg = 5 then Some (source_24 DSP_REG_Y0 s)
      else if srcreg = 6 then Some (source_24 DSP_REG_X1 s)
      else if srcreg = 7 then Some (source_24 DSP_REG_Y1 s)
      else None)"

definition source_cmp :: "u32 \<Rightarrow> u32 \<Rightarrow> dsp \<Rightarrow> acc option" where
  "source_cmp srcreg destreg s =
     (if srcreg = 0 then Some (get_acc (destreg XOR 1) s)
      else if srcreg = 4 then Some (source_24 DSP_REG_X0 s)
      else if srcreg = 5 then Some (source_24 DSP_REG_Y0 s)
      else if srcreg = 6 then Some (source_24 DSP_REG_X1 s)
      else if srcreg = 7 then Some (source_24 DSP_REG_Y1 s)
      else None)"

abbreviation inst_dest :: "dsp \<Rightarrow> u32" where
  "inst_dest s \<equiv> drop_bit 3 (cur_inst s) AND 1"

section \<open>Accumulator arithmetic\<close>

definition dsp_abs :: "dsp \<Rightarrow> dsp" where
  "dsp_abs s =
     (let numreg = inst_dest s;
          dest = get_acc numreg s;
          overflowed = c_bool (snd (snd dest) = 0 \<and> fst (snd dest) = 0 \<and> fst dest = 0x80);
          dest = snd (dsp_abs56 dest);
          s = set_acc numreg dest s;
          s = sr_set_v (push_bit DSP_SR_L overflowed OR push_bit DSP_SR_V overflowed) s
      in ccr_all dest s)"

definition dsp_adc :: "dsp \<Rightarrow> dsp" where
  "dsp_adc s =
     (let curcarry = drop_bit DSP_SR_C (registers s DSP_REG_SR) AND 1;
          destreg = inst_dest s;
          dest = get_acc destreg s;
          source = (if drop_bit 4 (cur_inst s) AND 1 = 0 then source_x s else source_y s);
          (newsr, dest) = dsp_add56 source dest;
          (newsr, dest) = (if curcarry \<noteq> 0
                           then let (sr2, dest) = dsp_add56 (0, 0, 1) dest in (newsr OR sr2, dest)
                           else (newsr, dest));
          s = set_acc destreg dest s;
          s = ccr_all dest s
      in sr_set_vc newsr s)"

definition dsp_add :: "dsp \<Rightarrow> dsp" where
  "dsp_add s =
     (let destreg = inst_dest s;
          dest = get_acc destreg s
      in case source_add (drop_bit 4 (cur_inst s) AND BITMASK 3) destreg s of
           None \<Rightarrow> s
         | Some source \<Rightarrow>
             let (newsr, dest) = dsp_add56 source dest;
                 s = set_acc destreg dest s;
                 s = ccr_all dest s
             in sr_set_vc newsr s)"

definition dsp_addl :: "dsp \<Rightarrow> dsp" where
  "dsp_addl s =
     (let numreg = inst_dest s;
          (newsr, dest) = dsp_asl56 (get_acc numreg s);
          (sr2, dest) = dsp_add56 (get_acc (numreg XOR 1) s) dest;
          s = set_acc numreg dest s;
          s = ccr_all dest s
      in sr_set_vc (newsr OR sr2) s)"

definition dsp_addr :: "dsp \<Rightarrow> dsp" where
  "dsp_addr s =
     (let numreg = inst_dest s;
          (newsr, dest) = dsp_asr56 (get_acc numreg s);
          (sr2, dest) = dsp_add56 (get_acc (numreg XOR 1) s) dest;
          s = set_acc numreg dest s;
          s = ccr_all dest s
      in sr_set_vc (newsr OR sr2) s)"

definition dsp_asl :: "dsp \<Rightarrow> dsp" where
  "dsp_asl s =
     (let numreg = inst_dest s;
          (newsr, dest) = dsp_asl56 (get_acc numreg s);
          s = set_acc numreg dest s;
          s = sr_set_vc newsr s
      in ccr_all dest s)"

definition dsp_asr :: "dsp \<Rightarrow> dsp" where
  "dsp_asr s =
     (let numreg = inst_dest s;
          (newsr, dest) = dsp_asr56 (get_acc numreg s);
          s = set_acc numreg dest s;
          s = sr_set_vc newsr s
      in ccr_all dest s)"

definition dsp_clr :: "dsp \<Rightarrow> dsp" where
  "dsp_clr s =
     (let numreg = inst_dest s;
          s = set_acc numreg (0, 0, 0) s;
          s = and_reg DSP_REG_SR
                (BITMASK 16 - (shl1 DSP_SR_E OR shl1 DSP_SR_N OR shl1 DSP_SR_V)) s
      in or_reg DSP_REG_SR (shl1 DSP_SR_U OR shl1 DSP_SR_Z) s)"

definition dsp_cmp :: "dsp \<Rightarrow> dsp" where
  "dsp_cmp s =
     (let destreg = inst_dest s;
          dest = get_acc destreg s
      in case source_cmp (drop_bit 4 (cur_inst s) AND BITMASK 3) destreg s of
           None \<Rightarrow> s
         | Some source \<Rightarrow>
             let (newsr, dest) = dsp_sub56 source dest;
                 s = ccr_all dest s
             in sr_set_vc newsr s)"

definition dsp_cmpm :: "dsp \<Rightarrow> dsp" where
  "dsp_cmpm s =
     (let destreg = inst_dest s;
          dest = snd (dsp_abs56 (get_acc destreg s))
      in case source_cmp (drop_bit 4 (cur_inst s) AND BITMASK 3) destreg s of
           None \<Rightarrow> s
         | Some source \<Rightarrow>
             let source = snd (dsp_abs56 source);
                 (newsr, dest) = dsp_sub56 source dest;
                 s = ccr_all dest s
             in sr_set_vc newsr s)"

definition dsp_neg :: "dsp \<Rightarrow> dsp" where
  "dsp_neg s =
     (let srcreg = inst_dest s;
          source = get_acc srcreg s;
          overflowed = c_bool (snd (snd source) = 0 \<and> fst (snd source) = 0 \<and> fst source = 0x80);
          dest = snd (dsp_sub56 source (0, 0, 0));
          s = set_acc srcreg dest s;
          s = sr_set_v (push_bit DSP_SR_L overflowed OR push_bit DSP_SR_V overflowed) s
      in ccr_all dest s)"

definition dsp_rnd :: "dsp \<Rightarrow> dsp" where
  "dsp_rnd s =
     (let numreg = inst_dest s;
          dest = dsp_rnd56 s (get_acc numreg s);
          s = set_acc numreg dest s
      in ccr_all dest s)"

definition dsp_sbc :: "dsp \<Rightarrow> dsp" where
  "dsp_sbc s =
     (let curcarry = drop_bit DSP_SR_C (registers s DSP_REG_SR) AND 1;
          destreg = inst_dest s;
          dest = get_acc destreg s;
          source = (if drop_bit 4 (cur_inst s) AND 1 = 0 then source_x s else source_y s);
          (newsr, dest) = dsp_sub56 source dest;
          (newsr, dest) = (if curcarry \<noteq> 0
                           then let (sr2, dest) = dsp_sub56 (0, 0, 1) dest in (newsr OR sr2, dest)
                           else (newsr, dest));
          s = set_acc destreg dest s;
          s = ccr_all dest s
      in sr_set_vc newsr s)"

definition dsp_sub :: "dsp \<Rightarrow> dsp" where
  "dsp_sub s =
     (let destreg = inst_dest s;
          dest = get_acc destreg s
      in case source_add (drop_bit 4 (cur_inst s) AND BITMASK 3) destreg s of
           None \<Rightarrow> s
         | Some source \<Rightarrow>
             let (newsr, dest) = dsp_sub56 source dest;
                 s = set_acc destreg dest s;
                 s = ccr_all dest s
             in sr_set_vc newsr s)"

definition dsp_subl :: "dsp \<Rightarrow> dsp" where
  "dsp_subl s =
     (let numreg = inst_dest s;
          (newsr, dest) = dsp_asl56 (get_acc numreg s);
          (sr2, dest) = dsp_sub56 (get_acc (numreg XOR 1) s) dest;
          s = set_acc numreg dest s;
          s = ccr_all dest s
      in sr_set_vc (newsr OR sr2) s)"

definition dsp_subr :: "dsp \<Rightarrow> dsp" where
  "dsp_subr s =
     (let numreg = inst_dest s;
          (newsr, dest) = dsp_asr56 (get_acc numreg s);
          (sr2, dest) = dsp_sub56 (get_acc (numreg XOR 1) s) dest;
          s = set_acc numreg dest s;
          s = ccr_all dest s
      in sr_set_vc (newsr OR sr2) s)"

definition dsp_tfr :: "dsp \<Rightarrow> dsp" where
  "dsp_tfr s =
     (let destreg = inst_dest s
      in case source_cmp (drop_bit 4 (cur_inst s) AND BITMASK 3) destreg s of
           None \<Rightarrow> s
         | Some source \<Rightarrow> set_acc destreg source s)"

definition dsp_tst :: "dsp \<Rightarrow> dsp" where
  "dsp_tst s = sr_clear_v (ccr_all (get_acc (inst_dest s) s) s)"

section \<open>Multiplication\<close>

definition registers_mpy :: "(u32 \<times> u32) list" where
  "registers_mpy =
     [(DSP_REG_X0, DSP_REG_X0), (DSP_REG_Y0, DSP_REG_Y0), (DSP_REG_X1, DSP_REG_X0),
      (DSP_REG_Y1, DSP_REG_Y0), (DSP_REG_X0, DSP_REG_Y1), (DSP_REG_Y0, DSP_REG_X0),
      (DSP_REG_X1, DSP_REG_Y0), (DSP_REG_Y1, DSP_REG_X1)]"

text \<open>The product, negated when bit 2 of the instruction is set.\<close>

definition mpy_source :: "dsp \<Rightarrow> acc" where
  "mpy_source s =
     (let (srcreg1, srcreg2) = registers_mpy ! unat (drop_bit 4 (cur_inst s) AND BITMASK 3);
          source = dsp_mul56 (registers s srcreg1) (registers s srcreg2)
      in if cur_inst s AND shl1 2 \<noteq> 0 then snd (dsp_sub56 source (0, 0, 0)) else source)"

definition dsp_mac :: "dsp \<Rightarrow> dsp" where
  "dsp_mac s =
     (let source = mpy_source s;
          destreg = inst_dest s;
          (newsr, dest) = dsp_add56 source (get_acc destreg s);
          s = set_acc destreg dest s;
          s = ccr_all dest s
      in sr_set_v (ucast newsr AND 0xfe) s)"

definition dsp_macr :: "dsp \<Rightarrow> dsp" where
  "dsp_macr s =
     (let source = mpy_source s;
          destreg = inst_dest s;
          (newsr, dest) = dsp_add56 source (get_acc destreg s);
          dest = dsp_rnd56 s dest;
          s = set_acc destreg dest s;
          s = ccr_all dest s
      in sr_set_v (ucast newsr AND 0xfe) s)"

definition dsp_mpy :: "dsp \<Rightarrow> dsp" where
  "dsp_mpy s =
     (let source = mpy_source s;
          destreg = inst_dest s;
          s = set_acc destreg source s;
          s = ccr_all (get_acc destreg s) s
      in sr_clear_v s)"

definition dsp_mpyr :: "dsp \<Rightarrow> dsp" where
  "dsp_mpyr s =
     (let dest = mpy_source s;
          destreg = inst_dest s;
          dest = dsp_rnd56 s dest;
          s = set_acc destreg dest s;
          s = ccr_all dest s
      in sr_clear_v s)"

section \<open>Logic on the middle word\<close>

definition logic_source :: "dsp \<Rightarrow> u32" where
  "logic_source s =
     (let v = drop_bit 4 (cur_inst s) AND BITMASK 2
      in if v = 1 then DSP_REG_Y0 else if v = 2 then DSP_REG_X1
         else if v = 3 then DSP_REG_Y1 else DSP_REG_X0)"

abbreviation logic_dest :: "dsp \<Rightarrow> u32" where
  "logic_dest s \<equiv> DSP_REG_A1 + inst_dest s"

text \<open>Masking of the result, and N, Z and V (and C with the shifts) from it.\<close>

definition logic_flags :: "u32 \<Rightarrow> dsp \<Rightarrow> dsp" where
  "logic_flags dstreg s =
     (let s = and_reg DSP_REG_SR
                (BITMASK 16 - (shl1 DSP_SR_N OR shl1 DSP_SR_Z OR shl1 DSP_SR_V)) s;
          s = or_reg DSP_REG_SR (push_bit DSP_SR_N (drop_bit 23 (registers s dstreg) AND 1)) s
      in or_reg DSP_REG_SR (push_bit DSP_SR_Z (c_bool (registers s dstreg = 0))) s)"

definition shift_flags :: "u32 \<Rightarrow> u32 \<Rightarrow> dsp \<Rightarrow> dsp" where
  "shift_flags newcarry dstreg s =
     (let s = and_reg DSP_REG_SR
                (BITMASK 16 - (shl1 DSP_SR_C OR shl1 DSP_SR_N OR shl1 DSP_SR_Z OR shl1 DSP_SR_V)) s;
          s = or_reg DSP_REG_SR newcarry s;
          s = or_reg DSP_REG_SR (push_bit DSP_SR_N (drop_bit 23 (registers s dstreg) AND 1)) s
      in or_reg DSP_REG_SR (push_bit DSP_SR_Z (c_bool (registers s dstreg = 0))) s)"

definition dsp_and :: "dsp \<Rightarrow> dsp" where
  "dsp_and s =
     (let dstreg = logic_dest s;
          s = set_reg dstreg (registers s dstreg AND registers s (logic_source s)) s;
          s = and_reg dstreg (BITMASK 24) s
      in logic_flags dstreg s)"

definition dsp_eor :: "dsp \<Rightarrow> dsp" where
  "dsp_eor s =
     (let dstreg = logic_dest s;
          s = set_reg dstreg (registers s dstreg XOR registers s (logic_source s)) s;
          s = and_reg dstreg (BITMASK 24) s
      in logic_flags dstreg s)"

definition dsp_or :: "dsp \<Rightarrow> dsp" where
  "dsp_or s =
     (let dstreg = logic_dest s;
          s = set_reg dstreg (registers s dstreg OR registers s (logic_source s)) s;
          s = and_reg dstreg (BITMASK 24) s
      in logic_flags dstreg s)"

definition dsp_not :: "dsp \<Rightarrow> dsp" where
  "dsp_not s =
     (let dstreg = logic_dest s;
          s = set_reg dstreg (NOT (registers s dstreg)) s;
          s = and_reg dstreg (BITMASK 24) s
      in logic_flags dstreg s)"

definition dsp_lsl :: "dsp \<Rightarrow> dsp" where
  "dsp_lsl s =
     (let numreg = logic_dest s;
          newcarry = drop_bit 23 (registers s numreg) AND 1;
          s = set_reg numreg (push_bit 1 (registers s numreg)) s;
          s = and_reg numreg (BITMASK 24) s
      in shift_flags newcarry numreg s)"

definition dsp_lsr :: "dsp \<Rightarrow> dsp" where
  "dsp_lsr s =
     (let numreg = logic_dest s;
          newcarry = registers s numreg AND 1;
          s = set_reg numreg (drop_bit 1 (registers s numreg)) s;
          s = and_reg DSP_REG_SR
                (BITMASK 16 - (shl1 DSP_SR_C OR shl1 DSP_SR_N OR shl1 DSP_SR_Z OR shl1 DSP_SR_V)) s;
          s = or_reg DSP_REG_SR newcarry s
      in or_reg DSP_REG_SR (push_bit DSP_SR_Z (c_bool (registers s numreg = 0))) s)"

definition dsp_rol :: "dsp \<Rightarrow> dsp" where
  "dsp_rol s =
     (let dstreg = logic_dest s;
          newcarry = drop_bit 23 (registers s dstreg) AND 1;
          s = set_reg dstreg (push_bit 1 (registers s dstreg)) s;
          s = or_reg dstreg newcarry s;
          s = and_reg dstreg (BITMASK 24) s
      in shift_flags newcarry dstreg s)"

definition dsp_ror :: "dsp \<Rightarrow> dsp" where
  "dsp_ror s =
     (let dstreg = logic_dest s;
          newcarry = registers s dstreg AND 1;
          s = set_reg dstreg (drop_bit 1 (registers s dstreg)) s;
          s = or_reg dstreg (push_bit 23 newcarry) s;
          s = and_reg dstreg (BITMASK 24) s
      in shift_flags newcarry dstreg s)"

section \<open>Moves and the opcode tables\<close>

definition dsp_move :: "dsp \<Rightarrow> dsp" where
  "dsp_move s = s"

definition dsp_nop :: "dsp \<Rightarrow> dsp" where
  "dsp_nop s = s"

definition dsp_move_pm :: "dsp \<Rightarrow> dsp" where
  "dsp_move_pm s = dsp_parmove_write (dsp_parmove_read s)"

definition dsp_undefined :: "dsp \<Rightarrow> dsp" where
  "dsp_undefined s = s\<lparr>cur_inst_len := 0\<rparr>"

definition opcodes_alu003f :: "(dsp \<Rightarrow> dsp) list" where
  "opcodes_alu003f =
     [dsp_move, dsp_tfr, dsp_addr, dsp_tst, dsp_undefined, dsp_cmp, dsp_subr, dsp_cmpm,
      dsp_undefined, dsp_tfr, dsp_addr, dsp_tst, dsp_undefined, dsp_cmp, dsp_subr, dsp_cmpm,
      dsp_add, dsp_rnd, dsp_addl, dsp_clr, dsp_sub, dsp_undefined, dsp_subl, dsp_not,
      dsp_add, dsp_rnd, dsp_addl, dsp_clr, dsp_sub, dsp_undefined, dsp_subl, dsp_not,
      dsp_add, dsp_adc, dsp_asr, dsp_lsr, dsp_sub, dsp_sbc, dsp_abs, dsp_ror,
      dsp_add, dsp_adc, dsp_asr, dsp_lsr, dsp_sub, dsp_sbc, dsp_abs, dsp_ror,
      dsp_add, dsp_adc, dsp_asl, dsp_lsl, dsp_sub, dsp_sbc, dsp_neg, dsp_rol,
      dsp_add, dsp_adc, dsp_asl, dsp_lsl, dsp_sub, dsp_sbc, dsp_neg, dsp_rol]"

definition opcodes_alu407f :: "(dsp \<Rightarrow> dsp) list" where
  "opcodes_alu407f =
     [dsp_add, dsp_tfr, dsp_or, dsp_eor, dsp_sub, dsp_cmp, dsp_and, dsp_cmpm,
      dsp_add, dsp_tfr, dsp_or, dsp_eor, dsp_sub, dsp_cmp, dsp_and, dsp_cmpm]"

definition opcodes_alu80ff :: "(dsp \<Rightarrow> dsp) list" where
  "opcodes_alu80ff = [dsp_mpy, dsp_mpyr, dsp_mac, dsp_macr]"

end
