(* ===== verification/Dsp_Control.thy ===== *)
theory Dsp_Control
  imports Dsp_AluInstr
begin

text \<open>
  The instructions of \<^verbatim>\<open>src/dsp_cpu.c\<close> that take no parallel move: bit manipulation,
  jumps and subroutines, hardware loops, the moves of control registers, program memory and
  peripherals, and the remaining control instructions.
\<close>

section \<open>Bit manipulation\<close>

text \<open>
  The first statements of BCHG, BCLR, BSET, BTST and of the bit-test jumps: the memory operand of
  the cases 0 (absolute), 1 (effective address) and 2 (peripheral), and the register of case 3.
\<close>

abbreviation bit_case :: "dsp \<Rightarrow> u32" where
  "bit_case s \<equiv> drop_bit 14 (cur_inst s) AND BITMASK 2"

abbreviation bit_memspace :: "dsp \<Rightarrow> u32" where
  "bit_memspace s \<equiv> drop_bit 6 (cur_inst s) AND 1"

abbreviation bit_number :: "dsp \<Rightarrow> nat" where
  "bit_number s \<equiv> unat (cur_inst s AND BITMASK 5)"

definition bit_address :: "dsp \<Rightarrow> u32 \<times> dsp" where
  "bit_address s =
     (let value = drop_bit 8 (cur_inst s) AND BITMASK 6
      in if bit_case s = 0 then (value, s)
         else if bit_case s = 1
         then (case dsp_calc_ea value s of (retour, addr, s) \<Rightarrow> (addr, s))
         else (0xffc0 + value, s))"

definition bit_register :: "dsp \<Rightarrow> u32" where
  "bit_register s =
     (let numreg = drop_bit 8 (cur_inst s) AND BITMASK 6
      in if is_accu numreg then DSP_REG_A1 + (numreg AND 1) else numreg)"

definition bit_read :: "dsp \<Rightarrow> u32 \<times> dsp" where
  "bit_read s =
     (if bit_case s = 3 then (registers s (bit_register s), s)
      else let (addr, s) = bit_address s in read_memory (bit_memspace s) (ucast addr) s)"

definition sr_set_c :: "u32 \<Rightarrow> dsp \<Rightarrow> dsp" where
  "sr_set_c newcarry s =
     (let s = and_reg DSP_REG_SR (BITMASK 16 - shl1 DSP_SR_C) s
      in or_reg DSP_REG_SR (push_bit DSP_SR_C newcarry) s)"

text \<open>
  The shape of the three modifying instructions: \<open>modify newcarry numbit value\<close> is the new
  value, \<open>a2 newcarry\<close> the extension byte when bit 23 of an accumulator changes.
\<close>

definition bit_modify :: "(u32 \<Rightarrow> nat \<Rightarrow> u32 \<Rightarrow> u32) \<Rightarrow> (u32 \<Rightarrow> u32) \<Rightarrow> dsp \<Rightarrow> dsp" where
  "bit_modify modify a2 s =
     (let numbit = bit_number s
      in if bit_case s = 3
         then let srcreg = drop_bit 8 (cur_inst s) AND BITMASK 6;
                  numreg = bit_register s;
                  value = registers s numreg;
                  newcarry = drop_bit numbit value AND 1;
                  s = set_reg numreg (modify newcarry numbit value) s;
                  s = (if is_accu srcreg \<and> numbit = 23
                       then set_reg (DSP_REG_A2 + (srcreg AND 1)) (a2 newcarry) s else s)
              in sr_set_c newcarry s
         else let (addr, s) = bit_address s;
                  (value, s) = read_memory (bit_memspace s) (ucast addr) s;
                  newcarry = drop_bit numbit value AND 1;
                  s = write_memory (bit_memspace s) (ucast addr) (modify newcarry numbit value) s
              in sr_set_c newcarry s)"

definition dsp_bchg :: "dsp \<Rightarrow> dsp" where
  "dsp_bchg = bit_modify
     (\<lambda>newcarry numbit value. if newcarry \<noteq> 0 then value - shl1 numbit else value + shl1 numbit)
     (\<lambda>newcarry. if newcarry \<noteq> 0 then 0x00 else 0xff)"

definition dsp_bclr :: "dsp \<Rightarrow> dsp" where
  "dsp_bclr = bit_modify (\<lambda>newcarry numbit value. value AND (0xffffffff - shl1 numbit)) (\<lambda>_. 0x00)"

definition dsp_bset :: "dsp \<Rightarrow> dsp" where
  "dsp_bset = bit_modify (\<lambda>newcarry numbit value. value OR shl1 numbit) (\<lambda>_. 0xff)"

definition dsp_btst :: "dsp \<Rightarrow> dsp" where
  "dsp_btst s =
     (let numbit = bit_number s;
          (value, s) = bit_read s
      in sr_set_c (drop_bit numbit value AND 1) s)"

section \<open>Status register, division, normalisation\<close>

definition dsp_andi :: "dsp \<Rightarrow> dsp" where
  "dsp_andi s =
     (let value = drop_bit 8 (cur_inst s) AND BITMASK 8;
          regnum = cur_inst s AND BITMASK 2
      in if regnum = 0 then and_reg DSP_REG_SR (push_bit 8 value OR BITMASK 8) s
         else if regnum = 1 then and_reg DSP_REG_SR (push_bit 8 (BITMASK 8) OR value) s
         else if regnum = 2 then and_reg DSP_REG_OMR value s
         else s)"

definition dsp_ori :: "dsp \<Rightarrow> dsp" where
  "dsp_ori s =
     (let value = drop_bit 8 (cur_inst s) AND BITMASK 8;
          regnum = cur_inst s AND BITMASK 2
      in if regnum = 0 then or_reg DSP_REG_SR (push_bit 8 value) s
         else if regnum = 1 then or_reg DSP_REG_SR value s
         else if regnum = 2 then or_reg DSP_REG_OMR value s
         else s)"

definition dsp_div :: "dsp \<Rightarrow> dsp" where
  "dsp_div s =
     (let srcreg = [DSP_REG_X0, DSP_REG_Y0, DSP_REG_X1, DSP_REG_Y1] !
                     unat (drop_bit 4 (cur_inst s) AND BITMASK 2);
          destreg = DSP_REG_A + inst_dest s;
          source = (if registers s srcreg AND shl1 23 \<noteq> 0 then 0xff else 0, registers s srcreg, 0);
          dest = get_acc (destreg AND 1) s;
          (newsr, shifted) = dsp_asl56 dest;
          dest = (if (drop_bit 7 (fst dest) AND 1) XOR (drop_bit 23 (registers s srcreg) AND 1) \<noteq> 0
                  then snd (dsp_add56 source shifted) else snd (dsp_sub56 source shifted));
          (d0, d1, d2) = dest;
          d2 = d2 OR (drop_bit DSP_SR_C (registers s DSP_REG_SR) AND 1);
          s = set_acc (destreg AND 1) (d0, d1, d2) s;
          s = and_reg DSP_REG_SR (BITMASK 16 - (shl1 DSP_SR_C OR shl1 DSP_SR_V)) s;
          s = or_reg DSP_REG_SR (push_bit DSP_SR_C (1 - (drop_bit 7 d0 AND 1))) s;
          s = or_reg DSP_REG_SR (ucast newsr AND shl1 DSP_SR_L) s
      in or_reg DSP_REG_SR (ucast newsr AND shl1 DSP_SR_V) s)"

definition dsp_norm :: "dsp \<Rightarrow> dsp" where
  "dsp_norm s =
     (let cursr = registers s DSP_REG_SR;
          cur_e = drop_bit DSP_SR_E cursr AND 1;
          cur_euz = NOT cur_e;
          cur_euz = cur_euz AND (drop_bit DSP_SR_U cursr AND 1);
          cur_euz = cur_euz AND NOT (drop_bit DSP_SR_Z cursr AND 1);
          cur_euz = cur_euz AND 1;
          numreg = inst_dest s;
          dest = get_acc numreg s;
          rreg = DSP_REG_R0 + (drop_bit 8 (cur_inst s) AND BITMASK 3);
          (newsr, dest, s) =
            (if cur_euz \<noteq> 0
             then let (newsr, dest) = dsp_asl56 dest;
                      s = set_reg rreg (registers s rreg - 1) s
                  in (newsr, dest, and_reg rreg (BITMASK 16) s)
             else if cur_e \<noteq> 0
             then let (newsr, dest) = dsp_asr56 dest;
                      s = set_reg rreg (registers s rreg + 1) s
                  in (newsr, dest, and_reg rreg (BITMASK 16) s)
             else (0, dest, s));
          s = set_acc numreg dest s;
          s = ccr_all dest s
      in sr_set_vc newsr s)"

section \<open>Hardware loops\<close>

definition dsp_do_aa :: "dsp \<Rightarrow> dsp" where
  "dsp_do_aa s =
     (let memspace = drop_bit 6 (cur_inst s) AND 1;
          addr = drop_bit 8 (cur_inst s) AND BITMASK 6;
          (value, s) = read_memory memspace (ucast addr) s
      in set_reg DSP_REG_LC (value AND BITMASK 16) s)"

definition dsp_do_imm :: "dsp \<Rightarrow> dsp" where
  "dsp_do_imm s =
     set_reg DSP_REG_LC
       ((drop_bit 8 (cur_inst s) AND BITMASK 8) + push_bit 8 (cur_inst s AND BITMASK 4)) s"

definition dsp_do_ea :: "dsp \<Rightarrow> dsp" where
  "dsp_do_ea s =
     (let memspace = drop_bit 6 (cur_inst s) AND 1;
          ea_mode = drop_bit 8 (cur_inst s) AND BITMASK 6;
          (retour, addr, s) = dsp_calc_ea ea_mode s;
          (value, s) = read_memory memspace (ucast addr) s
      in set_reg DSP_REG_LC (value AND BITMASK 16) s)"

definition dsp_do_reg :: "dsp \<Rightarrow> dsp" where
  "dsp_do_reg s =
     (let numreg = drop_bit 8 (cur_inst s) AND BITMASK 6;
          s = (if is_accu numreg then snd (dsp_pm_read_accu24 numreg (set_reg DSP_REG_LC) s)
               else set_reg DSP_REG_LC (registers s numreg) s)
      in and_reg DSP_REG_LC (BITMASK 16) s)"

definition opcodes_do :: "(dsp \<Rightarrow> dsp) list" where
  "opcodes_do =
     [dsp_do_aa, dsp_do_imm, dsp_do_ea, dsp_do_imm, dsp_undefined, dsp_do_imm, dsp_do_reg, dsp_do_imm]"

definition dsp_do :: "dsp \<Rightarrow> dsp" where
  "dsp_do s =
     (let s = dsp_stack_push (registers s DSP_REG_LA) (registers s DSP_REG_LC) s;
          s = set_reg DSP_REG_LA (read_memory_p s (pc s + 1) AND BITMASK 16) s;
          s = s\<lparr>cur_inst_len := cur_inst_len s + 1\<rparr>;
          s = dsp_stack_push (ucast (pc s) + cur_inst_len s) (registers s DSP_REG_SR) s;
          s = or_reg DSP_REG_SR (shl1 DSP_SR_LF) s;
          value = push_bit 1 (drop_bit 14 (cur_inst s) AND BITMASK 2) OR (drop_bit 7 (cur_inst s) AND 1)
      in (opcodes_do ! unat value) s)"

definition dsp_enddo :: "dsp \<Rightarrow> dsp" where
  "dsp_enddo s =
     (let s = stack_pop_into None DSP_REG_SR s
      in stack_pop_into (Some DSP_REG_LA) DSP_REG_LC s)"

definition dsp_rep_aa :: "dsp \<Rightarrow> dsp" where
  "dsp_rep_aa s =
     (let (value, s) = read_memory (drop_bit 6 (cur_inst s) AND 1)
                         (ucast (drop_bit 8 (cur_inst s) AND BITMASK 6)) s
      in set_reg DSP_REG_LC value s)"

definition dsp_rep_imm :: "dsp \<Rightarrow> dsp" where
  "dsp_rep_imm s =
     set_reg DSP_REG_LC
       ((drop_bit 8 (cur_inst s) AND BITMASK 8) + push_bit 8 (cur_inst s AND BITMASK 4)) s"

definition dsp_rep_ea :: "dsp \<Rightarrow> dsp" where
  "dsp_rep_ea s =
     (let (retour, value, s) = dsp_calc_ea (drop_bit 8 (cur_inst s) AND BITMASK 6) s;
          (value, s) = read_memory (drop_bit 6 (cur_inst s) AND 1) (ucast value) s
      in set_reg DSP_REG_LC value s)"

definition dsp_rep_reg :: "dsp \<Rightarrow> dsp" where
  "dsp_rep_reg s =
     (let numreg = drop_bit 8 (cur_inst s) AND BITMASK 6;
          s = (if is_accu numreg then snd (dsp_pm_read_accu24 numreg (set_reg DSP_REG_LC) s)
               else set_reg DSP_REG_LC (registers s numreg) s)
      in and_reg DSP_REG_LC (BITMASK 16) s)"

definition opcodes_rep :: "(dsp \<Rightarrow> dsp) list" where
  "opcodes_rep =
     [dsp_rep_aa, dsp_rep_imm, dsp_rep_ea, dsp_rep_imm,
      dsp_undefined, dsp_rep_imm, dsp_rep_reg, dsp_rep_imm]"

definition dsp_rep :: "dsp \<Rightarrow> dsp" where
  "dsp_rep s =
     (let s = set_reg DSP_REG_LCSAVE (registers s DSP_REG_LC) s;
          value = push_bit 1 (drop_bit 14 (cur_inst s) AND BITMASK 2) OR (drop_bit 7 (cur_inst s) AND 1);
          s = (opcodes_rep ! unat value) s
      in s\<lparr>pc_on_rep := 1, loop_rep := 1\<rparr>)"

section \<open>Jumps and subroutines\<close>

abbreviation jump_to :: "u32 \<Rightarrow> dsp \<Rightarrow> dsp" where
  "jump_to newpc s \<equiv> s\<lparr>pc := ucast newpc, cur_inst_len := 0\<rparr>"

text \<open>The target and the condition code of Jcc and JScc; \<open>long\<close> is the opcode of the form with
  an effective address, \<open>short\<close> that of the 12-bit form.\<close>

definition cc_target :: "u32 \<Rightarrow> u32 \<Rightarrow> dsp \<Rightarrow> u32 \<times> u32 \<times> dsp" where
  "cc_target long short s =
     (let op = drop_bit 16 (cur_inst s) AND BITMASK 8
      in if op = long
         then (case dsp_calc_ea (drop_bit 8 (cur_inst s) AND BITMASK 6) s of
                 (retour, newpc, s) \<Rightarrow> (newpc, cur_inst s AND BITMASK 4, s))
         else if op = short
         then (cur_inst s AND BITMASK 12, drop_bit 12 (cur_inst s) AND BITMASK 4, s)
         else (ucast (pc s), 0, s))"

definition dsp_jcc :: "dsp \<Rightarrow> dsp" where
  "dsp_jcc s =
     (let (newpc, cc_code, s) = cc_target 0x0a 0x0e s
      in if dsp_calc_cc cc_code s then jump_to newpc s else s)"

definition dsp_jscc :: "dsp \<Rightarrow> dsp" where
  "dsp_jscc s =
     (let (newpc, cc_code, s) = cc_target 0x0b 0x0f s
      in if dsp_calc_cc cc_code s
         then jump_to newpc
                (dsp_stack_push (ucast (pc s) + cur_inst_len s) (registers s DSP_REG_SR) s)
         else s)"

text \<open>The polling-loop test of JCLR.\<close>

definition jclr_polling :: "u32 \<Rightarrow> dsp \<Rightarrow> bool" where
  "jclr_polling newpc s =
     (let pollingLoop = (newpc = ucast (pc s));
          pollingLoop = (if \<not> pollingLoop \<and> newpc < ucast (pc s)
                         then list_all (\<lambda>i. read_memory_p s (of_nat i) = 0)
                                [unat newpc..<unat (pc s)]
                         else pollingLoop)
      in if \<not> pollingLoop \<and> newpc + 2 = ucast (pc s)
         then read_memory_p s (ucast newpc) = 0x08f4a0 \<and>
              read_memory_p s (ucast (newpc + 1)) = 0x000001
         else pollingLoop)"

definition dsp_jclr :: "dsp \<Rightarrow> dsp" where
  "dsp_jclr s =
     (let numbit = bit_number s;
          (memspace, addr, value, s) =
            (if bit_case s = 3
             then (0xffff0000, 0xffff0000, registers s (bit_register s), s)
             else let memspace = bit_memspace s;
                      (addr, s) = bit_address s;
                      (value, s) = read_memory memspace (ucast addr) s
                  in (memspace, addr, value, s));
          s = s\<lparr>cur_inst_len := cur_inst_len s + 1\<rparr>
      in if value AND shl1 numbit = 0
         then let newpc = read_memory_p s (pc s + 1);
                  s = (if jclr_polling newpc s \<and> memspace = DSP_SPACE_X \<and>
                          addr = 0xffc0 + ucast DSP_HOST_HSR
                       then let s = (if numbit = DSP_HOST_HSR_HRDF then pauseThread s else s)
                            in if numbit = DSP_HOST_HSR_HTDE then pauseThread s else s
                       else s)
              in jump_to newpc s
         else s)"

definition dsp_jmp :: "dsp \<Rightarrow> dsp" where
  "dsp_jmp s =
     (let op = drop_bit 16 (cur_inst s) AND BITMASK 8;
          (newpc, s) =
            (if op = 0x0a
             then (case dsp_calc_ea (drop_bit 8 (cur_inst s) AND BITMASK 6) s of
                     (retour, newpc, s) \<Rightarrow> (newpc, s))
             else if op = 0x0c then (cur_inst s AND BITMASK 12, s)
             else (ucast (pc s), s));
          s = s\<lparr>cur_inst_len := 0\<rparr>
      in if newpc = ucast (pc s) then pauseThread s else s\<lparr>pc := ucast newpc\<rparr>)"

text \<open>The jump of JSCLR and JSSET, and of JSET, once the bit has been tested.\<close>

definition jump_subroutine :: "dsp \<Rightarrow> dsp" where
  "jump_subroutine s =
     (let s = dsp_stack_push (ucast (pc s) + cur_inst_len s) (registers s DSP_REG_SR) s;
          newpc = read_memory_p s (pc s + 1)
      in jump_to newpc s)"

definition dsp_jsclr :: "dsp \<Rightarrow> dsp" where
  "dsp_jsclr s =
     (let numbit = bit_number s;
          (value, s) = bit_read s;
          s = s\<lparr>cur_inst_len := cur_inst_len s + 1\<rparr>
      in if value AND shl1 numbit = 0 then jump_subroutine s else s)"

definition dsp_jset :: "dsp \<Rightarrow> dsp" where
  "dsp_jset s =
     (let numbit = bit_number s;
          (value, s) = bit_read s;
          s = s\<lparr>cur_inst_len := cur_inst_len s + 1\<rparr>
      in if value AND shl1 numbit \<noteq> 0 then jump_to (read_memory_p s (pc s + 1)) s else s)"

definition dsp_jsset :: "dsp \<Rightarrow> dsp" where
  "dsp_jsset s =
     (let numbit = bit_number s;
          (value, s) = bit_read s;
          s = s\<lparr>cur_inst_len := cur_inst_len s + 1\<rparr>
      in if value AND shl1 numbit \<noteq> 0 then jump_subroutine s else s)"

definition dsp_jsr :: "dsp \<Rightarrow> dsp" where
  "dsp_jsr s =
     (let (newpc, s) =
            (if drop_bit 12 (cur_inst s) AND BITMASK 4 = 0 then (cur_inst s AND BITMASK 12, s)
             else (case dsp_calc_ea (drop_bit 8 (cur_inst s) AND BITMASK 6) s of
                     (retour, newpc, s) \<Rightarrow> (newpc, s)));
          s = (if interrupt_state s \<noteq> DSP_INTERRUPT_LONG
               then dsp_stack_push (ucast (pc s) + cur_inst_len s) (registers s DSP_REG_SR) s
               else s\<lparr>interrupt_state := DSP_INTERRUPT_NONE\<rparr>)
      in jump_to newpc s)"

definition dsp_rti :: "dsp \<Rightarrow> dsp" where
  "dsp_rti s =
     (let (popped, s) = dsp_stack_pop s;
          (newpc, newsr) = (case popped of None \<Rightarrow> (0, 0) | Some p \<Rightarrow> p);
          s = s\<lparr>pc := ucast newpc\<rparr>;
          s = set_reg DSP_REG_SR newsr s
      in s\<lparr>cur_inst_len := 0\<rparr>)"

definition dsp_rts :: "dsp \<Rightarrow> dsp" where
  "dsp_rts s =
     (let (popped, s) = dsp_stack_pop s;
          newpc = (case popped of None \<Rightarrow> 0 | Some (newpc, newsr) \<Rightarrow> newpc)
      in jump_to newpc s)"

section \<open>Moves without parallel form\<close>

text \<open>A 24-bit value into accumulator \<open>n\<close>, and a value into a register with its mask.\<close>

definition load_accu :: "u32 \<Rightarrow> u32 \<Rightarrow> dsp \<Rightarrow> dsp" where
  "load_accu n value s =
     (let s = set_reg (DSP_REG_A2 + n) (if value AND shl1 23 \<noteq> 0 then 0xff else 0) s;
          s = set_reg (DSP_REG_A1 + n) (value AND BITMASK 24) s
      in set_reg (DSP_REG_A0 + n) 0 s)"

definition load_register :: "u32 \<Rightarrow> u32 \<Rightarrow> dsp \<Rightarrow> dsp" where
  "load_register numreg value s = and_reg numreg (reg_mask numreg) (set_reg numreg value s)"

text \<open>The value of a register, an accumulator limited to 24 bits, into a local variable.\<close>

definition read_source :: "u32 \<Rightarrow> dsp \<Rightarrow> u32 \<times> dsp" where
  "read_source numreg s =
     (if is_accu numreg
      then (snd (accu24_limited numreg s), snd (dsp_pm_read_accu24 numreg (\<lambda>_ s. s) s))
      else (registers s numreg, s))"

definition dsp_lua :: "dsp \<Rightarrow> dsp" where
  "dsp_lua s =
     (let srcreg = drop_bit 8 (cur_inst s) AND BITMASK 3;
          srcsave = registers s (DSP_REG_R0 + srcreg);
          (retour, value, s) = dsp_calc_ea (drop_bit 8 (cur_inst s) AND BITMASK 5) s;
          srcnew = registers s (DSP_REG_R0 + srcreg);
          s = set_reg (DSP_REG_R0 + srcreg) srcsave s;
          dstreg = cur_inst s AND BITMASK 3
      in if cur_inst s AND shl1 3 \<noteq> 0 then set_reg (DSP_REG_N0 + dstreg) srcnew s
         else set_reg (DSP_REG_R0 + dstreg) srcnew s)"

definition dsp_movec_reg :: "dsp \<Rightarrow> dsp" where
  "dsp_movec_reg s =
     (let numreg2 = drop_bit 8 (cur_inst s) AND BITMASK 6;
          numreg1 = cur_inst s AND BITMASK 6
      in if cur_inst s AND shl1 15 \<noteq> 0
         then let s = (if is_accu numreg2
                       then snd (dsp_pm_read_accu24 numreg2 (set_reg numreg1) s)
                       else set_reg numreg1 (registers s numreg2) s)
              in and_reg numreg1 (reg_mask numreg1) s
         else if is_accu numreg2 then load_accu (numreg2 AND 1) (registers s numreg1) s
         else load_register numreg2 (registers s numreg1) s)"

definition dsp_movec_aa :: "dsp \<Rightarrow> dsp" where
  "dsp_movec_aa s =
     (let numreg = cur_inst s AND BITMASK 6;
          addr = drop_bit 8 (cur_inst s) AND BITMASK 6;
          memspace = drop_bit 6 (cur_inst s) AND 1
      in if cur_inst s AND shl1 15 \<noteq> 0
         then let (value, s) = read_memory memspace (ucast addr) s in load_register numreg value s
         else write_memory memspace (ucast addr) (registers s numreg) s)"

definition dsp_movec_imm :: "dsp \<Rightarrow> dsp" where
  "dsp_movec_imm s = set_reg (cur_inst s AND BITMASK 6) (drop_bit 8 (cur_inst s) AND BITMASK 8) s"

definition dsp_movec_ea :: "dsp \<Rightarrow> dsp" where
  "dsp_movec_ea s =
     (let numreg = cur_inst s AND BITMASK 6;
          ea_mode = drop_bit 8 (cur_inst s) AND BITMASK 6;
          memspace = drop_bit 6 (cur_inst s) AND 1;
          (retour, addr, s) = dsp_calc_ea ea_mode s
      in if cur_inst s AND shl1 15 \<noteq> 0
         then let (value, s) = (if retour then (addr, s) else read_memory memspace (ucast addr) s)
              in load_register numreg value s
         else write_memory memspace (ucast addr) (registers s numreg) s)"

definition opcodes_movec :: "(dsp \<Rightarrow> dsp) list" where
  "opcodes_movec =
     [dsp_undefined, dsp_undefined, dsp_undefined, dsp_movec_reg,
      dsp_movec_aa, dsp_movec_ea, dsp_movec_imm, dsp_movec_imm]"

definition dsp_movec :: "dsp \<Rightarrow> dsp" where
  "dsp_movec s =
     (let value = (drop_bit 14 (cur_inst s) AND 5) OR (drop_bit 6 (cur_inst s) AND shl1 1)
      in (opcodes_movec ! unat value) s)"

definition dsp_movem :: "dsp \<Rightarrow> dsp" where
  "dsp_movem s =
     (let numreg = cur_inst s AND BITMASK 6;
          (addr, s) =
            (if cur_inst s AND shl1 14 \<noteq> 0
             then (case dsp_calc_ea (drop_bit 8 (cur_inst s) AND BITMASK 6) s of
                     (retour, addr, s) \<Rightarrow> (addr, s))
             else (drop_bit 8 (cur_inst s) AND BITMASK 6, s))
      in if cur_inst s AND shl1 15 \<noteq> 0
         then if is_accu numreg then load_accu (numreg AND 1) (read_memory_p s (ucast addr)) s
              else load_register numreg (read_memory_p s (ucast addr)) s
         else let (value, s) = read_source numreg s
              in write_memory DSP_SPACE_P (ucast addr) value s)"

definition dsp_movep_0 :: "dsp \<Rightarrow> dsp" where
  "dsp_movep_0 s =
     (let addr = 0xffc0 + (cur_inst s AND BITMASK 6);
          memspace = drop_bit 16 (cur_inst s) AND 1;
          numreg = drop_bit 8 (cur_inst s) AND BITMASK 6
      in if cur_inst s AND shl1 15 \<noteq> 0
         then let (value, s) = read_source numreg s
              in write_memory memspace (ucast addr) value s
         else let (value, s) = read_memory memspace (ucast addr) s
              in if is_accu numreg then load_accu (numreg AND 1) value s
                 else load_register numreg value s)"

definition dsp_movep_1 :: "dsp \<Rightarrow> dsp" where
  "dsp_movep_1 s =
     (let xyaddr = 0xffc0 + (cur_inst s AND BITMASK 6);
          (retour, paddr, s) = dsp_calc_ea (drop_bit 8 (cur_inst s) AND BITMASK 6) s;
          memspace = drop_bit 16 (cur_inst s) AND 1
      in if cur_inst s AND shl1 15 \<noteq> 0
         then write_memory memspace (ucast xyaddr) (read_memory_p s (ucast paddr)) s
         else let (value, s) = read_memory memspace (ucast xyaddr) s
              in write_memory DSP_SPACE_P (ucast paddr) value s)"

definition dsp_movep_2 :: "dsp \<Rightarrow> dsp" where
  "dsp_movep_2 s =
     (let peraddr = 0xffc0 + (cur_inst s AND BITMASK 6);
          perspace = drop_bit 16 (cur_inst s) AND 1;
          ea_mode = drop_bit 8 (cur_inst s) AND BITMASK 6;
          easpace = drop_bit 6 (cur_inst s) AND 1;
          (retour, addr, s) = dsp_calc_ea ea_mode s
      in if cur_inst s AND shl1 15 \<noteq> 0
         then let (value, s) = (if retour then (addr, s) else read_memory easpace (ucast addr) s)
              in write_memory perspace (ucast peraddr) value s
         else let (value, s) = read_memory perspace (ucast peraddr) s
              in write_memory easpace (ucast addr) value s)"

definition opcodes_movep :: "(dsp \<Rightarrow> dsp) list" where
  "opcodes_movep = [dsp_movep_0, dsp_movep_1, dsp_movep_2, dsp_movep_2]"

definition dsp_movep :: "dsp \<Rightarrow> dsp" where
  "dsp_movep s = (opcodes_movep ! unat (drop_bit 6 (cur_inst s) AND BITMASK 2)) s"

definition registers_tcc :: "(u32 \<times> u32) list" where
  "registers_tcc =
     [(DSP_REG_B, DSP_REG_A), (DSP_REG_A, DSP_REG_B),
      (DSP_REG_NULL, DSP_REG_NULL), (DSP_REG_NULL, DSP_REG_NULL),
      (DSP_REG_NULL, DSP_REG_NULL), (DSP_REG_NULL, DSP_REG_NULL),
      (DSP_REG_NULL, DSP_REG_NULL), (DSP_REG_NULL, DSP_REG_NULL),
      (DSP_REG_X0, DSP_REG_A), (DSP_REG_X0, DSP_REG_B), (DSP_REG_Y0, DSP_REG_A), (DSP_REG_Y0, DSP_REG_B),
      (DSP_REG_X1, DSP_REG_A), (DSP_REG_X1, DSP_REG_B), (DSP_REG_Y1, DSP_REG_A), (DSP_REG_Y1, DSP_REG_B)]"

definition dsp_tcc :: "dsp \<Rightarrow> dsp" where
  "dsp_tcc s =
     (if dsp_calc_cc (drop_bit 12 (cur_inst s) AND BITMASK 4) s
      then
        let (regsrc1, regdest1) = registers_tcc ! unat (drop_bit 3 (cur_inst s) AND BITMASK 4);
            (v0, v1, v2) = (if is_accu regsrc1 then get_acc (regsrc1 AND 1) s
                            else (sign_byte (registers s regsrc1), registers s regsrc1, 0));
            s = set_pm_src 0 2 v2 (set_pm_src 0 1 v1 (set_pm_src 0 0 v0 s));
            s = set_acc (regdest1 AND 1) (v0, v1, v2) s
        in if cur_inst s AND shl1 16 \<noteq> 0
           then let regsrc2 = DSP_REG_R0 + (drop_bit 8 (cur_inst s) AND BITMASK 3);
                    regdest2 = DSP_REG_R0 + (cur_inst s AND BITMASK 3)
                in set_reg regdest2 (registers s regsrc2) s
           else s
      else s)"

section \<open>Other control instructions\<close>

definition dsp_illegal :: "dsp \<Rightarrow> dsp" where
  "dsp_illegal s = s"

definition dsp_reset :: "dsp \<Rightarrow> dsp" where
  "dsp_reset s = s"

definition dsp_stop :: "dsp \<Rightarrow> dsp" where
  "dsp_stop s = pauseThread s"

definition dsp_wait :: "dsp \<Rightarrow> dsp" where
  "dsp_wait s = pauseThread s"

definition dsp_swi :: "dsp \<Rightarrow> dsp" where
  "dsp_swi s = s\<lparr>swi_inter := 1\<rparr>"

end
