(* ===== verification/Dsp_Exec.thy ===== *)
theory Dsp_Exec
  imports Dsp_Control
begin

text \<open>
  The emulator kernel of \<^verbatim>\<open>src/dsp_cpu.c\<close>: decoding, the update of the program counter
  with REP and DO loops, interrupts, and the execution of one instruction.
\<close>

section \<open>Decoding\<close>

definition opcode8h_0 :: "dsp \<Rightarrow> dsp" where
  "opcode8h_0 s =
     (let i = cur_inst s
      in if i \<le> 0x00008c
         then (if i = 0x000000 then dsp_nop s
               else if i = 0x000004 then dsp_rti s
               else if i = 0x000005 then dsp_illegal s
               else if i = 0x000006 then dsp_swi s
               else if i = 0x00000c then dsp_rts s
               else if i = 0x000084 then dsp_reset s
               else if i = 0x000086 then dsp_wait s
               else if i = 0x000087 then dsp_stop s
               else if i = 0x00008c then dsp_enddo s
               else s)
         else (if i AND 0xf8 = 0x0000b8 then dsp_andi s
               else if i AND 0xf8 = 0x0000f8 then dsp_ori s
               else s))"

definition opcode8h_1 :: "dsp \<Rightarrow> dsp" where
  "opcode8h_1 s =
     (if cur_inst s AND 0xfff000 = 0x018000 then dsp_div s
      else if cur_inst s AND 0xfff000 = 0x01d000 then dsp_norm s else s)"

definition opcode8h_4 :: "dsp \<Rightarrow> dsp" where
  "opcode8h_4 s =
     (let v = drop_bit 5 (cur_inst s) AND BITMASK 3
      in if v = 0 then dsp_lua s else if v = 5 then dsp_movec s else s)"

definition opcode8h_6 :: "dsp \<Rightarrow> dsp" where
  "opcode8h_6 s = (if cur_inst s AND shl1 5 \<noteq> 0 then dsp_rep s else dsp_do s)"

definition opcodes_0809 :: "(dsp \<Rightarrow> dsp) list" where
  "opcodes_0809 =
     [dsp_move_pm, dsp_move_pm, dsp_move_pm, dsp_move_pm, dsp_movep, dsp_movep, dsp_movep, dsp_movep,
      dsp_move_pm, dsp_move_pm, dsp_move_pm, dsp_move_pm, dsp_movep, dsp_movep, dsp_movep, dsp_movep]"

definition opcodes_0a :: "(dsp \<Rightarrow> dsp) list" where
  "opcodes_0a =
     [dsp_bclr, dsp_bset, dsp_bclr, dsp_bset, dsp_jclr, dsp_jset, dsp_jclr, dsp_jset,
      dsp_bclr, dsp_bset, dsp_bclr, dsp_bset, dsp_jclr, dsp_jset, dsp_jclr, dsp_jset,
      dsp_bclr, dsp_bset, dsp_bclr, dsp_bset, dsp_jclr, dsp_jset, dsp_jclr, dsp_jset,
      dsp_jclr, dsp_jset, dsp_bclr, dsp_bset, dsp_jmp, dsp_jcc, dsp_undefined, dsp_undefined]"

definition opcodes_0b :: "(dsp \<Rightarrow> dsp) list" where
  "opcodes_0b =
     [dsp_bchg, dsp_btst, dsp_bchg, dsp_btst, dsp_jsclr, dsp_jsset, dsp_jsclr, dsp_jsset,
      dsp_bchg, dsp_btst, dsp_bchg, dsp_btst, dsp_jsclr, dsp_jsset, dsp_jsclr, dsp_jsset,
      dsp_bchg, dsp_btst, dsp_bchg, dsp_btst, dsp_jsclr, dsp_jsset, dsp_jsclr, dsp_jsset,
      dsp_jsclr, dsp_jsclr, dsp_bchg, dsp_btst, dsp_jsr, dsp_jscc, dsp_undefined, dsp_undefined]"

definition opcode8h_8 :: "dsp \<Rightarrow> dsp" where
  "opcode8h_8 s = (opcodes_0809 ! unat (drop_bit 12 (cur_inst s) AND BITMASK 4)) s"

text \<open>The index into the two bit-manipulation tables.\<close>

definition bit_opcode :: "u32 \<Rightarrow> u32" where
  "bit_opcode inst = (drop_bit 11 inst AND push_bit 3 (BITMASK 2)) OR (drop_bit 5 inst AND BITMASK 3)"

definition opcode8h_a :: "dsp \<Rightarrow> dsp" where
  "opcode8h_a s = (opcodes_0a ! unat (bit_opcode (cur_inst s))) s"

definition opcode8h_b :: "dsp \<Rightarrow> dsp" where
  "opcode8h_b s = (opcodes_0b ! unat (bit_opcode (cur_inst s))) s"

definition opcodes8h :: "(dsp \<Rightarrow> dsp) list" where
  "opcodes8h =
     [opcode8h_0, opcode8h_1, dsp_tcc, dsp_tcc, opcode8h_4, dsp_movec, opcode8h_6, dsp_movem,
      opcode8h_8, opcode8h_8, opcode8h_a, opcode8h_b, dsp_jmp, dsp_jsr, dsp_jcc, dsp_jscc]"

section \<open>Update of the program counter\<close>

text \<open>The part for REP.\<close>

definition update_pc_rep :: "dsp \<Rightarrow> dsp" where
  "update_pc_rep s =
     (if loop_rep s \<noteq> 0
      then if pc_on_rep s = 0
           then let s = set_reg DSP_REG_LC (registers s DSP_REG_LC - 1) s;
                    s = and_reg DSP_REG_LC (BITMASK 16) s
                in if registers s DSP_REG_LC > 0 then s\<lparr>cur_inst_len := 0\<rparr>
                   else set_reg DSP_REG_LC (registers s DSP_REG_LCSAVE) (s\<lparr>loop_rep := 0\<rparr>)
           else let s = (if registers s DSP_REG_LC = 0 then set_reg DSP_REG_LC 0x010000 s else s)
                in s\<lparr>pc_on_rep := 0\<rparr>
      else s)"

text \<open>The part for DO.\<close>

definition update_pc_do :: "dsp \<Rightarrow> dsp" where
  "update_pc_do s =
     (if registers s DSP_REG_SR AND shl1 DSP_SR_LF \<noteq> 0 \<and>
         ucast (pc s) = registers s DSP_REG_LA + 1
      then let s = set_reg DSP_REG_LC (registers s DSP_REG_LC - 1) s;
               s = and_reg DSP_REG_LC (BITMASK 16) s
           in if registers s DSP_REG_LC = 0
              then let s = stack_pop_into None DSP_REG_SR s
                   in stack_pop_into (Some DSP_REG_LA) DSP_REG_LC s
              else let s = (if registers s DSP_REG_SSH < 15 then s else out_of_bounds s)
                   in s\<lparr>pc := stack s 0 (registers s DSP_REG_SSH)\<rparr>
      else s)"

definition dsp_postexecute_update_pc :: "dsp \<Rightarrow> dsp" where
  "dsp_postexecute_update_pc s =
     (let s = update_pc_rep s;
          s = (if cur_inst_len s > 0 then s\<lparr>pc := pc s + ucast (cur_inst_len s)\<rparr> else s)
      in update_pc_do s)"

section \<open>Interrupts\<close>

text \<open>The value 99 of the code is "no interrupt".\<close>

definition dsp_hi_interrupts :: "dsp \<Rightarrow> u32 \<times> dsp" where
  "dsp_hi_interrupts s =
     (let host_hcr = periph s DSP_SPACE_X DSP_HOST_HCR;
          host_hsr = periph s DSP_SPACE_X DSP_HOST_HSR;
          ipl_hi = drop_bit 10 (periph s DSP_SPACE_X DSP_IPR) AND BITMASK 2
      in if host_hcr AND shl1 DSP_HOST_HCR_HCIE \<noteq> 0 \<and> host_hsr AND shl1 DSP_HOST_HSR_HCP \<noteq> 0
         then let s = lockMutex s;
                  s = and_periph DSP_SPACE_X DSP_HOST_HSR (0xff - shl1 DSP_HOST_HSR_HCP) s;
                  s = and_hostport CPU_HOST_CVR (0xff - push_bit CPU_HOST_CVR_HC 1) s;
                  s = unlockMutex s;
                  s = s\<lparr>interrupt_instr_fetch := ucast (hostport s CPU_HOST_CVR) AND BITMASK 5\<rparr>;
                  s = s\<lparr>interrupt_instr_fetch := interrupt_instr_fetch s * 2\<rparr>
              in (ipl_hi, s)
         else if host_hcr AND shl1 DSP_HOST_HCR_HRIE \<noteq> 0 \<and> host_hsr AND shl1 DSP_HOST_HSR_HRDF \<noteq> 0
         then let s = lockMutex s;
                  s = and_periph DSP_SPACE_X DSP_HOST_HSR (0xff - shl1 DSP_HOST_HSR_HRDF) s;
                  s = unlockMutex s
              in (ipl_hi, s\<lparr>interrupt_instr_fetch := 0x0020\<rparr>)
         else if host_hcr AND shl1 DSP_HOST_HCR_HTIE \<noteq> 0 \<and> host_hsr AND shl1 DSP_HOST_HSR_HTDE = 0
         then let s = lockMutex s;
                  s = and_periph DSP_SPACE_X DSP_HOST_HSR (0xff - shl1 DSP_HOST_HSR_HTDE) s;
                  s = unlockMutex s
              in (ipl_hi, s\<lparr>interrupt_instr_fetch := 0x0022\<rparr>)
         else (99, s))"

definition dsp_ssi_interrupts :: "dsp \<Rightarrow> u32 \<times> dsp" where
  "dsp_ssi_interrupts s =
     (let ssi_crb = periph s DSP_SPACE_X DSP_SSI_CRB;
          ssi_sr = periph s DSP_SPACE_X DSP_SSI_SR;
          ipl_ssi = drop_bit 12 (periph s DSP_SPACE_X DSP_IPR) AND BITMASK 2;
          rdf_roe = shl1 DSP_SSI_SR_RDF OR shl1 DSP_SSI_SR_ROE;
          tdf_tue = shl1 DSP_SSI_SR_TDF OR shl1 DSP_SSI_SR_TUE
      in if ssi_crb AND shl1 DSP_SSI_CRB_RIE \<noteq> 0 \<and> ssi_sr AND rdf_roe = rdf_roe
         then let s = and_periph DSP_SPACE_X DSP_SSI_SR (0xff - shl1 DSP_SSI_SR_ROE) s
              in (ipl_ssi, s\<lparr>interrupt_instr_fetch := 0x000e\<rparr>)
         else if ssi_crb AND shl1 DSP_SSI_CRB_RIE \<noteq> 0 \<and> ssi_sr AND rdf_roe = shl1 DSP_SSI_SR_RDF
         then (ipl_ssi, s\<lparr>interrupt_instr_fetch := 0x000c\<rparr>)
         else if ssi_crb AND shl1 DSP_SSI_CRB_TIE \<noteq> 0 \<and> ssi_sr AND tdf_tue = tdf_tue
         then let s = and_periph DSP_SPACE_X DSP_SSI_SR (0xff - shl1 DSP_SSI_SR_TUE) s
              in (ipl_ssi, s\<lparr>interrupt_instr_fetch := 0x0012\<rparr>)
         else if ssi_crb AND shl1 DSP_SSI_CRB_TIE \<noteq> 0 \<and> ssi_sr AND tdf_tue = shl1 DSP_SSI_SR_TDF
         then (ipl_ssi, s\<lparr>interrupt_instr_fetch := 0x0010\<rparr>)
         else (99, s))"

text \<open>The choice between the two peripherals, the one with the higher level first.\<close>

definition peripheral_interrupts :: "u32 \<Rightarrow> dsp \<Rightarrow> u32 \<times> dsp" where
  "peripheral_interrupts ipl s =
     (let ipl_hi = drop_bit 10 (periph s DSP_SPACE_X DSP_IPR) AND BITMASK 2;
          ipl_ssi = drop_bit 12 (periph s DSP_SPACE_X DSP_IPR) AND BITMASK 2
      in if ipl_hi \<ge> ipl_ssi
         then let (ipl_to_raise, s) = (if ipl_hi \<ge> ipl then dsp_hi_interrupts s else (99, s))
              in if ipl_to_raise = 99 \<and> ipl_ssi \<ge> ipl then dsp_ssi_interrupts s
                 else (ipl_to_raise, s)
         else let (ipl_to_raise, s) = (if ipl_ssi \<ge> ipl then dsp_ssi_interrupts s else (99, s))
              in if ipl_to_raise = 99 \<and> ipl_hi \<ge> ipl then dsp_hi_interrupts s
                 else (ipl_to_raise, s))"

text \<open>The test for a long interrupt on one of the two vectored instructions.\<close>

definition is_long_interrupt :: "u32 \<Rightarrow> bool" where
  "is_long_interrupt instr \<longleftrightarrow>
     drop_bit 16 instr AND BITMASK 8 = 0xd \<or> bit_opcode instr = 0x1c"

definition raise_interrupt :: "u32 \<Rightarrow> dsp \<Rightarrow> dsp" where
  "raise_interrupt ipl_to_raise s =
     (let instr1 = read_memory_p s (ucast (interrupt_instr_fetch s));
          instr2 = read_memory_p s (ucast (interrupt_instr_fetch s + 1));
          s = s\<lparr>interrupt_state := DSP_INTERRUPT_FAST\<rparr>;
          s = (if is_long_interrupt instr1 \<or> is_long_interrupt instr2
               then s\<lparr>interrupt_state := DSP_INTERRUPT_LONG\<rparr> else s)
      in if interrupt_state s = DSP_INTERRUPT_FAST
         then let s = s\<lparr>interrupt_save_pc := ucast (pc s)\<rparr>
              in s\<lparr>pc := ucast (interrupt_instr_fetch s)\<rparr>
         else let s = dsp_stack_push (ucast (pc s)) (registers s DSP_REG_SR) s;
                  s = and_reg DSP_REG_SR
                        (BITMASK 16 - (shl1 DSP_SR_LF OR shl1 DSP_SR_T OR shl1 DSP_SR_S1 OR
                                       shl1 DSP_SR_S0 OR shl1 DSP_SR_I0 OR shl1 DSP_SR_I1)) s;
                  s = or_reg DSP_REG_SR (push_bit DSP_SR_I0 ipl_to_raise) s
              in s\<lparr>pc := ucast (interrupt_instr_fetch s), interrupt_instr_fetch := - 1,
                   interrupt_save_pc := - 1\<rparr>)"

definition dsp_postexecute_interrupts :: "dsp \<Rightarrow> dsp" where
  "dsp_postexecute_interrupts s =
     (if loop_rep s \<noteq> 0 then s
      else if interrupt_state s = DSP_INTERRUPT_FAST
      then (if ucast (pc s) \<ge> interrupt_instr_fetch s + 2
            then let s = (if ucast (pc s) = interrupt_instr_fetch s + 2
                          then s\<lparr>pc := ucast (interrupt_save_pc s)\<rparr> else s)
                 in s\<lparr>interrupt_instr_fetch := - 1, interrupt_state := DSP_INTERRUPT_NONE,
                      interrupt_save_pc := - 1\<rparr>
            else s)
      else if registers s DSP_REG_SR AND shl1 DSP_SR_T \<noteq> 0
      then raise_interrupt 3 (s\<lparr>interrupt_instr_fetch := 0x0004\<rparr>)
      else if swi_inter s = 1
      then raise_interrupt 3 (s\<lparr>swi_inter := 0, interrupt_instr_fetch := 0x0006\<rparr>)
      else
        let ipl = drop_bit DSP_SR_I0 (registers s DSP_REG_SR) AND BITMASK 2
        in if ipl = 3 then s
           else let (ipl_to_raise, s) = peripheral_interrupts ipl s
                in if ipl_to_raise \<noteq> 99 then raise_interrupt ipl_to_raise s else s)"

section \<open>One instruction\<close>

definition execute_decoded :: "dsp \<Rightarrow> dsp" where
  "execute_decoded s =
     (let value = drop_bit 16 (cur_inst s) AND BITMASK 8
      in if value < 0x10 \<and> cur_inst s AND 0xfe4000 \<noteq> 0x080000
         then (opcodes8h ! unat value) s
         else
           let s = dsp_parmove_read s;
               value = cur_inst s AND BITMASK 8;
               s = (if value < 0x40 then (opcodes_alu003f ! unat value) s
                    else if value < 0x80 then (opcodes_alu407f ! unat (value AND BITMASK 4)) s
                    else (opcodes_alu80ff ! unat (value AND BITMASK 2)) s)
           in dsp_parmove_write s)"

definition dsp56k_execute_instruction :: "dsp \<Rightarrow> dsp" where
  "dsp56k_execute_instruction s =
     (let s = s\<lparr>cur_inst := read_memory_p s (pc s), cur_inst_len := 1\<rparr>;
          s = execute_decoded s;
          s = dsp_postexecute_update_pc s
      in dsp_postexecute_interrupts s)"

end
