(* ===== verification/Dsp_Invariant.thy ===== *)
theory Dsp_Invariant
  imports Dsp_Exec
begin

text \<open>
  What one instruction can do to the state. The locale \<open>dsp_invariant\<close> is the contract of a
  predicate on the state of the core that the instruction set needs to keep: the instructions of
  \<^verbatim>\<open>src/dsp_cpu.c\<close> change the state only by assignments to the 64 registers, to the 15 levels of the
  stack, and to the private variables of the interpreter, and by calls of \<^verbatim>\<open>read_memory\<close>,
  \<^verbatim>\<open>write_memory\<close>, \<^verbatim>\<open>DSP_PAUSE_CORE\<close> and the two interrupt pollers. A predicate
  that those keep is kept by every instruction. The rules \<open>wp\<close> follow the statements of a
  handler.
\<close>

section \<open>The contract\<close>

text \<open>
  The other conjuncts are what the handlers owe each other: a pending parallel move into a register
  points into the register array, and one into memory names one of the three memories.
\<close>

definition dsp_inv :: "(dsp \<Rightarrow> bool) \<Rightarrow> dsp \<Rightarrow> bool" where
  "dsp_inv P s \<longleftrightarrow> P s \<and> (\<forall>i j r. tmp_parmove_dest s i j = Host_pointer r \<longrightarrow> r < 64) \<and>
     (\<forall>i. tmp_parmove_space s i < 3)"

locale dsp_invariant =
  fixes P :: "dsp \<Rightarrow> bool"
  assumes registers: "P s \<Longrightarrow> r < 64 \<Longrightarrow> P (registers_update (\<lambda>f. f(r := g f)) s)"
    and stack: "P s \<Longrightarrow> i < 2 \<Longrightarrow> j < 15 \<Longrightarrow> P (set_stack i j v s)"
    and pc: "P s \<Longrightarrow> P (pc_update f1 s)"
    and cur_inst: "P s \<Longrightarrow> P (cur_inst_update f2 s)"
    and cur_inst_len: "P s \<Longrightarrow> P (cur_inst_len_update f2 s)"
    and parmove_src: "P s \<Longrightarrow> P (tmp_parmove_src_update f3 s)"
    and parmove_dest: "P s \<Longrightarrow> P (tmp_parmove_dest_update f4 s)"
    and parmove_start: "P s \<Longrightarrow> P (tmp_parmove_start_update f5 s)"
    and parmove_len: "P s \<Longrightarrow> P (tmp_parmove_len_update f5 s)"
    and parmove_type: "P s \<Longrightarrow> P (tmp_parmove_type_update f6 s)"
    and parmove_space: "P s \<Longrightarrow> P (tmp_parmove_space_update f7 s)"
    and loop_rep: "P s \<Longrightarrow> P (loop_rep_update f2 s)"
    and pc_on_rep: "P s \<Longrightarrow> P (pc_on_rep_update f2 s)"
    and swi_inter: "P s \<Longrightarrow> P (swi_inter_update f2 s)"
    and interrupt_state: "P s \<Longrightarrow> P (interrupt_state_update f1 s)"
    and interrupt_fetch: "P s \<Longrightarrow> P (interrupt_instr_fetch_update f2 s)"
    and interrupt_save: "P s \<Longrightarrow> P (interrupt_save_pc_update f2 s)"
    and out_of_bounds: "P s \<Longrightarrow> P (out_of_bounds s)"
    and read_memory: "P s \<Longrightarrow> P (snd (read_memory sp a s))"
    and write_memory: "P s \<Longrightarrow> sp < 3 \<Longrightarrow> P (write_memory_raw sp a x s)"
    and pauseThread: "P s \<Longrightarrow> P (pauseThread s)"
    and hi_interrupts: "P s \<Longrightarrow> P (snd (dsp_hi_interrupts s))"
    and ssi_interrupts: "P s \<Longrightarrow> P (snd (dsp_ssi_interrupts s))"
begin

lemma updates:
  "dsp_inv P s \<Longrightarrow> r < 64 \<Longrightarrow> dsp_inv P (registers_update (\<lambda>f. f(r := g f)) s)"
  "dsp_inv P s \<Longrightarrow> i < 2 \<Longrightarrow> j < 15 \<Longrightarrow> dsp_inv P (set_stack i j v s)"
  "dsp_inv P s \<Longrightarrow> dsp_inv P (pc_update f1 s)"
  "dsp_inv P s \<Longrightarrow> dsp_inv P (cur_inst_update f2 s)"
  "dsp_inv P s \<Longrightarrow> dsp_inv P (cur_inst_len_update f2 s)"
  "dsp_inv P s \<Longrightarrow> dsp_inv P (tmp_parmove_src_update f3 s)"
  "dsp_inv P s \<Longrightarrow> dsp_inv P (tmp_parmove_start_update f5 s)"
  "dsp_inv P s \<Longrightarrow> dsp_inv P (tmp_parmove_len_update f5 s)"
  "dsp_inv P s \<Longrightarrow> dsp_inv P (tmp_parmove_type_update f6 s)"
  "dsp_inv P s \<Longrightarrow> sp < 3 \<Longrightarrow> dsp_inv P (set_pm_space k sp s)"
  "dsp_inv P s \<Longrightarrow> dsp_inv P (loop_rep_update f2 s)"
  "dsp_inv P s \<Longrightarrow> dsp_inv P (pc_on_rep_update f2 s)"
  "dsp_inv P s \<Longrightarrow> dsp_inv P (swi_inter_update f2 s)"
  "dsp_inv P s \<Longrightarrow> dsp_inv P (interrupt_state_update f1 s)"
  "dsp_inv P s \<Longrightarrow> dsp_inv P (interrupt_instr_fetch_update f2 s)"
  "dsp_inv P s \<Longrightarrow> dsp_inv P (interrupt_save_pc_update f2 s)"
  "dsp_inv P s \<Longrightarrow> dsp_inv P (out_of_bounds s)"
  "dsp_inv P s \<Longrightarrow> dsp_inv P (set_pm_dest k l (Dsp_address y) s)"
  "dsp_inv P s \<Longrightarrow> r < 64 \<Longrightarrow> dsp_inv P (set_pm_dest k l (Host_pointer r) s)"
  by (simp_all add: dsp_inv_def registers stack pc cur_inst cur_inst_len parmove_src parmove_dest
      parmove_start parmove_len parmove_type parmove_space loop_rep pc_on_rep swi_inter
      interrupt_state interrupt_fetch interrupt_save out_of_bounds)

end

text \<open>None of the operations that the locale leaves open writes the pending moves.\<close>

lemma parmove_frame:
  "tmp_parmove_dest (snd (read_memory sp a s)) = tmp_parmove_dest s"
  "tmp_parmove_space (snd (read_memory sp a s)) = tmp_parmove_space s"
  "tmp_parmove_dest (write_memory_raw sp a x s) = tmp_parmove_dest s"
  "tmp_parmove_space (write_memory_raw sp a x s) = tmp_parmove_space s"
  "tmp_parmove_dest (pauseThread s) = tmp_parmove_dest s"
  "tmp_parmove_space (pauseThread s) = tmp_parmove_space s"
  "tmp_parmove_dest (snd (dsp_hi_interrupts s)) = tmp_parmove_dest s"
  "tmp_parmove_space (snd (dsp_hi_interrupts s)) = tmp_parmove_space s"
  "tmp_parmove_dest (snd (dsp_ssi_interrupts s)) = tmp_parmove_dest s"
  "tmp_parmove_space (snd (dsp_ssi_interrupts s)) = tmp_parmove_space s"
  by (simp_all add: read_memory_def write_memory_raw_def write_periph_x_def write_ram_def thread_defs
      host_transfer_defs dsp_hi_interrupts_def dsp_ssi_interrupts_def Let_def)
section \<open>Rules for the statements of a handler\<close>

lemma inv_seq:
  fixes A :: dsp
  shows "dsp_inv P A \<Longrightarrow> (\<And>x. dsp_inv P x \<Longrightarrow> dsp_inv P (B x)) \<Longrightarrow> dsp_inv P (let x = A in B x)"
    "dsp_inv P A \<Longrightarrow> (\<And>x. dsp_inv P x \<Longrightarrow> dsp_inv P (snd (C x))) \<Longrightarrow> dsp_inv P (snd (let x = A in C x))"
    "dsp_inv P A \<Longrightarrow> (\<And>x. dsp_inv P x \<Longrightarrow> dsp_inv P (snd (snd (D x)))) \<Longrightarrow>
      dsp_inv P (snd (snd (let x = A in D x)))"
  by (simp_all add: Let_def)

lemma inv_seq2:
  fixes A :: "'a \<times> dsp"
  shows "dsp_inv P (snd A) \<Longrightarrow> (\<And>v s. dsp_inv P s \<Longrightarrow> dsp_inv P (B v s)) \<Longrightarrow>
      dsp_inv P (let (v, s) = A in B v s)"
    "dsp_inv P (snd A) \<Longrightarrow> (\<And>v s. dsp_inv P s \<Longrightarrow> dsp_inv P (B v s)) \<Longrightarrow>
      dsp_inv P (case A of (v, s) \<Rightarrow> B v s)"
    "dsp_inv P (snd A) \<Longrightarrow> (\<And>v s. dsp_inv P s \<Longrightarrow> dsp_inv P (snd (C v s))) \<Longrightarrow>
      dsp_inv P (snd (let (v, s) = A in C v s))"
    "dsp_inv P (snd A) \<Longrightarrow> (\<And>v s. dsp_inv P s \<Longrightarrow> dsp_inv P (snd (C v s))) \<Longrightarrow>
      dsp_inv P (snd (case A of (v, s) \<Rightarrow> C v s))"
  by (simp_all add: Let_def case_prod_unfold)

lemma inv_seq3:
  fixes A :: "'a \<times> 'b \<times> dsp"
  shows "dsp_inv P (snd (snd A)) \<Longrightarrow> (\<And>u v s. dsp_inv P s \<Longrightarrow> dsp_inv P (B u v s)) \<Longrightarrow>
      dsp_inv P (let (u, v, s) = A in B u v s)"
    "dsp_inv P (snd (snd A)) \<Longrightarrow> (\<And>u v s. dsp_inv P s \<Longrightarrow> dsp_inv P (B u v s)) \<Longrightarrow>
      dsp_inv P (case A of (u, v, s) \<Rightarrow> B u v s)"
    "dsp_inv P (snd (snd A)) \<Longrightarrow> (\<And>u v s. dsp_inv P s \<Longrightarrow> dsp_inv P (snd (C u v s))) \<Longrightarrow>
      dsp_inv P (snd (let (u, v, s) = A in C u v s))"
    "dsp_inv P (snd (snd A)) \<Longrightarrow> (\<And>u v s. dsp_inv P s \<Longrightarrow> dsp_inv P (snd (C u v s))) \<Longrightarrow>
      dsp_inv P (snd (case A of (u, v, s) \<Rightarrow> C u v s))"
    "dsp_inv P (snd (snd A)) \<Longrightarrow> (\<And>u v s. dsp_inv P s \<Longrightarrow> dsp_inv P (snd (snd (D u v s)))) \<Longrightarrow>
      dsp_inv P (snd (snd (case A of (u, v, s) \<Rightarrow> D u v s)))"
  by (simp_all add: Let_def case_prod_unfold)

lemma inv_if:
  "(c \<Longrightarrow> dsp_inv P a) \<Longrightarrow> (\<not> c \<Longrightarrow> dsp_inv P b) \<Longrightarrow> dsp_inv P (if c then a else b)"
  "(c \<Longrightarrow> dsp_inv P (snd d)) \<Longrightarrow> (\<not> c \<Longrightarrow> dsp_inv P (snd e)) \<Longrightarrow> dsp_inv P (snd (if c then d else e))"
  "(c \<Longrightarrow> dsp_inv P (snd (snd f))) \<Longrightarrow> (\<not> c \<Longrightarrow> dsp_inv P (snd (snd g))) \<Longrightarrow>
    dsp_inv P (snd (snd (if c then f else g)))"
  by simp_all

lemma inv_value:
  "(\<And>x. x = A \<Longrightarrow> dsp_inv P (B x)) \<Longrightarrow> dsp_inv P (let x = A in B x)"
  "(\<And>x. x = A \<Longrightarrow> dsp_inv P (snd (C x))) \<Longrightarrow> dsp_inv P (snd (let x = A in C x))"
  "(\<And>x. x = A \<Longrightarrow> dsp_inv P (snd (snd (D x)))) \<Longrightarrow> dsp_inv P (snd (snd (let x = A in D x)))"
  by (simp_all add: Let_def)

lemma inv_value2:
  "(\<And>x y. (x, y) = A2 \<Longrightarrow> dsp_inv P (B x y)) \<Longrightarrow> dsp_inv P (let (x, y) = A2 in B x y)"
  "(\<And>x y. (x, y) = A2 \<Longrightarrow> dsp_inv P (snd (C x y))) \<Longrightarrow> dsp_inv P (snd (let (x, y) = A2 in C x y))"
  "(\<And>x y. (x, y) = A2 \<Longrightarrow> dsp_inv P (snd (snd (E x y)))) \<Longrightarrow> dsp_inv P (snd (snd (let (x, y) = A2 in E x y)))"
  "(\<And>x y z. (x, y, z) = A3 \<Longrightarrow> dsp_inv P (D x y z)) \<Longrightarrow> dsp_inv P (let (x, y, z) = A3 in D x y z)"
  by (simp_all add: Let_def case_prod_unfold)

lemma inv_pair:
  "dsp_inv P s \<Longrightarrow> dsp_inv P (snd (v, s))"
  "dsp_inv P s \<Longrightarrow> dsp_inv P (snd (snd (u, v, s)))"
  by simp_all

lemma inv_option:
  "(A = None \<Longrightarrow> dsp_inv P b) \<Longrightarrow> (\<And>x. A = Some x \<Longrightarrow> dsp_inv P (C x)) \<Longrightarrow>
   dsp_inv P (case A of None \<Rightarrow> b | Some x \<Rightarrow> C x)"
  "(\<And>x y. A' = (x, y) \<Longrightarrow> dsp_inv P (D x y)) \<Longrightarrow> dsp_inv P (case A' of (x, y) \<Rightarrow> D x y)"
  by (cases A, simp_all) (cases A', simp)

lemma inv_table:
  "list_all (\<lambda>f. \<forall>s. dsp_inv P s \<longrightarrow> dsp_inv P (f s)) tbl \<Longrightarrow> i < length tbl \<Longrightarrow> dsp_inv P s \<Longrightarrow>
   dsp_inv P ((tbl ! i) s)"
  by (simp add: list_all_length)

lemma inv_bool:
  "(c \<Longrightarrow> dsp_inv P a) \<Longrightarrow> (\<not> c \<Longrightarrow> dsp_inv P b) \<Longrightarrow> dsp_inv P (case c of True \<Rightarrow> a | False \<Rightarrow> b)"
  by (cases c) simp_all

lemma inv_fold:
  "(\<And>x s. x \<in> set xs \<Longrightarrow> dsp_inv P s \<Longrightarrow> dsp_inv P (f x s)) \<Longrightarrow> dsp_inv P s \<Longrightarrow> dsp_inv P (fold f xs s)"
  by (induction xs arbitrary: s) auto

lemma inv_seq4:
  fixes A :: "'a \<times> 'b \<times> 'c \<times> dsp" and C :: "'d \<times> dsp"
  shows "dsp_inv P (snd (snd (snd A))) \<Longrightarrow> (\<And>u v w s. dsp_inv P s \<Longrightarrow> dsp_inv P (B u v w s)) \<Longrightarrow>
      dsp_inv P (let (u, v, w, s) = A in B u v w s)"
    "(c \<Longrightarrow> dsp_inv P (snd (snd (snd f)))) \<Longrightarrow> (\<not> c \<Longrightarrow> dsp_inv P (snd (snd (snd g)))) \<Longrightarrow>
      dsp_inv P (snd (snd (snd (if c then f else g))))"
    "dsp_inv P (snd C) \<Longrightarrow> (\<And>v s. dsp_inv P s \<Longrightarrow> dsp_inv P (snd (snd (snd (D v s))))) \<Longrightarrow>
      dsp_inv P (snd (snd (snd (let (v, s) = C in D v s))))"
    "(\<And>x. x = E \<Longrightarrow> dsp_inv P (snd (snd (snd (F x))))) \<Longrightarrow> dsp_inv P (snd (snd (snd (let x = E in F x))))"
    "dsp_inv P s \<Longrightarrow> dsp_inv P (snd (snd (snd (u, v, w, s))))"
  by (simp_all add: Let_def case_prod_unfold)

lemmas wp = inv_seq inv_seq3 inv_seq2 inv_if inv_bool inv_option inv_pair inv_value2 inv_value

section \<open>Register numbers and table indices\<close>

lemma reg_bound:
  "x AND 1 < (64 :: u32)" "x AND 7 < (64 :: u32)" "x AND 24 < (64 :: u32)" "x AND 31 < (64 :: u32)" "x AND 63 < (64 :: u32)"
  by (rule order_le_less_trans [OF word_and_le1], simp)+

lemma space_bound: "x AND 1 < (3 :: u32)"
  by (rule order_le_less_trans [OF word_and_le1]) simp

lemma reg_sum_bound: "y \<le> 7 \<Longrightarrow> c \<le> 56 \<Longrightarrow> c + y < (64 :: u32)"
  by unat_arith

lemma or_bound: "x < 64 \<Longrightarrow> y < 64 \<Longrightarrow> x OR y < (64 :: u32)"
  using OR_upper [of "uint x" 6 "uint y"] by (simp add: word_less_def unsigned_or_eq)

lemma index_bound: "unat m < k \<Longrightarrow> unat (x AND m) < k" for x :: u32
  using word_and_le1 [of x m] by (simp add: word_le_nat_alt)

lemma table_bound: "\<forall>x \<in> set xs. Q x \<Longrightarrow> i < length xs \<Longrightarrow> Q (xs ! i)"
  by simp

lemma pm_register_bound: "pm_x_register i < 64" "pm_y_register i < 64"
  unfolding pm_x_register_def pm_y_register_def by (rule table_bound, simp, simp add: index_bound)+

lemma accu_reg: "DSP_REG_A2 + (x AND 1) < (64 :: u32)" "DSP_REG_A1 + (x AND 1) < (64 :: u32)"
  "DSP_REG_A0 + (x AND 1) < (64 :: u32)" "DSP_REG_X0 + (x AND 1) < (64 :: u32)" "DSP_REG_Y0 + (x AND 1) < (64 :: u32)"
  "DSP_REG_R0 + (x AND 7) < (64 :: u32)" "DSP_REG_N0 + (x AND 7) < (64 :: u32)"
  by (rule reg_sum_bound, simp_all add: order_trans [OF word_and_le1] word_and_le1)+

lemma lmove_bound: "i < 8 \<Longrightarrow> fst (registers_lmove ! i) < 64 \<and> snd (registers_lmove ! i) < 64"
  by (rule table_bound [where Q = "\<lambda>p. fst p < 64 \<and> snd p < 64"]) (simp_all add: registers_lmove_def)

lemma unat_or_less:
  fixes a b :: u32
  assumes "unat a < 2 ^ n" "unat b < 2 ^ n"
  shows "unat (a OR b) < 2 ^ n"
proof -
  have "take_bit n (unat a OR unat b) = unat a OR unat b"
    using assms by (simp add: take_bit_nat_eq_self)
  then show ?thesis by (simp only: unsigned_or_eq take_bit_nat_eq_self_iff)
qed

lemma lmove_regs:
  assumes eq: "(r1, r2) = registers_lmove ! unat numreg" and num: "numreg = (x AND BITMASK 2) OR (y AND shl1 2)"
  shows "r1 < 64" "r2 < 64"
proof -
  have "unat numreg < 2 ^ 3"
    unfolding num by (rule unat_or_less) (simp_all add: index_bound)
  then have "fst (r1, r2) < 64 \<and> snd (r1, r2) < 64"
    unfolding eq by (intro lmove_bound) simp
  then show "r1 < 64" "r2 < 64" by simp_all
qed

text \<open>The indices into the dispatch tables are in range.\<close>

lemma bit_opcode_bound: "unat (bit_opcode i) < length opcodes_0a" "unat (bit_opcode i) < length opcodes_0b"
proof -
  have "unat (bit_opcode i) < 2 ^ 5"
    unfolding bit_opcode_def by (rule unat_or_less) (simp_all add: index_bound)
  then show "unat (bit_opcode i) < length opcodes_0a" "unat (bit_opcode i) < length opcodes_0b"
    by (simp_all add: opcodes_0a_def opcodes_0b_def)
qed

lemma opcode_index:
  "v = push_bit 1 (x AND BITMASK 2) OR (y AND 1) \<Longrightarrow> unat v < length opcodes_do"
  "v = push_bit 1 (x AND BITMASK 2) OR (y AND 1) \<Longrightarrow> unat v < length opcodes_rep"
  "v = (x AND 5) OR (y AND shl1 1) \<Longrightarrow> unat v < length opcodes_movec"
proof -
  have "push_bit 1 (x AND 3) = push_bit 1 x AND (6 :: u32)"
    by (simp add: push_bit_and)
  then have "unat (push_bit 1 (x AND BITMASK 2) OR (y AND 1)) < 2 ^ 3"
    by (intro unat_or_less) (simp_all add: index_bound)
  then show "v = push_bit 1 (x AND BITMASK 2) OR (y AND 1) \<Longrightarrow> unat v < length opcodes_do"
    "v = push_bit 1 (x AND BITMASK 2) OR (y AND 1) \<Longrightarrow> unat v < length opcodes_rep"
    by (simp_all add: opcodes_do_def opcodes_rep_def)
  have "unat ((x AND 5) OR (y AND shl1 1)) < 2 ^ 3"
    by (rule unat_or_less) (simp_all add: index_bound)
  then show "v = (x AND 5) OR (y AND shl1 1) \<Longrightarrow> unat v < length opcodes_movec"
    by (simp add: opcodes_movec_def)
qed

section \<open>Every instruction keeps the contract\<close>

context dsp_invariant begin

lemma memory:
  "dsp_inv P s \<Longrightarrow> dsp_inv P (snd (read_memory sp a s))"
  "dsp_inv P s \<Longrightarrow> sp < 3 \<Longrightarrow> dsp_inv P (write_memory_raw sp a x s)"
  "dsp_inv P s \<Longrightarrow> dsp_inv P (pauseThread s)"
  "dsp_inv P s \<Longrightarrow> dsp_inv P (snd (dsp_hi_interrupts s))"
  "dsp_inv P s \<Longrightarrow> dsp_inv P (snd (dsp_ssi_interrupts s))"
  by (simp_all add: dsp_inv_def parmove_frame read_memory write_memory pauseThread
      hi_interrupts ssi_interrupts)

lemma stack_push: "dsp_inv P s \<Longrightarrow> dsp_inv P (dsp_stack_push c d s)"
  unfolding dsp_stack_push_def by (intro wp updates memory) simp_all

lemma stack_pop: "dsp_inv P s \<Longrightarrow> dsp_inv P (snd (dsp_stack_pop s))"
  unfolding dsp_stack_pop_def by (intro wp updates memory) simp_all

lemma update_rn: "numreg \<le> 7 \<Longrightarrow> dsp_inv P s \<Longrightarrow> dsp_inv P (dsp_update_rn numreg m s)"
  unfolding dsp_update_rn_def dsp_update_rn_bitreverse_def dsp_update_rn_modulo_def
  by (intro wp updates memory) (simp_all add: reg_sum_bound)

lemma calc_ea: "dsp_inv P s \<Longrightarrow> dsp_inv P (snd (snd (dsp_calc_ea ea s)))"
  unfolding dsp_calc_ea_def
  by (intro wp updates memory update_rn) (simp_all add: reg_sum_bound word_and_le1)

lemma stack_pop_into: "rsr < 64 \<Longrightarrow> (\<And>r. rpc = Some r \<Longrightarrow> r < 64) \<Longrightarrow> dsp_inv P s \<Longrightarrow> dsp_inv P (stack_pop_into rpc rsr s)"
  unfolding stack_pop_into_def by (intro wp updates stack_pop) simp_all

lemma read_accu24:
  "(\<And>v s. dsp_inv P s \<Longrightarrow> dsp_inv P (store v s)) \<Longrightarrow> dsp_inv P s \<Longrightarrow>
   dsp_inv P (snd (dsp_pm_read_accu24 numreg store s))"
  unfolding dsp_pm_read_accu24_def by (auto simp: Let_def case_prod_unfold intro!: updates)

lemma ccr: "dsp_inv P s \<Longrightarrow> dsp_inv P (ccr_all d s)"
  unfolding ccr_all_def dsp_ccr_zero_def dsp_ccr_negative_def dsp_ccr_unnormalized_def dsp_ccr_extension_def
  by (cases d) (simp only: prod.case, intro wp updates, simp_all)

lemma acc: "n \<le> 1 \<Longrightarrow> dsp_inv P s \<Longrightarrow> dsp_inv P (set_acc n d s)"
  unfolding set_acc_def by (cases d) (simp only: prod.case, intro updates, simp_all add: reg_sum_bound order_trans [of n 1])

lemma sr:
  "dsp_inv P s \<Longrightarrow> dsp_inv P (sr_set_vc nsr s)" "dsp_inv P s \<Longrightarrow> dsp_inv P (sr_set_v b s)"
  "dsp_inv P s \<Longrightarrow> dsp_inv P (sr_clear_v s)"
  unfolding sr_set_vc_def sr_set_v_def sr_clear_v_def by (intro wp updates; simp)+

lemmas alu_steps = wp updates ccr acc sr

lemma alu:
  "dsp_inv P s \<Longrightarrow> dsp_inv P (dsp_abs s)" "dsp_inv P s \<Longrightarrow> dsp_inv P (dsp_adc s)"
  "dsp_inv P s \<Longrightarrow> dsp_inv P (dsp_add s)" "dsp_inv P s \<Longrightarrow> dsp_inv P (dsp_addl s)"
  "dsp_inv P s \<Longrightarrow> dsp_inv P (dsp_addr s)" "dsp_inv P s \<Longrightarrow> dsp_inv P (dsp_asl s)"
  "dsp_inv P s \<Longrightarrow> dsp_inv P (dsp_asr s)" "dsp_inv P s \<Longrightarrow> dsp_inv P (dsp_clr s)"
  "dsp_inv P s \<Longrightarrow> dsp_inv P (dsp_cmp s)" "dsp_inv P s \<Longrightarrow> dsp_inv P (dsp_cmpm s)"
  "dsp_inv P s \<Longrightarrow> dsp_inv P (dsp_neg s)" "dsp_inv P s \<Longrightarrow> dsp_inv P (dsp_rnd s)"
  "dsp_inv P s \<Longrightarrow> dsp_inv P (dsp_sbc s)" "dsp_inv P s \<Longrightarrow> dsp_inv P (dsp_sub s)"
  "dsp_inv P s \<Longrightarrow> dsp_inv P (dsp_subl s)" "dsp_inv P s \<Longrightarrow> dsp_inv P (dsp_subr s)"
  "dsp_inv P s \<Longrightarrow> dsp_inv P (dsp_tfr s)" "dsp_inv P s \<Longrightarrow> dsp_inv P (dsp_tst s)"
  "dsp_inv P s \<Longrightarrow> dsp_inv P (dsp_mac s)" "dsp_inv P s \<Longrightarrow> dsp_inv P (dsp_macr s)"
  "dsp_inv P s \<Longrightarrow> dsp_inv P (dsp_mpy s)" "dsp_inv P s \<Longrightarrow> dsp_inv P (dsp_mpyr s)"
  unfolding dsp_abs_def dsp_adc_def dsp_add_def dsp_addl_def dsp_addr_def dsp_asl_def dsp_asr_def
    dsp_clr_def dsp_cmp_def dsp_cmpm_def dsp_neg_def dsp_rnd_def dsp_sbc_def dsp_sub_def dsp_subl_def
    dsp_subr_def dsp_tfr_def dsp_tst_def dsp_mac_def dsp_macr_def dsp_mpy_def dsp_mpyr_def
  by (intro alu_steps; (assumption | simp only: word_and_le1 | simp))+

lemma inst_reg: "DSP_REG_A1 + (x AND 1) < (64 :: u32)"
  by (rule reg_sum_bound) (simp_all add: order_trans [OF word_and_le1])

lemma logic_flags: "dsp_inv P s \<Longrightarrow> dsp_inv P (logic_flags r s)" "dsp_inv P s \<Longrightarrow> dsp_inv P (shift_flags c r s)"
  unfolding logic_flags_def shift_flags_def by (intro wp updates; simp)+

lemma logic:
  "dsp_inv P s \<Longrightarrow> dsp_inv P (dsp_and s)" "dsp_inv P s \<Longrightarrow> dsp_inv P (dsp_eor s)"
  "dsp_inv P s \<Longrightarrow> dsp_inv P (dsp_or s)" "dsp_inv P s \<Longrightarrow> dsp_inv P (dsp_not s)"
  "dsp_inv P s \<Longrightarrow> dsp_inv P (dsp_lsl s)" "dsp_inv P s \<Longrightarrow> dsp_inv P (dsp_lsr s)"
  "dsp_inv P s \<Longrightarrow> dsp_inv P (dsp_rol s)" "dsp_inv P s \<Longrightarrow> dsp_inv P (dsp_ror s)"
  unfolding dsp_and_def dsp_eor_def dsp_or_def dsp_not_def dsp_lsl_def dsp_lsr_def dsp_rol_def dsp_ror_def
  by (intro logic_flags wp updates; (assumption | simp add: inst_reg))+


lemma writereg: "numreg < 64 \<Longrightarrow> dsp_inv P s \<Longrightarrow> dsp_inv P (dsp_pm_writereg numreg i s)"
  unfolding dsp_pm_writereg_def by (intro wp updates) (assumption | simp add: accu_reg)+

lemma pm_blocks:
  "numreg < 64 \<Longrightarrow> dsp_inv P s \<Longrightarrow> dsp_inv P (pm_set_value numreg i value s)"
  "dsp_inv P s \<Longrightarrow> dsp_inv P (pm_set_source numreg i s)"
  "dsp_inv P s \<Longrightarrow> memspace < 3 \<Longrightarrow> dsp_inv P (pm_set_memory i memspace addr s)"
  unfolding pm_set_value_def pm_set_source_def pm_set_memory_def
  by (intro wp updates writereg read_accu24; assumption)+

lemmas pm_steps = wp updates writereg read_accu24 pm_blocks memory calc_ea
lemmas pm_bounds = space_bound accu_reg pm_register_bound reg_bound or_bound
lemma parmoves:
  "dsp_inv P s \<Longrightarrow> dsp_inv P (dsp_pm_0 s)" "dsp_inv P s \<Longrightarrow> dsp_inv P (dsp_pm_1 s)"
  "dsp_inv P s \<Longrightarrow> dsp_inv P (dsp_pm_2_2 s)" "dsp_inv P s \<Longrightarrow> dsp_inv P (dsp_pm_3 s)"
  "dsp_inv P s \<Longrightarrow> dsp_inv P (dsp_pm_5 s)" "dsp_inv P s \<Longrightarrow> dsp_inv P (dsp_pm_8 s)"
  unfolding dsp_pm_0_def dsp_pm_1_def dsp_pm_2_2_def dsp_pm_3_def dsp_pm_5_def dsp_pm_8_def
  by (intro pm_steps; (assumption | simp add: pm_bounds))+

lemma pm_4x: "dsp_inv P s \<Longrightarrow> dsp_inv P (dsp_pm_4x b l s)"
  unfolding dsp_pm_4x_def by (intro pm_steps) (assumption | rule lmove_regs(1), assumption+ | rule lmove_regs(2) | simp)+

lemma pm_2: "dsp_inv P s \<Longrightarrow> dsp_inv P (dsp_pm_2 s)"
  unfolding dsp_pm_2_def by (intro pm_steps parmoves) assumption+

lemma pm_4: "dsp_inv P s \<Longrightarrow> dsp_inv P (dsp_pm_4 s)"
  unfolding dsp_pm_4_def by (intro pm_steps pm_4x parmoves) assumption+

lemma parmove_read: "dsp_inv P s \<Longrightarrow> dsp_inv P (dsp_parmove_read s)"
  unfolding dsp_parmove_read_def
  by (intro wp updates inv_table)
    (assumption | simp add: opcodes_parmove_def parmoves pm_2 pm_4 index_bound)+

lemma parmove_write_one: "dsp_inv P s \<Longrightarrow> dsp_inv P (parmove_write_one i j s)"
  unfolding parmove_write_one_def
  by (auto split: parmove_dest_u.split intro!: updates memory) (simp_all add: dsp_inv_def)

lemma parmove_write: "dsp_inv P s \<Longrightarrow> dsp_inv P (dsp_parmove_write s)"
  unfolding dsp_parmove_write_def
  by (intro inv_fold wp parmove_write_one) assumption+

lemma bit_register: "bit_register s < 64"
  unfolding bit_register_def Let_def by (simp add: pm_bounds)

lemma bit_address: "dsp_inv P s \<Longrightarrow> dsp_inv P (snd (bit_address s))"
  unfolding bit_address_def by (intro wp calc_ea) assumption+

lemma bit_read: "dsp_inv P s \<Longrightarrow> dsp_inv P (snd (bit_read s))"
  unfolding bit_read_def by (intro wp memory bit_address) assumption+

lemma sr_set_c: "dsp_inv P s \<Longrightarrow> dsp_inv P (sr_set_c c s)"
  unfolding sr_set_c_def by (intro wp updates) (assumption | simp)+

lemma bit_modify: "dsp_inv P s \<Longrightarrow> dsp_inv P (bit_modify m a s)"
  unfolding bit_modify_def by (intro wp updates memory bit_address sr_set_c) (assumption | simp add: bit_register pm_bounds)+

lemma load:
  "dsp_inv P s \<Longrightarrow> dsp_inv P (load_accu (n AND 1) v s)"
  "r < 64 \<Longrightarrow> dsp_inv P s \<Longrightarrow> dsp_inv P (load_register r v s)"
  unfolding load_accu_def load_register_def by (intro wp updates; (assumption | simp add: accu_reg))+

lemma read_source: "dsp_inv P s \<Longrightarrow> dsp_inv P (snd (read_source r s))"
  unfolding read_source_def by (intro wp read_accu24) assumption+

lemma cc_target: "dsp_inv P s \<Longrightarrow> dsp_inv P (snd (snd (cc_target l t s)))"
  unfolding cc_target_def by (intro wp calc_ea) assumption+

lemma jump_subroutine: "dsp_inv P s \<Longrightarrow> dsp_inv P (jump_subroutine s)"
  unfolding jump_subroutine_def by (intro wp updates stack_push) assumption+

lemmas control_steps = wp updates memory calc_ea stack_push stack_pop stack_pop_into read_accu24 ccr acc sr
  bit_address bit_read sr_set_c bit_modify load read_source cc_target jump_subroutine
lemmas control_bounds = pm_bounds bit_register word_and_le1
lemma bit_ops:
  "dsp_inv P s \<Longrightarrow> dsp_inv P (dsp_bchg s)" "dsp_inv P s \<Longrightarrow> dsp_inv P (dsp_bclr s)"
  "dsp_inv P s \<Longrightarrow> dsp_inv P (dsp_bset s)" "dsp_inv P s \<Longrightarrow> dsp_inv P (dsp_btst s)"
  unfolding dsp_bchg_def dsp_bclr_def dsp_bset_def dsp_btst_def
  by (intro control_steps; (assumption | simp add: control_bounds))+

lemma status_ops:
  "dsp_inv P s \<Longrightarrow> dsp_inv P (dsp_andi s)" "dsp_inv P s \<Longrightarrow> dsp_inv P (dsp_ori s)"
  "dsp_inv P s \<Longrightarrow> dsp_inv P (dsp_div s)" "dsp_inv P s \<Longrightarrow> dsp_inv P (dsp_norm s)"
  "dsp_inv P s \<Longrightarrow> dsp_inv P (dsp_stop s)" "dsp_inv P s \<Longrightarrow> dsp_inv P (dsp_wait s)"
  "dsp_inv P s \<Longrightarrow> dsp_inv P (dsp_swi s)" "dsp_inv P s \<Longrightarrow> dsp_inv P (dsp_tcc s)"
  unfolding dsp_andi_def dsp_ori_def dsp_div_def dsp_norm_def dsp_stop_def dsp_wait_def dsp_swi_def
    dsp_tcc_def
  by (intro control_steps; (assumption | simp add: control_bounds))+

lemma do_ops:
  "dsp_inv P s \<Longrightarrow> dsp_inv P (dsp_do_aa s)" "dsp_inv P s \<Longrightarrow> dsp_inv P (dsp_do_imm s)"
  "dsp_inv P s \<Longrightarrow> dsp_inv P (dsp_do_ea s)" "dsp_inv P s \<Longrightarrow> dsp_inv P (dsp_do_reg s)"
  "dsp_inv P s \<Longrightarrow> dsp_inv P (dsp_enddo s)"
  unfolding dsp_do_aa_def dsp_do_imm_def dsp_do_ea_def dsp_do_reg_def dsp_enddo_def
  by (intro control_steps; (assumption | simp add: control_bounds))+

lemma rep_ops:
  "dsp_inv P s \<Longrightarrow> dsp_inv P (dsp_rep_aa s)" "dsp_inv P s \<Longrightarrow> dsp_inv P (dsp_rep_imm s)"
  "dsp_inv P s \<Longrightarrow> dsp_inv P (dsp_rep_ea s)" "dsp_inv P s \<Longrightarrow> dsp_inv P (dsp_rep_reg s)"
  unfolding dsp_rep_aa_def dsp_rep_imm_def dsp_rep_ea_def dsp_rep_reg_def
  by (intro control_steps; (assumption | simp add: control_bounds))+

lemma jumps:
  "dsp_inv P s \<Longrightarrow> dsp_inv P (dsp_jcc s)" "dsp_inv P s \<Longrightarrow> dsp_inv P (dsp_jscc s)"
  "dsp_inv P s \<Longrightarrow> dsp_inv P (dsp_jmp s)" "dsp_inv P s \<Longrightarrow> dsp_inv P (dsp_jsclr s)"
  "dsp_inv P s \<Longrightarrow> dsp_inv P (dsp_jset s)" "dsp_inv P s \<Longrightarrow> dsp_inv P (dsp_jsset s)"
  "dsp_inv P s \<Longrightarrow> dsp_inv P (dsp_jsr s)" "dsp_inv P s \<Longrightarrow> dsp_inv P (dsp_rti s)"
  "dsp_inv P s \<Longrightarrow> dsp_inv P (dsp_rts s)" "dsp_inv P s \<Longrightarrow> dsp_inv P (dsp_lua s)"
  unfolding dsp_jcc_def dsp_jscc_def dsp_jmp_def dsp_jsclr_def dsp_jset_def dsp_jsset_def dsp_jsr_def
    dsp_rti_def dsp_rts_def dsp_lua_def
  by (intro control_steps; (assumption | simp add: control_bounds))+

lemma jclr:
  "dsp_inv P s \<Longrightarrow> dsp_inv P (dsp_jclr s)"
  unfolding dsp_jclr_def
  by (intro inv_seq4 control_steps; (assumption | simp add: control_bounds))+

lemma moves:
  "dsp_inv P s \<Longrightarrow> dsp_inv P (dsp_movec_reg s)" "dsp_inv P s \<Longrightarrow> dsp_inv P (dsp_movec_aa s)"
  "dsp_inv P s \<Longrightarrow> dsp_inv P (dsp_movec_imm s)" "dsp_inv P s \<Longrightarrow> dsp_inv P (dsp_movec_ea s)"
  "dsp_inv P s \<Longrightarrow> dsp_inv P (dsp_movem s)" "dsp_inv P s \<Longrightarrow> dsp_inv P (dsp_movep_0 s)"
  "dsp_inv P s \<Longrightarrow> dsp_inv P (dsp_movep_1 s)" "dsp_inv P s \<Longrightarrow> dsp_inv P (dsp_movep_2 s)"
  unfolding dsp_movec_reg_def dsp_movec_aa_def dsp_movec_imm_def dsp_movec_ea_def dsp_movem_def
    dsp_movep_0_def dsp_movep_1_def dsp_movep_2_def
  by (intro control_steps; (assumption | simp add: control_bounds))+

lemma others:
  "dsp_inv P s \<Longrightarrow> dsp_inv P (dsp_undefined s)" "dsp_inv P s \<Longrightarrow> dsp_inv P (dsp_move s)"
  "dsp_inv P s \<Longrightarrow> dsp_inv P (dsp_illegal s)" "dsp_inv P s \<Longrightarrow> dsp_inv P (dsp_reset s)" "dsp_inv P s \<Longrightarrow> dsp_inv P (dsp_nop s)"
  by (simp_all add: dsp_undefined_def dsp_move_def dsp_illegal_def dsp_reset_def dsp_nop_def updates)

lemma move_pm: "dsp_inv P s \<Longrightarrow> dsp_inv P (dsp_move_pm s)"
  unfolding dsp_move_pm_def by (intro wp parmove_read parmove_write) assumption+

lemma do_instr: "dsp_inv P s \<Longrightarrow> dsp_inv P (dsp_do s)"
  unfolding dsp_do_def
  by (intro wp updates stack_push inv_table)
    (assumption | rule opcode_index | simp add: opcodes_do_def do_ops others)+

lemma rep: "dsp_inv P s \<Longrightarrow> dsp_inv P (dsp_rep s)"
  unfolding dsp_rep_def
  by (intro wp updates stack_push inv_table)
    (assumption | rule opcode_index | simp add: opcodes_rep_def rep_ops others)+

lemma movec: "dsp_inv P s \<Longrightarrow> dsp_inv P (dsp_movec s)"
  unfolding dsp_movec_def
  by (intro wp inv_table)
    (assumption | rule opcode_index | simp add: opcodes_movec_def moves others)+

lemma movep: "dsp_inv P s \<Longrightarrow> dsp_inv P (dsp_movep s)"
  unfolding dsp_movep_def
  by (intro wp inv_table)
    (assumption | simp add: opcodes_movep_def moves index_bound)+

lemma opcode8h:
  "dsp_inv P s \<Longrightarrow> dsp_inv P (opcode8h_0 s)" "dsp_inv P s \<Longrightarrow> dsp_inv P (opcode8h_1 s)"
  "dsp_inv P s \<Longrightarrow> dsp_inv P (opcode8h_4 s)" "dsp_inv P s \<Longrightarrow> dsp_inv P (opcode8h_6 s)"
  unfolding opcode8h_0_def opcode8h_1_def opcode8h_4_def opcode8h_6_def
  by (intro wp others jumps status_ops do_ops movec rep do_instr; assumption)+

lemma opcode8h_tables:
  "dsp_inv P s \<Longrightarrow> dsp_inv P (opcode8h_8 s)" "dsp_inv P s \<Longrightarrow> dsp_inv P (opcode8h_a s)"
  "dsp_inv P s \<Longrightarrow> dsp_inv P (opcode8h_b s)"
  unfolding opcode8h_8_def opcode8h_a_def opcode8h_b_def
  by (intro inv_table; (assumption | rule bit_opcode_bound | simp add: opcodes_0809_def opcodes_0a_def opcodes_0b_def move_pm movep bit_ops jclr jumps others index_bound))+

lemma alu_tables:
  "i < 64 \<Longrightarrow> dsp_inv P s \<Longrightarrow> dsp_inv P ((opcodes_alu003f ! i) s)"
  "i < 16 \<Longrightarrow> dsp_inv P s \<Longrightarrow> dsp_inv P ((opcodes_alu407f ! i) s)"
  "i < 4 \<Longrightarrow> dsp_inv P s \<Longrightarrow> dsp_inv P ((opcodes_alu80ff ! i) s)"
  by (intro inv_table; simp add: opcodes_alu003f_def opcodes_alu407f_def opcodes_alu80ff_def alu logic others)+

lemma table8h: "i < 16 \<Longrightarrow> dsp_inv P s \<Longrightarrow> dsp_inv P ((opcodes8h ! i) s)"
  by (intro inv_table; simp add: opcodes8h_def opcode8h opcode8h_tables status_ops movec moves jumps)

lemma execute_decoded: "dsp_inv P s \<Longrightarrow> dsp_inv P (execute_decoded s)"
  unfolding execute_decoded_def
  by (intro wp parmove_read parmove_write alu_tables table8h)
     (assumption | simp add: index_bound word_less_nat_alt)+

lemma update_pc: "dsp_inv P s \<Longrightarrow> dsp_inv P (dsp_postexecute_update_pc s)"
  unfolding dsp_postexecute_update_pc_def update_pc_rep_def update_pc_do_def
  by (intro wp updates stack_pop_into) (assumption | simp)+

lemma raise_interrupt: "dsp_inv P s \<Longrightarrow> dsp_inv P (raise_interrupt ipl s)"
  unfolding raise_interrupt_def by (intro wp updates stack_push) (assumption | simp)+

lemma postexecute_interrupts: "dsp_inv P s \<Longrightarrow> dsp_inv P (dsp_postexecute_interrupts s)"
  unfolding dsp_postexecute_interrupts_def peripheral_interrupts_def
  by (intro wp updates raise_interrupt memory) (assumption | simp)+

lemma execute_instruction: "dsp_inv P s \<Longrightarrow> dsp_inv P (dsp56k_execute_instruction s)"
  unfolding dsp56k_execute_instruction_def
  by (intro wp updates execute_decoded update_pc postexecute_interrupts) assumption

end
end
