(* ===== verification/Dsp_Contracts.thy ===== *)
theory Dsp_Contracts
  imports Dsp_Invariant
begin

text \<open>
  Four contracts of the instruction set of \<^verbatim>\<open>src/dsp_cpu.c\<close>, each an interpretation of the
  locale of \<^verbatim>\<open>Dsp_Invariant\<close>: memory words stay 24-bit values, no array is written outside
  its bounds, the fields of the host side are not touched, and the mutex of the host port is released
  whenever an instruction ends.
\<close>

section \<open>The predicates\<close>

text \<open>Every word of the memories fits in 24 bits.\<close>

definition words_ok :: "dsp \<Rightarrow> bool" where
  "words_ok s \<longleftrightarrow> (\<forall>sp a. ram s sp a < 0x1000000 \<and> ramint s sp a < 0x1000000 \<and>
     rom s sp a < 0x1000000 \<and> periph s sp a < 0x1000000)"

text \<open>
  The state differs from \<open>s0\<close> only inside the arrays of \<^verbatim>\<open>dsp_core_t\<close>:
  \<^verbatim>\<open>registers[64]\<close>, \<^verbatim>\<open>stack[2][15]\<close>, \<^verbatim>\<open>ram[3][DSP_RAMSIZE]\<close>,
  \<^verbatim>\<open>ramint[3][512]\<close>, \<^verbatim>\<open>periph[2][64]\<close> and \<^verbatim>\<open>hostport[8]\<close>.
\<close>

definition inside_arrays :: "dsp \<Rightarrow> dsp \<Rightarrow> bool" where
  "inside_arrays s0 s \<longleftrightarrow>
     (\<forall>r. 64 \<le> r \<longrightarrow> registers s r = registers s0 r) \<and>
     (\<forall>i j. \<not> (i < 2 \<and> j < 15) \<longrightarrow> stack s i j = stack s0 i j) \<and>
     (\<forall>sp a. \<not> (sp < 3 \<and> a < DSP_RAMSIZE) \<longrightarrow> ram s sp a = ram s0 sp a) \<and>
     (\<forall>sp a. \<not> (sp < 3 \<and> a < 0x200) \<longrightarrow> ramint s sp a = ramint s0 sp a) \<and>
     (\<forall>sp i. \<not> (sp < 2 \<and> i < 64) \<longrightarrow> periph s sp i = periph s0 sp i) \<and>
     (\<forall>i. \<not> i < 8 \<longrightarrow> hostport s i = hostport s0 i)"

text \<open>The fields that only the host side (initialisation, reset, bootstrap) writes.\<close>

definition host_owned :: "dsp \<Rightarrow> dsp \<Rightarrow> bool" where
  "host_owned s0 s \<longleftrightarrow>
     rom s = rom s0 \<and> running s = running s0 \<and> bootstrap_pos s = bootstrap_pos s0 \<and>
     use_thread s = use_thread s0 \<and> thread s = thread s0 \<and> semaphore s = semaphore s0 \<and>
     mutex s = mutex s0"

text \<open>
  Whether the host port mutex is held after a sequence of calls (newest first); \<open>None\<close> when the
  sequence locks a held mutex, releases a free one, or sleeps, waits, creates or destroys while it is
  held.
\<close>

fun mutex_held :: "sdl_call list \<Rightarrow> bool option" where
  "mutex_held [] = Some False"
| "mutex_held (c # cs) =
     (case mutex_held cs of
        None \<Rightarrow> None
      | Some held \<Rightarrow>
          if c = LockMutex then if held then None else Some True
          else if c = UnlockMutex then if held then Some False else None
          else if c = ResumeThread then Some held
          else if held then None else Some False)"

definition mutex_free :: "dsp \<Rightarrow> bool" where
  "mutex_free s \<longleftrightarrow> mutex_held (calls s) = Some False"

section \<open>Words\<close>

lemma words_and [simp]: "x < 0x1000000 \<Longrightarrow> x AND y < (0x1000000 :: u32)"
  by (rule order_le_less_trans [OF word_and_le2])

lemma words_mask [simp]: "x AND 0xffffff < (0x1000000 :: u32)"
  by (rule order_le_less_trans [OF word_and_le1]) simp

lemma words_or [simp]: "x < 0x1000000 \<Longrightarrow> y < 0x1000000 \<Longrightarrow> x OR y < (0x1000000 :: u32)"
  using unat_or_less [of x 24 y] by (simp add: word_less_nat_alt)

lemma words_bytes [simp]: "ucast b < (0x1000000 :: u32)" "ucast b * 0x100 < (0x1000000 :: u32)"
   "ucast b * 0x10000 < (0x1000000 :: u32)" for b :: u8
proof -
  have "uint b < 256" using unsigned_less [of b] by simp
  then show "ucast b < (0x1000000 :: u32)" "ucast b * 0x100 < (0x1000000 :: u32)"
   "ucast b * 0x10000 < (0x1000000 :: u32)"
    by (simp_all add: word_less_def uint_word_ariths unsigned_ucast_eq take_bit_eq_mod)
qed

lemma words_push [simp]: "push_bit 8 (ucast b) < (0x1000000 :: u32)"
   "push_bit 16 (ucast b) < (0x1000000 :: u32)" for b :: u8
  using words_bytes [of b] by (simp_all add: push_bit_eq_mult)

lemma words_ok_host:
  "words_ok s \<Longrightarrow> words_ok (dsp_core_hostport_update_trdy s)" "words_ok s \<Longrightarrow> words_ok (dsp_core_dsp2host s)"
  "words_ok s \<Longrightarrow> words_ok (dsp_core_host2dsp s)" 
  by (simp_all add: words_ok_def host_transfer_defs Let_def)

lemma words_ok_updates:
  "words_ok s \<Longrightarrow> (\<And>f. (\<And>sp a. f sp a < 0x1000000) \<Longrightarrow> g f < 0x1000000) \<Longrightarrow>
    words_ok (periph_update (\<lambda>f. f(sp := (f sp)(i := g f))) s)"
  "words_ok s \<Longrightarrow> v < 0x1000000 \<Longrightarrow> words_ok (set_ram sp a v s)"
  "words_ok s \<Longrightarrow> v < 0x1000000 \<Longrightarrow> words_ok (set_ramint sp a v s)"
  "words_ok s \<Longrightarrow> words_ok (hostport_update f8 s)"
  by (simp_all add: words_ok_def)

lemma words_ok_fields [simp]:
  "words_ok (running_update f1 s) = words_ok s" "words_ok (bootstrap_pos_update f2 s) = words_ok s"
  "words_ok (ub_update f3 s) = words_ok s"
  by (simp_all add: words_ok_def)

lemma words_ok_thread [simp]:
  "words_ok (lockMutex s) = words_ok s" "words_ok (unlockMutex s) = words_ok s"
  "words_ok (pauseThread s) = words_ok s" "words_ok (resumeThread s) = words_ok s"
  by (simp_all add: words_ok_def thread_defs)

lemma words_ok_transfer:
  "words_ok s \<Longrightarrow> words_ok (dsp_core_hostport_dspread s)" "words_ok s \<Longrightarrow> words_ok (dsp_core_hostport_dspwrite s)"
  "words_ok s \<Longrightarrow> words_ok (dsp_core_hostport_cpuread s)" "words_ok s \<Longrightarrow> words_ok (dsp_core_hostport_cpuwrite s)"
  by (simp_all add: dsp_core_hostport_dspread_def dsp_core_hostport_dspwrite_def
      dsp_core_hostport_cpuread_def dsp_core_hostport_cpuwrite_def words_ok_host words_ok_updates)

lemma words_ok_memory:
  "words_ok s \<Longrightarrow> words_ok (snd (read_memory sp a s))"
  "words_ok s \<Longrightarrow> words_ok (write_memory sp a x s)"
  by (simp_all add: read_memory_def write_memory_raw_def write_periph_x_def write_ram_def
      words_ok_updates words_ok_transfer Let_def)

lemma words_ok_interrupts:
  "words_ok s \<Longrightarrow> words_ok (snd (dsp_hi_interrupts s))" "words_ok s \<Longrightarrow> words_ok (snd (dsp_ssi_interrupts s))"
  by (simp_all add: dsp_hi_interrupts_def dsp_ssi_interrupts_def words_ok_def thread_defs Let_def)

interpretation words: dsp_invariant words_ok
  by unfold_locales (simp_all add: words_ok_memory words_ok_interrupts, simp_all add: words_ok_def)

section \<open>Array bounds\<close>

lemma ram_mask: "x AND 32767 < (32768 :: u16)"
  by (rule order_le_less_trans [OF word_and_le1]) simp

lemma periph_index: "0xffc0 \<le> a \<Longrightarrow> a - 0xffc0 < (64 :: u16)"
proof -
  assume "0xffc0 \<le> a"
  moreover have "unat a < 65536" using unsigned_less [of a] by simp
  ultimately show ?thesis by (simp add: word_le_nat_alt word_less_nat_alt unat_sub)
qed

lemma inside_updates:
  "inside_arrays s0 s \<Longrightarrow> r < 64 \<Longrightarrow> inside_arrays s0 (registers_update (\<lambda>f. f(r := g f)) s)"
  "inside_arrays s0 s \<Longrightarrow> i < 2 \<Longrightarrow> j < 15 \<Longrightarrow> inside_arrays s0 (set_stack i j v s)"
  "inside_arrays s0 s \<Longrightarrow> sp < 3 \<Longrightarrow> a < DSP_RAMSIZE \<Longrightarrow> inside_arrays s0 (set_ram sp a w s)"
  "inside_arrays s0 s \<Longrightarrow> sp < 3 \<Longrightarrow> a < 0x200 \<Longrightarrow> inside_arrays s0 (set_ramint sp a w s)"
  "inside_arrays s0 s \<Longrightarrow> sp < 2 \<Longrightarrow> p < 64 \<Longrightarrow> inside_arrays s0 (periph_update (\<lambda>f. f(sp := (f sp)(p := h f))) s)"
  "inside_arrays s0 s \<Longrightarrow> i < 8 \<Longrightarrow> inside_arrays s0 (hostport_update (\<lambda>f. f(i := k f)) s)"
  by (auto simp: inside_arrays_def)

lemma inside_fields [simp]:
  "inside_arrays s0 (running_update f1 s) = inside_arrays s0 s"
  "inside_arrays s0 (bootstrap_pos_update f2 s) = inside_arrays s0 s"
  "inside_arrays s0 (ub_update f3 s) = inside_arrays s0 s"
  by (simp_all add: inside_arrays_def)

lemma inside_thread [simp]:
  "inside_arrays s0 (lockMutex s) = inside_arrays s0 s" "inside_arrays s0 (unlockMutex s) = inside_arrays s0 s"
  "inside_arrays s0 (pauseThread s) = inside_arrays s0 s" "inside_arrays s0 (resumeThread s) = inside_arrays s0 s"
  by (simp_all add: inside_arrays_def thread_defs)

lemma inside_host:
  "inside_arrays s0 s \<Longrightarrow> inside_arrays s0 (dsp_core_hostport_update_trdy s)" 
  "inside_arrays s0 s \<Longrightarrow> inside_arrays s0 (dsp_core_dsp2host s)"
  "inside_arrays s0 s \<Longrightarrow> inside_arrays s0 (dsp_core_host2dsp s)" 
  by (simp_all add: inside_arrays_def host_transfer_defs Let_def)

lemma inside_transfer:
  "inside_arrays s0 s \<Longrightarrow> inside_arrays s0 (dsp_core_hostport_dspread s)" "inside_arrays s0 s \<Longrightarrow> inside_arrays s0 (dsp_core_hostport_dspwrite s)"
  "inside_arrays s0 s \<Longrightarrow> inside_arrays s0 (dsp_core_hostport_cpuread s)" "inside_arrays s0 s \<Longrightarrow> inside_arrays s0 (dsp_core_hostport_cpuwrite s)"
  by (simp_all add: dsp_core_hostport_dspread_def dsp_core_hostport_dspwrite_def
      dsp_core_hostport_cpuread_def dsp_core_hostport_cpuwrite_def inside_host inside_updates)

lemma low_address: "a < 0x100 \<Longrightarrow> a < (0x200 :: u16)"
  by (erule order_less_trans) simp

lemma inside_write_x: "inside_arrays s0 s \<Longrightarrow> i < 64 \<Longrightarrow> inside_arrays s0 (write_periph_x i v s)"
  unfolding write_periph_x_def
  by (simp add: inside_transfer inside_updates Let_def) (simp add: inside_arrays_def)

lemma inside_memory:
  "inside_arrays s0 s \<Longrightarrow> inside_arrays s0 (snd (read_memory sp a s))"
  "inside_arrays s0 s \<Longrightarrow> sp < 3 \<Longrightarrow> inside_arrays s0 (write_memory sp a x s)"
  using low_address [of a]
  by (simp_all add: read_memory_def write_memory_raw_def write_ram_def ram_mask periph_index
      inside_write_x inside_updates inside_transfer Let_def)

lemma inside_interrupts: "inside_arrays s0 s \<Longrightarrow> inside_arrays s0 (snd (dsp_hi_interrupts s))"
  "inside_arrays s0 s \<Longrightarrow> inside_arrays s0 (snd (dsp_ssi_interrupts s))"
  by (simp_all add: inside_arrays_def dsp_hi_interrupts_def dsp_ssi_interrupts_def thread_defs Let_def)

interpretation arrays: dsp_invariant "inside_arrays s0" for s0
  by unfold_locales
    (simp_all add: inside_memory inside_interrupts inside_updates, simp_all add: inside_arrays_def)
section \<open>Host fields and the mutex\<close>

interpretation owned: dsp_invariant "host_owned s0" for s0
  by unfold_locales
    (simp_all add: host_owned_def read_memory_def write_memory_raw_def write_periph_x_def write_ram_def
      thread_defs host_transfer_defs dsp_hi_interrupts_def dsp_ssi_interrupts_def Let_def)

interpretation mutex: dsp_invariant mutex_free
  by unfold_locales
    (simp_all add: mutex_free_def read_memory_def write_memory_raw_def write_periph_x_def write_ram_def
      thread_defs host_transfer_defs dsp_hi_interrupts_def dsp_ssi_interrupts_def Let_def)

end
