(* ===== verification/Dsp_Hostport.thy ===== *)
theory Dsp_Hostport
  imports Dsp_Contracts
begin

text \<open>
  The word protocol of the host port (\<^verbatim>\<open>src/dsp_core.c\<close>): the flags TXDE, TRDY and RXDF on the side
  of the 68040, HRDF and HTDE on the side of the DSP, and what happens to a word that one side sends.
\<close>

section \<open>Words, bytes and flags\<close>

text \<open>The three byte writes and the three byte reads with which the 68040 passes one word.\<close>

definition host_send :: "u8 \<times> u8 \<times> u8 \<Rightarrow> dsp \<Rightarrow> dsp" where
  "host_send = (\<lambda>(h, m, l) s.
     dsp_core_write_host CPU_HOST_TXL l (dsp_core_write_host CPU_HOST_TXM m (dsp_core_write_host CPU_HOST_TXH h s)))"

text \<open>A 24-bit word and its bytes, and the bytes in the transmit and receive registers.\<close>

definition word_of_bytes :: "u8 \<times> u8 \<times> u8 \<Rightarrow> u32" where
  "word_of_bytes = (\<lambda>(h, m, l). (ucast l OR push_bit 8 (ucast m)) OR push_bit 16 (ucast h))"

definition tx_bytes :: "dsp \<Rightarrow> u8 \<times> u8 \<times> u8" where
  "tx_bytes s = (hostport s CPU_HOST_TXH, hostport s CPU_HOST_TXM, hostport s CPU_HOST_TXL)"

text \<open>The five flags of the protocol.\<close>

definition HRDF :: "dsp \<Rightarrow> bool" where
  "HRDF s \<longleftrightarrow> bit (periph s DSP_SPACE_X DSP_HOST_HSR) DSP_HOST_HSR_HRDF"

definition HTDE :: "dsp \<Rightarrow> bool" where
  "HTDE s \<longleftrightarrow> bit (periph s DSP_SPACE_X DSP_HOST_HSR) DSP_HOST_HSR_HTDE"

definition TXDE :: "dsp \<Rightarrow> bool" where
  "TXDE s \<longleftrightarrow> bit (hostport s CPU_HOST_ISR) CPU_HOST_ISR_TXDE"

definition RXDF :: "dsp \<Rightarrow> bool" where
  "RXDF s \<longleftrightarrow> bit (hostport s CPU_HOST_ISR) CPU_HOST_ISR_RXDF"

definition TRDY :: "dsp \<Rightarrow> bool" where
  "TRDY s \<longleftrightarrow> bit (hostport s CPU_HOST_ISR) CPU_HOST_ISR_TRDY"

definition rx_bytes :: "dsp \<Rightarrow> u8 \<times> u8 \<times> u8" where
  "rx_bytes s = (hostport s CPU_HOST_RXH, hostport s CPU_HOST_RXM, hostport s CPU_HOST_RXL)"

definition bytes_of_word :: "u32 \<Rightarrow> u8 \<times> u8 \<times> u8" where
  "bytes_of_word w = (ucast (drop_bit 16 w), ucast (drop_bit 8 w), ucast w)"

definition host_receive :: "dsp \<Rightarrow> (u8 \<times> u8 \<times> u8) \<times> dsp" where
  "host_receive s =
     (let (h, s) = dsp_core_read_host CPU_HOST_RXH s;
          (m, s) = dsp_core_read_host CPU_HOST_RXM s;
          (l, s) = dsp_core_read_host CPU_HOST_RXL s
      in ((h, m, l), s))"

lemmas flag_defs = HRDF_def HTDE_def TXDE_def RXDF_def TRDY_def

lemma flag_test:
  "x AND 1 = 0 \<longleftrightarrow> \<not> bit x 0" "x AND 2 = 0 \<longleftrightarrow> \<not> bit x 1"  for x :: "'a::len word"
  using bit_iff_and_push_bit_not_eq_0 [of x 1]
  by (simp_all add: bit_0 and_one_eq even_iff_mod_2_eq_zero)

lemma trdy_flags:
  "TRDY (dsp_core_hostport_update_trdy s) \<longleftrightarrow> TXDE s \<and> \<not> HRDF s"
  "TXDE (dsp_core_hostport_update_trdy s) = TXDE s"
  "RXDF (dsp_core_hostport_update_trdy s) = RXDF s"
  "HRDF (dsp_core_hostport_update_trdy s) = HRDF s"
  "HTDE (dsp_core_hostport_update_trdy s) = HTDE s"
  "tx_bytes (dsp_core_hostport_update_trdy s) = tx_bytes s"
  "periph (dsp_core_hostport_update_trdy s) = periph s"
  "running (dsp_core_hostport_update_trdy s) = running s"
  by (simp_all add: flag_defs dsp_core_hostport_update_trdy_def Let_def tx_bytes_def bit_simps)

lemma host2dsp_blocked: "TXDE s \<or> HRDF s \<Longrightarrow> dsp_core_host2dsp s = s"
  by (auto simp: dsp_core_host2dsp_def flag_test flag_defs)

lemma host2dsp_flags:
  assumes "\<not> TXDE s" "\<not> HRDF s"
  shows "TXDE (dsp_core_host2dsp s)" "HRDF (dsp_core_host2dsp s)" "\<not> TRDY (dsp_core_host2dsp s)"
    "RXDF (dsp_core_host2dsp s) = RXDF s" "HTDE (dsp_core_host2dsp s) = HTDE s"
    "tx_bytes (dsp_core_host2dsp s) = tx_bytes s" "running (dsp_core_host2dsp s) = running s"
    "periph (dsp_core_host2dsp s) DSP_SPACE_X DSP_HOST_HRX = word_of_bytes (tx_bytes s)"
  using assms
  by (simp_all add: dsp_core_host2dsp_def flag_test trdy_flags Let_def)
    (simp_all add: flag_defs tx_bytes_def word_of_bytes_def bit_simps flag_test)

lemma dsp2host_blocked: "RXDF s \<or> HTDE s \<Longrightarrow> dsp_core_dsp2host s = s"
  by (auto simp: dsp_core_dsp2host_def flag_test flag_defs)

lemma dsp2host_flags:
  assumes "\<not> RXDF s" "\<not> HTDE s"
  shows "RXDF (dsp_core_dsp2host s)" "HTDE (dsp_core_dsp2host s)" "TRDY (dsp_core_dsp2host s) = TRDY s"
    "TXDE (dsp_core_dsp2host s) = TXDE s" "HRDF (dsp_core_dsp2host s) = HRDF s"
    "rx_bytes (dsp_core_dsp2host s) = bytes_of_word (periph s DSP_SPACE_X DSP_HOST_HTX)" "running (dsp_core_dsp2host s) = running s"
  using assms
  by (simp_all add: dsp_core_dsp2host_def Let_def flag_defs flag_test rx_bytes_def bytes_of_word_def bit_simps)

section \<open>The four entry points\<close>

text \<open>Clearing TXDE, HRDF, RXDF, HTDE: what the four entry points do first.\<close>

lemma clear_TXDE:
  fixes s defines "t \<equiv> and_hostport CPU_HOST_ISR (0xff - push_bit CPU_HOST_ISR_TXDE 1) s"
  shows "\<not> TXDE t" "RXDF t = RXDF s" "HRDF t = HRDF s" "HTDE t = HTDE s" "tx_bytes t = tx_bytes s"
    "periph t = periph s" "running t = running s"
  by (simp_all add: t_def flag_defs tx_bytes_def bit_simps)

lemma clear_HRDF:
  fixes s defines "t \<equiv> and_periph DSP_SPACE_X DSP_HOST_HSR (0xff - shl1 DSP_HOST_HSR_HRDF) s"
  shows "\<not> HRDF t" "RXDF t = RXDF s" "TXDE t = TXDE s" "HTDE t = HTDE s" "tx_bytes t = tx_bytes s"
    "periph t DSP_SPACE_X DSP_HOST_HRX = periph s DSP_SPACE_X DSP_HOST_HRX" "running t = running s"
  by (simp_all add: t_def flag_defs tx_bytes_def bit_simps)

lemma clear_RXDF:
  fixes s defines "t \<equiv> and_hostport CPU_HOST_ISR (0xff - push_bit CPU_HOST_ISR_RXDF 1) s"
  shows "\<not> RXDF t" "TXDE t = TXDE s" "HRDF t = HRDF s" "HTDE t = HTDE s" "rx_bytes t = rx_bytes s"
    "periph t = periph s" "running t = running s"
  by (simp_all add: t_def flag_defs rx_bytes_def bit_simps)

lemma clear_HTDE:
  fixes s defines "t \<equiv> and_periph DSP_SPACE_X DSP_HOST_HSR (0xff - shl1 DSP_HOST_HSR_HTDE) s"
  shows "\<not> HTDE t" "RXDF t = RXDF s" "TXDE t = TXDE s" "HRDF t = HRDF s" "rx_bytes t = rx_bytes s"
    "periph t DSP_SPACE_X DSP_HOST_HTX = periph s DSP_SPACE_X DSP_HOST_HTX" "running t = running s"
  by (simp_all add: t_def flag_defs rx_bytes_def bit_simps)

lemma cpuwrite_free:
  assumes "\<not> HRDF s"
  shows "HRDF (dsp_core_hostport_cpuwrite s)" "TXDE (dsp_core_hostport_cpuwrite s)"
    "periph (dsp_core_hostport_cpuwrite s) DSP_SPACE_X DSP_HOST_HRX = word_of_bytes (tx_bytes s)"
    "running (dsp_core_hostport_cpuwrite s) = running s"
  using assms unfolding dsp_core_hostport_cpuwrite_def Let_def
  by (simp_all only: host2dsp_flags trdy_flags clear_TXDE not_False_eq_True)

lemma cpuwrite_full:
  assumes "HRDF s"
  shows "HRDF (dsp_core_hostport_cpuwrite s)" "\<not> TXDE (dsp_core_hostport_cpuwrite s)"
    "periph (dsp_core_hostport_cpuwrite s) = periph s" "tx_bytes (dsp_core_hostport_cpuwrite s) = tx_bytes s"
    "running (dsp_core_hostport_cpuwrite s) = running s"
  using assms unfolding dsp_core_hostport_cpuwrite_def Let_def
  by (simp_all only: host2dsp_blocked trdy_flags clear_TXDE not_False_eq_True simp_thms)

lemma dspread_empty:
  assumes "TXDE s"
  shows "\<not> HRDF (dsp_core_hostport_dspread s)" "TRDY (dsp_core_hostport_dspread s)" "TXDE (dsp_core_hostport_dspread s)"
    "periph (dsp_core_hostport_dspread s) DSP_SPACE_X DSP_HOST_HRX = periph s DSP_SPACE_X DSP_HOST_HRX"
  using assms unfolding dsp_core_hostport_dspread_def Let_def
  by (simp_all only: host2dsp_blocked trdy_flags clear_HRDF not_False_eq_True simp_thms)

lemma dspread_pending:
  assumes "\<not> TXDE s"
  shows "HRDF (dsp_core_hostport_dspread s)" "TXDE (dsp_core_hostport_dspread s)"
    "periph (dsp_core_hostport_dspread s) DSP_SPACE_X DSP_HOST_HRX = word_of_bytes (tx_bytes s)"
  using assms unfolding dsp_core_hostport_dspread_def Let_def
  by (simp_all only: host2dsp_flags trdy_flags clear_HRDF not_False_eq_True simp_thms)

lemma dspwrite_free:
  assumes "\<not> RXDF s"
  shows "RXDF (dsp_core_hostport_dspwrite s)" "HTDE (dsp_core_hostport_dspwrite s)"
    "rx_bytes (dsp_core_hostport_dspwrite s) = bytes_of_word (periph s DSP_SPACE_X DSP_HOST_HTX)"
  using assms unfolding dsp_core_hostport_dspwrite_def Let_def
  by (simp_all only: dsp2host_flags clear_HTDE not_False_eq_True simp_thms)

lemma dspwrite_full:
  assumes "RXDF s"
  shows "RXDF (dsp_core_hostport_dspwrite s)" "\<not> HTDE (dsp_core_hostport_dspwrite s)"
    "rx_bytes (dsp_core_hostport_dspwrite s) = rx_bytes s"
    "periph (dsp_core_hostport_dspwrite s) DSP_SPACE_X DSP_HOST_HTX = periph s DSP_SPACE_X DSP_HOST_HTX"
  using assms unfolding dsp_core_hostport_dspwrite_def Let_def
  by (simp_all only: dsp2host_blocked clear_HTDE not_False_eq_True simp_thms)

lemma cpuread_empty:
  assumes "HTDE s"
  shows "\<not> RXDF (dsp_core_hostport_cpuread s)" "HTDE (dsp_core_hostport_cpuread s)"
    "rx_bytes (dsp_core_hostport_cpuread s) = rx_bytes s"
  using assms unfolding dsp_core_hostport_cpuread_def Let_def
  by (simp_all only: dsp2host_blocked clear_RXDF not_False_eq_True simp_thms)

lemma cpuread_pending:
  assumes "\<not> HTDE s"
  shows "RXDF (dsp_core_hostport_cpuread s)" "HTDE (dsp_core_hostport_cpuread s)"
    "rx_bytes (dsp_core_hostport_cpuread s) = bytes_of_word (periph s DSP_SPACE_X DSP_HOST_HTX)"
  using assms unfolding dsp_core_hostport_cpuread_def Let_def
  by (simp_all only: dsp2host_flags clear_RXDF not_False_eq_True simp_thms)

section \<open>From the host to the DSP\<close>

lemma flags_thread [simp]:
  "HRDF (lockMutex s) = HRDF s" "HTDE (lockMutex s) = HTDE s" "TXDE (lockMutex s) = TXDE s" "RXDF (lockMutex s) = RXDF s"
  "TRDY (lockMutex s) = TRDY s" "tx_bytes (lockMutex s) = tx_bytes s" "rx_bytes (lockMutex s) = rx_bytes s"
  "periph (lockMutex s) = periph s" "hostport (lockMutex s) = hostport s" "running (lockMutex s) = running s"
  "HRDF (unlockMutex s) = HRDF s" "HTDE (unlockMutex s) = HTDE s" "TXDE (unlockMutex s) = TXDE s" "RXDF (unlockMutex s) = RXDF s"
  "TRDY (unlockMutex s) = TRDY s" "tx_bytes (unlockMutex s) = tx_bytes s" "rx_bytes (unlockMutex s) = rx_bytes s"
  "periph (unlockMutex s) = periph s" "hostport (unlockMutex s) = hostport s" "running (unlockMutex s) = running s"
  "HRDF (resumeThread s) = HRDF s" "HTDE (resumeThread s) = HTDE s" "TXDE (resumeThread s) = TXDE s" "RXDF (resumeThread s) = RXDF s"
  "TRDY (resumeThread s) = TRDY s" "tx_bytes (resumeThread s) = tx_bytes s" "rx_bytes (resumeThread s) = rx_bytes s"
  "periph (resumeThread s) = periph s" "hostport (resumeThread s) = hostport s" "running (resumeThread s) = running s"
  by (simp_all add: flag_defs tx_bytes_def rx_bytes_def thread_defs)

lemma and_BITMASK_24: "x < 0x1000000 \<Longrightarrow> x AND BITMASK 24 = x" for x :: u32
  by (rule word_uint_eqI) (simp add: uint_and_BITMASK word_less_def del: BITMASK_numeral)

lemma word_of_bytes_24 [simp]: "word_of_bytes b AND BITMASK 24 = word_of_bytes b"
  by (rule and_BITMASK_24) (simp add: word_of_bytes_def split: prod.split)

text \<open>A host write of one word reaches the DSP side, or waits in the TX registers.\<close>

lemma host_send_state:
  assumes "running s"
  obtains t where "host_send b s = unlockMutex (resumeThread (dsp_core_hostport_cpuwrite t))"
    "tx_bytes t = b" "HRDF t = HRDF s" "TXDE t = TXDE s" "periph t = periph s" "running t"
proof -
  obtain h m l where b: "b = (h, m, l)" by (cases b)
  let ?t = "set_hostport CPU_HOST_TXL l (lockMutex (dsp_core_write_host CPU_HOST_TXM m (dsp_core_write_host CPU_HOST_TXH h s)))"
  have tx: "dsp_core_write_host CPU_HOST_TXM m (dsp_core_write_host CPU_HOST_TXH h s) =
      unlockMutex (set_hostport CPU_HOST_TXM m (lockMutex (unlockMutex (set_hostport CPU_HOST_TXH h (lockMutex s)))))"
    by (simp add: dsp_core_write_host_def)
  have "running ?t" unfolding tx using assms by simp
  then have "host_send b s = unlockMutex (resumeThread (dsp_core_hostport_cpuwrite ?t))"
    by (simp add: host_send_def b dsp_core_write_host_def [of CPU_HOST_TXL] write_host_TXL_def)
  moreover have "tx_bytes ?t = b" "HRDF ?t = HRDF s" "TXDE ?t = TXDE s" "periph ?t = periph s"
    unfolding tx by (simp_all add: flag_defs tx_bytes_def b)
  ultimately show thesis using \<open>running ?t\<close> by (rule that)
qed

lemma read_HRX:
  "read_memory DSP_SPACE_X (0xffc0 + DSP_HOST_HRX) s =
     (periph (dsp_core_hostport_dspread (lockMutex s)) DSP_SPACE_X DSP_HOST_HRX AND BITMASK 24,
      unlockMutex (dsp_core_hostport_dspread (lockMutex s)))"
  by (simp add: read_memory_def Let_def)

text \<open>
  C17. A word that the host sends (TXH, TXM, TXL) while the DSP has read the previous one arrives: the
  next read of X:HRX by the DSP returns it, and leaves the port ready for the next word.
\<close>

theorem host_to_dsp_word:
  assumes "running s" and "\<not> HRDF s"
  shows "HRDF (host_send b s) \<and>
     (case read_memory DSP_SPACE_X (0xffc0 + DSP_HOST_HRX) (host_send b s) of
        (value, t) \<Rightarrow> value = word_of_bytes b \<and> \<not> HRDF t \<and> TRDY t)"
proof -
  from \<open>running s\<close> obtain t where t: "host_send b s = unlockMutex (resumeThread (dsp_core_hostport_cpuwrite t))"
    "tx_bytes t = b" "HRDF t = HRDF s"
    by (rule host_send_state)
  let ?u = "lockMutex (host_send b s)"
  have u: "TXDE ?u" "HRDF (host_send b s)" "periph ?u DSP_SPACE_X DSP_HOST_HRX = word_of_bytes b"
    using t assms cpuwrite_free [of t] by simp_all
  show ?thesis
    using u dspread_empty [of ?u] by (simp only: read_HRX prod.case flags_thread word_of_bytes_24 simp_thms)
qed

theorem host_to_dsp_word_witness:
  "HRDF (host_send (0x12, 0x34, 0x56) (static_storage\<lparr>running := True\<rparr>)) \<and>
     (case read_memory DSP_SPACE_X 0xffeb (host_send (0x12, 0x34, 0x56) (static_storage\<lparr>running := True\<rparr>)) of
        (value, t) \<Rightarrow> value = 0x123456 \<and> \<not> HRDF t \<and> TRDY t)"
  using host_to_dsp_word [of "static_storage\<lparr>running := True\<rparr>" "(0x12, 0x34, 0x56)"]
  by (simp add: HRDF_def static_storage_def word_of_bytes_def)

text \<open>
  C18. When the host sends a second word before the DSP has read the first, the read of X:HRX returns
  the second word, and so does the next read: the transfer of the waiting word happens before
  the value is read, so the first word is lost.
\<close>

theorem host_to_dsp_overrun:
  assumes "running s" and "\<not> HRDF s"
  shows "case read_memory DSP_SPACE_X (0xffc0 + DSP_HOST_HRX) (host_send b2 (host_send b1 s)) of
       (value, t) \<Rightarrow> value = word_of_bytes b2 \<and> HRDF t \<and>
         fst (read_memory DSP_SPACE_X (0xffc0 + DSP_HOST_HRX) t) = word_of_bytes b2"
proof -
  from \<open>running s\<close> obtain t1 where t1: "host_send b1 s = unlockMutex (resumeThread (dsp_core_hostport_cpuwrite t1))"
    "tx_bytes t1 = b1" "HRDF t1 = HRDF s" "running t1"
    by (rule host_send_state)
  have s1: "HRDF (host_send b1 s)" "running (host_send b1 s)"
    using t1 assms cpuwrite_free [of t1] by simp_all
  from s1(2) obtain t2 where t2: "host_send b2 (host_send b1 s) = unlockMutex (resumeThread (dsp_core_hostport_cpuwrite t2))"
    "tx_bytes t2 = b2" "HRDF t2 = HRDF (host_send b1 s)"
    by (rule host_send_state)
  let ?u = "lockMutex (host_send b2 (host_send b1 s))"
  have u: "\<not> TXDE ?u" "tx_bytes ?u = b2"
    using t2 s1 cpuwrite_full [of t2] by simp_all
  let ?v = "lockMutex (unlockMutex (dsp_core_hostport_dspread ?u))"
  have v: "TXDE ?v" "HRDF ?v" "periph ?v DSP_SPACE_X DSP_HOST_HRX = word_of_bytes b2"
    using dspread_pending [of ?u] u by simp_all
  show ?thesis
    using v dspread_empty [of ?v] by (simp only: read_HRX prod.case fst_conv flags_thread word_of_bytes_24 simp_thms)
qed

theorem host_to_dsp_overrun_witness:
  "case read_memory DSP_SPACE_X 0xffeb
      (host_send (0, 0, 2) (host_send (0, 0, 1) (static_storage\<lparr>running := True\<rparr>))) of
       (value, t) \<Rightarrow> value = 2 \<and> HRDF t \<and> fst (read_memory DSP_SPACE_X 0xffeb t) = 2"
  using host_to_dsp_overrun [of "static_storage\<lparr>running := True\<rparr>" "(0, 0, 2)" "(0, 0, 1)"]
  by (simp add: HRDF_def static_storage_def word_of_bytes_def)

section \<open>From the DSP to the host\<close>

lemma word_of_bytes_of_word: "word_of_bytes (bytes_of_word w) = w AND BITMASK 24"
proof -
  have B: "BITMASK 24 = (mask 24 :: u32)" by (simp add: mask_numeral)
  show ?thesis
    unfolding word_of_bytes_def bytes_of_word_def prod.case B
  proof (rule bit_eqI)
    fix n
    show "bit ((ucast (ucast w :: u8) OR push_bit 8 (ucast (ucast (drop_bit 8 w) :: u8))) OR
        push_bit 16 (ucast (ucast (drop_bit 16 w) :: u8)) :: u32) n = bit (w AND mask 24) n"
      by (cases "n < 8"; cases "n < 16") (auto simp: bit_simps)
  qed
qed

lemma host_receive_eq:
  obtains t where "host_receive s = (rx_bytes s, unlockMutex (resumeThread (dsp_core_hostport_cpuread t)))"
    "rx_bytes t = rx_bytes s" "HTDE t = HTDE s" "RXDF t = RXDF s" "periph t = periph s"
proof -
  let ?t = "lockMutex (unlockMutex (lockMutex (unlockMutex (lockMutex s))))"
  have "host_receive s = (rx_bytes s, unlockMutex (resumeThread (dsp_core_hostport_cpuread ?t)))"
    by (simp add: host_receive_def dsp_core_read_host_def rx_bytes_def Let_def)
  then show thesis by (rule that) simp_all
qed

lemma write_HTX:
  "write_memory DSP_SPACE_X (0xffc0 + DSP_HOST_HTX) w s =
     unlockMutex (dsp_core_hostport_dspwrite (set_periph DSP_SPACE_X DSP_HOST_HTX (w AND BITMASK 24) (lockMutex s)))"
  by (simp add: write_memory_raw_def write_periph_x_def Let_def)

lemma set_HTX:
  fixes s w defines "t \<equiv> set_periph DSP_SPACE_X DSP_HOST_HTX w s"
  shows "RXDF t = RXDF s" "HTDE t = HTDE s" "rx_bytes t = rx_bytes s" "periph t DSP_SPACE_X DSP_HOST_HTX = w"
  by (simp_all add: t_def flag_defs rx_bytes_def)

lemma receive_waiting:
  assumes "\<not> HTDE s" "periph s DSP_SPACE_X DSP_HOST_HTX = w"
  shows "fst (host_receive s) = rx_bytes s" "rx_bytes (snd (host_receive s)) = bytes_of_word w"
    "RXDF (snd (host_receive s))" "HTDE (snd (host_receive s))"
proof -
  obtain t where t: "host_receive s = (rx_bytes s, unlockMutex (resumeThread (dsp_core_hostport_cpuread t)))"
    "HTDE t = HTDE s" "periph t = periph s"
    by (rule host_receive_eq)
  then show "fst (host_receive s) = rx_bytes s" "rx_bytes (snd (host_receive s)) = bytes_of_word w"
    "RXDF (snd (host_receive s))" "HTDE (snd (host_receive s))"
    using assms cpuread_pending [of t] by simp_all
qed

lemma receive_last:
  assumes "HTDE s"
  shows "fst (host_receive s) = rx_bytes s" "\<not> RXDF (snd (host_receive s))"
proof -
  obtain t where t: "host_receive s = (rx_bytes s, unlockMutex (resumeThread (dsp_core_hostport_cpuread t)))"
    "HTDE t = HTDE s"
    by (rule host_receive_eq)
  then show "fst (host_receive s) = rx_bytes s" "\<not> RXDF (snd (host_receive s))"
    using assms cpuread_empty [of t] by simp_all
qed

text \<open>
  Two words that the DSP writes to X:HTX arrive at the host in order: the second waits until the
  host has read the first, and when both are read the port is empty.
\<close>

theorem dsp_to_host_words:
  assumes "\<not> RXDF s"
  defines "send \<equiv> write_memory DSP_SPACE_X (0xffc0 + DSP_HOST_HTX)"
  shows "case host_receive (send w2 (send w1 s)) of (b1, t) \<Rightarrow>
       word_of_bytes b1 = w1 AND BITMASK 24 \<and>
       (case host_receive t of (b2, u) \<Rightarrow> word_of_bytes b2 = w2 AND BITMASK 24 \<and> \<not> RXDF u)"
proof -
  let ?s1 = "send w1 s" and ?s2 = "send w2 (send w1 s)"
  let ?a = "set_periph DSP_SPACE_X DSP_HOST_HTX (w1 AND BITMASK 24) (lockMutex s)"
  let ?b = "set_periph DSP_SPACE_X DSP_HOST_HTX (w2 AND BITMASK 24) (lockMutex ?s1)"
  have s1: "RXDF ?s1" "rx_bytes ?s1 = bytes_of_word (w1 AND BITMASK 24)"
    using dspwrite_free [of ?a] assms(1) unfolding send_def write_HTX by (simp_all only: set_HTX flags_thread simp_thms)
  have b: "RXDF ?b" "rx_bytes ?b = bytes_of_word (w1 AND BITMASK 24)" "periph ?b DSP_SPACE_X DSP_HOST_HTX = w2 AND BITMASK 24"
    using s1 by (simp_all only: set_HTX flags_thread)
  have s2: "\<not> HTDE ?s2" "rx_bytes ?s2 = bytes_of_word (w1 AND BITMASK 24)" "periph ?s2 DSP_SPACE_X DSP_HOST_HTX = w2 AND BITMASK 24"
    using dspwrite_full [OF b(1)] b(2,3) unfolding send_def write_HTX
    by (simp_all only: flags_thread simp_thms)
  have mask: "(w AND BITMASK 24) AND BITMASK 24 = w AND BITMASK 24" for w :: u32
    by (simp add: and.assoc)
  show ?thesis
    using receive_waiting [OF s2(1,3)] receive_last [of "snd (host_receive ?s2)"] s2(2)
    by (simp add: case_prod_unfold word_of_bytes_of_word mask del: BITMASK_numeral)
qed

theorem dsp_to_host_words_witness:
  "case host_receive (write_memory DSP_SPACE_X 0xffeb 2 (write_memory DSP_SPACE_X 0xffeb 1 static_storage)) of
     (b1, t) \<Rightarrow> word_of_bytes b1 = 1 \<and>
       (case host_receive t of (b2, u) \<Rightarrow> word_of_bytes b2 = 2 \<and> \<not> RXDF u)"
  using dsp_to_host_words [of static_storage 1 2] by (simp add: RXDF_def static_storage_def)

end
