(* ===== verification/Dsp_System.thy ===== *)
theory Dsp_System
  imports Dsp_Hostport
begin

text \<open>
  The device as the emulator uses it: the class \<^verbatim>\<open>DSP\<close> of \<^verbatim>\<open>src/dsp.cpp\<close> and the thread of
  \<^verbatim>\<open>src/dsp_cpu.c\<close>, as a transition system between whole operations, and what holds in
  every reachable state.
\<close>

section \<open>The device\<close>

definition DSP_construct :: "dsp \<Rightarrow> dsp" where
  "DSP_construct s = dsp_core_init True s"

definition DSP_destroy :: "dsp \<Rightarrow> dsp" where
  "DSP_destroy s = dsp_core_shutdown s"

definition DSP_reset :: "(sdl_call \<Rightarrow> bool) \<Rightarrow> dsp \<Rightarrow> dsp" where
  "DSP_reset created s = dsp_core_reset created s"

function exec_insts :: "int \<Rightarrow> dsp \<Rightarrow> dsp" where
  "exec_insts num_inst s =
     (if running s \<and> num_inst > 0 then exec_insts (num_inst - 1) (dsp56k_execute_instruction s) else s)"
  by auto
termination by (relation "measure (\<lambda>(n, s). nat n)") auto

declare exec_insts.simps [simp del]

text \<open>\<open>hw_offset\<close> is \<^verbatim>\<open>getHWoffset()\<close>, the address of the device on the bus.\<close>

definition handleRead :: "u32 \<Rightarrow> u32 \<Rightarrow> dsp \<Rightarrow> u8 \<times> dsp" where
  "handleRead hw_offset addr s = dsp_core_read_host (unat (addr - hw_offset)) s"

definition handleWrite :: "u32 \<Rightarrow> u32 \<Rightarrow> u8 \<Rightarrow> dsp \<Rightarrow> dsp" where
  "handleWrite hw_offset addr value s = dsp_core_write_host (unat (addr - hw_offset)) value s"

text \<open>
  The operations of the two threads, one at a time: the resets and host accesses of the 68040, and
  the thread of \<^verbatim>\<open>dsp56k_exec_thread\<close>, which first waits for the bootstrap and then
  executes instructions while \<^verbatim>\<open>running\<close> is set. The bus gives the device the eight
  addresses of its range.
\<close>

inductive dsp_step :: "dsp \<Rightarrow> dsp \<Rightarrow> bool" where
  reset: "dsp_step s (DSP_reset created s)"
| host_read: "addr - hw < 8 \<Longrightarrow> dsp_step s (snd (handleRead hw addr s))"
| host_write: "addr - hw < 8 \<Longrightarrow> dsp_step s (handleWrite hw addr value s)"
| thread_start: "thread s \<Longrightarrow> dsp_step s (pauseThread s)"
| instruction: "running s \<Longrightarrow> dsp_step s (dsp56k_execute_instruction s)"

inductive dsp_reachable :: "dsp \<Rightarrow> bool" where
  start: "dsp_reachable (DSP_construct static_storage)"
| step: "dsp_reachable s \<Longrightarrow> dsp_step s t \<Longrightarrow> dsp_reachable t"

section \<open>Host accesses and the contracts\<close>

definition boot_ok :: "dsp \<Rightarrow> bool" where
  "boot_ok s \<longleftrightarrow> bootstrap_pos s \<le> 0x200 \<and> (running s \<longleftrightarrow> bootstrap_pos s = 0x200)"

definition pending_ok :: "dsp \<Rightarrow> bool" where
  "pending_ok s \<longleftrightarrow> dsp_inv (\<lambda>_. True) s"

lemma dsp_inv_pending: "dsp_inv P s \<longleftrightarrow> P s \<and> pending_ok s"
  by (auto simp: dsp_inv_def pending_ok_def)

lemma rom_image_word: "rom_image sp a < 0x1000000"
proof -
  have "x_rom ! i < 0x1000000 \<and> y_rom ! i < 0x1000000" if "i < 256" for i
    using rom_words that by (simp add: list_all_length)
  moreover have "unat (a - 0x100) < 256" if "0x100 \<le> a" "a < 0x200"
    using that by (simp add: word_le_nat_alt word_less_nat_alt unat_sub)
  ultimately show ?thesis by (simp add: rom_image_def)
qed

lemma words_ok_init: "words_ok (dsp_core_init b s)"
  by (simp add: words_ok_def dsp_core_init_def rom_image_word)

lemma words_ok_reset: "words_ok s \<Longrightarrow> words_ok (dsp_core_reset created s)"
  by (simp add: dsp_core_reset_def dsp_core_shutdown_def words_ok_def thread_defs Let_def)

lemma words_ok_read_host: "words_ok s \<Longrightarrow> words_ok (snd (dsp_core_read_host a s))"
  by (simp add: dsp_core_read_host_def words_ok_transfer Let_def)

lemma words_ok_write_cases:
  "words_ok s \<Longrightarrow> words_ok (write_host_ICR v s)" "words_ok s \<Longrightarrow> words_ok (write_host_CVR v s)"
  "words_ok s \<Longrightarrow> words_ok (write_host_TXL v s)"
  by (simp add: write_host_ICR_def words_ok_def Let_def)
    (simp_all add: write_host_CVR_def write_host_TXL_def Let_def words_ok_transfer words_ok_updates)

lemma words_ok_write_host: "words_ok s \<Longrightarrow> words_ok (dsp_core_write_host a v s)"
  by (simp add: dsp_core_write_host_def Let_def words_ok_write_cases words_ok_updates)

lemma mutex_free_host:
  "mutex_free s \<Longrightarrow> mutex_free (dsp_core_reset created s)"
  "mutex_free s \<Longrightarrow> mutex_free (snd (dsp_core_read_host a s))"
  "mutex_free s \<Longrightarrow> mutex_free (dsp_core_write_host a v s)"
  by (simp_all add: mutex_free_def dsp_core_reset_def dsp_core_shutdown_def dsp_core_read_host_def
     dsp_core_write_host_def write_host_ICR_def write_host_CVR_def write_host_TXL_def
     host_transfer_defs thread_defs Let_def)

lemma pending_host:
  "pending_ok s \<Longrightarrow> pending_ok (dsp_core_reset created s)"
  "pending_ok s \<Longrightarrow> pending_ok (snd (dsp_core_read_host a s))"
  "pending_ok s \<Longrightarrow> pending_ok (dsp_core_write_host a v s)"
  by (simp_all add: pending_ok_def dsp_inv_def dsp_core_reset_def dsp_core_shutdown_def dsp_core_read_host_def
     dsp_core_write_host_def write_host_ICR_def write_host_CVR_def write_host_TXL_def
     host_transfer_defs thread_defs Let_def)

lemma rom_host:
  "rom (dsp_core_reset created s) = rom s"
  "rom (snd (dsp_core_read_host a s)) = rom s"
  "rom (dsp_core_write_host a v s) = rom s"
  by (simp_all add: dsp_core_reset_def dsp_core_shutdown_def dsp_core_read_host_def
     dsp_core_write_host_def write_host_ICR_def write_host_CVR_def write_host_TXL_def
     host_transfer_defs thread_defs Let_def)

lemma boot_reset: "boot_ok (dsp_core_reset created s)"
  by (simp add: boot_ok_def dsp_core_reset_def dsp_core_shutdown_def thread_defs Let_def)

lemma boot_read: "boot_ok s \<Longrightarrow> boot_ok (snd (dsp_core_read_host a s))"
  by (simp add: boot_ok_def dsp_core_read_host_def host_transfer_defs thread_defs Let_def)

lemma boot_write: "boot_ok s \<Longrightarrow> boot_ok (dsp_core_write_host a v s)"
proof -
  have next_pos: "p \<le> 0x200 \<Longrightarrow> p \<noteq> 0x200 \<Longrightarrow> p + 1 \<le> (0x200 :: u16)" for p
    by unat_arith
  show "boot_ok s \<Longrightarrow> boot_ok (dsp_core_write_host a v s)"
    by (auto simp: boot_ok_def dsp_core_write_host_def write_host_ICR_def write_host_CVR_def write_host_TXL_def
       host_transfer_defs thread_defs Let_def next_pos)
qed


section \<open>Invariants of the reachable states\<close>

definition system_ok :: "dsp \<Rightarrow> bool" where
  "system_ok s \<longleftrightarrow> words_ok s \<and> pending_ok s \<and> mutex_free s \<and> boot_ok s \<and> rom s = rom_image"

lemma instruction_keeps:
  assumes "pending_ok s"
  shows "words_ok s \<Longrightarrow> words_ok (dsp56k_execute_instruction s)"
    and "mutex_free s \<Longrightarrow> mutex_free (dsp56k_execute_instruction s)"
    and "pending_ok (dsp56k_execute_instruction s)"
    and "inside_arrays s (dsp56k_execute_instruction s)"
    and "host_owned s (dsp56k_execute_instruction s)"
  using assms words.execute_instruction [of s] mutex.execute_instruction [of s]
    arrays.execute_instruction [of s s] owned.execute_instruction [of s s]
  by (simp_all add: dsp_inv_pending inside_arrays_def host_owned_def)

lemma system_ok_construct: "system_ok (DSP_construct static_storage)"
  by (simp add: system_ok_def DSP_construct_def words_ok_init)
     (simp add: pending_ok_def dsp_inv_def mutex_free_def boot_ok_def dsp_core_init_def static_storage_def)

lemma system_ok_step:
  assumes "dsp_step s t" "system_ok s"
  shows "system_ok t"
  using assms
proof (induction rule: dsp_step.induct)
  case (reset s created)
  then show ?case
    by (simp add: system_ok_def DSP_reset_def words_ok_reset pending_host mutex_free_host boot_reset rom_host)
next
  case (host_read addr hw s)
  then show ?case
    by (simp add: system_ok_def handleRead_def words_ok_read_host pending_host mutex_free_host boot_read rom_host)
next
  case (host_write addr hw s "value")
  then show ?case
    by (simp add: system_ok_def handleWrite_def words_ok_write_host pending_host mutex_free_host boot_write rom_host)
next
  case (thread_start s)
  then show ?case
    by (simp add: system_ok_def) (simp add: pending_ok_def dsp_inv_def mutex_free_def boot_ok_def pauseThread_def)
next
  case (instruction s)
  then show ?case
    using instruction_keeps [of s] by (simp add: system_ok_def boot_ok_def host_owned_def)
qed

lemma reachable_system_ok: "dsp_reachable s \<Longrightarrow> system_ok s"
  by (induction rule: dsp_reachable.induct) (auto intro: system_ok_construct system_ok_step)

text \<open>
  A reachable state for the instances below: the device is constructed and reset, all the SDL
  objects are created, and the host writes the first byte of the bootstrap.
\<close>

definition booting :: dsp where
  "booting = handleWrite 0xffa200 0xffa205 0x0c (DSP_reset (\<lambda>_. True) (DSP_construct static_storage))"

lemma booting_reachable: "dsp_reachable booting"
  unfolding booting_def
  by (rule dsp_reachable.step [OF dsp_reachable.step [OF dsp_reachable.start dsp_step.reset]
        dsp_step.host_write]) simp





text \<open>
  C27. In every reachable state the host port mutex is free, and no operation so far has locked it
  twice, released it when free, or slept while holding it.
\<close>

theorem reachable_mutex_free:
  assumes "dsp_reachable s"
  shows "mutex_held (calls s) = Some False"
  using reachable_system_ok [OF assms] by (simp add: system_ok_def mutex_free_def)

theorem reachable_mutex_free_witness: "mutex_held (calls booting) = Some False"
  by (rule reachable_mutex_free [OF booting_reachable])

text \<open>
  The bootstrap never writes beyond the 512 words of the internal program memory: in a reachable
  state the position is at most 512, and the core runs exactly when it is 512.
\<close>

theorem reachable_bootstrap:
  assumes "dsp_reachable s"
  shows "bootstrap_pos s \<le> 0x200 \<and> (running s \<longleftrightarrow> bootstrap_pos s = 0x200)"
  using reachable_system_ok [OF assms] by (simp add: system_ok_def boot_ok_def)

theorem reachable_bootstrap_witness:
  "bootstrap_pos booting \<le> 0x200 \<and> (running booting \<longleftrightarrow> bootstrap_pos booting = 0x200)"
  by (rule reachable_bootstrap [OF booting_reachable])

text \<open>
  \<^verbatim>\<open>DSP::exec_insts\<close> executes exactly the requested number of instructions when
  the core runs, and none when it does not: no instruction stops the loop.
\<close>

theorem exec_insts_count:
  assumes "pending_ok s"
  shows "exec_insts n s = (if running s then (dsp56k_execute_instruction ^^ nat n) s else s)"
  using assms
proof (induction n s rule: exec_insts.induct)
  case (1 n s)
  show ?case
  proof (cases "running s \<and> n > 0")
    case True
    let ?t = "dsp56k_execute_instruction s"
    from 1 True have "exec_insts (n - 1) ?t = (dsp56k_execute_instruction ^^ nat (n - 1)) ?t"
      using instruction_keeps [of s] by (simp add: host_owned_def)
    moreover have "nat n = Suc (nat (n - 1))" using True by (simp add: Suc_nat_eq_nat_zadd1)
    ultimately show ?thesis
      using True by (simp add: exec_insts.simps [of n s] funpow_swap1)
  qed (auto simp: exec_insts.simps [of n s])
qed

theorem exec_insts_count_witness:
  "exec_insts 3 (static_storage\<lparr>running := True\<rparr>) =
     (dsp56k_execute_instruction ^^ 3) (static_storage\<lparr>running := True\<rparr>)"
  using exec_insts_count [of "static_storage\<lparr>running := True\<rparr>" 3]
  by (simp add: pending_ok_def dsp_inv_def static_storage_def)

section \<open>The bootstrap\<close>

text \<open>The bootstrap after the words \<open>ws\<close> have arrived.\<close>

definition boot_state :: "(u8 \<times> u8 \<times> u8) list \<Rightarrow> dsp \<Rightarrow> bool" where
  "boot_state ws s \<longleftrightarrow> length ws \<le> 512 \<and> bootstrap_pos s = of_nat (length ws) \<and>
     running s = (length ws = 512) \<and> \<not> ub s \<and>
     (\<forall>i < length ws. ramint s DSP_SPACE_P (of_nat i) = word_of_bytes (ws ! i))"

lemma host_send_boot:
  assumes "\<not> running s" "bootstrap_pos s < 0x200"
  shows "bootstrap_pos (host_send b s) = bootstrap_pos s + 1"
    "running (host_send b s) = (bootstrap_pos s + 1 = 0x200)" "ub (host_send b s) = ub s"
    "ramint (host_send b s) = (ramint s)(DSP_SPACE_P := (ramint s DSP_SPACE_P)(bootstrap_pos s := word_of_bytes b))"
  using assms
  by (cases b; simp add: host_send_def dsp_core_write_host_def write_host_TXL_def thread_defs Let_def
      word_of_bytes_def or.commute or.left_commute)+

lemma boot_index:
  assumes "i \<le> 512" "j \<le> 512"
  shows "(of_nat i :: u16) = of_nat j \<longleftrightarrow> i = j" "(of_nat i :: u16) < of_nat j \<longleftrightarrow> i < j"
  using assms by (simp_all add: word_unat_eq_iff word_less_nat_alt unsigned_of_nat take_bit_nat_eq_self)

lemma boot_state_send:
  assumes "boot_state ws s" "length ws < 512"
  shows "boot_state (ws @ [b]) (host_send b s)"
proof -
  let ?n = "length ws"
  have pos: "bootstrap_pos s = of_nat ?n" and "\<not> running s"
    using assms by (simp_all add: boot_state_def)
  moreover have "bootstrap_pos s < 0x200"
    using assms(2) boot_index(2) [of ?n 512] by (simp add: pos)
  ultimately have send: "bootstrap_pos (host_send b s) = of_nat (Suc ?n)"
    "running (host_send b s) = ((of_nat (Suc ?n) :: u16) = of_nat 512)" "ub (host_send b s) = ub s"
    "ramint (host_send b s) DSP_SPACE_P = (ramint s DSP_SPACE_P)(of_nat ?n := word_of_bytes b)"
    using host_send_boot [of s b] by (simp_all add: add.commute)
  have "ramint (host_send b s) DSP_SPACE_P (of_nat i) = word_of_bytes ((ws @ [b]) ! i)" if "i < Suc ?n" for i
  proof (cases "i = ?n")
    case False
    with that assms boot_index(1) [of i ?n] show ?thesis
      by (simp add: send boot_state_def nth_append)
  qed (simp add: send)
  with assms show ?thesis
    using boot_index(1) [of "Suc ?n" 512] by (simp add: boot_state_def send del: of_nat_Suc)
qed

lemma boot_state_upload:
  "boot_state [] s \<Longrightarrow> length ws \<le> 512 \<Longrightarrow> boot_state ws (fold host_send ws s)"
  by (induction ws rule: rev_induct) (auto intro: boot_state_send)

text \<open>
  C19. The bootstrap: 512 words that the host sends to a core that has been reset become the internal
  program memory, in order, and only the last one starts the core.
\<close>

theorem bootstrap_upload:
  fixes created :: "sdl_call \<Rightarrow> bool" and s :: dsp
  assumes "length ws = 512" and "\<not> ub s"
  defines "r \<equiv> dsp_core_reset created s"
  shows "(\<forall>i < 512. ramint (fold host_send ws r) DSP_SPACE_P (of_nat i) = word_of_bytes (ws ! i)) \<and>
     running (fold host_send ws r) \<and> (\<forall>n < 512. \<not> running (fold host_send (take n ws) r))"
proof -
  have "boot_state [] r"
    using assms(2) by (simp add: boot_state_def r_def dsp_core_reset_def dsp_core_shutdown_def thread_defs Let_def)
  then have "boot_state (take n ws) (fold host_send (take n ws) r)" if "n \<le> 512" for n
    using that by (intro boot_state_upload) simp_all
  from this [of 512] this show ?thesis
    using assms(1) by (simp add: boot_state_def)
qed

theorem bootstrap_upload_witness:
  "ramint (fold host_send (replicate 512 (0, 0, 7)) (dsp_core_reset (\<lambda>_. True) static_storage)) DSP_SPACE_P 511 = 7 \<and>
   running (fold host_send (replicate 512 (0, 0, 7)) (dsp_core_reset (\<lambda>_. True) static_storage))"
  using bootstrap_upload [of "replicate 512 (0, 0, 7)" static_storage "\<lambda>_. True"]
  by (auto simp: static_storage_def word_of_bytes_def dest: spec [of _ 511])

end
