(* ===== verification/Hw_Mfp.thy ===== *)
theory Hw_Mfp
  imports Prelude
begin

text \<open>
  The MFP 68901 of \<^verbatim>\<open>src/mfp.cpp\<close>: the four timers, the general purpose port, the
  sixteen interrupt channels, and the 200 Hz tick of \<^verbatim>\<open>src/main.cpp\<close> that drives
  timer C. The interrupt line to the 68040 is the bit \<^verbatim>\<open>SPCFLAG_MFP\<close> of
  \<^verbatim>\<open>regs.spcflags\<close>, here the field \<open>spcflag_mfp\<close>, written by
  \<^verbatim>\<open>TriggerMFP\<close>.
\<close>

section \<open>Timers\<close>

record mfp_timer =
  control :: u8
  start_data :: u8
  current_data :: u8
  timer_state :: bool

definition Timer_reset :: mfp_timer where
  "Timer_reset = \<lparr>control = 0, start_data = 0, current_data = 0, timer_state = False\<rparr>"

definition isRunning :: "mfp_timer \<Rightarrow> bool" where
  "isRunning t \<longleftrightarrow> control t AND 0x0f > 0"

definition setControl :: "u8 \<Rightarrow> mfp_timer \<Rightarrow> mfp_timer" where
  "setControl value t =
     (let t = t\<lparr>control := value AND 0x0f\<rparr>
      in if value AND 0x10 \<noteq> 0 then t\<lparr>timer_state := False\<rparr> else t)"

definition getControl :: "mfp_timer \<Rightarrow> u8" where
  "getControl t = control t OR push_bit 5 (of_bool (timer_state t))"

definition setData :: "u8 \<Rightarrow> mfp_timer \<Rightarrow> mfp_timer" where
  "setData value t =
     (let t = t\<lparr>start_data := value\<rparr>
      in if \<not> isRunning t then t\<lparr>current_data := value\<rparr> else t)"

definition resetCounter :: "mfp_timer \<Rightarrow> mfp_timer" where
  "resetCounter t = (if isRunning t then t\<lparr>timer_state := True, current_data := start_data t\<rparr> else t)"

definition getData :: "mfp_timer \<Rightarrow> u8 \<times> mfp_timer" where
  "getData t =
     (let t = (if isRunning t \<and> current_data t > 2 then t\<lparr>current_data := current_data t - 1\<rparr> else t)
      in (current_data t, t))"

definition compute_timer_freq :: "mfp_timer \<Rightarrow> nat" where
  "compute_timer_freq t =
     (let freq = (if control t = 1 then 2457600 div 4
                  else if control t = 2 then 2457600 div 10
                  else if control t = 3 then 2457600 div 16
                  else if control t = 4 then 2457600 div 50
                  else if control t = 5 then 2457600 div 64
                  else if control t = 6 then 2457600 div 100
                  else if control t = 7 then 2457600 div 200
                  else 2457600 div 64)
      in if start_data t \<noteq> 0 then freq div unat (start_data t) else freq div 192)"

section \<open>The interrupt controller\<close>

text \<open>
  \<^verbatim>\<open>vr\<close> is an \<^verbatim>\<open>int\<close> that holds a byte, or 0x100 after a reset;
  \<^verbatim>\<open>timerCounter\<close> is a signed 32-bit \<^verbatim>\<open>int\<close>.
\<close>

record mfp =
  gpip_input :: u8
  GPIP_data :: u8
  active_edge :: u8
  data_direction :: u8
  irq_enable :: u16
  irq_pending :: u16
  irq_inservice :: u16
  irq_mask :: u16
  timerA :: mfp_timer
  timerB :: mfp_timer
  timerC :: mfp_timer
  timerD :: mfp_timer
  timerCounter :: u32
  vr :: u32
  spcflag_mfp :: bool

definition TriggerMFP :: "bool \<Rightarrow> mfp \<Rightarrow> mfp" where
  "TriggerMFP enable m = m\<lparr>spcflag_mfp := enable\<rparr>"

definition MFP_reset :: "mfp \<Rightarrow> mfp" where
  "MFP_reset m =
     m\<lparr>gpip_input := 0xff, GPIP_data := 0xff, vr := 0x0100, active_edge := 0, data_direction := 0,
       irq_enable := 0, irq_pending := 0, irq_inservice := 0, irq_mask := 0, timerCounter := 0,
       timerA := Timer_reset, timerB := Timer_reset, timerC := Timer_reset, timerD := Timer_reset\<rparr>"

text \<open>
  \<^verbatim>\<open>IRQ(int_level, count)\<close>. Bit \<^verbatim>\<open>1 << int_level\<close> is kept at the 16
  bits of the registers it is tested against: for a level of 16 or more the code finds it not
  enabled, and so does the model.
\<close>

definition IRQ :: "nat \<Rightarrow> u32 \<Rightarrow> mfp \<Rightarrow> mfp" where
  "IRQ int_level count m =
     (let i = push_bit int_level 1 :: u16;
          m = (if int_level = 5 then m\<lparr>timerC := resetCounter (timerC m)\<rparr> else m)
      in if irq_enable m AND i = 0 then m
         else
           let m = (if int_level = 5 then m\<lparr>timerCounter := timerCounter m + count\<rparr> else m)
           in if irq_pending m AND i \<noteq> 0 then m
              else
                let m = m\<lparr>irq_pending := irq_pending m OR i\<rparr>
                in if irq_mask m AND i = 0 then m
                   else if irq_inservice m > i then m
                   else TriggerMFP True m)"

definition map_gpip_to_ier :: "nat list" where
  "map_gpip_to_ier = [0, 1, 2, 3, 6, 7, 14, 15]"

definition set_active_edge :: "u8 \<Rightarrow> mfp \<Rightarrow> mfp" where
  "set_active_edge value m =
     (let m = fold (\<lambda>j m.
                let i = push_bit j 1 :: u8
                in if active_edge m AND i \<noteq> value AND i \<and> data_direction m AND i = 0 \<and>
                      active_edge m AND i \<noteq> gpip_input m AND i
                   then IRQ (map_gpip_to_ier ! j) 1 m else m) [0..<8] m
      in m\<lparr>active_edge := value\<rparr>)"

text \<open>
  \<^verbatim>\<open>setGPIPbit\<close> masks its two \<^verbatim>\<open>int\<close> arguments to eight bits; its loop compares
  the old with the new levels.
\<close>

definition port_line :: "u8 \<Rightarrow> nat \<Rightarrow> mfp \<Rightarrow> mfp" where
  "port_line oldGPIP j m =
     (let i = push_bit j 1 :: u8
      in if oldGPIP AND i \<noteq> GPIP_data m AND i
         then if active_edge m AND i \<noteq> 0
              then if oldGPIP AND i \<noteq> 0 then m else IRQ (map_gpip_to_ier ! j) 1 m
              else if GPIP_data m AND i \<noteq> 0 then m else IRQ (map_gpip_to_ier ! j) 1 m
         else m)"

definition port_interrupts :: "u8 \<Rightarrow> mfp \<Rightarrow> mfp" where
  "port_interrupts oldGPIP m = fold (port_line oldGPIP) [0..<8] m"

definition setGPIPbit :: "u8 \<Rightarrow> u8 \<Rightarrow> mfp \<Rightarrow> mfp" where
  "setGPIPbit msk value m =
     (let oldGPIP = GPIP_data m;
          m = m\<lparr>gpip_input := (gpip_input m AND NOT msk) OR (value AND msk)\<rparr>;
          msk = msk AND NOT (data_direction m);
          m = m\<lparr>GPIP_data := (GPIP_data m AND NOT msk) OR (value AND msk)\<rparr>
      in port_interrupts oldGPIP m)"

text \<open>The loop that looks for the pending interrupt of the highest priority.\<close>

function highest_pending :: "mfp \<Rightarrow> nat \<Rightarrow> u16 \<Rightarrow> nat \<times> u16" where
  "highest_pending m j i =
     (if i = 0 \<or> irq_pending m AND i AND irq_mask m \<noteq> 0 then (j, i)
      else highest_pending m (j - 1) (drop_bit 1 i))"
  by auto
termination
  by (relation "measure (\<lambda>(m, j, i). unat i)")
    (auto simp: drop_bit_eq_div unat_div word_less_nat_alt intro!: div_less_dividend unat_gt_0 [THEN iffD2])

declare highest_pending.simps [simp del]

text \<open>The pending bit of timer C stays set while ticks remain to be delivered.\<close>

definition acknowledge :: "nat \<Rightarrow> u16 \<Rightarrow> mfp \<Rightarrow> mfp" where
  "acknowledge j i m =
     (let m = (if j = 5 then m\<lparr>timerCounter := timerCounter m - 1\<rparr> else m)
      in if j \<noteq> 5 \<or> sint (timerCounter m) \<le> 0
         then TriggerMFP False (m\<lparr>irq_pending := irq_pending m AND NOT i\<rparr>) else m)"

definition start_service :: "u16 \<Rightarrow> mfp \<Rightarrow> mfp" where
  "start_service i m =
     (if vr m AND 0x08 \<noteq> 0 then m\<lparr>irq_inservice := irq_inservice m OR i\<rparr>
      else if irq_pending m AND irq_mask m \<noteq> 0 then TriggerMFP True m else m)"

definition doInterrupt :: "mfp \<Rightarrow> u32 \<times> mfp" where
  "doInterrupt m =
     (let (j, i) = highest_pending m 15 0x8000
      in if i = 0 then (0, TriggerMFP False m)
         else if irq_inservice m \<ge> i then (0, TriggerMFP False m)
         else ((vr m AND 0xf0) + of_nat j, start_service i (acknowledge j i m)))"

section \<open>Register access\<close>

text \<open>
  The device is at \<^verbatim>\<open>0xfffa00\<close> with 0x30 bytes (\<^verbatim>\<open>HWInit\<close>); \<open>addr\<close>
  is the offset. \<open>busy\<close> is the answer of the parallel port driver of the host,
  \<open>None\<close> when there is none or it is not enabled.
\<close>

definition timer_read :: "(mfp \<Rightarrow> mfp_timer) \<Rightarrow> ((mfp_timer \<Rightarrow> mfp_timer) \<Rightarrow> mfp \<Rightarrow> mfp) \<Rightarrow> mfp \<Rightarrow> u8 \<times> mfp" where
  "timer_read get upd m = (let (value, t) = getData (get m) in (value, upd (\<lambda>_. t) m))"

definition MFP_handleRead :: "u8 option \<Rightarrow> u32 \<Rightarrow> mfp \<Rightarrow> u8 \<times> mfp" where
  "MFP_handleRead busy addr m =
     (if addr > 0x30 then (0, m)
      else if addr = 0x01 then ((GPIP_data m AND NOT 0x21) OR (case busy of Some b \<Rightarrow> b | None \<Rightarrow> 0x01), m)
      else if addr = 0x03 then (active_edge m, m)
      else if addr = 0x05 then (data_direction m, m)
      else if addr = 0x07 then (ucast (drop_bit 8 (irq_enable m)), m)
      else if addr = 0x09 then (ucast (irq_enable m), m)
      else if addr = 0x0b then (0x20, m)
      else if addr = 0x0d then (ucast (irq_pending m), m)
      else if addr = 0x0f then (ucast (drop_bit 8 (irq_inservice m)), m)
      else if addr = 0x11 then (ucast (irq_inservice m), m)
      else if addr = 0x13 then (ucast (drop_bit 8 (irq_mask m)), m)
      else if addr = 0x15 then (ucast (irq_mask m), m)
      else if addr = 0x17 then (ucast (vr m), m)
      else if addr = 0x19 then (getControl (timerA m), m)
      else if addr = 0x1b then (getControl (timerB m), m)
      else if addr = 0x1d then (push_bit 4 (getControl (timerC m)) OR getControl (timerD m), m)
      else if addr = 0x1f then timer_read timerA timerA_update m
      else if addr = 0x21 then timer_read timerB timerB_update m
      else if addr = 0x23 then timer_read timerC timerC_update m
      else if addr = 0x25 then timer_read timerD timerD_update m
      else if addr = 0x2d then (0x80, m)
      else (0, m))"

text \<open>The cases of the write that the two halves of a 16-bit register share.\<close>

definition write_IER :: "u16 \<Rightarrow> mfp \<Rightarrow> mfp" where
  "write_IER enable m =
     (let m = m\<lparr>irq_enable := enable\<rparr> in m\<lparr>irq_pending := irq_pending m AND irq_enable m\<rparr>)"

definition write_IPR :: "u16 \<Rightarrow> mfp \<Rightarrow> mfp" where
  "write_IPR keep m =
     (let m = m\<lparr>irq_pending := irq_pending m AND keep\<rparr>
      in if irq_pending m AND irq_mask m = 0 then TriggerMFP False m else m)"

definition write_ISR :: "u16 \<Rightarrow> mfp \<Rightarrow> mfp" where
  "write_ISR keep m =
     (let m = m\<lparr>irq_inservice := irq_inservice m AND keep\<rparr>
      in if irq_pending m AND irq_mask m \<noteq> 0 then TriggerMFP True m else m)"

definition write_IMR :: "u16 \<Rightarrow> mfp \<Rightarrow> mfp" where
  "write_IMR msk m =
     (let m = m\<lparr>irq_mask := msk\<rparr> in TriggerMFP (irq_pending m AND irq_mask m \<noteq> 0) m)"

definition write_VR :: "u8 \<Rightarrow> mfp \<Rightarrow> mfp" where
  "write_VR value m =
     (let m = m\<lparr>vr := ucast value\<rparr>
      in if vr m AND 0x08 \<noteq> 0 then m
         else let m = m\<lparr>irq_inservice := 0\<rparr> in TriggerMFP (irq_pending m AND irq_mask m \<noteq> 0) m)"

definition MFP_handleWrite :: "u32 \<Rightarrow> u8 \<Rightarrow> mfp \<Rightarrow> mfp" where
  "MFP_handleWrite addr value m =
     (let hi = push_bit 8 (ucast value) :: u16; lo = ucast value :: u16
      in if addr > 0x30 then m
         else if addr = 0x01
         then let m = m\<lparr>GPIP_data := GPIP_data m AND NOT (data_direction m)\<rparr>
              in m\<lparr>GPIP_data := GPIP_data m OR (value AND data_direction m)\<rparr>
         else if addr = 0x03 then set_active_edge value m
         else if addr = 0x05
         then let m = m\<lparr>data_direction := value\<rparr>;
                  m = m\<lparr>GPIP_data := GPIP_data m AND data_direction m\<rparr>
              in m\<lparr>GPIP_data := GPIP_data m OR (gpip_input m AND NOT (data_direction m))\<rparr>
         else if addr = 0x07 then write_IER ((irq_enable m AND 0x00ff) OR hi) m
         else if addr = 0x09 then write_IER ((irq_enable m AND 0xff00) OR lo) m
         else if addr = 0x0b then write_IPR (hi OR 0xff) m
         else if addr = 0x0d then write_IPR (0xff00 OR lo) m
         else if addr = 0x0f then write_ISR (hi OR 0xff) m
         else if addr = 0x11 then write_ISR (0xff00 OR lo) m
         else if addr = 0x13 then write_IMR ((irq_mask m AND 0x00ff) OR hi) m
         else if addr = 0x15 then write_IMR ((irq_mask m AND 0xff00) OR lo) m
         else if addr = 0x17 then write_VR value m
         else if addr = 0x19 then m\<lparr>timerA := setControl value (timerA m)\<rparr>
         else if addr = 0x1b then m\<lparr>timerB := setControl value (timerB m)\<rparr>
         else if addr = 0x1d
         then m\<lparr>timerC := setControl (drop_bit 4 value) (timerC m), timerD := setControl (value AND 0x0f) (timerD m)\<rparr>
         else if addr = 0x1f then m\<lparr>timerA := setData value (timerA m)\<rparr>
         else if addr = 0x21 then m\<lparr>timerB := setData value (timerB m)\<rparr>
         else if addr = 0x23 then m\<lparr>timerC := setData value (timerC m)\<rparr>
         else if addr = 0x25 then m\<lparr>timerD := setData value (timerD m)\<rparr>
         else m)"

definition timerC_ms_ticks :: "mfp \<Rightarrow> nat" where
  "timerC_ms_ticks m = (let freq = compute_timer_freq (timerC m) in 1000 div freq)"


section \<open>Service by the 68040 and the 200 Hz tick\<close>

text \<open>
  The MFP part of \<^verbatim>\<open>SERVE_VBL_MFP\<close> in \<^verbatim>\<open>src/uae_cpu/newcpu.cpp\<close>: the
  vector of the exception taken, if any, and the interrupt mask of the processor afterwards.
\<close>

definition serve_MFP :: "nat \<Rightarrow> mfp \<Rightarrow> u32 option \<times> nat \<times> mfp" where
  "serve_MFP intmask m =
     (if spcflag_mfp m \<and> 6 > intmask
      then let (vector_number, m) = doInterrupt m
           in if vector_number \<noteq> 0 then (Some vector_number, 6, m)
              else (None, intmask, m\<lparr>spcflag_mfp := False\<rparr>)
      else (None, intmask, m))"

text \<open>
  \<^verbatim>\<open>invoke200HzInterrupt\<close> of \<^verbatim>\<open>src/main.cpp\<close>: \<open>newTicks\<close> is the
  host clock, \<open>using_rtc_timer\<close> the flag of the same name. The calls it makes to other devices
  are its outputs. The result is \<open>None\<close> where the code divides by zero.
\<close>

datatype tick_call = SCC_IRQ | VBL_IRQ | Check_pipe

record ticker =
  lastTicks :: u32
  VBL_counter :: u32

definition VBL_tick :: "u32 \<Rightarrow> ticker \<Rightarrow> tick_call list \<times> ticker" where
  "VBL_tick milliseconds t =
     (let t = t\<lparr>VBL_counter := VBL_counter t + milliseconds\<rparr>
      in if sint (VBL_counter t) \<ge> 20 then ([VBL_IRQ], t\<lparr>VBL_counter := VBL_counter t - 20\<rparr>) else ([], t))"

definition invoke200HzInterrupt :: "bool \<Rightarrow> u32 \<Rightarrow> ticker \<Rightarrow> mfp \<Rightarrow> (tick_call list \<times> ticker \<times> mfp) option" where
  "invoke200HzInterrupt using_rtc_timer newTicks t m =
     (let ms_ticks = of_nat (timerC_ms_ticks m) :: u32;
          t = (if lastTicks t = 0 then t\<lparr>lastTicks := newTicks - ms_ticks\<rparr> else t)
      in if ms_ticks = 0 then None
         else
           let count = (newTicks - lastTicks t) div ms_ticks
           in if count = 0 then Some ([], t, m)
              else
                let count = (if using_rtc_timer then 1 else count);
                    milliseconds = count * ms_ticks;
                    t = t\<lparr>lastTicks := lastTicks t + milliseconds\<rparr>;
                    m = IRQ 5 count m;
                    (vbl, t) = VBL_tick milliseconds t
                in Some ([SCC_IRQ] @ vbl @ [Check_pipe], t, m))"

section \<open>Specification\<close>

text \<open>
  Channel \<open>j\<close> may interrupt: it is pending, not masked, and no channel of the same or a higher
  priority is in service.
\<close>

definition requests :: "mfp \<Rightarrow> nat \<Rightarrow> bool" where
  "requests m j \<longleftrightarrow> bit (irq_pending m) j \<and> bit (irq_mask m) j"

definition eligible :: "mfp \<Rightarrow> nat \<Rightarrow> bool" where
  "eligible m j \<longleftrightarrow> requests m j \<and> irq_inservice m < 2 ^ j"

text \<open>The interrupt line is raised whenever a channel may interrupt.\<close>

definition line_ok :: "mfp \<Rightarrow> bool" where
  "line_ok m \<longleftrightarrow> (\<forall>j. eligible m j \<longrightarrow> spcflag_mfp m)"

inductive mfp_step :: "mfp \<Rightarrow> mfp \<Rightarrow> bool" where
  reset: "mfp_step m (MFP_reset m)"
| register_read: "mfp_step m (snd (MFP_handleRead busy addr m))"
| register_write: "mfp_step m (MFP_handleWrite addr value m)"
| irq: "mfp_step m (IRQ level count m)"
| port: "mfp_step m (setGPIPbit msk value m)"
| serve: "mfp_step m (snd (snd (serve_MFP intmask m)))"
| tick: "invoke200HzInterrupt rtc now t m = Some (calls, t', m') \<Longrightarrow> mfp_step m m'"

inductive mfp_reachable :: "mfp \<Rightarrow> bool" where
  start: "mfp_reachable (MFP_reset m)"
| step: "mfp_reachable m \<Longrightarrow> mfp_step m n \<Longrightarrow> mfp_reachable n"

text \<open>The object in zeroed memory, an MFP with the keyboard channel enabled, and
  the same with that channel requesting.\<close>

definition mfp_zero :: mfp where
  "mfp_zero =
     \<lparr>gpip_input = 0, GPIP_data = 0, active_edge = 0, data_direction = 0, irq_enable = 0,
      irq_pending = 0, irq_inservice = 0, irq_mask = 0, timerA = Timer_reset, timerB = Timer_reset,
      timerC = Timer_reset, timerD = Timer_reset, timerCounter = 0, vr = 0, spcflag_mfp = False\<rparr>"

definition mfp_ready :: mfp where
  "mfp_ready = MFP_handleWrite 0x15 0x40 (MFP_handleWrite 0x09 0x40 (MFP_handleWrite 0x17 0x48 (MFP_reset mfp_zero)))"

definition mfp_key :: mfp where
  "mfp_key = IRQ 6 1 mfp_ready"

text \<open>
  The lines on which a new input raises an interrupt: inputs in the mask that change to the level the
  edge register selects.
\<close>

definition edge :: "u8 \<Rightarrow> u8 \<Rightarrow> mfp \<Rightarrow> nat \<Rightarrow> bool" where
  "edge msk value m j \<longleftrightarrow> bit msk j \<and> \<not> bit (data_direction m) j \<and> (bit (GPIP_data m) j \<noteq> bit value j) \<and>
     (bit value j = bit (active_edge m) j)"

section \<open>The scan for the highest priority\<close>

lemma and_bit_iff: "(x AND push_bit j 1 = 0) = (\<not> bit x j)" for x :: u16
  by (simp add: and_exp_eq_0_iff_not_bit)

lemma bit_power_u16 [simp]: "bit (2 ^ i :: u16) n \<longleftrightarrow> n = i \<and> i < 16"
  by (auto simp: bit_simps)

lemma requests_bound: "requests m j \<Longrightarrow> j < 16"
  unfolding requests_def using bit_imp_le_length [of "irq_pending m" j] by simp

lemma no_requests: "irq_pending m AND irq_mask m = 0 \<longleftrightarrow> (\<forall>j. \<not> requests m j)"
  unfolding requests_def zero_iff_bits bit_and_iff by simp

lemma scan_test: "irq_pending m AND 2 ^ j AND irq_mask m = 0 \<longleftrightarrow> \<not> requests m j"
proof -
  have "irq_pending m AND 2 ^ j AND irq_mask m = (irq_pending m AND irq_mask m) AND 2 ^ j"
    by (simp add: ac_simps)
  then show ?thesis by (simp add: and_exp_eq_0_iff_not_bit requests_def bit_and_iff)
qed

lemma drop_bit_power_u16: "Suc j < 16 \<Longrightarrow> drop_bit 1 (2 ^ Suc j :: u16) = 2 ^ j"
  by (rule bit_word_eqI) (auto simp: bit_drop_bit_eq simp del: power_Suc)

lemma highest_pending_scan:
  assumes "highest_pending m j (2 ^ j) = (k, i)" "j < 16" "\<And>l. j < l \<Longrightarrow> \<not> requests m l"
  shows "if \<exists>l. requests m l then i = 2 ^ k \<and> requests m k \<and> (\<forall>l > k. \<not> requests m l) else i = 0"
  using assms
proof (induction j)
  case 0
  have "highest_pending m 0 0 = (0, 0)" by (subst highest_pending.simps) simp
  moreover have "requests m l \<Longrightarrow> l = 0" for l using 0(3) [of l] by auto
  moreover have "highest_pending m 0 1 = (if requests m 0 then (0, 1) else highest_pending m 0 0)"
    using scan_test [of m 0] by (subst highest_pending.simps) (simp del: One_nat_def)
  ultimately show ?case using 0(1) by (auto split: if_splits)
next
  case (Suc j)
  have nz: "(2 ^ Suc j :: u16) \<noteq> 0" 
    unfolding zero_iff_bits bit_power_u16 using Suc.prems(2) by blast
  have step: "highest_pending m (Suc j) (2 ^ Suc j) =
      (if requests m (Suc j) then (Suc j, 2 ^ Suc j) else highest_pending m j (2 ^ j))"
    using scan_test [of m "Suc j"] nz drop_bit_power_u16 [OF Suc.prems(2)]
    by (subst highest_pending.simps) (simp del: power_Suc)
  show ?case
  proof (cases "requests m (Suc j)")
    case True
    then show ?thesis using Suc.prems(1,3) step by auto
  next
    case False
    then have "l > j \<Longrightarrow> \<not> requests m l" for l using Suc.prems(3) by (cases "l = Suc j") auto
    with False show ?thesis using Suc.IH Suc.prems(1,2) step by auto
  qed
qed

lemma highest_pending_top:
  obtains (none) "\<And>l. \<not> requests m l" "snd (highest_pending m 15 0x8000) = 0"
  | (top) k where "highest_pending m 15 0x8000 = (k, 2 ^ k)" "requests m k" "\<And>l. k < l \<Longrightarrow> \<not> requests m l"
proof (cases "highest_pending m 15 (2 ^ 15)")
  case (Pair k i)
  have "\<not> requests m l" if "15 < l" for l using requests_bound [of m l] that by linarith
  from highest_pending_scan [OF Pair _ this] show thesis
    using that Pair by (auto split: if_splits)
qed

section \<open>Delivery of an interrupt\<close>

lemma doInterrupt_none:
  "(\<And>j. \<not> requests m j) \<Longrightarrow> doInterrupt m = (0, TriggerMFP False m)"
  by (rule highest_pending_top [of m]) (auto simp: doInterrupt_def split: prod.splits)

lemma doInterrupt_top:
  assumes "requests m k" "\<And>l. k < l \<Longrightarrow> \<not> requests m l"
  shows "doInterrupt m =
     (if irq_inservice m \<ge> 2 ^ k then (0, TriggerMFP False m)
      else ((vr m AND 0xf0) + of_nat k, start_service (2 ^ k) (acknowledge k (2 ^ k) m)))"
proof (rule highest_pending_top [of m])
  assume "\<And>l. \<not> requests m l" with assms(1) show ?thesis by blast
next
  fix k'
  assume k': "highest_pending m 15 0x8000 = (k', 2 ^ k')" "requests m k'" "\<And>l. k' < l \<Longrightarrow> \<not> requests m l"
  with assms have "k' = k" by (metis linorder_neqE_nat)
  moreover have "(2 ^ k :: u16) \<noteq> 0"
    unfolding zero_iff_bits bit_power_u16 using requests_bound [OF assms(1)] by blast
  ultimately show ?thesis unfolding doInterrupt_def k'(1) by simp
qed

lemma eligible_fields [simp]:
  "eligible (m\<lparr>spcflag_mfp := f\<rparr>) = eligible m" "eligible (m\<lparr>timerCounter := c\<rparr>) = eligible m"
  "eligible (m\<lparr>timerA := t\<rparr>) = eligible m" "eligible (m\<lparr>timerB := t\<rparr>) = eligible m"
  "eligible (m\<lparr>timerC := t\<rparr>) = eligible m" "eligible (m\<lparr>timerD := t\<rparr>) = eligible m"
  "eligible (m\<lparr>GPIP_data := v\<rparr>) = eligible m" "eligible (m\<lparr>gpip_input := v\<rparr>) = eligible m"
  "eligible (m\<lparr>data_direction := v\<rparr>) = eligible m" "eligible (m\<lparr>active_edge := v\<rparr>) = eligible m"
  "eligible (m\<lparr>vr := x\<rparr>) = eligible m" "eligible (m\<lparr>irq_enable := e\<rparr>) = eligible m"
  by (simp_all add: eligible_def requests_def fun_eq_iff)

lemma bit_32: "bit (32 :: int) j \<longleftrightarrow> j = 5"
  using bit_exp_iff [of 5 j, where 'a = int] by auto

lemma line_ok_IRQ: "line_ok m \<Longrightarrow> line_ok (IRQ l c m)"
  by (auto simp: line_ok_def IRQ_def Let_def eligible_def requests_def TriggerMFP_def and_exp_eq_0_iff_not_bit
      bit_or_iff bit_32)

lemma line_ok_fields:
  "line_ok (m\<lparr>timerCounter := c\<rparr>) = line_ok m"
  "line_ok (m\<lparr>timerA := t\<rparr>) = line_ok m" "line_ok (m\<lparr>timerB := t\<rparr>) = line_ok m"
  "line_ok (m\<lparr>timerC := t\<rparr>) = line_ok m" "line_ok (m\<lparr>timerD := t\<rparr>) = line_ok m"
  "line_ok (m\<lparr>GPIP_data := v\<rparr>) = line_ok m" "line_ok (m\<lparr>gpip_input := v\<rparr>) = line_ok m"
  "line_ok (m\<lparr>data_direction := v\<rparr>) = line_ok m" "line_ok (m\<lparr>active_edge := v\<rparr>) = line_ok m"
  "line_ok (m\<lparr>vr := x\<rparr>) = line_ok m" "line_ok (m\<lparr>irq_enable := e\<rparr>) = line_ok m"
  by (simp_all add: line_ok_def)

lemma line_ok_fold:
  assumes "\<And>j m. line_ok m \<Longrightarrow> line_ok (f j m)"
  shows "line_ok m \<Longrightarrow> line_ok (fold f js m)"
  by (induction js arbitrary: m) (auto intro: assms)

lemma line_ok_port:
  "line_ok m \<Longrightarrow> line_ok (set_active_edge value m)" "line_ok m \<Longrightarrow> line_ok (setGPIPbit msk value m)"
  unfolding set_active_edge_def setGPIPbit_def port_interrupts_def port_line_def Let_def
  by (simp only: line_ok_fields, rule line_ok_fold, simp add: line_ok_IRQ, assumption)
    (rule line_ok_fold, simp add: line_ok_IRQ, simp only: line_ok_fields)

lemma line_ok_trigger:
  "line_ok (TriggerMFP (irq_pending m AND irq_mask m \<noteq> 0) m)" "line_ok (TriggerMFP True m)"
  unfolding line_ok_def TriggerMFP_def eligible_fields no_requests by (auto simp: eligible_def)

lemma eligible_shrink:
  "eligible (m\<lparr>irq_pending := irq_pending m AND e\<rparr>) j \<Longrightarrow> eligible m j"
  by (simp add: eligible_def requests_def bit_and_iff)

lemma line_ok_register:
  "line_ok m \<Longrightarrow> line_ok (write_IER e m)" "line_ok m \<Longrightarrow> line_ok (write_IPR e m)"
  "line_ok m \<Longrightarrow> line_ok (write_ISR e m)" "line_ok (write_IMR e m)" "line_ok m \<Longrightarrow> line_ok (write_VR v m)"
proof -
  assume m: "line_ok m"
  have shrink: "line_ok (n\<lparr>irq_pending := irq_pending n AND e\<rparr>)" if "line_ok n" for n
    using that eligible_shrink [of n e] by (auto simp: line_ok_def)
  show "line_ok (write_IER e m)"
    using m shrink [of "m\<lparr>irq_enable := e\<rparr>"] by (simp add: write_IER_def line_ok_fields)
  show "line_ok (write_IPR e m)"
    unfolding write_IPR_def Let_def using m shrink [of m] no_requests [of "m\<lparr>irq_pending := irq_pending m AND e\<rparr>"]
    by (simp add: TriggerMFP_def) (auto simp: line_ok_def eligible_def)
  show "line_ok (write_ISR e m)"
    unfolding write_ISR_def Let_def
    using no_requests [of "m\<lparr>irq_inservice := irq_inservice m AND e\<rparr>"]
    by (simp add: line_ok_trigger) (simp add: line_ok_def eligible_def)
  show "line_ok (write_VR v m)"
    unfolding write_VR_def Let_def using m line_ok_trigger(1) [of "m\<lparr>vr := ucast v, irq_inservice := 0\<rparr>"]
    by (simp add: line_ok_fields)
next
  show "line_ok (write_IMR e m)" unfolding write_IMR_def Let_def by (rule line_ok_trigger)
qed

lemma requests_cleared:
  "requests (m\<lparr>irq_pending := irq_pending m AND NOT (2 ^ k)\<rparr>) j \<longleftrightarrow> requests m j \<and> j \<noteq> k"
  using requests_bound [of m j] by (auto simp: requests_def bit_simps)

lemma line_ok_clear: "(\<And>j. \<not> eligible m j) \<Longrightarrow> line_ok (TriggerMFP False m)"
  by (simp add: line_ok_def TriggerMFP_def)

lemma power_less_u16: "j < k \<Longrightarrow> k < 16 \<Longrightarrow> (2 ^ j :: u16) < 2 ^ k"
  by (simp add: word_less_nat_alt pow2_u16)

lemma or_not_less: "\<not> (x OR y) < y" for x y :: u16
  unfolding or.commute [of x y] not_less by (rule le_word_or2)

lemma requests_acknowledge: "requests (acknowledge k i m) j \<Longrightarrow> requests m j"
  by (auto simp: acknowledge_def requests_def TriggerMFP_def bit_and_iff Let_def split: if_splits)

lemma line_ok_start_service:
  assumes "\<And>j. requests m j \<Longrightarrow> 2 ^ j \<le> i"
  shows "line_ok (start_service i m)"
proof -
  have "\<not> eligible (m\<lparr>irq_inservice := irq_inservice m OR i\<rparr>) j" for j
  proof
    assume "eligible (m\<lparr>irq_inservice := irq_inservice m OR i\<rparr>) j"
    then have "requests m j" "irq_inservice m OR i < 2 ^ j" by (simp_all add: eligible_def requests_def)
    then have "irq_inservice m OR i < i" using assms by (blast intro: less_le_trans)
    then show False using or_not_less by blast
  qed
  then have "line_ok (m\<lparr>irq_inservice := irq_inservice m OR i\<rparr>)" by (simp add: line_ok_def)
  moreover have "line_ok m" if "irq_pending m AND irq_mask m = 0"
    using that no_requests [of m] by (simp add: line_ok_def eligible_def)
  ultimately show ?thesis by (simp add: start_service_def line_ok_trigger)
qed

lemma line_ok_doInterrupt: "line_ok (snd (doInterrupt m))"
proof (rule highest_pending_top [of m])
  assume "\<And>l. \<not> requests m l"
  then show ?thesis by (simp add: doInterrupt_none line_ok_clear eligible_def)
next
  fix k assume k: "requests m k" "\<And>l. k < l \<Longrightarrow> \<not> requests m l"
  have le: "requests m j \<Longrightarrow> (2 ^ j :: u16) \<le> 2 ^ k" for j
    using k requests_bound [OF k(1)] power_less_u16 [of j k] by (metis linorder_neqE_nat order.refl order_less_imp_le)
  show ?thesis
  proof (cases "2 ^ k \<le> irq_inservice m")
    case True
    then have "\<not> eligible m j" for j using le [of j] by (auto simp: eligible_def)
    then have "line_ok (TriggerMFP False m)" by (rule line_ok_clear)
    with True show ?thesis by (simp only: doInterrupt_top [OF k] if_True snd_conv)
  next
    case False
    have "line_ok (start_service (2 ^ k) (acknowledge k (2 ^ k) m))"
      using le requests_acknowledge by (blast intro: line_ok_start_service)
    with False show ?thesis by (simp only: doInterrupt_top [OF k] if_False snd_conv)
  qed
qed

lemma line_ok_read: "line_ok m \<Longrightarrow> line_ok (snd (MFP_handleRead busy addr m))"
  by (auto simp: MFP_handleRead_def timer_read_def getData_def Let_def line_ok_fields)

lemma line_ok_write: "line_ok m \<Longrightarrow> line_ok (MFP_handleWrite addr value m)"
  by (simp add: MFP_handleWrite_def Let_def line_ok_fields line_ok_register line_ok_port)

lemma vector_zero: "(v AND 0xf0) + of_nat k = (0 :: u32) \<Longrightarrow> k < 16 \<Longrightarrow> k = 0"
proof -
  assume k: "k < 16" and z: "(v AND 0xf0) + of_nat k = (0 :: u32)"
  have u: "uint (of_nat k :: u32) = int k" using k by (simp add: unsigned_of_nat take_bit_nat_eq_self)
  moreover have "uint (v AND 0xf0) \<le> 0xf0"
    using uint_and_le [of "0xf0" v] by (simp add: and.commute)
  ultimately have "uint ((v AND 0xf0) + of_nat k) = uint (v AND 0xf0) + int k"
    using k by (subst uint_add_small) simp_all
  with z have "uint (v AND 0xf0) + int k = 0" by simp
  then show "k = 0" using uint_ge_0 [of "v AND 0xf0"] by linarith
qed

lemma doInterrupt_zero:
  assumes "fst (doInterrupt m) = 0"
  shows "\<not> eligible (snd (doInterrupt m)) j"
proof (rule highest_pending_top [of m])
  assume "\<And>l. \<not> requests m l"
  then show ?thesis by (simp add: doInterrupt_none TriggerMFP_def eligible_def)
next
  fix k assume k: "requests m k" "\<And>l. k < l \<Longrightarrow> \<not> requests m l"
  have le: "requests m j \<Longrightarrow> (2 ^ j :: u16) \<le> 2 ^ k" for j
    using k requests_bound [OF k(1)] power_less_u16 [of j k] by (metis linorder_neqE_nat order.refl order_less_imp_le)
  show ?thesis
  proof (cases "2 ^ k \<le> irq_inservice m")
    case True
    then have "\<not> eligible m j" for j using le [of j] by (auto simp: eligible_def)
    with True show ?thesis by (simp only: doInterrupt_top [OF k] if_True snd_conv TriggerMFP_def eligible_fields not_False_eq_True)
  next
    case False
    then have "k = 0"
      using assms vector_zero [of "vr m" k] requests_bound [OF k(1)] by (simp add: doInterrupt_top [OF k] split: if_splits)
    then have "\<not> requests (acknowledge k (2 ^ k) m) j" for j
      using k(2) [of j] by (auto simp: acknowledge_def requests_def TriggerMFP_def bit_simps)
    then show ?thesis using False
      by (auto simp: doInterrupt_top [OF k] start_service_def TriggerMFP_def eligible_def requests_def)
  qed
qed

lemma line_ok_serve: "line_ok m \<Longrightarrow> line_ok (snd (snd (serve_MFP intmask m)))"
  using line_ok_doInterrupt [of m] doInterrupt_zero [of m]
  by (auto simp: serve_MFP_def line_ok_def split: prod.splits)

lemma line_ok_tick:
  "invoke200HzInterrupt rtc now t m = Some (cs, t', m') \<Longrightarrow> line_ok m \<Longrightarrow> line_ok m'"
  by (auto simp: invoke200HzInterrupt_def Let_def line_ok_IRQ split: if_splits prod.splits)

lemma line_ok_reset: "line_ok (MFP_reset m)"
  by (simp add: line_ok_def eligible_def requests_def MFP_reset_def)

lemma reachable_line_ok: "mfp_reachable m \<Longrightarrow> line_ok m"
proof (induction rule: mfp_reachable.induct)
  case (start m)
  show ?case by (rule line_ok_reset)
next
  case (step m n)
  from step.hyps(2) step.IH show ?case
    by cases (auto simp: line_ok_reset line_ok_IRQ line_ok_port line_ok_read line_ok_write line_ok_serve line_ok_tick)
qed

text \<open>
  C28. No interrupt is lost: in every reachable state, when some channel may interrupt, the next
  service by a processor whose mask is below 6 takes the exception of the pending, unmasked channel of
  the highest priority. The vector base must not be zero, or that channel not channel 0.
\<close>

theorem mfp_no_lost_interrupt:
  assumes "mfp_reachable m" and "eligible m j" and "intmask < 6" and "vr m AND 0xf0 \<noteq> 0 \<or> j \<noteq> 0"
  shows "\<exists>k \<ge> j. requests m k \<and> (\<forall>l > k. \<not> requests m l) \<and>
     fst (serve_MFP intmask m) = Some ((vr m AND 0xf0) + of_nat k)"
proof (rule highest_pending_top [of m])
  assume "\<And>l. \<not> requests m l"
  with assms(2) show ?thesis by (simp add: eligible_def)
next
  fix k assume k: "requests m k" "\<And>l. k < l \<Longrightarrow> \<not> requests m l"
  have "requests m j" using assms(2) by (simp add: eligible_def)
  then have jk: "j \<le> k" using k(2) [of j] not_le_imp_less by blast
  moreover have "irq_inservice m < 2 ^ k"
    using assms(2) jk power_less_u16 [of j k] requests_bound [OF k(1)] less_trans
    by (cases "j = k") (auto simp: eligible_def)
  moreover have "(vr m AND 0xf0) + of_nat k \<noteq> 0"
    using vector_zero [of "vr m" k] requests_bound [OF k(1)] assms(4) jk by auto
  moreover have "spcflag_mfp m" using reachable_line_ok [OF assms(1)] assms(2) by (auto simp: line_ok_def)
  ultimately show ?thesis using k assms(3)
    by (auto simp: serve_MFP_def doInterrupt_top [OF k] not_le [symmetric] intro!: exI [of _ k])
qed

lemma mfp_ready_reachable: "mfp_reachable mfp_ready"
  unfolding mfp_ready_def
  by ((rule mfp_reachable.step [OF _ mfp_step.register_write])+, rule mfp_reachable.start)

lemma mfp_key_reachable: "mfp_reachable mfp_key"
  unfolding mfp_key_def by (rule mfp_reachable.step [OF mfp_ready_reachable mfp_step.irq])

lemma mfp_ready_state:
  "irq_pending mfp_ready = 0" "irq_mask mfp_ready = 0x40" "irq_inservice mfp_ready = 0" "vr mfp_ready = 0x48"
  "irq_enable mfp_ready = 0x40" "data_direction mfp_ready = 0" "active_edge mfp_ready = 0"
  by (simp_all add: mfp_ready_def MFP_handleWrite_def MFP_reset_def mfp_zero_def write_IMR_def write_IER_def
      write_VR_def TriggerMFP_def Let_def)

lemma mfp_key_state:
  "irq_pending mfp_key = 0x40" "irq_mask mfp_key = 0x40" "irq_inservice mfp_key = 0" "vr mfp_key = 0x48"
  by (simp_all add: mfp_key_def mfp_ready_state IRQ_def TriggerMFP_def Let_def)

lemma mfp_key_requests: "requests mfp_key j \<longleftrightarrow> j = 6"
proof -
  have "bit (0x40 :: u16) j \<longleftrightarrow> j = 6" using bit_power_u16 [of 6 j] by simp
  then show ?thesis by (simp add: requests_def mfp_key_state)
qed

theorem mfp_no_lost_interrupt_witness: "fst (serve_MFP 3 mfp_key) = Some 0x46"
proof -
  have "eligible mfp_key 6" by (simp add: eligible_def mfp_key_requests mfp_key_state)
  then show ?thesis
    using mfp_no_lost_interrupt [OF mfp_key_reachable, of 6 3] by (auto simp: mfp_key_requests mfp_key_state)
qed

text \<open>
  Acknowledging an interrupt: when the highest pending, unmasked channel \<open>k\<close> has a higher priority
  than all channels in service, its pending bit is cleared (for timer C only when no tick remains), its
  in-service bit is set in software end-of-interrupt mode and not in automatic mode, and no other
  register changes; otherwise there is no vector and only the line is lowered.
\<close>

theorem mfp_acknowledge:
  assumes "requests m k" and "\<forall>l > k. \<not> requests m l"
  shows "case doInterrupt m of (vector, n) \<Rightarrow>
     if irq_inservice m < 2 ^ k
     then vector = (vr m AND 0xf0) + of_nat k \<and>
       irq_pending n = (if k = 5 \<and> sint (timerCounter m - 1) > 0 then irq_pending m else irq_pending m AND NOT (2 ^ k)) \<and>
       irq_inservice n = (if bit (vr m) 3 then irq_inservice m OR 2 ^ k else irq_inservice m) \<and>
       n = m\<lparr>irq_pending := irq_pending n, irq_inservice := irq_inservice n, timerCounter := timerCounter n,
             spcflag_mfp := spcflag_mfp n\<rparr>
     else vector = 0 \<and> n = m\<lparr>spcflag_mfp := False\<rparr>"
proof -
  have top: "\<And>l. k < l \<Longrightarrow> \<not> requests m l" using assms(2) by blast
  have "vr m AND 8 \<noteq> 0 \<longleftrightarrow> bit (vr m) 3" using and_shl1_neq_0 [of "vr m" 3] by simp
  then show ?thesis
    by (auto simp: doInterrupt_top [OF assms(1) top] not_less acknowledge_def start_service_def TriggerMFP_def Let_def)
qed

theorem mfp_acknowledge_witness:
  "fst (doInterrupt mfp_key) = 0x46 \<and> irq_pending (snd (doInterrupt mfp_key)) = 0 \<and>
   irq_inservice (snd (doInterrupt mfp_key)) = 0x40"
  using mfp_acknowledge [of mfp_key 6] bit_exp_iff [of 3 3, where 'a = int]
  by (auto simp: mfp_key_requests mfp_key_state split: prod.splits)

section \<open>The general purpose port\<close>

lemma IRQ_fields [simp]:
  "irq_enable (IRQ l c m) = irq_enable m" "irq_mask (IRQ l c m) = irq_mask m"
  "irq_inservice (IRQ l c m) = irq_inservice m" "vr (IRQ l c m) = vr m" "GPIP_data (IRQ l c m) = GPIP_data m"
  "gpip_input (IRQ l c m) = gpip_input m" "active_edge (IRQ l c m) = active_edge m"
  "data_direction (IRQ l c m) = data_direction m"
  by (simp_all add: IRQ_def TriggerMFP_def Let_def)

lemma bit_power_u8 [simp]: "bit (2 ^ i :: u8) n \<longleftrightarrow> n = i \<and> i < 8"
  by (auto simp: bit_simps)

lemma IRQ_pending: "bit (irq_pending (IRQ l c m)) i \<longleftrightarrow> bit (irq_pending m) i \<or> i = l \<and> bit (irq_enable m) l"
proof -
  have "bit (irq_enable m) l \<Longrightarrow> l < 16" using bit_imp_le_length [of "irq_enable m" l] by simp
  then show ?thesis
    by (auto simp: IRQ_def TriggerMFP_def Let_def and_exp_eq_0_iff_not_bit bit_or_iff bit_32)
qed

lemma same_bit: "x AND 2 ^ j = y AND 2 ^ j \<longleftrightarrow> (bit x j \<longleftrightarrow> bit y j)" for x y :: u8
proof
  assume "x AND 2 ^ j = y AND 2 ^ j"
  then have "(x AND 2 ^ j = 0) = (y AND 2 ^ j = 0)" by simp
  then show "bit x j \<longleftrightarrow> bit y j" by (simp add: and_exp_eq_0_iff_not_bit)
next
  assume "bit x j \<longleftrightarrow> bit y j"
  then show "x AND 2 ^ j = y AND 2 ^ j" by (auto intro!: bit_word_eqI simp: bit_and_iff)
qed

lemma port_line_edge:
  "port_line x j m =
     (if bit x j \<noteq> bit (GPIP_data m) j \<and> (bit (GPIP_data m) j = bit (active_edge m) j)
      then IRQ (map_gpip_to_ier ! j) 1 m else m)"
  unfolding port_line_def Let_def push_bit_of_1 same_bit and_exp_eq_0_iff_not_bit
  by (cases "bit x j"; cases "bit (GPIP_data m) j"; cases "bit (active_edge m) j") simp_all

lemma port_fold:
  assumes "\<And>j. j \<in> set js \<Longrightarrow> P j = (bit x j \<noteq> bit (GPIP_data m) j \<and> (bit (GPIP_data m) j = bit (active_edge m) j))"
  shows "fold (port_line x) js m = fold (\<lambda>j m. if P j then IRQ (map_gpip_to_ier ! j) 1 m else m) js m"
  using assms
proof (induction js arbitrary: m)
  case (Cons j js)
  let ?m = "if P j then IRQ (map_gpip_to_ier ! j) 1 m else m"
  have f: "GPIP_data ?m = GPIP_data m" "active_edge ?m = active_edge m" by simp_all
  have "port_line x j m = ?m" unfolding port_line_edge Cons.prems [OF list.set_intros(1)] by simp
  then show ?case using Cons.IH [of ?m] Cons.prems unfolding f by simp
qed simp

lemma fold_IRQ_pending:
  "bit (irq_pending (fold (\<lambda>j m. if P j then IRQ (f j) 1 m else m) js m)) c \<longleftrightarrow>
     bit (irq_pending m) c \<or> bit (irq_enable m) c \<and> (\<exists>j \<in> set js. P j \<and> f j = c)"
  by (induction js arbitrary: m) (auto simp: IRQ_pending)

lemma fold_IRQ_fields:
  "irq_enable (fold (\<lambda>j m. if P j then IRQ (f j) 1 m else m) js m) = irq_enable m"
  "irq_mask (fold (\<lambda>j m. if P j then IRQ (f j) 1 m else m) js m) = irq_mask m"
  "irq_inservice (fold (\<lambda>j m. if P j then IRQ (f j) 1 m else m) js m) = irq_inservice m"
  "vr (fold (\<lambda>j m. if P j then IRQ (f j) 1 m else m) js m) = vr m"
  "GPIP_data (fold (\<lambda>j m. if P j then IRQ (f j) 1 m else m) js m) = GPIP_data m"
  "gpip_input (fold (\<lambda>j m. if P j then IRQ (f j) 1 m else m) js m) = gpip_input m"
  "active_edge (fold (\<lambda>j m. if P j then IRQ (f j) 1 m else m) js m) = active_edge m"
  "data_direction (fold (\<lambda>j m. if P j then IRQ (f j) 1 m else m) js m) = data_direction m"
  by (induction js arbitrary: m) simp_all

lemma setGPIPbit_edges:
  assumes inputs: "inputs = msk AND NOT (data_direction m)"
  shows "setGPIPbit msk value m = fold (\<lambda>j m'. if edge msk value m j then IRQ (map_gpip_to_ier ! j) 1 m' else m') [0..<8]
     (m\<lparr>gpip_input := (gpip_input m AND NOT msk) OR (value AND msk),
        GPIP_data := (GPIP_data m AND NOT inputs) OR (value AND inputs)\<rparr>)"
proof -
  let ?m = "m\<lparr>gpip_input := (gpip_input m AND NOT msk) OR (value AND msk),
        GPIP_data := (GPIP_data m AND NOT inputs) OR (value AND inputs)\<rparr>"
  have "setGPIPbit msk value m = port_interrupts (GPIP_data m) ?m"
    by (simp add: setGPIPbit_def inputs Let_def)
  also have "\<dots> = fold (\<lambda>j m'. if edge msk value m j then IRQ (map_gpip_to_ier ! j) 1 m' else m') [0..<8] ?m"
    unfolding port_interrupts_def by (rule port_fold) (auto simp: edge_def inputs bit_simps)
  finally show ?thesis .
qed

text \<open>
  The port raises interrupts exactly on the active edges: after new levels on the lines of a mask, a
  channel is pending if it was, or if it is enabled and belongs to an input line of the mask that changed
  to the level selected by the edge register. Output lines keep their data.
\<close>

theorem port_edges:
  "let n = setGPIPbit msk value m in
     (\<forall>c. bit (irq_pending n) c \<longleftrightarrow> bit (irq_pending m) c \<or>
        bit (irq_enable m) c \<and> (\<exists>j \<in> {0..<8}. edge msk value m j \<and> map_gpip_to_ier ! j = c)) \<and>
     (\<forall>j < 8. bit (GPIP_data n) j = (if bit msk j \<and> \<not> bit (data_direction m) j then bit value j else bit (GPIP_data m) j))"
  unfolding Let_def setGPIPbit_edges [OF refl] fold_IRQ_pending fold_IRQ_fields
  by (auto simp: bit_simps)

theorem port_edges_witness:
  "bit (irq_pending (setGPIPbit 0x10 0 (mfp_zero\<lparr>GPIP_data := 0x10, irq_enable := 0x40\<rparr>))) 6"
proof -
  let ?m = "mfp_zero\<lparr>GPIP_data := 0x10, irq_enable := 0x40\<rparr>"
  have "edge 0x10 0 ?m 4" "map_gpip_to_ier ! 4 = 6" "bit (irq_enable ?m) 6"
    by (simp_all add: edge_def mfp_zero_def map_gpip_to_ier_def bit_numeral_rec)
  then show ?thesis using port_edges [of "0x10" 0 ?m] unfolding Let_def by fastforce
qed

section \<open>The ticks of timer C\<close>

lemma bit_clear: "bit (x AND NOT (2 ^ k)) j \<longleftrightarrow> bit x j \<and> j \<noteq> k" for x :: u16
  using bit_imp_le_length [of x j] by (auto simp: bit_simps)

lemma timerC_tick:
  assumes "\<And>j. requests m j \<longleftrightarrow> j = 5" "\<not> bit (vr m) 3" "irq_inservice m < 32"
    "timerCounter m = of_nat n" "0 < n" "n < 2 ^ 31"
  defines "m' \<equiv> snd (doInterrupt m)"
  shows "fst (doInterrupt m) = (vr m AND 0xf0) + 5" "requests m' j \<longleftrightarrow> j = 5 \<and> 1 < n"
    "vr m' = vr m" "irq_inservice m' = irq_inservice m" "timerCounter m' = of_nat (n - 1)"
proof -
  have five: "requests m 5" "\<And>l. 5 < l \<Longrightarrow> \<not> requests m l" using assms(1) by auto
  have v: "vr m AND 8 = 0" using assms(2) and_shl1_neq_0 [of "vr m" 3] by simp
  define tc where "tc = (of_nat (n - 1) :: u32)"
  have "sint tc = int (n - 1)"
    unfolding tc_def using assms(6) by (simp add: signed_of_nat signed_take_bit_int_eq_self)
  then have c: "sint tc \<le> 0 \<longleftrightarrow> \<not> 1 < n" by auto
  have t: "timerCounter m - 1 = tc" unfolding tc_def using assms(4,5) by (simp add: of_nat_diff)
  have d: "doInterrupt m = ((vr m AND 0xf0) + 5, start_service 32 (acknowledge 5 32 m))"
    using doInterrupt_top [OF five] assms(3) by (auto simp: not_le [symmetric])
  show "fst (doInterrupt m) = (vr m AND 0xf0) + 5" by (simp add: d)
  have a: "acknowledge 5 32 m = (if 1 < n then m\<lparr>timerCounter := tc\<rparr>
      else TriggerMFP False (m\<lparr>timerCounter := tc, irq_pending := irq_pending m AND NOT 32\<rparr>))"
    by (simp add: acknowledge_def c Let_def t)
  have b: "bit (irq_pending m AND NOT 32) j \<longleftrightarrow> bit (irq_pending m) j \<and> j \<noteq> 5" for j
    using bit_clear [of "irq_pending m" 5 j] by simp
  show "requests m' j \<longleftrightarrow> j = 5 \<and> 1 < n"
    using assms(1) [of j] b [of j] by (auto simp: m'_def d a start_service_def TriggerMFP_def v requests_def)
  show "vr m' = vr m" "irq_inservice m' = irq_inservice m" "timerCounter m' = of_nat (n - 1)"
    by (simp_all add: m'_def d a start_service_def TriggerMFP_def v tc_def)
qed

lemma timerC_deliver:
  assumes "\<And>j. requests m j \<longleftrightarrow> j = 5 \<and> 0 < n" "\<not> bit (vr m) 3" "irq_inservice m < 32"
    "timerCounter m = of_nat n" "n < 2 ^ 31"
  shows "fst (results doInterrupt n m) = replicate n ((vr m AND 0xf0) + 5) \<and> (\<forall>j. \<not> requests (snd (results doInterrupt n m)) j)"
  using assms
proof (induction n arbitrary: m)
  case (Suc n)
  let ?m = "snd (doInterrupt m)"
  have r: "requests m j \<longleftrightarrow> j = 5" for j using Suc.prems(1) by simp
  note t = timerC_tick [OF r Suc.prems(2-4) _ Suc.prems(5)]
  have "fst (results doInterrupt n ?m) = replicate n ((vr ?m AND 0xf0) + 5) \<and> (\<forall>j. \<not> requests (snd (results doInterrupt n ?m)) j)"
    using t Suc.prems by (intro Suc.IH) auto
  then show ?case using t(1,3) by (simp add: case_prod_unfold Let_def)
qed simp

text \<open>
  Ticks of timer C are not lost: when \<open>n\<close> ticks are reported at once in automatic
  end-of-interrupt mode, exactly the next \<open>n\<close> acknowledgements deliver the vector of timer C, and then
  nothing is pending.
\<close>

theorem timerC_all_ticks:
  assumes "bit (irq_enable m) 5" and "bit (irq_mask m) 5" and "\<forall>j. \<not> requests m j" and "\<not> bit (vr m) 3"
    and "irq_inservice m < 32" and "timerCounter m = 0" and "0 < n" and "n < 2 ^ 31"
  shows "case results doInterrupt n (IRQ 5 (of_nat n) m) of (vectors, m') \<Rightarrow>
     vectors = replicate n ((vr m AND 0xf0) + 5) \<and> (\<forall>j. \<not> requests m' j)"
proof -
  let ?m = "IRQ 5 (of_nat n) m"
  have "\<not> bit (irq_pending m) 5" using assms(2,3) by (auto simp: requests_def)
  then have p: "irq_pending ?m = irq_pending m OR 32" "irq_mask ?m = irq_mask m" "vr ?m = vr m"
    "irq_inservice ?m = irq_inservice m" "timerCounter ?m = of_nat n"
    using assms(1,2,6) and_exp_eq_0_iff_not_bit [of "irq_enable m" 5] and_exp_eq_0_iff_not_bit [of "irq_pending m" 5]
    by (simp_all add: IRQ_def TriggerMFP_def Let_def)
  have "requests ?m j \<longleftrightarrow> j = 5 \<and> 0 < n" for j
    using assms(2,3,7) bit_power_u16 [of 5 j] by (auto simp: requests_def p bit_or_iff)
  then have "fst (results doInterrupt n ?m) = replicate n ((vr ?m AND 0xf0) + 5) \<and> (\<forall>j. \<not> requests (snd (results doInterrupt n ?m)) j)"
    using assms p by (intro timerC_deliver) auto
  then show ?thesis by (simp add: p case_prod_unfold)
qed

theorem timerC_all_ticks_witness:
  "fst (results doInterrupt 3 (IRQ 5 3 (mfp_zero\<lparr>irq_enable := 0x20, irq_mask := 0x20, vr := 0x40\<rparr>))) = [0x45, 0x45, 0x45]"
proof -
  let ?m = "mfp_zero\<lparr>irq_enable := 0x20, irq_mask := 0x20, vr := 0x40\<rparr>"
  have "bit (irq_enable ?m) 5" "bit (irq_mask ?m) 5" "\<not> bit (vr ?m) 3" by (simp_all add: mfp_zero_def bit_numeral_rec)
  moreover have "\<forall>j. \<not> requests ?m j" by (simp add: requests_def mfp_zero_def)
  ultimately show ?thesis
    using timerC_all_ticks [of ?m 3] by (simp add: mfp_zero_def case_prod_unfold numeral_3_eq_3)
qed

section \<open>The 200 Hz tick\<close>

lemma compute_timer_freq_pos: "0 < compute_timer_freq t" "48 \<le> compute_timer_freq t"
proof -
  have d: "unat (start_data t) \<le> 255" using unsigned_less [of "start_data t", where 'a = nat] by simp
  have "48 \<le> f div unat (start_data t)" if "12288 \<le> f" "start_data t \<noteq> 0" for f
  proof -
    have "0 < unat (start_data t)" using that(2) by (simp add: unat_gt_0)
    moreover have "48 * unat (start_data t) \<le> f" using d that(1) by linarith
    ultimately show ?thesis by (simp add: less_eq_div_iff_mult_less_eq)
  qed
  then show f: "48 \<le> compute_timer_freq t" by (auto simp: compute_timer_freq_def Let_def)
  then show "0 < compute_timer_freq t" by simp
qed

lemma ms_ticks_range: "timerC_ms_ticks m \<le> 20" "timerC_ms_ticks m = 0 \<longleftrightarrow> 1000 < compute_timer_freq (timerC m)"
proof -
  have "1000 div compute_timer_freq (timerC m) \<le> 1000 div 48"
    by (rule div_le_mono2) (simp_all add: compute_timer_freq_pos)
  then show "timerC_ms_ticks m \<le> 20" by (simp add: timerC_ms_ticks_def)
  show "timerC_ms_ticks m = 0 \<longleftrightarrow> 1000 < compute_timer_freq (timerC m)"
    using compute_timer_freq_pos [of "timerC m"] by (simp add: timerC_ms_ticks_def div_eq_0_iff)
qed

lemma VBL_tick_lastTicks: "lastTicks (snd (VBL_tick ms t)) = lastTicks t"
  by (simp add: VBL_tick_def Let_def)

lemma ms_ticks_word: "unat (of_nat (timerC_ms_ticks m) :: u32) = timerC_ms_ticks m"
  using ms_ticks_range(1) [of m] by (simp add: unsigned_of_nat take_bit_nat_eq_self)

lemma tick_none: "invoke200HzInterrupt rtc now t m = None \<longleftrightarrow> timerC_ms_ticks m = 0"
proof -
  have "(of_nat (timerC_ms_ticks m) :: u32) = 0 \<longleftrightarrow> timerC_ms_ticks m = 0"
    using ms_ticks_word [of m] unsigned_eq_0_iff [of "of_nat (timerC_ms_ticks m) :: u32", where 'a = nat] by (simp only:)
  then show ?thesis by (simp add: invoke200HzInterrupt_def Let_def split: prod.split)
qed

text \<open>
  C29. The tick divides by zero exactly when the guest has programmed timer C to more than 1000 Hz, which
  the registers admit (up to 614400 Hz).
\<close>

theorem tick_division_by_zero:
  "invoke200HzInterrupt rtc now t m = None \<longleftrightarrow> 1000 < compute_timer_freq (timerC m)"
  unfolding tick_none by (rule ms_ticks_range)

text \<open>
  C30. The tick keeps time: it reports to the MFP exactly the whole periods of timer C that have passed
  since the last one it reported, and carries the rest over to the next call.
\<close>

theorem tick_keeps_time:
  assumes "invoke200HzInterrupt False now t m = Some (cs, t', m')" and "lastTicks t \<noteq> 0"
  shows "unat (now - lastTicks t') = unat (now - lastTicks t) mod timerC_ms_ticks m \<and>
     m' = (if unat (now - lastTicks t) < timerC_ms_ticks m then m
           else IRQ 5 (of_nat (unat (now - lastTicks t) div timerC_ms_ticks m)) m)"
proof -
  define e p where "e = now - lastTicks t" and "p = (of_nat (timerC_ms_ticks m) :: u32)"
  have p: "unat p = timerC_ms_ticks m" unfolding p_def by (rule ms_ticks_word)
  have "p \<noteq> 0" using assms by (auto simp: invoke200HzInterrupt_def Let_def p_def)
  have z: "e div p = 0 \<longleftrightarrow> unat e < timerC_ms_ticks m"
    using \<open>p \<noteq> 0\<close> by (simp add: word_unat_eq_iff unat_div div_eq_0_iff p)
  have r: "now - (lastTicks t + e div p * p) = e mod p"
    unfolding minus_div_mult_eq_mod [symmetric] by (simp add: e_def)
  have "unat e div timerC_ms_ticks m < 2 ^ 32"
    by (rule le_less_trans [OF div_le_dividend]) (use unsigned_less [of e, where 'a = nat] in simp)
  then have q: "e div p = of_nat (unat e div timerC_ms_ticks m)"
    by (simp add: word_unat_eq_iff unat_div p unsigned_of_nat take_bit_nat_eq_self)
  have "lastTicks t' = (if e div p = 0 then lastTicks t else lastTicks t + e div p * p) \<and>
      m' = (if e div p = 0 then m else IRQ 5 (e div p) m)"
  proof (cases "e div p = 0")
    case False
    have "t' = snd (VBL_tick (e div p * p) (t\<lparr>lastTicks := lastTicks t + e div p * p\<rparr>)) \<and> m' = IRQ 5 (e div p) m"
      using assms \<open>p \<noteq> 0\<close> False
      by (simp add: invoke200HzInterrupt_def Let_def e_def [symmetric] p_def [symmetric] split: prod.splits)
    then show ?thesis using False by (simp add: VBL_tick_lastTicks)
  qed (use assms \<open>p \<noteq> 0\<close> in \<open>simp add: invoke200HzInterrupt_def Let_def e_def [symmetric] p_def [symmetric]\<close>)
  moreover have "e div p = 0 \<Longrightarrow> unat e mod timerC_ms_ticks m = unat e" using z by simp
  ultimately show ?thesis
    using z q r by (auto simp: e_def [symmetric] unat_mod p)
qed

theorem tick_keeps_time_witness:
  "\<exists>cs t' m'. invoke200HzInterrupt False 117 \<lparr>lastTicks = 100, VBL_counter = 0\<rparr>
       (mfp_zero\<lparr>timerC := \<lparr>control = 5, start_data = 192, current_data = 0, timer_state = False\<rparr>\<rparr>) = Some (cs, t', m') \<and>
     lastTicks t' = 115"
proof -
  let ?m = "mfp_zero\<lparr>timerC := \<lparr>control = 5, start_data = 192, current_data = 0, timer_state = False\<rparr>\<rparr>"
  let ?t = "\<lparr>lastTicks = 100, VBL_counter = 0\<rparr>"
  have f: "compute_timer_freq (timerC ?m) = 200" by (simp add: compute_timer_freq_def)
  then have "\<not> invoke200HzInterrupt False 117 ?t ?m = None" by (simp add: tick_none timerC_ms_ticks_def)
  then obtain cs t' m' where s: "invoke200HzInterrupt False 117 ?t ?m = Some (cs, t', m')" by (metis not_None_eq prod_cases3)
  have "unat (117 - lastTicks t') = 2"
    using tick_keeps_time [OF s] f by (simp add: timerC_ms_ticks_def)
  then have "117 - lastTicks t' = 2" by (simp add: word_unat_eq_iff)
  then have "lastTicks t' = 115" by (simp add: algebra_simps)
  with s show ?thesis by blast
qed

end
