(* ===== verification/Hw_Ikbd.thy ===== *)
theory Hw_Ikbd
  imports Hw_Mfp
begin

text \<open>
  The keyboard processor: the 6850 ACIA of \<^verbatim>\<open>src/acia.cpp\<close> and the class derived from it in
  \<^verbatim>\<open>src/ikbd.cpp\<close>, with the ring buffer that carries its packets to the 68040, its command
  interpreter, and the interrupts it raises through the MFP. A state is the pair of the two devices.
\<close>

section \<open>ACIA\<close>

record acia =
  sr :: u8
  cr :: u8
  rxdr :: u8
  txdr :: u8

abbreviation ACIA_SR_RXFULL :: nat where "ACIA_SR_RXFULL \<equiv> 0"
abbreviation ACIA_SR_TXEMPTY :: nat where "ACIA_SR_TXEMPTY \<equiv> 1"
abbreviation ACIA_SR_INTERRUPT :: nat where "ACIA_SR_INTERRUPT \<equiv> 7"
abbreviation ACIA_CR_REC_INTER :: nat where "ACIA_CR_REC_INTER \<equiv> 7"

definition ACIA_reset :: "'a acia_scheme \<Rightarrow> 'a acia_scheme" where
  "ACIA_reset a = a\<lparr>cr := 0, rxdr := 0, txdr := 0, sr := push_bit ACIA_SR_TXEMPTY 1\<rparr>"

section \<open>State of the keyboard processor\<close>

datatype ikbd_packet_t =
  IKBD_PACKET_UNKNOWN | IKBD_PACKET_KEYBOARD | IKBD_PACKET_MOUSE | IKBD_PACKET_JOYSTICK

text \<open>
  The two buffers are allocated by the constructor and freed by the destructor; between the two they
  are functions from the index. The \<^verbatim>\<open>int\<close> positions are integers.
\<close>

record ikbd = acia +
  mouse_enabled :: bool
  mouserel_enabled :: bool
  yaxis_reversed :: bool
  joy_enabled :: "nat \<Rightarrow> bool"
  joy_state :: "nat \<Rightarrow> u8"
  outbuffer :: "int \<Rightarrow> u8"
  outwrite :: int
  inbuffer :: "int \<Rightarrow> u8"
  inwrite :: int
  inread :: int
  intype :: ikbd_packet_t

abbreviation inbufferlen :: int where "inbufferlen \<equiv> 8192"
abbreviation outbufferlen :: int where "outbufferlen \<equiv> 16"
abbreviation MOUSE_DELTA_MAX :: int where "MOUSE_DELTA_MAX \<equiv> 63"
abbreviation JOYSTICK_THRESHOLD :: int where "JOYSTICK_THRESHOLD \<equiv> 16384"

type_synonym keyboard = "ikbd \<times> mfp"

definition IKBD_reset :: "ikbd \<Rightarrow> ikbd" where
  "IKBD_reset k =
     k\<lparr>inread := 0, inwrite := 0, outwrite := 0, intype := IKBD_PACKET_UNKNOWN,
       mouse_enabled := True, mouserel_enabled := True, yaxis_reversed := False,
       joy_enabled := (joy_enabled k)(0 := False, 1 := True),
       joy_state := (joy_state k)(0 := 0, 1 := 0)\<rparr>"

text \<open>The constructor runs the one of the base class first, on memory of unknown contents.\<close>

definition IKBD_construct :: "ikbd \<Rightarrow> ikbd" where
  "IKBD_construct k = IKBD_reset (ACIA_reset k)"

section \<open>Interrupts and the queue\<close>

definition ThrowInterrupt :: "keyboard \<Rightarrow> keyboard" where
  "ThrowInterrupt = (\<lambda>(k, m).
     if cr k AND push_bit ACIA_CR_REC_INTER 1 = 0 then (k, m)
     else
       let k = k\<lparr>sr := sr k OR push_bit ACIA_SR_INTERRUPT 1\<rparr>
       in if fst (MFP_handleRead None (0xfffa09 - 0xfffa00) m) AND 0x40 = 0 then (k, m)
          else (k, setGPIPbit 0x10 0 (setGPIPbit 0x10 0x10 m)))"

text \<open>The number of bytes that the overflow handling of \<^verbatim>\<open>send\<close> drops.\<close>

definition packet_length :: "u8 \<Rightarrow> int" where
  "packet_length header =
     (if header = 0xf6 then 8
      else if header = 0xf7 then 6
      else if header = 0xf8 \<or> header = 0xf9 \<or> header = 0xfa \<or> header = 0xfb then 3
      else if header = 0xfc then 7
      else if header = 0xfe \<or> header = 0xff then 2
      else 1)"

definition send :: "u8 \<Rightarrow> keyboard \<Rightarrow> keyboard" where
  "send value = (\<lambda>(k, m).
     let k = k\<lparr>inbuffer := (inbuffer k)(inwrite k := value)\<rparr>;
         k = k\<lparr>inwrite := (inwrite k + 1) AND (inbufferlen - 1)\<rparr>;
         k = (if inread k = inwrite k
              then k\<lparr>inread := (inread k + packet_length (inbuffer k (inread k))) AND (inbufferlen - 1)\<rparr>
              else k);
         k = k\<lparr>sr := sr k OR push_bit ACIA_SR_RXFULL 1\<rparr>
     in ThrowInterrupt (k, m))"

definition ReadData :: "keyboard \<Rightarrow> u8 \<times> keyboard" where
  "ReadData = (\<lambda>(k, m).
     if inread k \<noteq> inwrite k
     then let k = k\<lparr>rxdr := inbuffer k (inread k), inread := inread k + 1\<rparr>;
              k = k\<lparr>inread := inread k AND (inbufferlen - 1)\<rparr>
          in if inread k = inwrite k
             then let m = setGPIPbit 0x10 0x10 m;
                      k = k\<lparr>sr := sr k AND NOT (push_bit ACIA_SR_INTERRUPT 1 OR push_bit ACIA_SR_RXFULL 1)\<rparr>
                  in (rxdr k, k, m)
             else let k = k\<lparr>sr := sr k OR push_bit ACIA_SR_RXFULL 1\<rparr>
                  in (rxdr k, ThrowInterrupt (k, m))
     else (rxdr k, k, m))"

section \<open>Commands from the 68040\<close>

definition int2bcd :: "nat \<Rightarrow> u8" where
  "int2bcd a = of_nat (a mod 10) + push_bit 4 (of_nat (a div 10))"

abbreviation upd :: "(ikbd \<Rightarrow> ikbd) \<Rightarrow> keyboard \<Rightarrow> keyboard" where
  "upd f \<equiv> map_prod f id"

definition end_command :: "keyboard \<Rightarrow> keyboard" where
  "end_command = upd (outwrite_update (\<lambda>_. 0))"

definition command_1 :: "tm \<Rightarrow> keyboard \<Rightarrow> keyboard" where
  "command_1 curtim s =
     (let c = outbuffer (fst s) 0
      in if c = 0x08
         then end_command (upd (\<lambda>k. k\<lparr>mouse_enabled := True, mouserel_enabled := True,
                joy_enabled := (joy_enabled k)(1 := True)\<rparr>) s)
         else if c = 0x0d then end_command s
         else if c = 0x0f then end_command (upd (\<lambda>k. k\<lparr>yaxis_reversed := True\<rparr>) s)
         else if c = 0x10 then end_command (upd (\<lambda>k. k\<lparr>yaxis_reversed := False\<rparr>) s)
         else if c = 0x11 then end_command s
         else if c = 0x12 then end_command (upd (\<lambda>k. k\<lparr>mouse_enabled := False\<rparr>) s)
         else if c = 0x13 then end_command s
         else if c = 0x14 then end_command s
         else if c = 0x15 then end_command s
         else if c = 0x16
         then let s = upd (\<lambda>k. k\<lparr>intype := IKBD_PACKET_JOYSTICK\<rparr>) s;
                  s = send (0xfe OR 1) s
              in end_command (send (joy_state (fst s) 1) s)
         else if c = 0x18 then end_command s
         else if c = 0x1a
         then end_command (upd (\<lambda>k. k\<lparr>joy_enabled := (joy_enabled k)(1 := False, 0 := False)\<rparr>) s)
         else if c = 0x1c
         then let s = send 0xfc s;
                  s = send (int2bcd (tm_year curtim mod 100)) s;
                  s = send (int2bcd (tm_mon curtim + 1)) s;
                  s = send (int2bcd (tm_mday curtim)) s;
                  s = send (int2bcd (tm_hour curtim)) s;
                  s = send (int2bcd (tm_min curtim)) s;
                  s = send (int2bcd (tm_sec curtim)) s
              in end_command s
         else s)"

definition command_2 :: "keyboard \<Rightarrow> keyboard" where
  "command_2 s =
     (let c = outbuffer (fst s) 0
      in if c = 0x07 \<or> c = 0x17 then end_command s
         else if c = 0x80
         then if outbuffer (fst s) 1 = 0x01 then send 0xf1 (end_command (upd IKBD_reset s)) else s
         else s)"

definition command_3 :: "keyboard \<Rightarrow> keyboard" where
  "command_3 s =
     (let c = outbuffer (fst s) 0
      in if c = 0x0a
         then end_command (upd (\<lambda>k. k\<lparr>mouse_enabled := True, joy_enabled := (joy_enabled k)(1 := True)\<rparr>) s)
         else if c = 0x0b \<or> c = 0x0c \<or> c = 0x20 \<or> c = 0x21 then end_command s
         else s)"

definition command_4 :: "keyboard \<Rightarrow> keyboard" where
  "command_4 s =
     (if outbuffer (fst s) 0 = 0x09
      then end_command (upd (\<lambda>k. k\<lparr>mouse_enabled := True, mouserel_enabled := False,
             joy_enabled := (joy_enabled k)(1 := True)\<rparr>) s)
      else s)"

definition command_5 :: "keyboard \<Rightarrow> keyboard" where
  "command_5 s = (if outbuffer (fst s) 0 = 0x0e then end_command s else s)"

definition command_6 :: "keyboard \<Rightarrow> keyboard" where
  "command_6 s =
     (if outbuffer (fst s) 0 = 0x19 \<or> outbuffer (fst s) 0 = 0x1b then end_command s else s)"

definition WriteData :: "tm \<Rightarrow> u8 \<Rightarrow> keyboard \<Rightarrow> keyboard" where
  "WriteData curtim value s =
     (let s = upd (\<lambda>k. k\<lparr>outbuffer := (outbuffer k)(outwrite k := value), txdr := value,
                    outwrite := outwrite k + 1\<rparr>) s;
          n = outwrite (fst s)
      in if n = 1 then command_1 curtim s
         else if n = 2 then command_2 s
         else if n = 3 then command_3 s
         else if n = 4 then command_4 s
         else if n = 5 then command_5 s
         else if n = 6 then command_6 s
         else end_command s)"

definition WriteControl :: "u8 \<Rightarrow> keyboard \<Rightarrow> keyboard" where
  "WriteControl value = upd (\<lambda>k. k\<lparr>cr := value\<rparr>)"

definition ReadStatus :: "keyboard \<Rightarrow> u8" where
  "ReadStatus s = sr (fst s)"

text \<open>\<^verbatim>\<open>ACIA::handleRead\<close> and \<^verbatim>\<open>ACIA::handleWrite\<close> with the virtual methods of the keyboard.\<close>

definition ACIA_handleRead :: "u32 \<Rightarrow> keyboard \<Rightarrow> u8 \<times> keyboard" where
  "ACIA_handleRead offset s =
     (if offset = 0 then (ReadStatus s, s) else if offset = 2 then ReadData s else (0, s))"

definition ACIA_handleWrite :: "tm \<Rightarrow> u32 \<Rightarrow> u8 \<Rightarrow> keyboard \<Rightarrow> keyboard" where
  "ACIA_handleWrite curtim offset value s =
     (if offset = 0
      then if value AND 0x03 = 0x03 then upd ACIA_reset s else WriteControl value s
      else if offset = 2 then WriteData curtim value s
      else s)"

section \<open>Events from the host\<close>

definition set_intype :: "ikbd_packet_t \<Rightarrow> keyboard \<Rightarrow> keyboard" where
  "set_intype p = upd (\<lambda>k. k\<lparr>intype := p\<rparr>)"

definition SendKey :: "u8 \<Rightarrow> keyboard \<Rightarrow> keyboard" where
  "SendKey scancode s = send scancode (set_intype IKBD_PACKET_KEYBOARD s)"

definition ReleaseShiftKeys :: "bool \<Rightarrow> bool \<Rightarrow> keyboard \<Rightarrow> keyboard" where
  "ReleaseShiftKeys bootOs altgr s =
     (if \<not> bootOs then s
      else
        let s = SendKey (0x80 OR 0x2a) s;
            s = SendKey (0x80 OR 0x36) s;
            s = SendKey (0x80 OR 0x1d) s;
            s = SendKey (0x80 OR 0x38) s
        in if altgr then SendKey (0x80 OR 0x4c) s else s)"

text \<open>The motion to send and the buffer, with the write position moved back when the packets are merged.\<close>

definition MergeMousePacket :: "int \<Rightarrow> int \<Rightarrow> u8 \<Rightarrow> ikbd \<Rightarrow> int \<times> int \<times> ikbd" where
  "MergeMousePacket relx rely buttons k =
     (let mouse_inwrite = (inwrite k - 3) AND (inbufferlen - 1);
          header = inbuffer k mouse_inwrite;
          distx = relx + uint (inbuffer k ((mouse_inwrite + 1) AND (inbufferlen - 1)));
          disty = rely + uint (inbuffer k ((mouse_inwrite + 2) AND (inbufferlen - 1)))
      in if intype k \<noteq> IKBD_PACKET_MOUSE then (relx, rely, k)
         else if inread k = inwrite k then (relx, rely, k)
         else if inread k = mouse_inwrite \<or>
                 inread k = (mouse_inwrite + 1) AND (inbufferlen - 1) \<or>
                 inread k = (mouse_inwrite + 2) AND (inbufferlen - 1) then (relx, rely, k)
         else if header \<le> 0xf8 \<and> header \<ge> 0xfb then (relx, rely, k)
         else if header \<noteq> 0xf8 OR (buttons AND 3) then (relx, rely, k)
         else if abs distx > MOUSE_DELTA_MAX then (relx, rely, k)
         else if abs disty > MOUSE_DELTA_MAX then (relx, rely, k)
         else (distx, disty, k\<lparr>inwrite := mouse_inwrite\<rparr>))"

definition mouse_move :: "bool \<Rightarrow> int \<Rightarrow> int" where
  "mouse_move slow rel =
     (if slow then if rel > 0 then 1 else if rel < 0 then - 1 else 0
      else if abs rel > MOUSE_DELTA_MAX
      then if rel > 0 then MOUSE_DELTA_MAX else - MOUSE_DELTA_MAX
      else rel)"

definition mouse_packet :: "bool \<Rightarrow> int \<Rightarrow> int \<Rightarrow> u8 \<Rightarrow> keyboard \<Rightarrow> keyboard" where
  "mouse_packet slow movex movey buttons s =
     (let (movex, movey, k) = (if slow then (movex, movey, fst s) else MergeMousePacket movex movey buttons (fst s));
          s = set_intype IKBD_PACKET_MOUSE (k, snd s);
          s = send (0xf8 OR (buttons AND 3)) s;
          s = send (word_of_int movex) s
      in send (word_of_int (if yaxis_reversed (fst s) then - movey else movey)) s)"

function mouse_loop :: "bool \<Rightarrow> int \<Rightarrow> int \<Rightarrow> u8 \<Rightarrow> keyboard \<Rightarrow> keyboard" where
  "mouse_loop slow relx rely buttons s =
     (let movex = mouse_move slow relx;
          movey = mouse_move slow rely;
          relx = relx - movex;
          rely = rely - movey;
          s = mouse_packet slow movex movey buttons s
      in if relx \<noteq> 0 \<or> rely \<noteq> 0 then mouse_loop slow relx rely buttons s else s)"
  by auto
termination
proof (relation "measure (\<lambda>(slow, relx, rely, buttons, s). nat \<bar>relx\<bar> + nat \<bar>rely\<bar>)")
  have le: "nat \<bar>r - mouse_move slow r\<bar> \<le> nat \<bar>r\<bar>" for slow r by (auto simp: mouse_move_def)
  moreover have "nat \<bar>r - mouse_move slow r\<bar> < nat \<bar>r\<bar>" if "r - mouse_move slow r \<noteq> 0" for slow r
    using that by (auto simp: mouse_move_def split: if_splits)
  ultimately show "((slow, x, y, buttons, s'), slow, relx, rely, buttons, s)
      \<in> measure (\<lambda>(slow, relx, rely, buttons, s). nat \<bar>relx\<bar> + nat \<bar>rely\<bar>)"
    if "movex = mouse_move slow relx" "movey = mouse_move slow rely" "x = relx - movex" "y = rely - movey"
      "s' = mouse_packet slow movex movey buttons s" "x \<noteq> 0 \<or> y \<noteq> 0"
    for slow relx rely buttons s movex movey x y s'
    using that by (auto intro: add_less_le_mono add_le_less_mono)
qed simp

declare mouse_loop.simps [simp del]

definition SendMouseMotion :: "int \<Rightarrow> int \<Rightarrow> u8 \<Rightarrow> bool \<Rightarrow> keyboard \<Rightarrow> keyboard" where
  "SendMouseMotion relx rely buttons slow s =
     (if \<not> mouse_enabled (fst s) then s
      else if \<not> slow \<and> (abs relx > 2048 \<or> abs rely > 2048) then s
      else mouse_loop slow relx rely buttons s)"

definition joystick_changed :: "nat \<Rightarrow> u8 \<Rightarrow> keyboard \<Rightarrow> keyboard" where
  "joystick_changed numjoy newjoy_state s =
     (if joy_state (fst s) numjoy \<noteq> newjoy_state
      then let s = upd (\<lambda>k. k\<lparr>joy_state := (joy_state k)(numjoy := newjoy_state)\<rparr>) s;
               s = send (0xfe OR of_nat numjoy) (set_intype IKBD_PACKET_JOYSTICK s)
           in send (joy_state (fst s) numjoy) s
      else s)"

definition SendJoystickAxis :: "nat \<Rightarrow> nat \<Rightarrow> int \<Rightarrow> keyboard \<Rightarrow> keyboard" where
  "SendJoystickAxis numjoy numaxis value s =
     (if \<not> joy_enabled (fst s) numjoy then s
      else
        let state = joy_state (fst s) numjoy;
            axis = (\<lambda>low high.
              let state = state AND NOT (push_bit low 1 OR push_bit high 1);
                  state = (if value < - JOYSTICK_THRESHOLD then state OR push_bit low 1 else state)
              in if value > JOYSTICK_THRESHOLD then state OR push_bit high 1 else state)
        in joystick_changed numjoy
             (if numaxis = 0 then axis 2 3 else if numaxis = 1 then axis 0 1 else state) s)"

text \<open>The four flags are the tests of the hat position with the \<^verbatim>\<open>SDL_HAT\<close> constants.\<close>

definition SendJoystickHat :: "nat \<Rightarrow> bool \<Rightarrow> bool \<Rightarrow> bool \<Rightarrow> bool \<Rightarrow> keyboard \<Rightarrow> keyboard" where
  "SendJoystickHat numjoy left right up down s =
     (if \<not> joy_enabled (fst s) numjoy then s
      else
        let state = joy_state (fst s) numjoy AND push_bit 7 1;
            state = (if left then state OR push_bit 2 1 else state);
            state = (if right then state OR push_bit 3 1 else state);
            state = (if up then state OR push_bit 0 1 else state);
            state = (if down then state OR push_bit 1 1 else state)
        in joystick_changed numjoy state s)"

definition SendJoystickButton :: "nat \<Rightarrow> u8 \<Rightarrow> keyboard \<Rightarrow> keyboard" where
  "SendJoystickButton numjoy pressed s =
     (if \<not> joy_enabled (fst s) numjoy then s
      else
        let state = joy_state (fst s) numjoy AND NOT (push_bit 7 1)
        in joystick_changed numjoy (state OR push_bit 7 (pressed AND 1)) s)"

section \<open>The unread bytes\<close>

text \<open>\<open>n\<close> bytes of the ring from position \<open>r\<close>; the unread bytes of the keyboard processor, oldest first.\<close>

definition ring :: "(int \<Rightarrow> u8) \<Rightarrow> int \<Rightarrow> nat \<Rightarrow> u8 list" where
  "ring b r n = map (\<lambda>i. b ((r + int i) mod inbufferlen)) [0..<n]"

definition queue :: "ikbd \<Rightarrow> u8 list" where
  "queue k = ring (inbuffer k) (inread k) (nat ((inwrite k - inread k) mod inbufferlen))"

definition ring_ok :: "ikbd \<Rightarrow> bool" where
  "ring_ok k \<longleftrightarrow> 0 \<le> inread k \<and> inread k < inbufferlen \<and> 0 \<le> inwrite k \<and> inwrite k < inbufferlen"



text \<open>A keyboard processor as the constructor leaves it on zeroed memory.\<close>

definition ikbd_new :: ikbd where
  "ikbd_new = IKBD_construct
     \<lparr>sr = 0, cr = 0, rxdr = 0, txdr = 0, mouse_enabled = False, mouserel_enabled = False, yaxis_reversed = False,
      joy_enabled = (\<lambda>_. False), joy_state = (\<lambda>_. 0), outbuffer = (\<lambda>_. 0), outwrite = 0, inbuffer = (\<lambda>_. 0),
      inwrite = 0, inread = 0, intype = IKBD_PACKET_UNKNOWN\<rparr>"

section \<open>The ring buffer as a queue\<close>

lemma ring_length [simp]: "length (ring b r n) = n"
  by (simp add: ring_def)

lemma ring_nth [simp]: "i < n \<Longrightarrow> ring b r n ! i = b ((r + int i) mod inbufferlen)"
  by (simp add: ring_def)

lemma ring_mask: "x AND 8191 = x mod inbufferlen"
  using take_bit_eq_mask [of 13 x] by (simp add: take_bit_eq_mod mask_eq_exp_minus_1)

lemma ring_drop: "drop j (ring b r n) = ring b ((r + int j) mod inbufferlen) (n - j)"
  by (rule nth_equalityI) (auto simp: mod_simps algebra_simps)

lemma ring_Suc: "ring b r (Suc n) = b (r mod inbufferlen) # ring b ((r + 1) mod inbufferlen) n"
proof -
  have "ring b r (Suc n) = ring b r (Suc n) ! 0 # drop 1 (ring b r (Suc n))"
    using Cons_nth_drop_Suc [of 0 "ring b r (Suc n)"] by simp
  then show ?thesis by (simp add: ring_drop)
qed

lemma ring_put:
  assumes "n < nat inbufferlen"
  shows "ring (b((r + int n) mod inbufferlen := v)) r (Suc n) = ring b r n @ [v]"
proof (rule nth_equalityI)
  fix i assume "i < length (ring (b((r + int n) mod inbufferlen := v)) r (Suc n))"
  then have i: "i < Suc n" by simp
  have "(r + int i) mod inbufferlen \<noteq> (r + int n) mod inbufferlen" if "i < n"
  proof
    assume "(r + int i) mod inbufferlen = (r + int n) mod inbufferlen"
    then have "inbufferlen dvd (r + int n) - (r + int i)" by (metis mod_eq_dvd_iff)
    then have "inbufferlen dvd int n - int i" by simp
    then show False using that assms zdvd_imp_le [of inbufferlen "int n - int i"] by simp
  qed
  with i show "ring (b((r + int n) mod inbufferlen := v)) r (Suc n) ! i = (ring b r n @ [v]) ! i"
    by (cases "i = n") (auto simp: nth_append)
qed simp

lemma queue_length: "length (queue k) = nat ((inwrite k - inread k) mod inbufferlen)"
  by (simp add: queue_def)

lemma queue_less: "length (queue k) < 8192"
  using pos_mod_bound [of inbufferlen "inwrite k - inread k"] by (simp add: queue_length nat_less_iff)

lemma queue_end: "ring_ok k \<Longrightarrow> (inread k + int (length (queue k))) mod inbufferlen = inwrite k"
  by (simp add: queue_length ring_ok_def mod_simps)

lemma queue_empty: "ring_ok k \<Longrightarrow> queue k = [] \<longleftrightarrow> inread k = inwrite k"
proof -
  assume "ring_ok k"
  then have "(inwrite k - inread k) mod inbufferlen = 0 \<longleftrightarrow> inwrite k = inread k"
    using mod_eq_dvd_iff [of "inwrite k" inbufferlen "inread k"] by (auto simp: ring_ok_def mod_eq_0_iff_dvd)
  moreover have "queue k = [] \<longleftrightarrow> nat ((inwrite k - inread k) mod inbufferlen) = 0"
    by (metis queue_length length_0_conv)
  ultimately show ?thesis by (auto simp: nat_eq_iff)
qed

lemma ThrowInterrupt_queue:
  "queue (fst (ThrowInterrupt (k, m))) = queue k" "ring_ok (fst (ThrowInterrupt (k, m))) = ring_ok k"
  by (simp_all add: ThrowInterrupt_def Let_def queue_def ring_ok_def)

lemma packet_length_range: "1 \<le> packet_length b" "packet_length b \<le> 8"
  by (simp_all add: packet_length_def)

lemma send_queue:
  assumes "ring_ok k"
  shows "queue (fst (send v (k, m))) =
      (if length (queue k) < 8191 then queue k @ [v]
       else drop (nat (packet_length (hd (queue k)))) (queue k @ [v])) \<and> ring_ok (fst (send v (k, m)))"
proof -
  define n where "n = length (queue k)"
  define b where "b = (inbuffer k)(inwrite k := v)"
  have n: "n < 8192" unfolding n_def by (rule queue_less)
  have w: "(inread k + int n) mod inbufferlen = inwrite k" unfolding n_def by (rule queue_end [OF assms])
  have q: "ring b (inread k) (Suc n) = queue k @ [v]"
    using ring_put [of n "inbuffer k" "inread k" v] n w by (simp add: b_def n_def queue_def)
  have r: "0 \<le> inread k" "inread k < inbufferlen" using assms by (simp_all add: ring_ok_def)
  define w' where "w' = (inwrite k + 1) mod inbufferlen"
  have w': "w' = (inread k + int (Suc n)) mod inbufferlen"
    unfolding w'_def w [symmetric] by (simp add: mod_simps ac_simps)
  show ?thesis
  proof (cases "n = 8191")
    case False
    then have c: "(w' - inread k) mod inbufferlen = int (Suc n)"
      using n by (simp add: w' mod_simps)
    then have "inread k \<noteq> w'" by auto
    then have k: "fst (send v (k, m)) = fst (ThrowInterrupt (k\<lparr>inbuffer := b, inwrite := w', sr := sr k OR 1\<rparr>, m))"
      by (simp add: send_def ring_mask w'_def b_def Let_def)
    have "queue (k\<lparr>inbuffer := b, inwrite := w', sr := sr k OR 1\<rparr>) = ring b (inread k) (Suc n)"
      unfolding queue_def using c by (simp add: nat_add_distrib)
    moreover have "ring_ok (k\<lparr>inbuffer := b, inwrite := w', sr := sr k OR 1\<rparr>)"
      using r by (simp add: ring_ok_def w')
    ultimately show ?thesis unfolding k ThrowInterrupt_queue
      using False n by (simp add: q n_def [symmetric])
  next
    case True
    define p where "p = packet_length (hd (queue k))"
    have "queue k \<noteq> []" using True unfolding n_def by auto
    then have "hd (queue k) = hd (ring b (inread k) (Suc n))" by (simp add: q)
    also have "\<dots> = b (inread k)" using r by (simp add: ring_Suc)
    finally have "hd (queue k) = b (inread k)" .
    then have p: "packet_length (b (inread k)) = p" by (simp add: p_def)
    have "w' = inread k" using True r by (simp add: w')
    then have k: "fst (send v (k, m)) = fst (ThrowInterrupt (k\<lparr>inbuffer := b, inwrite := inread k,
        inread := (inread k + p) mod inbufferlen, sr := sr k OR 1\<rparr>, m))"
      using p by (simp add: send_def ring_mask w'_def b_def Let_def)
    have p8: "1 \<le> p" "p \<le> 8" unfolding p_def by (rule packet_length_range)+
    have "(inread k - (inread k + p) mod inbufferlen) mod inbufferlen = (inbufferlen - p) mod inbufferlen"
      by (simp add: mod_simps)
    also have "\<dots> = inbufferlen - p" using p8 by (intro mod_pos_pos_trivial) simp_all
    finally have qq: "queue (k\<lparr>inbuffer := b, inwrite := inread k, inread := (inread k + p) mod inbufferlen, sr := sr k OR 1\<rparr>) =
        drop (nat p) (ring b (inread k) (Suc n))"
      using True p8 unfolding queue_def by (simp add: ring_drop nat_diff_distrib)
    moreover have "ring_ok (k\<lparr>inbuffer := b, inwrite := inread k, inread := (inread k + p) mod inbufferlen, sr := sr k OR 1\<rparr>)"
      using r by (simp add: ring_ok_def)
    moreover have "\<not> n < 8191" using True by simp
    ultimately show ?thesis unfolding k ThrowInterrupt_queue
      by (simp only: q n_def [symmetric] p_def [symmetric] if_False simp_thms)
  qed
qed

lemma ReadData_queue:
  assumes "ring_ok k" "queue k = b # q"
  shows "fst (ReadData (k, m)) = b" "queue (fst (snd (ReadData (k, m)))) = q"
    "ring_ok (fst (snd (ReadData (k, m))))"
proof -
  let ?r = "(inread k + 1) mod inbufferlen"
  let ?k = "k\<lparr>rxdr := b, inread := ?r\<rparr>"
  have ne: "inread k \<noteq> inwrite k" using assms queue_empty [OF assms(1)] by auto
  have r: "0 \<le> inread k" "inread k < inbufferlen" using assms(1) by (simp_all add: ring_ok_def)
  have "nat ((inwrite k - inread k) mod inbufferlen) = Suc (length q)"
    using assms(2) queue_length [of k] by simp
  then have n: "(inwrite k - inread k) mod inbufferlen = int (Suc (length q))" by linarith
  then have "queue k = ring (inbuffer k) (inread k) (Suc (length q))" unfolding queue_def by (simp only: nat_int)
  then have b: "inbuffer k (inread k) = b" and q: "ring (inbuffer k) ?r (length q) = q"
    using r assms(2) by (simp_all add: ring_Suc)
  have "(inwrite k - ?r) mod inbufferlen = (int (Suc (length q)) - 1) mod inbufferlen"
    unfolding n [symmetric] by (simp add: mod_simps algebra_simps)
  also have "\<dots> = int (length q)" using queue_less [of k] assms(2) by simp
  finally have "queue ?k = q" using q by (simp add: queue_def)
  then have sr: "queue (?k\<lparr>sr := v\<rparr>) = q" "ring_ok (?k\<lparr>sr := v\<rparr>)" for v
    using assms(1) by (simp_all add: queue_def ring_ok_def)
  have "ReadData (k, m) = (b, if ?r = inwrite k
      then (?k\<lparr>sr := sr k AND NOT (push_bit ACIA_SR_INTERRUPT 1 OR push_bit ACIA_SR_RXFULL 1)\<rparr>, setGPIPbit 0x10 0x10 m)
      else ThrowInterrupt (?k\<lparr>sr := sr k OR push_bit ACIA_SR_RXFULL 1\<rparr>, m))"
    using ne b by (simp add: ReadData_def ring_mask Let_def)
  then show "fst (ReadData (k, m)) = b" "queue (fst (snd (ReadData (k, m)))) = q"
    "ring_ok (fst (snd (ReadData (k, m))))"
    using sr by (simp_all only: fst_conv snd_conv ThrowInterrupt_queue simp_thms split: if_split)
qed

section \<open>A bounded queue\<close>

text \<open>
  What the emulated driver relies on: a byte put into a queue that is not full is appended, a byte got
  from a queue that is not empty is the oldest.
\<close>

locale byte_fifo =
  fixes contents :: "'s \<Rightarrow> 'b list" and valid :: "'s \<Rightarrow> bool" and put :: "'b \<Rightarrow> 's \<Rightarrow> 's"
    and get :: "'s \<Rightarrow> 'b \<times> 's" and capacity :: nat
  assumes put_contents: "valid s \<Longrightarrow> length (contents s) < capacity \<Longrightarrow> contents (put b s) = contents s @ [b]"
    and put_valid: "valid s \<Longrightarrow> valid (put b s)"
    and get_contents: "valid s \<Longrightarrow> contents s = b # bs \<Longrightarrow> fst (get s) = b \<and> contents (snd (get s)) = bs"
    and get_valid: "valid s \<Longrightarrow> contents s \<noteq> [] \<Longrightarrow> valid (snd (get s))"
begin

lemma puts_contents:
  "valid s \<Longrightarrow> length (contents s) + length bs \<le> capacity \<Longrightarrow>
   contents (fold put bs s) = contents s @ bs \<and> valid (fold put bs s)"
  by (induction bs arbitrary: s) (auto simp: put_contents put_valid)

lemma gets_contents:
  "valid s \<Longrightarrow> n \<le> length (contents s) \<Longrightarrow>
   fst (results get n s) = take n (contents s) \<and> contents (snd (results get n s)) = drop n (contents s) \<and> valid (snd (results get n s))"
proof (induction n arbitrary: s)
  case (Suc n)
  then obtain b bs where s: "contents s = b # bs" by (cases "contents s") auto
  then have g: "fst (get s) = b" "contents (snd (get s)) = bs" "valid (snd (get s))"
    using Suc.prems get_contents get_valid by auto
  then show ?case using Suc.IH [of "snd (get s)"] Suc.prems s by (simp add: case_prod_unfold Let_def)
qed simp

lemma puts_gets:
  assumes "valid s" "length (contents s) + length bs \<le> capacity"
  shows "fst (results get (length (contents s) + length bs) (fold put bs s)) = contents s @ bs"
  using puts_contents [OF assms] gets_contents [of "fold put bs s" "length (contents s) + length bs"] by simp

end

interpretation kbd: byte_fifo "\<lambda>s. queue (fst s)" "\<lambda>s. ring_ok (fst s)" send ReadData 8191
proof unfold_locales
  fix s :: keyboard and b bs
  show "ring_ok (fst s) \<Longrightarrow> length (queue (fst s)) < 8191 \<Longrightarrow> queue (fst (send b s)) = queue (fst s) @ [b]"
    "ring_ok (fst s) \<Longrightarrow> ring_ok (fst (send b s))"
    using send_queue [of "fst s" b "snd s"] by simp_all
  show "ring_ok (fst s) \<Longrightarrow> queue (fst s) = b # bs \<Longrightarrow> fst (ReadData s) = b \<and> queue (fst (snd (ReadData s))) = bs"
    using ReadData_queue [of "fst s" b bs "snd s"] by simp
  show "ring_ok (fst s) \<Longrightarrow> queue (fst s) \<noteq> [] \<Longrightarrow> ring_ok (fst (snd (ReadData s)))"
    using ReadData_queue(3) [of "fst s" "hd (queue (fst s))" "tl (queue (fst s))" "snd s"] by simp
qed

text \<open>
  C31. The ring buffer of the keyboard processor is a first-in first-out queue: as long as no more than
  8191 bytes are unread, the 68040 reads the bytes in the order in which they were sent.
\<close>

theorem ikbd_fifo:
  assumes "ring_ok k" and "length (queue k) + length bs \<le> 8191"
  shows "fst (results ReadData (length (queue k) + length bs) (fold send bs (k, m))) = queue k @ bs"
  using kbd.puts_gets [of "(k, m)" bs] assms by simp

lemma ikbd_new_state:
  "ring_ok ikbd_new" "queue ikbd_new = []" "mouse_enabled ikbd_new" "\<not> yaxis_reversed ikbd_new"
  "intype ikbd_new = IKBD_PACKET_UNKNOWN"
  by (simp_all add: ikbd_new_def IKBD_construct_def IKBD_reset_def ACIA_reset_def ring_ok_def queue_def ring_def)

theorem ikbd_fifo_witness:
  "fst (results ReadData 3 (fold send [0x1e, 0x9e, 0x30] (ikbd_new, mfp_ready))) = [0x1e, 0x9e, 0x30]"
  using ikbd_fifo [OF ikbd_new_state(1), of "[0x1e, 0x9e, 0x30]" mfp_ready]
  by (simp add: ikbd_new_state numeral_3_eq_3)

text \<open>
  On overflow whole packets are dropped: a byte sent to a full buffer is appended and the oldest
  packet, of the length its first byte tells, is removed.
\<close>

theorem ikbd_overflow:
  assumes "ring_ok k" and "length (queue k) = 8191"
  shows "queue (fst (send v (k, m))) = drop (nat (packet_length (hd (queue k)))) (queue k @ [v]) \<and>
     ring_ok (fst (send v (k, m)))"
  using send_queue [OF assms(1), of v m] assms(2) by simp

theorem ikbd_overflow_witness:
  "length (queue (fst (send 0x1e (ikbd_new\<lparr>inwrite := 8191\<rparr>, mfp_ready)))) = 8191"
proof -
  let ?k = "ikbd_new\<lparr>inwrite := 8191\<rparr>"
  have "ring_ok ?k" "length (queue ?k) = 8191" "hd (queue ?k) = 0"
    by (simp_all add: ikbd_new_def IKBD_construct_def IKBD_reset_def ACIA_reset_def ring_ok_def queue_length)
      (simp add: queue_def ring_def hd_map)
  then show ?thesis using ikbd_overflow [of ?k "0x1e" mfp_ready] by (simp add: packet_length_def)
qed

section \<open>A key press\<close>

lemma queue_intype [simp]:
  "queue (k\<lparr>intype := p\<rparr>) = queue k" "ring_ok (k\<lparr>intype := p\<rparr>) = ring_ok k"
  by (simp_all add: queue_def ring_ok_def)

lemma setGPIPbit_fields [simp]:
  "irq_enable (setGPIPbit msk v m) = irq_enable m" "irq_mask (setGPIPbit msk v m) = irq_mask m"
  "irq_inservice (setGPIPbit msk v m) = irq_inservice m" "vr (setGPIPbit msk v m) = vr m"
  "active_edge (setGPIPbit msk v m) = active_edge m" "data_direction (setGPIPbit msk v m) = data_direction m"
  unfolding setGPIPbit_edges [OF refl] fold_IRQ_fields by simp_all

lemma setGPIPbit_pending:
  "bit (irq_pending (setGPIPbit msk v m)) c \<longleftrightarrow> bit (irq_pending m) c \<or>
     bit (irq_enable m) c \<and> (\<exists>j \<in> {0..<8}. edge msk v m j \<and> map_gpip_to_ier ! j = c)"
  unfolding setGPIPbit_edges [OF refl] fold_IRQ_pending by simp

lemma setGPIPbit_level:
  "j < 8 \<Longrightarrow> bit (GPIP_data (setGPIPbit msk v m)) j =
     (if bit msk j \<and> \<not> bit (data_direction m) j then bit v j else bit (GPIP_data m) j)"
  unfolding setGPIPbit_edges [OF refl] fold_IRQ_fields by (auto simp: bit_simps)

lemma bit_0x10: "bit (0x10 :: int) j \<longleftrightarrow> j = 4"
  using bit_exp_iff [of 4 j, where 'a = int] by auto

text \<open>The pulse on the line of the keyboard: only channel 6 can become pending, and it does when it is enabled.\<close>

lemma pulse_pending:
  assumes "\<not> bit (data_direction m) 4" "\<not> bit (active_edge m) 4" "bit (irq_enable m) 6"
  shows "bit (irq_pending (setGPIPbit 0x10 0 (setGPIPbit 0x10 0x10 m))) c \<longleftrightarrow> bit (irq_pending m) c \<or> c = 6"
proof -
  have "edge 0x10 0 (setGPIPbit 0x10 0x10 m) j \<longleftrightarrow> j = 4" for j
    using assms setGPIPbit_level [of 4 "0x10" "0x10" m] by (auto simp: edge_def bit_0x10)
  moreover have "\<not> edge 0x10 0x10 m j" for j using assms(2) by (auto simp: edge_def bit_0x10)
  moreover have "map_gpip_to_ier ! 4 = 6" by (simp add: map_gpip_to_ier_def)
  ultimately show ?thesis using assms(3) by (auto simp: setGPIPbit_pending)
qed

lemma send_pulse:
  assumes "bit (cr k) 7" "bit (irq_enable m) 6"
  shows "snd (send v (k, m)) = setGPIPbit 0x10 0 (setGPIPbit 0x10 0x10 m)"
proof -
  have "cr k AND 0x80 \<noteq> 0" using assms(1) and_exp_eq_0_iff_not_bit [of "cr k" 7] by simp
  moreover have "(ucast (irq_enable m) :: u8) AND 0x40 \<noteq> 0"
    using assms(2) and_exp_eq_0_iff_not_bit [of "ucast (irq_enable m) :: u8" 6] by (simp add: bit_simps)
  ultimately show ?thesis by (simp add: send_def ThrowInterrupt_def MFP_handleRead_def Let_def)
qed

text \<open>
  C32. From key to exception: when the 68040 has enabled the receive interrupt of the ACIA and the
  keyboard channel of the MFP, nothing of higher priority is pending or in service, and the buffer is
  empty, a key press raises the interrupt line, the next acknowledgement delivers the vector of the
  keyboard channel, and the byte read then is the scan code.
\<close>

theorem keypress_interrupt:
  assumes "ring_ok k" and "queue k = []" and "bit (cr k) 7"
    and "mfp_reachable m" and "bit (irq_enable m) 6" and "bit (irq_mask m) 6"
    and "\<not> bit (data_direction m) 4" and "\<not> bit (active_edge m) 4"
    and "irq_inservice m < 0x40" and "\<forall>l > 6. \<not> requests m l"
  shows "case SendKey scancode (k, m) of (k', m') \<Rightarrow> spcflag_mfp m' \<and>
     fst (doInterrupt m') = (vr m AND 0xf0) + 6 \<and> fst (ReadData (k', snd (doInterrupt m'))) = scancode"
proof -
  define m' where "m' = setGPIPbit 0x10 0 (setGPIPbit 0x10 0x10 m)"
  have m': "snd (SendKey scancode (k, m)) = m'"
    unfolding SendKey_def set_intype_def m'_def by (simp add: send_pulse assms)
  have r: "requests m' l \<longleftrightarrow> requests m l \<or> l = 6" for l
    using pulse_pending [OF assms(7,8,5), of l] assms(6) unfolding m'_def requests_def by auto
  then have top: "requests m' 6" "\<And>l. 6 < l \<Longrightarrow> \<not> requests m' l" using assms(10) by auto
  have "mfp_reachable m'" unfolding m'_def
    by (rule mfp_reachable.step [OF _ mfp_step.port], rule mfp_reachable.step [OF _ mfp_step.port], rule assms(4))
  moreover have "eligible m' 6" using top(1) assms(9) by (simp add: eligible_def m'_def)
  ultimately have "spcflag_mfp m'" using reachable_line_ok unfolding line_ok_def by blast
  moreover have "fst (doInterrupt m') = (vr m AND 0xf0) + 6"
    using doInterrupt_top [OF top] assms(9) by (auto simp: m'_def not_le [symmetric])
  moreover have "queue (fst (SendKey scancode (k, m))) = [scancode] \<and> ring_ok (fst (SendKey scancode (k, m)))"
    using send_queue [of "k\<lparr>intype := IKBD_PACKET_KEYBOARD\<rparr>" scancode m] assms(1,2)
    by (simp add: SendKey_def set_intype_def)
  ultimately show ?thesis
    using m' ReadData_queue(1) [of _ scancode "[]"] by (auto simp: case_prod_unfold)
qed

theorem keypress_interrupt_witness:
  "fst (doInterrupt (snd (SendKey 0x1e (ikbd_new\<lparr>cr := 0x96\<rparr>, mfp_ready)))) = 0x46"
proof -
  let ?k = "ikbd_new\<lparr>cr := 0x96\<rparr>"
  have "ring_ok ?k" "queue ?k = []" using ikbd_new_state by (simp_all add: ring_ok_def queue_def)
  moreover have "bit (cr ?k) 7" "bit (irq_enable mfp_ready) 6" "bit (irq_mask mfp_ready) 6"
    by (simp_all add: mfp_ready_state bit_numeral_rec)
  moreover have "\<forall>l > 6. \<not> requests mfp_ready l" by (simp add: requests_def mfp_ready_state)
  ultimately show ?thesis
    using keypress_interrupt [OF _ _ _ mfp_ready_reachable, of ?k "0x1e"]
    by (simp add: mfp_ready_state case_prod_unfold)
qed

section \<open>Mouse packets\<close>




text \<open>The last bytes of the queue are those before the write position.\<close>

lemma queue_last:
  assumes "ring_ok k" "queue k = q @ [h, x, y]"
  shows "inbuffer k ((inwrite k - 2) mod inbufferlen) = x" "inbuffer k ((inwrite k - 1) mod inbufferlen) = y"
proof -
  have n: "nat ((inwrite k - inread k) mod inbufferlen) = length q + 3"
    using assms(2) queue_length [of k] by simp
  have w: "inwrite k = (inread k + int (length q + 3)) mod inbufferlen"
    using queue_end [OF assms(1)] assms(2) by (simp add: ac_simps)
  have "queue k ! i = inbuffer k ((inread k + int i) mod inbufferlen)" if "i < length q + 3" for i
    using that unfolding queue_def n by simp
  from this [of "length q + 1"] this [of "length q + 2"]
  show "inbuffer k ((inwrite k - 2) mod inbufferlen) = x" "inbuffer k ((inwrite k - 1) mod inbufferlen) = y"
    unfolding w assms(2) by (simp_all add: nth_append mod_simps algebra_simps)
qed


lemma send_fields:
  "yaxis_reversed (fst (send v s)) = yaxis_reversed (fst s)" "intype (fst (send v s)) = intype (fst s)"
  "mouse_enabled (fst (send v s)) = mouse_enabled (fst s)"
  by (simp_all add: send_def ThrowInterrupt_def Let_def split: prod.split)






section \<open>Merging\<close>

lemma queue_back:
  assumes "ring_ok k" "queue k = q @ [h, x, y]"
  shows "queue (k\<lparr>inwrite := (inwrite k - 3) mod inbufferlen\<rparr>) = q"
    "ring_ok (k\<lparr>inwrite := (inwrite k - 3) mod inbufferlen\<rparr>)"
    "inbuffer k ((inwrite k - 3) mod inbufferlen) = h"
proof -
  have n: "nat ((inwrite k - inread k) mod inbufferlen) = length q + 3"
    using assms(2) queue_length [of k] by simp
  then have n': "(inwrite k - inread k) mod inbufferlen = int (length q + 3)" by linarith
  have "((inwrite k - 3) mod inbufferlen - inread k) mod inbufferlen = (int (length q + 3) - 3) mod inbufferlen"
    unfolding n' [symmetric] by (simp add: mod_simps algebra_simps)
  also have "\<dots> = int (length q)" using queue_less [of k] assms(2) by simp
  finally have "queue (k\<lparr>inwrite := (inwrite k - 3) mod inbufferlen\<rparr>) = ring (inbuffer k) (inread k) (length q)"
    by (simp add: queue_def)
  also have "\<dots> = take (length q) (queue k)"
    unfolding queue_def n by (rule nth_equalityI) simp_all
  finally show "queue (k\<lparr>inwrite := (inwrite k - 3) mod inbufferlen\<rparr>) = q" using assms(2) by simp
  show "ring_ok (k\<lparr>inwrite := (inwrite k - 3) mod inbufferlen\<rparr>)" using assms(1) by (simp add: ring_ok_def)
  have w: "inwrite k = (inread k + int (length q + 3)) mod inbufferlen"
    using queue_end [OF assms(1)] assms(2) by (simp add: ac_simps)
  have "queue k ! length q = inbuffer k ((inread k + int (length q)) mod inbufferlen)"
    unfolding queue_def n by simp
  then show "inbuffer k ((inwrite k - 3) mod inbufferlen) = h"
    unfolding w assms(2) by (simp add: mod_simps algebra_simps)
qed

lemma MergeMousePacket_merge:
  assumes "ring_ok k" "queue k = b # q @ [0xf8 OR (buttons AND 3), x, y]" "intype k = IKBD_PACKET_MOUSE"
    "\<bar>rx + uint x\<bar> \<le> 63" "\<bar>ry + uint y\<bar> \<le> 63"
  shows "MergeMousePacket rx ry buttons k = (rx + uint x, ry + uint y, k\<lparr>inwrite := (inwrite k - 3) mod inbufferlen\<rparr>)"
proof -
  have q: "queue k = (b # q) @ [0xf8 OR (buttons AND 3), x, y]" using assms(2) by simp
  have e: "((inwrite k - 3) mod inbufferlen + 1) mod inbufferlen = (inwrite k - 2) mod inbufferlen"
    "((inwrite k - 3) mod inbufferlen + 2) mod inbufferlen = (inwrite k - 1) mod inbufferlen"
    by (simp_all add: mod_simps)
  have w: "inwrite k = (inread k + int (length q + 4)) mod inbufferlen"
    using queue_end [OF assms(1)] q by (simp add: ac_simps)
  have l: "length q + 4 < 8192" using queue_less [of k] q by simp
  have far: "inread k \<noteq> (inwrite k - int i) mod inbufferlen" if "i < 4" for i
  proof
    assume a: "inread k = (inwrite k - int i) mod inbufferlen"
    have "(inwrite k - int i) mod inbufferlen = (inread k + int (length q + 4 - i)) mod inbufferlen"
      unfolding w using that by (simp add: mod_simps of_nat_diff algebra_simps)
    with a have "(inread k + int (length q + 4 - i)) mod inbufferlen = (inread k + 0) mod inbufferlen"
      using assms(1) by (simp add: ring_ok_def)
    then have "inbufferlen dvd int (length q + 4 - i)" by (simp add: mod_eq_dvd_iff)
    then show False using that l zdvd_imp_le [of inbufferlen "int (length q + 4 - i)"] by simp
  qed
  have ne: "inread k \<noteq> inwrite k" using far [of 0] assms(1) by (simp add: ring_ok_def)
  have "\<not> (0xf8 OR (buttons AND 3) \<le> (0xf8 :: u8) \<and> 0xf8 OR (buttons AND 3) \<ge> (0xfb :: u8))"
    by (auto simp: word_le_def)
  then show ?thesis
    using assms(3-5) ne far [of 1] far [of 2] far [of 3] queue_last [OF assms(1) q] queue_back(3) [OF assms(1) q]
    by (auto simp: MergeMousePacket_def ring_mask e Let_def)
qed

text \<open>Three bytes sent after the write position has moved back.\<close>

lemma merged_packet_queue:
  assumes "ring_ok k" "queue k = b # q @ [0xf8 OR (buttons AND 3), x, y]" "intype k = IKBD_PACKET_MOUSE"
    "\<bar>rx + uint x\<bar> \<le> 63" "\<bar>ry + uint y\<bar> \<le> 63" "yaxis_reversed k"
  shows "queue (fst (mouse_packet False rx ry buttons (k, m))) =
     b # q @ [0xf8 OR (buttons AND 3), word_of_int (rx + uint x), word_of_int (- (ry + uint y))]"
proof -
  let ?k = "k\<lparr>inwrite := (inwrite k - 3) mod inbufferlen, intype := IKBD_PACKET_MOUSE\<rparr>"
  let ?bs = "[0xf8 OR (buttons AND 3), word_of_int (rx + uint x), word_of_int (- (ry + uint y))]"
  have q: "queue k = (b # q) @ [0xf8 OR (buttons AND 3), x, y]" using assms(2) by simp
  have k: "queue ?k = b # q" "ring_ok ?k" using queue_back [OF assms(1) q] by simp_all
  have "mouse_packet False rx ry buttons (k, m) = fold send ?bs (?k, m)"
    using assms(6) unfolding mouse_packet_def fst_conv snd_conv MergeMousePacket_merge [OF assms(1-5)]
    by (simp add: set_intype_def send_fields)
  moreover have "length (queue ?k) + length ?bs \<le> 8191" unfolding k(1) using queue_less [of k] q by simp
  ultimately show ?thesis
    using kbd.puts_contents [of "(?k, m)" ?bs] k by simp
qed

text \<open>
  C34. With the vertical axis reversed, merging goes wrong: the packet in the buffer holds the negated
  motion, the new motion is added to it as it is, and the sum is negated again. After a key and the
  motions \<open>y1 \<le> 0\<close> and \<open>y2 \<ge> 0\<close> the 68040 reads \<open>y1 - y2\<close> instead of \<open>- (y1 + y2)\<close>.
\<close>

theorem mouse_merge_reversed:
  assumes "ring_ok k" and "queue k = []" and "mouse_enabled k" and "yaxis_reversed k"
    and "y1 \<le> 0" and "0 \<le> y2" and "y2 - y1 \<le> 63"
  shows "queue (fst (SendMouseMotion 0 y2 0 False (SendMouseMotion 0 y1 0 False (SendKey scancode (k, m))))) =
     [scancode, 0xf8, 0, word_of_int (y1 - y2)]"
proof -
  let ?b1 = "[0xf8, 0, word_of_int (- y1)] :: u8 list"
  obtain k1 m1 where k1: "SendKey scancode (k, m) = (k1, m1)" by (cases "SendKey scancode (k, m)")
  have "queue (fst (SendKey scancode (k, m))) = [scancode]" "ring_ok (fst (SendKey scancode (k, m)))"
    "mouse_enabled (fst (SendKey scancode (k, m)))" "yaxis_reversed (fst (SendKey scancode (k, m)))"
    "intype (fst (SendKey scancode (k, m))) = IKBD_PACKET_KEYBOARD"
    using send_queue [of "k\<lparr>intype := IKBD_PACKET_KEYBOARD\<rparr>" scancode m] assms(1-4)
    by (simp_all add: SendKey_def set_intype_def send_fields)
  then have s1: "queue k1 = [scancode]" "ring_ok k1" "mouse_enabled k1" "yaxis_reversed k1" "intype k1 = IKBD_PACKET_KEYBOARD"
    by (simp_all add: k1)
  have one: "SendMouseMotion 0 y 0 False s = mouse_packet False 0 y 0 s" if "mouse_enabled (fst s)" "\<bar>y\<bar> \<le> 63" for y s
    using that by (simp add: SendMouseMotion_def mouse_loop.simps [of False 0 y 0 s] mouse_move_def)
  let ?s2 = "fold send ?b1 (k1\<lparr>intype := IKBD_PACKET_MOUSE\<rparr>, m1)"
  have "SendMouseMotion 0 y1 0 False (k1, m1) = ?s2"
    using one [of "(k1, m1)" y1] assms(5-7) s1(3-5)
    by (simp add: mouse_packet_def MergeMousePacket_def set_intype_def send_fields)
  moreover have s2: "queue (fst ?s2) = scancode # [] @ [0xf8 OR (0 AND 3), 0, word_of_int (- y1)]" "ring_ok (fst ?s2)"
    "intype (fst ?s2) = IKBD_PACKET_MOUSE" "yaxis_reversed (fst ?s2)" "mouse_enabled (fst ?s2)"
    using kbd.puts_contents [of "(k1\<lparr>intype := IKBD_PACKET_MOUSE\<rparr>, m1)" ?b1] s1 by (simp_all add: send_fields)
  moreover have "uint (- word_of_int y1 :: u8) = - y1"
    using assms(5-7) unsigned_of_int [of "- y1", where 'a = int and 'b = 8] by (simp add: take_bit_int_eq_self)
  ultimately show ?thesis
    using one [OF s2(5), of y2] assms(5-7) merged_packet_queue [OF s2(2,1,3) _ _ s2(4), of 0 y2 "snd ?s2"] by (simp add: k1)
qed

theorem mouse_merge_reversed_witness:
  "queue (fst (SendMouseMotion 0 3 0 False (SendMouseMotion 0 (- 5) 0 False
      (SendKey 0x1e (ikbd_new\<lparr>yaxis_reversed := True\<rparr>, mfp_ready))))) = [0x1e, 0xf8, 0, 0xf8]"
proof -
  let ?k = "ikbd_new\<lparr>yaxis_reversed := True\<rparr>"
  have "ring_ok ?k" "queue ?k = []" "mouse_enabled ?k" using ikbd_new_state by (simp_all add: ring_ok_def queue_def)
  then show ?thesis using mouse_merge_reversed [of ?k "- 5" 3 "0x1e" mfp_ready] by simp
qed

end
