(* ===== verification/Hw_Rtc.thy ===== *)
theory Hw_Rtc
  imports Prelude
begin

text \<open>
  The real-time clock and non-volatile memory of \<^verbatim>\<open>src/rtc.cpp\<close>: 64 bytes behind an index
  register, of which the first fourteen are the clock registers of an MC146818, with the configuration
  patches, the checksum and the image on disk.
\<close>

section \<open>State\<close>

record rtc =
  nvram :: "u8 list"
  rtc_index :: u8
  frozen_time :: tm

abbreviation CKS_RANGE_START :: nat where "CKS_RANGE_START \<equiv> 14"
abbreviation CKS_RANGE_END :: nat where "CKS_RANGE_END \<equiv> 61"
abbreviation CKS_RANGE_LEN :: nat where "CKS_RANGE_LEN \<equiv> 48"
abbreviation CKS_LOC :: nat where "CKS_LOC \<equiv> 62"
abbreviation NVRAM_SYSTEM_LANGUAGE :: nat where "NVRAM_SYSTEM_LANGUAGE \<equiv> 20"
abbreviation NVRAM_KEYBOARD_LAYOUT :: nat where "NVRAM_KEYBOARD_LAYOUT \<equiv> 21"

definition nvram_default :: "u8 list" where
  "nvram_default =
     [48, 255, 21, 255, 23, 255, 1, 25, 3, 33, 42, 14, 112, 128,
      0, 0, 0, 0, 0, 0, 0, 0, 17, 46, 32, 1, 255, 0, 0, 56, 135, 0, 0, 0, 0, 0, 0, 0,
      0, 0, 0, 0, 0, 0, 0, 0, 0, 0, 0, 0, 0, 0, 0, 0, 0, 0, 0, 0, 0, 0, 0, 0, 224, 31]"

text \<open>The options of the configuration file that \<^verbatim>\<open>patch\<close> reads; -1 leaves the setting alone.\<close>

record rtc_options =
  monitor :: int
  boot_color_depth :: int
  cookie_akp :: int

abbreviation set_nvram :: "nat \<Rightarrow> u8 \<Rightarrow> rtc \<Rightarrow> rtc" where
  "set_nvram i v \<equiv> nvram_update (\<lambda>l. l[i := v])"

section \<open>Checksum and configuration\<close>

definition setChecksum :: "rtc \<Rightarrow> rtc" where
  "setChecksum r =
     (let sum = fold (\<lambda>i sum. sum + nvram r ! i) [CKS_RANGE_START..<CKS_RANGE_END + 1] 0;
          r = set_nvram CKS_LOC (NOT sum) r
      in set_nvram (CKS_LOC + 1) sum r)"

definition patch :: "rtc_options \<Rightarrow> rtc \<Rightarrow> rtc" where
  "patch opt r =
     (let r = (if monitor opt \<noteq> - 1
               then if monitor opt = 0 then set_nvram 29 (nvram r ! 29 OR 0x10) r
                    else set_nvram 29 (nvram r ! 29 AND NOT 0x10) r
               else r);
          r = (if boot_color_depth opt \<noteq> - 1
               then let res = nvram r ! 29 AND 0x07;
                        res = (if boot_color_depth opt = 1 then 0
                               else if boot_color_depth opt = 2 then 1
                               else if boot_color_depth opt = 4 then 2
                               else if boot_color_depth opt = 8 then 3
                               else if boot_color_depth opt = 16 then 4
                               else res);
                        r = set_nvram 29 (nvram r ! 29 AND NOT 0x07) r
                    in set_nvram 29 (nvram r ! 29 OR res) r
               else r);
          r = (if cookie_akp opt \<noteq> - 1
               then let r = set_nvram NVRAM_SYSTEM_LANGUAGE (word_of_int (cookie_akp opt AND 0xff)) r
                    in set_nvram NVRAM_KEYBOARD_LAYOUT (word_of_int (drop_bit 8 (cookie_akp opt) AND 0xff)) r
               else r)
      in setChecksum r)"

definition RTC_reset :: "rtc_options \<Rightarrow> rtc \<Rightarrow> rtc" where
  "RTC_reset opt r = (patch opt r)\<lparr>rtc_index := 0\<rparr>"

text \<open>
  The image on disk: \<open>file\<close> is the contents of the file, \<open>None\<close> when it cannot be opened; the
  results are the return values.
\<close>

definition RTC_load :: "u8 list option \<Rightarrow> rtc \<Rightarrow> bool \<times> rtc" where
  "RTC_load file r =
     (case file of
        None \<Rightarrow> (False, r)
      | Some bytes \<Rightarrow>
          if length bytes \<ge> CKS_RANGE_LEN
          then (True, r\<lparr>nvram := take CKS_RANGE_START (nvram r) @ take CKS_RANGE_LEN bytes @
                   drop (CKS_RANGE_START + CKS_RANGE_LEN) (nvram r)\<rparr>)
          else (False, r))"

definition nvram_image :: "rtc \<Rightarrow> u8 list" where
  "nvram_image r = take CKS_RANGE_LEN (drop CKS_RANGE_START (nvram r))"


definition RTC_construct :: "u8 list option \<Rightarrow> rtc_options \<Rightarrow> rtc \<Rightarrow> rtc" where
  "RTC_construct file opt r = RTC_reset opt (snd (RTC_load file r))"

section \<open>Register access\<close>

text \<open>\<open>now\<close> is the time of the host at the access.\<close>

definition setAddr :: "u8 \<Rightarrow> rtc \<Rightarrow> rtc" where
  "setAddr value r = (if unat value < 64 then r\<lparr>rtc_index := value\<rparr> else r)"

definition freezeTime :: "tm \<Rightarrow> rtc \<Rightarrow> rtc" where
  "freezeTime now r = r\<lparr>frozen_time := now\<rparr>"

definition getFrozenTime :: "tm \<Rightarrow> rtc \<Rightarrow> tm \<times> rtc" where
  "getFrozenTime now r =
     (let r = (if nvram r ! 11 AND 0x80 = 0 then freezeTime now r else r) in (frozen_time r, r))"

definition BIN_TO_BCD :: "rtc \<Rightarrow> u8 \<Rightarrow> u8" where
  "BIN_TO_BCD r v = (if nvram r ! 11 AND 0x04 = 0 then push_bit 4 (v div 10) OR (v mod 10) else v)"

definition rtc_hour :: "rtc \<Rightarrow> u8 \<Rightarrow> u8" where
  "rtc_hour r v =
     (if nvram r ! 11 AND 0x02 = 0
      then let pmflag = (if v = 0 \<or> v \<ge> 13 then 0x80 else 0);
               v = v mod 12;
               v = (if v = 0 then 12 else v)
           in BIN_TO_BCD r v OR pmflag
      else BIN_TO_BCD r v)"

definition RTC_getData :: "tm \<Rightarrow> rtc \<Rightarrow> u8 \<times> rtc" where
  "RTC_getData now r =
     (let i = unat (rtc_index r);
          (t, f) = getFrozenTime now r
      in if i = 0 then (BIN_TO_BCD f (of_nat (tm_sec t)), f)
         else if i = 2 then (BIN_TO_BCD f (of_nat (tm_min t)), f)
         else if i = 4 then (rtc_hour f (of_nat (tm_hour t)), f)
         else if i = 6 then (BIN_TO_BCD f (of_nat (tm_wday t + 1)), f)
         else if i = 7 then (BIN_TO_BCD f (of_nat (tm_mday t)), f)
         else if i = 8 then (BIN_TO_BCD f (of_nat (tm_mon t + 1)), f)
         else if i = 9 then (BIN_TO_BCD f (of_nat (tm_year t) - 68), f)
         else if i = 1 \<or> i = 3 \<or> i = 5 then (BIN_TO_BCD r (nvram r ! i), r)
         else if i = 10 then let r = set_nvram i (nvram r ! i XOR 0x80) r in (nvram r ! i, r)
         else (nvram r ! i, r))"

definition RTC_setData :: "tm \<Rightarrow> u8 \<Rightarrow> rtc \<Rightarrow> rtc" where
  "RTC_setData now value r =
     (let r = (if rtc_index r = 11 \<and> value AND 0x80 \<noteq> 0 then freezeTime now r else r)
      in set_nvram (unat (rtc_index r)) value r)"

definition RTC_handleRead :: "tm \<Rightarrow> u32 \<Rightarrow> rtc \<Rightarrow> u8 \<times> rtc" where
  "RTC_handleRead now addr r =
     (if addr > 4 then (0, r)
      else if addr = 1 then (rtc_index r, r)
      else if addr = 3 then RTC_getData now r
      else (0, r))"

definition RTC_handleWrite :: "tm \<Rightarrow> u32 \<Rightarrow> u8 \<Rightarrow> rtc \<Rightarrow> rtc" where
  "RTC_handleWrite now addr value r =
     (if addr > 4 then r
      else if addr = 1 then setAddr value r
      else if addr = 3 then RTC_setData now value r
      else r)"

definition getNvramKeyboard :: "rtc \<Rightarrow> u8" where
  "getNvramKeyboard r = nvram r ! NVRAM_KEYBOARD_LAYOUT"

section \<open>Specification\<close>

text \<open>Every access of the code to \<^verbatim>\<open>nvram[64]\<close> is inside the array.\<close>

definition rtc_ok :: "rtc \<Rightarrow> bool" where
  "rtc_ok r \<longleftrightarrow> length (nvram r) = 64 \<and> unat (rtc_index r) < 64"

definition checksum_ok :: "rtc \<Rightarrow> bool" where
  "checksum_ok r \<longleftrightarrow> nvram r ! 63 = sum_list (nvram_image r) \<and> nvram r ! 62 = NOT (sum_list (nvram_image r))"

inductive rtc_step :: "rtc \<Rightarrow> rtc \<Rightarrow> bool" where
  reset: "rtc_step r (RTC_reset opt r)"
| register_read: "rtc_step r (snd (RTC_handleRead now addr r))"
| register_write: "rtc_step r (RTC_handleWrite now addr value r)"

definition rtc_new :: rtc where
  "rtc_new = \<lparr>nvram = nvram_default, rtc_index = 11,
     frozen_time = \<lparr>tm_sec = 0, tm_min = 0, tm_hour = 0, tm_mday = 1, tm_mon = 0, tm_year = 124, tm_wday = 1\<rparr>\<rparr>"

definition rtc_options_new :: rtc_options where
  "rtc_options_new = \<lparr>monitor = 0, boot_color_depth = 8, cookie_akp = 0x0203\<rparr>"

inductive rtc_reachable :: "rtc \<Rightarrow> bool" where
  start: "rtc_reachable (RTC_construct file opt \<lparr>nvram = nvram_default, rtc_index = i, frozen_time = t\<rparr>)"
| step: "rtc_reachable r \<Longrightarrow> rtc_step r s \<Longrightarrow> rtc_reachable s"

definition unbcd :: "u8 \<Rightarrow> nat" where
  "unbcd b = 10 * unat (drop_bit 4 b) + unat (b AND 0x0f)"

section \<open>The array and its checksum\<close>

lemma sum_fold: "b \<le> length l \<Longrightarrow> a \<le> b \<Longrightarrow> fold (\<lambda>i s. s + l ! i) [a..<b] (0 :: u8) = sum_list (take (b - a) (drop a l))"
proof (induction b)
  case (Suc b)
  show ?case
  proof (cases "a = Suc b")
    case False
    then have "take (Suc b - a) (drop a l) = take (b - a) (drop a l) @ [l ! b]"
      using Suc.prems take_Suc_conv_app_nth [of "b - a" "drop a l"] by (simp add: Suc_diff_le)
    with False Suc show ?thesis by simp
  qed simp
qed simp

lemma setChecksum_ok: "length (nvram r) = 64 \<Longrightarrow> checksum_ok (setChecksum r)"
proof -
  assume len: "length (nvram r) = 64"
  define S where "S = sum_list (take 48 (drop 14 (nvram r)))"
  have "fold (\<lambda>i s. s + nvram r ! i) [CKS_RANGE_START..<CKS_RANGE_END + 1] 0 = S"
    unfolding S_def by (subst sum_fold) (use len in simp_all)
  then have "setChecksum r = r\<lparr>nvram := (nvram r)[62 := NOT S, 63 := S]\<rparr>"
    unfolding setChecksum_def Let_def by (simp only:) simp
  moreover have "take 48 (drop 14 ((nvram r)[62 := NOT S, 63 := S])) = take 48 (drop 14 (nvram r))"
    by (simp add: drop_update_swap)
  ultimately show ?thesis using len by (simp add: checksum_ok_def nvram_image_def S_def [symmetric])
qed

lemma length_nvram:
  "length (nvram (setChecksum r)) = length (nvram r)" "length (nvram (patch opt r)) = length (nvram r)"
  by (simp_all add: setChecksum_def patch_def Let_def)

lemma index_patch: "rtc_index (patch opt r) = rtc_index r"
  by (simp add: setChecksum_def patch_def Let_def)

lemma checksum_patch: "length (nvram r) = 64 \<Longrightarrow> checksum_ok (patch opt r)"
  unfolding patch_def Let_def by (rule setChecksum_ok) simp

lemma rtc_ok_access:
  "rtc_ok r \<Longrightarrow> rtc_ok (snd (RTC_handleRead now addr r))" "rtc_ok r \<Longrightarrow> rtc_ok (RTC_handleWrite now addr value r)"
  by (simp_all add: rtc_ok_def RTC_handleRead_def RTC_getData_def getFrozenTime_def freezeTime_def
      RTC_handleWrite_def setAddr_def RTC_setData_def Let_def)

lemma rtc_ok_reset: "length (nvram r) = 64 \<Longrightarrow> rtc_ok (RTC_reset opt r)"
  by (simp add: RTC_reset_def rtc_ok_def length_nvram)

lemma length_load: "length (nvram r) = 64 \<Longrightarrow> length (nvram (snd (RTC_load file r))) = 64"
  by (simp add: RTC_load_def split: option.split)

lemma reachable_rtc_ok: "rtc_reachable r \<Longrightarrow> rtc_ok r"
proof (induction rule: rtc_reachable.induct)
  case start
  show ?case unfolding RTC_construct_def by (intro rtc_ok_reset length_load) (simp add: nvram_default_def)
next
  case (step r s)
  have "length (nvram r) = 64" using step.IH by (simp add: rtc_ok_def)
  with step.hyps(2) step.IH show ?case by cases (simp_all add: rtc_ok_access rtc_ok_reset)
qed

text \<open>
  C39. In every reachable state the index stays inside the 64 bytes, and a reset leaves the checksum bytes
  right: byte 63 is the sum of bytes 14 to 61 and byte 62 its complement.
\<close>

theorem rtc_reset_checksum:
  assumes "rtc_reachable r"
  shows "rtc_ok r \<and> checksum_ok (RTC_reset opt r)"
  using reachable_rtc_ok [OF assms] checksum_patch [of r opt]
  by (simp add: rtc_ok_def RTC_reset_def checksum_ok_def nvram_image_def)

theorem rtc_reset_checksum_witness:
  "checksum_ok (RTC_reset rtc_options_new (RTC_construct None rtc_options_new rtc_new))"
  using rtc_reset_checksum [of "RTC_construct None rtc_options_new rtc_new" rtc_options_new]
    rtc_reachable.start [of None rtc_options_new "rtc_index rtc_new" "frozen_time rtc_new"]
  by (simp add: rtc_new_def)



section \<open>The clock\<close>

text \<open>
  Setting bit 7 of register B freezes the clock: every read of a clock register after that, at
  whatever time, gives what it would have given at the moment of the write and changes nothing.
\<close>

theorem rtc_frozen:
  fixes t0 :: tm
  assumes "rtc_ok r" and "rtc_index r = 11" and "bit value 7" and "i < 10"
  defines "s \<equiv> setAddr i (RTC_setData t0 value r)"
  shows "RTC_getData now s = RTC_getData t0 s \<and> snd (RTC_getData now s) = s \<and> frozen_time s = t0"
proof -
  have "value AND 0x80 \<noteq> 0" using assms(3) and_exp_eq_0_iff_not_bit [of "value" 7] by simp
  then have s: "nvram s ! 11 AND 0x80 \<noteq> 0" "frozen_time s = t0" "unat (rtc_index s) < 10"
    using assms by (simp_all add: s_def setAddr_def RTC_setData_def freezeTime_def rtc_ok_def word_less_nat_alt)
  then show ?thesis by (simp add: RTC_getData_def getFrozenTime_def Let_def)
qed

theorem rtc_frozen_witness:
  "fst (RTC_getData ((frozen_time rtc_new)\<lparr>tm_sec := 30\<rparr>) (setAddr 0 (RTC_setData (frozen_time rtc_new) 0x86 rtc_new))) = 0"
  using rtc_frozen [of rtc_new "0x86" 0 "frozen_time rtc_new" "(frozen_time rtc_new)\<lparr>tm_sec := 30\<rparr>"]
  by (simp add: rtc_new_def nvram_default_def rtc_ok_def RTC_getData_def setAddr_def RTC_setData_def getFrozenTime_def
      freezeTime_def BIN_TO_BCD_def Let_def)

text \<open>
  The hour register in 12-hour mode: the hour is 12, 1, ..., 11, and the PM flag is set from 13 to 23
  o'clock and at midnight, but not at noon.
\<close>

theorem rtc_hour_12:
  assumes "nvram r ! 11 AND 0x02 = 0" and "nvram r ! 11 AND 0x04 = 0" and "h < 24"
  shows "unbcd (rtc_hour r (of_nat h) AND 0x7f) = (if h mod 12 = 0 then 12 else h mod 12) \<and>
     (bit (rtc_hour r (of_nat h)) 7 \<longleftrightarrow> h = 0 \<or> 13 \<le> h)"
proof -
  define f where "f = (\<lambda>h. let v = of_nat h :: u8; w = (if v mod 12 = 0 then 12 else v mod 12)
    in (push_bit 4 (w div 10) OR (w mod 10)) OR (if v = 0 \<or> v \<ge> 13 then 0x80 else 0))"
  have "list_all (\<lambda>h. unbcd (f h AND 0x7f) = (if h mod 12 = 0 then 12 else h mod 12) \<and>
      (f h AND 0x80 \<noteq> 0 \<longleftrightarrow> h = 0 \<or> 13 \<le> h)) [0..<24]"
    unfolding f_def unbcd_def by code_simp
  then have "unbcd (f h AND 0x7f) = (if h mod 12 = 0 then 12 else h mod 12)" "f h AND 0x80 \<noteq> 0 \<longleftrightarrow> h = 0 \<or> 13 \<le> h"
    using assms(3) by (simp_all add: list_all_iff)
  moreover have "rtc_hour r (of_nat h) = f h"
    using assms(1,2) by (simp add: rtc_hour_def BIN_TO_BCD_def f_def Let_def)
  moreover have "f h AND 0x80 \<noteq> 0 \<longleftrightarrow> bit (f h) 7" using and_exp_eq_0_iff_not_bit [of "f h" 7] by simp
  ultimately show ?thesis by simp
qed

theorem rtc_hour_12_witness:
  "\<not> bit (rtc_hour (rtc_new\<lparr>nvram := replicate 64 0\<rparr>) 12) 7 \<and> bit (rtc_hour (rtc_new\<lparr>nvram := replicate 64 0\<rparr>) 0) 7"
  using rtc_hour_12 [of "rtc_new\<lparr>nvram := replicate 64 0\<rparr>" 12] rtc_hour_12 [of "rtc_new\<lparr>nvram := replicate 64 0\<rparr>" 0]
  by simp

end
