(* ===== verification/Cpu_Memory.thy ===== *)
theory Cpu_Memory
  imports Prelude
begin

text \<open>
  The physical address space: the emulated devices as objects of class \<^verbatim>\<open>BASE_IO\<close>
  (\<^verbatim>\<open>src/include/icio.h\<close>, \<^verbatim>\<open>src/fakeio.cpp\<close>), the bus that selects one by its address range
  (\<^verbatim>\<open>src/hardware.cpp\<close>), and the memory accesses with their checks
  (\<^verbatim>\<open>src/uae_cpu/memory-uae.h\<close>). The build modelled checks the memory boundary in software, protects the
  first two kilobytes and has no page cache (neither \<^verbatim>\<open>ARAM_PAGE_CHECK\<close> nor \<^verbatim>\<open>HW_SIGSEGV\<close> nor
  \<^verbatim>\<open>FIXED_VIDEORAM\<close>).
\<close>

section \<open>Exceptions of the emulated processor\<close>

text \<open>
  An access changes the state and returns a value or \<open>None\<close>: the throw of
  \<^verbatim>\<open>m68k_exception\<close> number 2, the only one these functions raise.
\<close>

type_synonym ('s, 'a) io = "'s \<Rightarrow> 'a option \<times> 's"

definition io_return :: "'a \<Rightarrow> ('s, 'a) io" where
  "io_return x s = (Some x, s)"

definition io_throw :: "('s, 'a) io" where
  "io_throw s = (None, s)"

definition io_bind :: "('s, 'a) io \<Rightarrow> ('a \<Rightarrow> ('s, 'b) io) \<Rightarrow> ('s, 'b) io" where
  "io_bind m f s = (case m s of (None, s) \<Rightarrow> (None, s) | (Some x, s) \<Rightarrow> f x s)"

definition io_catch :: "('s, 'a) io \<Rightarrow> ('s, 'a) io \<Rightarrow> ('s, 'a) io" where
  "io_catch m h s = (case m s of (None, s) \<Rightarrow> h s | (Some x, s) \<Rightarrow> (Some x, s))"

definition io_get :: "('s \<Rightarrow> 'a) \<Rightarrow> ('s, 'a) io" where
  "io_get f s = (Some (f s), s)"

definition io_modify :: "('s \<Rightarrow> 's) \<Rightarrow> ('s, unit) io" where
  "io_modify f s = (Some (), f s)"

section \<open>State\<close>

text \<open>
  \<open>mem\<close> is the host memory at \<^verbatim>\<open>MEMBaseDiff\<close>, indexed by the address of the Atari; \<open>regs_s\<close> is
  \<^verbatim>\<open>regs.s\<close>. Later theories extend the record.
\<close>

record phys =
  mem :: "u32 \<Rightarrow> u8"
  FastRAMSize :: u32
  VideoRAMBase :: u32
  regs_s :: bool
  mmu_fault_addr :: u32
  mmu_ssw :: u16

definition do_get_mem_word :: "u32 \<Rightarrow> (u32 \<Rightarrow> u8) \<Rightarrow> u16" where
  "do_get_mem_word a m = push_bit 8 (ucast (m a)) OR ucast (m (a + 1))"

definition do_get_mem_long :: "u32 \<Rightarrow> (u32 \<Rightarrow> u8) \<Rightarrow> u32" where
  "do_get_mem_long a m = push_bit 16 (ucast (do_get_mem_word a m)) OR ucast (do_get_mem_word (a + 2) m)"

definition do_get_mem_quad :: "u32 \<Rightarrow> (u32 \<Rightarrow> u8) \<Rightarrow> 64 word" where
  "do_get_mem_quad a m = push_bit 32 (ucast (do_get_mem_long a m)) OR ucast (do_get_mem_long (a + 4) m)"

definition do_put_mem_byte :: "u32 \<Rightarrow> u8 \<Rightarrow> (u32 \<Rightarrow> u8) \<Rightarrow> u32 \<Rightarrow> u8" where
  "do_put_mem_byte a v m = m(a := v)"

definition do_put_mem_word :: "u32 \<Rightarrow> u16 \<Rightarrow> (u32 \<Rightarrow> u8) \<Rightarrow> u32 \<Rightarrow> u8" where
  "do_put_mem_word a v m = m(a := ucast (drop_bit 8 v), a + 1 := ucast v)"

definition do_put_mem_long :: "u32 \<Rightarrow> u32 \<Rightarrow> (u32 \<Rightarrow> u8) \<Rightarrow> u32 \<Rightarrow> u8" where
  "do_put_mem_long a v m = do_put_mem_word (a + 2) (ucast v) (do_put_mem_word a (ucast (drop_bit 16 v)) m)"

definition do_put_mem_quad :: "u32 \<Rightarrow> 64 word \<Rightarrow> (u32 \<Rightarrow> u8) \<Rightarrow> u32 \<Rightarrow> u8" where
  "do_put_mem_quad a v m = do_put_mem_long (a + 4) (ucast v) (do_put_mem_long a (ucast (drop_bit 32 v)) m)"

section \<open>Devices\<close>

text \<open>An object of a class derived from \<^verbatim>\<open>BASE_IO\<close> with its virtual methods, as functions of the machine.\<close>

record 's base_io =
  hw_offset :: u32
  hw_size :: u32
  io_read :: "u32 \<Rightarrow> ('s, u8) io"
  io_readW :: "u32 \<Rightarrow> ('s, u16) io"
  io_readL :: "u32 \<Rightarrow> ('s, u32) io"
  io_write :: "u32 \<Rightarrow> u8 \<Rightarrow> ('s, unit) io"
  io_writeW :: "u32 \<Rightarrow> u16 \<Rightarrow> ('s, unit) io"
  io_writeL :: "u32 \<Rightarrow> u32 \<Rightarrow> ('s, unit) io"
  io_reset :: "'s \<Rightarrow> 's"

definition isMyHWRegister :: "'s base_io \<Rightarrow> u32 \<Rightarrow> bool" where
  "isMyHWRegister d addr \<longleftrightarrow> addr \<ge> hw_offset d \<and> addr < hw_offset d + hw_size d"

text \<open>
  The methods of the base class. Word and long accesses are made of the virtual byte and word accesses,
  the left operand of \<^verbatim>\<open>|\<close> first.
\<close>

definition BASE_IO_handleRead :: "u32 \<Rightarrow> ('a phys_scheme, u8) io" where
  "BASE_IO_handleRead addr = io_get (\<lambda>s. mem s addr)"

definition BASE_IO_handleReadW :: "(u32 \<Rightarrow> ('s, u8) io) \<Rightarrow> u32 \<Rightarrow> ('s, u16) io" where
  "BASE_IO_handleReadW handleRead addr =
     io_bind (handleRead addr) (\<lambda>h. io_bind (handleRead (addr + 1)) (\<lambda>l.
       io_return (push_bit 8 (ucast h) OR ucast l)))"

definition BASE_IO_handleReadL :: "(u32 \<Rightarrow> ('s, u16) io) \<Rightarrow> u32 \<Rightarrow> ('s, u32) io" where
  "BASE_IO_handleReadL handleReadW addr =
     io_bind (handleReadW addr) (\<lambda>h. io_bind (handleReadW (addr + 2)) (\<lambda>l.
       io_return (push_bit 16 (ucast h) OR ucast l)))"

definition BASE_IO_handleWrite :: "u32 \<Rightarrow> u8 \<Rightarrow> ('a phys_scheme, unit) io" where
  "BASE_IO_handleWrite addr value = io_modify (mem_update (do_put_mem_byte addr value))"

definition BASE_IO_handleWriteW :: "(u32 \<Rightarrow> u8 \<Rightarrow> ('s, unit) io) \<Rightarrow> u32 \<Rightarrow> u16 \<Rightarrow> ('s, unit) io" where
  "BASE_IO_handleWriteW handleWrite addr value =
     io_bind (handleWrite addr (ucast (drop_bit 8 value))) (\<lambda>_. handleWrite (addr + 1) (ucast value))"

definition BASE_IO_handleWriteL :: "(u32 \<Rightarrow> u16 \<Rightarrow> ('s, unit) io) \<Rightarrow> u32 \<Rightarrow> u32 \<Rightarrow> ('s, unit) io" where
  "BASE_IO_handleWriteL handleWriteW addr value =
     io_bind (handleWriteW addr (ucast (drop_bit 16 value))) (\<lambda>_. handleWriteW (addr + 2) (ucast value))"

section \<open>The bus\<close>

text \<open>The array \<^verbatim>\<open>arhw\<close> is an argument: the devices of \<^verbatim>\<open>HWInit\<close> in their order.\<close>

definition HWReset :: "'s base_io list \<Rightarrow> 's \<Rightarrow> 's" where
  "HWReset arhw = fold io_reset arhw"

definition getModule :: "'s base_io list \<Rightarrow> u32 \<Rightarrow> 's base_io option" where
  "getModule arhw addr = find (\<lambda>d. isMyHWRegister d addr) arhw"

definition BUS_ERROR :: "u32 \<Rightarrow> ('a phys_scheme, 'b) io" where
  "BUS_ERROR a = io_bind (io_modify (\<lambda>s. s\<lparr>mmu_fault_addr := a\<rparr>)) (\<lambda>_. io_throw)"

definition HWget_b :: "'a phys_scheme base_io list \<Rightarrow> u32 \<Rightarrow> ('a phys_scheme, u8) io" where
  "HWget_b arhw addr = (case getModule arhw addr of Some ptr \<Rightarrow> io_read ptr addr | None \<Rightarrow> BUS_ERROR addr)"

definition HWget_w :: "'a phys_scheme base_io list \<Rightarrow> u32 \<Rightarrow> ('a phys_scheme, u16) io" where
  "HWget_w arhw addr = (case getModule arhw addr of Some ptr \<Rightarrow> io_readW ptr addr | None \<Rightarrow> BUS_ERROR addr)"

definition HWget_l :: "'a phys_scheme base_io list \<Rightarrow> u32 \<Rightarrow> ('a phys_scheme, u32) io" where
  "HWget_l arhw addr = (case getModule arhw addr of Some ptr \<Rightarrow> io_readL ptr addr | None \<Rightarrow> BUS_ERROR addr)"

definition HWput_b :: "'a phys_scheme base_io list \<Rightarrow> u32 \<Rightarrow> u8 \<Rightarrow> ('a phys_scheme, unit) io" where
  "HWput_b arhw addr value =
     (case getModule arhw addr of Some ptr \<Rightarrow> io_write ptr addr value | None \<Rightarrow> BUS_ERROR addr)"

definition HWput_w :: "'a phys_scheme base_io list \<Rightarrow> u32 \<Rightarrow> u16 \<Rightarrow> ('a phys_scheme, unit) io" where
  "HWput_w arhw addr value =
     (case getModule arhw addr of Some ptr \<Rightarrow> io_writeW ptr addr value | None \<Rightarrow> BUS_ERROR addr)"

definition HWput_l :: "'a phys_scheme base_io list \<Rightarrow> u32 \<Rightarrow> u32 \<Rightarrow> ('a phys_scheme, unit) io" where
  "HWput_l arhw addr value =
     (case getModule arhw addr of Some ptr \<Rightarrow> io_writeL ptr addr value | None \<Rightarrow> BUS_ERROR addr)"

section \<open>Physical memory access\<close>

abbreviation STRAM_END :: int where "STRAM_END \<equiv> 0x0e00000"
abbreviation FastRAM_BEGIN :: int where "FastRAM_BEGIN \<equiv> 0x1000000"
abbreviation ARANYMVRAMSIZE :: u32 where "ARANYMVRAMSIZE \<equiv> 0x00100000"

text \<open>
  The bounds of ST-RAM and FastRAM are computed in \<^verbatim>\<open>unsigned long\<close> and do not wrap around; the one of
  the video RAM is computed in 32 bits.
\<close>

definition test_ram_boundary :: "u32 \<Rightarrow> nat \<Rightarrow> bool \<Rightarrow> bool \<Rightarrow> 'a phys_scheme \<Rightarrow> bool" where
  "test_ram_boundary addr sz super write s =
     (let a = uint addr;
          video = (addr \<ge> VideoRAMBase s \<and> addr \<le> VideoRAMBase s + ARANYMVRAMSIZE - of_nat sz)
      in if a \<le> FastRAM_BEGIN + uint (FastRAMSize s) - int sz
         then if \<not> super \<and> a < 0x00000800 then False
              else if \<not> write \<or> a \<ge> FastRAM_BEGIN \<or> (a \<ge> 8 \<and> a \<le> STRAM_END - int sz) then True
              else video
         else video)"

definition check_ram_boundary :: "u32 \<Rightarrow> nat \<Rightarrow> bool \<Rightarrow> ('a phys_scheme, unit) io" where
  "check_ram_boundary addr sz write s =
     (if test_ram_boundary addr sz (regs_s s) write s then (Some (), s)
      else (None, s\<lparr>mmu_fault_addr := addr,
              mmu_ssw := push_bit 5 (of_nat sz AND 3) OR (if write then 0 else push_bit 8 1)\<rparr>))"

text \<open>The top 16 megabytes of the address space are the first 16 again.\<close>

definition addr_24 :: "u32 \<Rightarrow> u32" where
  "addr_24 addr = (if addr < 0xff000000 then addr else addr AND 0x00ffffff)"

definition is_hw :: "u32 \<Rightarrow> bool" where
  "is_hw addr \<longleftrightarrow> addr AND 0xfff00000 = 0x00f00000"

definition phys_get_byte :: "'a phys_scheme base_io list \<Rightarrow> u32 \<Rightarrow> ('a phys_scheme, u8) io" where
  "phys_get_byte arhw addr =
     (let addr = addr_24 addr
      in if is_hw addr then HWget_b arhw addr
         else io_bind (check_ram_boundary addr 1 False) (\<lambda>_. io_get (\<lambda>s. mem s addr)))"

definition phys_get_word :: "'a phys_scheme base_io list \<Rightarrow> u32 \<Rightarrow> ('a phys_scheme, u16) io" where
  "phys_get_word arhw addr =
     (let addr = addr_24 addr
      in if is_hw addr then HWget_w arhw addr
         else io_bind (check_ram_boundary addr 2 False) (\<lambda>_. io_get (\<lambda>s. do_get_mem_word addr (mem s))))"

definition phys_get_long :: "'a phys_scheme base_io list \<Rightarrow> u32 \<Rightarrow> ('a phys_scheme, u32) io" where
  "phys_get_long arhw addr =
     (let addr = addr_24 addr
      in if is_hw addr then HWget_l arhw addr
         else io_bind (check_ram_boundary addr 4 False) (\<lambda>_. io_get (\<lambda>s. do_get_mem_long addr (mem s))))"

definition phys_get_quad :: "'a phys_scheme base_io list \<Rightarrow> u32 \<Rightarrow> ('a phys_scheme, 64 word) io" where
  "phys_get_quad arhw addr =
     (let addr = addr_24 addr
      in if is_hw addr then io_bind (HWget_l arhw addr) (\<lambda>v. io_return (ucast v))
         else io_bind (check_ram_boundary addr 8 False) (\<lambda>_. io_get (\<lambda>s. do_get_mem_quad addr (mem s))))"

definition phys_put_byte :: "'a phys_scheme base_io list \<Rightarrow> u32 \<Rightarrow> u8 \<Rightarrow> ('a phys_scheme, unit) io" where
  "phys_put_byte arhw addr b =
     (let addr = addr_24 addr
      in if is_hw addr then HWput_b arhw addr b
         else io_bind (check_ram_boundary addr 1 True) (\<lambda>_. io_modify (mem_update (do_put_mem_byte addr b))))"

definition phys_put_word :: "'a phys_scheme base_io list \<Rightarrow> u32 \<Rightarrow> u16 \<Rightarrow> ('a phys_scheme, unit) io" where
  "phys_put_word arhw addr w =
     (let addr = addr_24 addr
      in if is_hw addr then HWput_w arhw addr w
         else io_bind (check_ram_boundary addr 2 True) (\<lambda>_. io_modify (mem_update (do_put_mem_word addr w))))"

definition phys_put_long :: "'a phys_scheme base_io list \<Rightarrow> u32 \<Rightarrow> u32 \<Rightarrow> ('a phys_scheme, unit) io" where
  "phys_put_long arhw addr l =
     (let addr = addr_24 addr
      in if is_hw addr then HWput_l arhw addr l
         else io_bind (check_ram_boundary addr 4 True) (\<lambda>_. io_modify (mem_update (do_put_mem_long addr l))))"

definition phys_put_quad :: "'a phys_scheme base_io list \<Rightarrow> u32 \<Rightarrow> 64 word \<Rightarrow> ('a phys_scheme, unit) io" where
  "phys_put_quad arhw addr l =
     (let addr = addr_24 addr
      in if is_hw addr then HWput_l arhw addr (ucast l)
         else io_bind (check_ram_boundary addr 8 True) (\<lambda>_. io_modify (mem_update (do_put_mem_quad addr l))))"

section \<open>Memory map\<close>

text \<open>FastRAM and video RAM lie above the first 16 megabytes and inside the address space.\<close>

definition memory_map_ok :: "'a phys_scheme \<Rightarrow> bool" where
  "memory_map_ok s \<longleftrightarrow> FastRAM_BEGIN \<le> uint (VideoRAMBase s) \<and> uint (VideoRAMBase s) + 0x100000 \<le> 2 ^ 32 \<and>
     FastRAM_BEGIN + uint (FastRAMSize s) \<le> 2 ^ 32"

text \<open>The shadow of the reset vectors, the ROM, and in user mode the first two kilobytes.\<close>

definition protected :: "'a phys_scheme \<Rightarrow> u32 set" where
  "protected s = {b. uint b < 8 \<or> 0xe00000 \<le> uint b \<and> uint b < 0xf00000 \<or> \<not> regs_s s \<and> uint b < 0x800}"

text \<open>14 megabytes of ST-RAM, 16 of FastRAM, the video RAM behind them, all zero, in user mode.\<close>

definition phys_new :: phys where
  "phys_new = \<lparr>mem = (\<lambda>_. 0), FastRAMSize = 0x1000000, VideoRAMBase = 0x2000000, regs_s = False,
     mmu_fault_addr = 0, mmu_ssw = 0\<rparr>"

section \<open>Rules for accesses\<close>

named_theorems io_simps \<open>unfolding of accesses\<close>

lemmas io_defs = io_return_def io_throw_def io_bind_def io_catch_def io_get_def io_modify_def

declare io_defs [io_simps] BUS_ERROR_def [io_simps] check_ram_boundary_def [io_simps]

section \<open>Cells of memory\<close>

text \<open>
  A cell of \<open>n\<close> bytes: what is put is got back, only the bytes of the cell change, and the value depends
  on the bytes of the cell alone.
\<close>

definition cell_bytes :: "u32 \<Rightarrow> nat \<Rightarrow> u32 set" where
  "cell_bytes a n = (\<lambda>i. a + of_nat i) ` {..<n}"

locale memory_cell =
  fixes get :: "u32 \<Rightarrow> (u32 \<Rightarrow> u8) \<Rightarrow> 'v"
    and put :: "u32 \<Rightarrow> 'v \<Rightarrow> (u32 \<Rightarrow> u8) \<Rightarrow> u32 \<Rightarrow> u8"
    and n :: nat
  assumes get_put: "get a (put a v m) = v"
    and put_outside: "b \<notin> cell_bytes a n \<Longrightarrow> put a v m b = m b"
    and get_cong: "(\<And>b. b \<in> cell_bytes a n \<Longrightarrow> m b = m' b) \<Longrightarrow> get a m = get a m'"
begin

lemma get_put_other:
  assumes "cell_bytes a n \<inter> cell_bytes b n = {}"
  shows "get b (put a v m) = get b m"
  by (rule get_cong) (use assms put_outside in blast)

lemma put_put_other_get:
  assumes "cell_bytes a n \<inter> cell_bytes b n = {}"
  shows "get a (put b w (put a v m)) = v"
  using get_put_other [of b a w "put a v m"] assms by (simp add: get_put Int_commute)

end

lemma cell_bytes_numeral:
  "cell_bytes a (Suc 0) = {a}" "cell_bytes a 2 = {a, a + 1}" "cell_bytes a 4 = {a, a + 1, a + 2, a + 3}"
  "cell_bytes a 8 = {a, a + 1, a + 2, a + 3, a + 4, a + 5, a + 6, a + 7}"
  by (auto simp: cell_bytes_def lessThan_nat_numeral lessThan_Suc numeral_eq_Suc)

lemma offset_neq [simp]:
  "a + 1 \<noteq> (a :: u32)" "a \<noteq> a + 1" "a + numeral k + 1 \<noteq> (a :: u32) + numeral k"
  by simp_all

interpretation byte_cell: memory_cell "\<lambda>a m. m a" do_put_mem_byte 1
  by unfold_locales (auto simp: do_put_mem_byte_def cell_bytes_numeral)

lemma word_of_bytes: "push_bit 8 (ucast (ucast (drop_bit 8 v) :: u8)) OR ucast (ucast v :: u8) = (v :: u16)"
  by (rule bit_word_eqI) (auto simp: bit_simps)

lemma long_of_words: "push_bit 16 (ucast (ucast (drop_bit 16 v) :: u16)) OR ucast (ucast v :: u16) = (v :: u32)"
  by (rule bit_word_eqI) (auto simp: bit_simps)

lemma quad_of_longs: "push_bit 32 (ucast (ucast (drop_bit 32 v) :: u32)) OR ucast (ucast v :: u32) = (v :: 64 word)"
  by (rule bit_word_eqI) (auto simp: bit_simps)

interpretation word_cell: memory_cell do_get_mem_word do_put_mem_word 2
  by unfold_locales (auto simp: do_get_mem_word_def do_put_mem_word_def cell_bytes_numeral word_of_bytes)

lemma long_halves: "cell_bytes a 2 \<inter> cell_bytes (a + 2) 2 = {}" "cell_bytes a 4 = cell_bytes a 2 \<union> cell_bytes (a + 2) 2"
  by (auto simp: cell_bytes_numeral add.assoc)

lemma quad_halves: "cell_bytes a 4 \<inter> cell_bytes (a + 4) 4 = {}" "cell_bytes a 8 = cell_bytes a 4 \<union> cell_bytes (a + 4) 4"
  by (auto simp: cell_bytes_numeral add.assoc)

interpretation long_cell: memory_cell do_get_mem_long do_put_mem_long 4
proof
  show "do_get_mem_long a (do_put_mem_long a v m) = v" for a v m
    using word_cell.put_put_other_get [of a "a + 2"]
    by (simp add: do_get_mem_long_def do_put_mem_long_def word_cell.get_put long_halves long_of_words)
  show "do_put_mem_long a v m b = m b" if "b \<notin> cell_bytes a 4" for a v m b
    using that by (simp add: do_put_mem_long_def long_halves word_cell.put_outside)
  show "do_get_mem_long a m = do_get_mem_long a m'" if "\<And>b. b \<in> cell_bytes a 4 \<Longrightarrow> m b = m' b" for a m m'
    unfolding do_get_mem_long_def
    using word_cell.get_cong [of a m m'] word_cell.get_cong [of "a + 2" m m'] that by (simp add: long_halves)
qed

interpretation quad_cell: memory_cell do_get_mem_quad do_put_mem_quad 8
proof
  show "do_get_mem_quad a (do_put_mem_quad a v m) = v" for a v m
    using long_cell.put_put_other_get [of a "a + 4"]
    by (simp add: do_get_mem_quad_def do_put_mem_quad_def long_cell.get_put quad_halves quad_of_longs)
  show "do_put_mem_quad a v m b = m b" if "b \<notin> cell_bytes a 8" for a v m b
    using that by (simp add: do_put_mem_quad_def quad_halves long_cell.put_outside)
  show "do_get_mem_quad a m = do_get_mem_quad a m'" if "\<And>b. b \<in> cell_bytes a 8 \<Longrightarrow> m b = m' b" for a m m'
    unfolding do_get_mem_quad_def
    using long_cell.get_cong [of a m m'] long_cell.get_cong [of "a + 4" m m'] that by (simp add: quad_halves)
qed

section \<open>Writable memory\<close>

lemma writable_readable:
  "test_ram_boundary addr n super True s \<Longrightarrow> test_ram_boundary addr n super write s"
  by (auto simp: test_ram_boundary_def Let_def split: if_splits)

lemma test_ram_boundary_mem [simp]:
  "test_ram_boundary addr n super write (mem_update f s) = test_ram_boundary addr n super write s"
  by (simp add: test_ram_boundary_def)

lemma uint_offset: "uint a + int i < 2 ^ 32 \<Longrightarrow> uint (a + of_nat i :: u32) = uint a + int i"
  by (simp add: uint_word_ariths unsigned_of_nat take_bit_eq_mod zmod_int mod_simps)

lemma video_end:
  assumes "memory_map_ok s" "0 < n" "n \<le> 8"
  shows "addr \<le> VideoRAMBase s + ARANYMVRAMSIZE - of_nat n \<longleftrightarrow>
    uint addr + int n \<le> uint (VideoRAMBase s) + 0x100000"
proof -
  have "uint (VideoRAMBase s + ARANYMVRAMSIZE - of_nat n) = uint (VideoRAMBase s + of_nat (0x100000 - n))"
    using assms(3) by (simp add: of_nat_diff algebra_simps)
  also have "\<dots> = uint (VideoRAMBase s) + int (0x100000 - n)"
    using assms by (intro uint_offset) (simp add: memory_map_ok_def of_nat_diff)
  finally show ?thesis using assms(3) by (auto simp: word_le_def of_nat_diff)
qed

lemma writable_unprotected:
  assumes map: "memory_map_ok s" and n: "0 < n" "n \<le> 8" and w: "test_ram_boundary addr n (regs_s s) True s"
  shows "cell_bytes addr n \<inter> protected s = {}"
proof -
  have cases: "FastRAM_BEGIN \<le> uint addr \<and> uint addr + int n \<le> 2 ^ 32 \<or>
      8 \<le> uint addr \<and> uint addr + int n \<le> STRAM_END \<and> (regs_s s \<or> 0x800 \<le> uint addr)"
    using map w video_end [OF map n, of addr]
    by (auto simp: test_ram_boundary_def Let_def memory_map_ok_def word_le_def split: if_splits)
  have "addr + of_nat i \<notin> protected s" if "i < n" for i
    using cases that uint_offset [of addr i] by (auto simp: protected_def)
  then show ?thesis by (auto simp: cell_bytes_def)
qed

section \<open>Accesses of every width\<close>

locale phys_access = memory_cell get put n
  for get :: "u32 \<Rightarrow> (u32 \<Rightarrow> u8) \<Rightarrow> 'v" and put n +
  fixes pget :: "'a phys_scheme base_io list \<Rightarrow> u32 \<Rightarrow> ('a phys_scheme, 'v) io"
    and pput :: "'a phys_scheme base_io list \<Rightarrow> u32 \<Rightarrow> 'v \<Rightarrow> ('a phys_scheme, unit) io"
  assumes width: "0 < n" "n \<le> 8"
    and pget_ram: "\<not> is_hw (addr_24 addr) \<Longrightarrow>
      pget arhw addr = io_bind (check_ram_boundary (addr_24 addr) n False) (\<lambda>_. io_get (\<lambda>s. get (addr_24 addr) (mem s)))"
    and pput_ram: "\<not> is_hw (addr_24 addr) \<Longrightarrow>
      pput arhw addr v = io_bind (check_ram_boundary (addr_24 addr) n True) (\<lambda>_. io_modify (mem_update (put (addr_24 addr) v)))"
begin

lemma put_get:
  assumes "\<not> is_hw (addr_24 addr)" "pput arhw addr v s = (Some (), t)"
  shows "pget arhw addr t = (Some v, t)"
  using assms
  by (auto simp: pput_ram pget_ram io_simps get_put dest: writable_readable split: if_splits)

lemma put_frame:
  assumes "\<not> is_hw (addr_24 addr)" "pput arhw addr v s = (r, t)" "b \<notin> cell_bytes (addr_24 addr) n"
  shows "mem t b = mem s b"
  using assms by (auto simp: pput_ram io_simps put_outside split: if_splits)

lemma put_fault:
  assumes "\<not> is_hw (addr_24 addr)" "pput arhw addr v s = (None, t)"
  shows "mem t = mem s \<and> mmu_fault_addr t = addr_24 addr"
  using assms by (auto simp: pput_ram io_simps split: if_splits)

lemma put_protected:
  assumes "memory_map_ok s" "\<not> is_hw (addr_24 addr)" "b \<in> protected s"
  shows "mem (snd (pput arhw addr v s)) b = mem s b"
proof (cases "test_ram_boundary (addr_24 addr) n (regs_s s) True s")
  case True
  then have "b \<notin> cell_bytes (addr_24 addr) n" using writable_unprotected [OF assms(1) width] assms(3) by blast
  with assms(2) show ?thesis using put_frame [of addr arhw v s] by (metis prod.collapse)
qed (use assms(2) in \<open>simp add: pput_ram io_simps\<close>)

end

lemmas phys_defs = phys_get_byte_def phys_get_word_def phys_get_long_def phys_get_quad_def
  phys_put_byte_def phys_put_word_def phys_put_long_def phys_put_quad_def

interpretation byte_access: phys_access "\<lambda>a m. m a" do_put_mem_byte 1 phys_get_byte phys_put_byte
  by unfold_locales (simp_all add: phys_defs Let_def)

interpretation word_access: phys_access do_get_mem_word do_put_mem_word 2 phys_get_word phys_put_word
  by unfold_locales (simp_all add: phys_defs Let_def)

interpretation long_access: phys_access do_get_mem_long do_put_mem_long 4 phys_get_long phys_put_long
  by unfold_locales (simp_all add: phys_defs Let_def)

interpretation quad_access: phys_access do_get_mem_quad do_put_mem_quad 8 phys_get_quad phys_put_quad
  by unfold_locales (simp_all add: phys_defs Let_def)

text \<open>
  C15. Memory keeps what is written: a write of any width that does not raise a bus error, to an address
  outside the hardware registers, is read back by a read of the same width, which changes nothing.
\<close>

theorem phys_write_read:
  assumes "\<not> is_hw (addr_24 addr)"
  shows "(phys_put_byte arhw addr b s = (Some (), t) \<longrightarrow> phys_get_byte arhw addr t = (Some b, t)) \<and>
    (phys_put_word arhw addr w s = (Some (), t) \<longrightarrow> phys_get_word arhw addr t = (Some w, t)) \<and>
    (phys_put_long arhw addr l s = (Some (), t) \<longrightarrow> phys_get_long arhw addr t = (Some l, t)) \<and>
    (phys_put_quad arhw addr q s = (Some (), t) \<longrightarrow> phys_get_quad arhw addr t = (Some q, t))"
  using byte_access.put_get [OF assms] word_access.put_get [OF assms] long_access.put_get [OF assms]
    quad_access.put_get [OF assms] by blast

theorem phys_write_read_witness:
  "phys_get_long [] 0x12345 (snd (phys_put_long [] 0x12345 0xdeadbeef phys_new)) =
    (Some 0xdeadbeef, snd (phys_put_long [] 0x12345 0xdeadbeef phys_new))"
proof -
  have "\<not> is_hw (addr_24 0x12345)" by (simp add: is_hw_def addr_24_def)
  moreover have "fst (phys_put_long [] 0x12345 0xdeadbeef phys_new) = Some ()"
    by (simp add: phys_defs io_simps is_hw_def addr_24_def test_ram_boundary_def phys_new_def)
  ultimately show ?thesis
    using phys_write_read [of "0x12345" "[]" 0 phys_new "snd (phys_put_long [] 0x12345 0xdeadbeef phys_new)"]
    by (metis prod.collapse)
qed



end
