(* ===== verification/Cpu_Mmu.thy ===== *)
theory Cpu_Mmu
  imports Cpu_Memory
begin

text \<open>
  The memory management unit of the 68040 (\<^verbatim>\<open>src/uae_cpu/cpummu.cpp\<close>, \<^verbatim>\<open>cpummu.h\<close> and the accesses
  through it in \<^verbatim>\<open>memory-uae.h\<close>): transparent translation, the three-level table search, and the two
  levels of address translation cache in front of it.
\<close>

section \<open>State\<close>

record mmu_atc_line =
  tag :: u16
  tt :: bool
  valid_data :: bool
  valid_inst :: bool
  glob :: bool
  modified :: bool
  write_protect :: bool
  hw :: bool
  bus_fault :: bool
  atc_phys :: u32

text \<open>
  A pointer to a line of the first level is its place \<^verbatim>\<open>[super][data][write][index]\<close> in
  \<^verbatim>\<open>atc_l1\<close>, one to a line of the second level its place in \<^verbatim>\<open>atc_l2[super][index]\<close>.
  \<open>current_atc\<close> is the index of the half of \<^verbatim>\<open>atc_l1\<close> that the pointer of this name points to.
  \<open>beyond_atc\<close> is set by a write behind the end of \<^verbatim>\<open>atc_l1\<close>.
\<close>

type_synonym l1_ref = "bool \<times> bool \<times> bool \<times> nat"
type_synonym l2_ref = "bool \<times> nat"

record mmu = phys +
  areg :: "nat \<Rightarrow> u32"
  sfc :: u32
  dfc :: u32
  urp :: u32
  srp :: u32
  tc :: u32
  mmu_enabled :: bool
  mmu_pagesize_8k :: bool
  dtt0 :: u32
  dtt1 :: u32
  itt0 :: u32
  itt1 :: u32
  mmusr :: u32
  wb3_data :: u32
  wb3_status :: u16
  atc_l1 :: "l1_ref \<Rightarrow> mmu_atc_line"
  current_atc :: bool
  atc_l2 :: "l2_ref \<Rightarrow> mmu_atc_line"
  beyond_atc :: bool

datatype wordsizes = sz_byte | sz_word | sz_long

datatype ttr_match = TTR_NO_MATCH | TTR_NO_WRITE | TTR_OK_MATCH

abbreviation MMU_TTR_BIT_ENABLED :: u32 where "MMU_TTR_BIT_ENABLED \<equiv> 0x8000"
abbreviation MMU_TTR_BIT_SFIELD_ENABLED :: u32 where "MMU_TTR_BIT_SFIELD_ENABLED \<equiv> 0x4000"
abbreviation MMU_TTR_BIT_SFIELD_SUPER :: u32 where "MMU_TTR_BIT_SFIELD_SUPER \<equiv> 0x2000"
abbreviation MMU_TTR_BIT_WRITE_PROTECT :: u32 where "MMU_TTR_BIT_WRITE_PROTECT \<equiv> 4"
abbreviation MMU_TTR_LOGICAL_BASE :: u32 where "MMU_TTR_LOGICAL_BASE \<equiv> 0xff000000"
abbreviation MMU_TTR_LOGICAL_MASK :: u32 where "MMU_TTR_LOGICAL_MASK \<equiv> 0x00ff0000"

abbreviation MMU_DES_WP :: u32 where "MMU_DES_WP \<equiv> 4"
abbreviation MMU_DES_USED :: u32 where "MMU_DES_USED \<equiv> 8"
abbreviation MMU_DES_MODIFIED :: u32 where "MMU_DES_MODIFIED \<equiv> 16"
abbreviation MMU_ROOT_PTR_ADDR_MASK :: u32 where "MMU_ROOT_PTR_ADDR_MASK \<equiv> 0xfffffe00"
abbreviation MMU_PTR_PAGE_ADDR_MASK_8 :: u32 where "MMU_PTR_PAGE_ADDR_MASK_8 \<equiv> 0xffffff80"
abbreviation MMU_PTR_PAGE_ADDR_MASK_4 :: u32 where "MMU_PTR_PAGE_ADDR_MASK_4 \<equiv> 0xffffff00"
abbreviation MMU_PAGE_INDIRECT_MASK :: u32 where "MMU_PAGE_INDIRECT_MASK \<equiv> 0xfffffffc"

abbreviation MMU_MMUSR_B :: u32 where "MMU_MMUSR_B \<equiv> 0x800"
abbreviation MMU_MMUSR_G :: u32 where "MMU_MMUSR_G \<equiv> 0x400"
abbreviation MMU_MMUSR_Ux :: u32 where "MMU_MMUSR_Ux \<equiv> 0x300"
abbreviation MMU_MMUSR_S :: u32 where "MMU_MMUSR_S \<equiv> 0x80"
abbreviation MMU_MMUSR_CM :: u32 where "MMU_MMUSR_CM \<equiv> 0x60"
abbreviation MMU_MMUSR_M :: u32 where "MMU_MMUSR_M \<equiv> 0x10"
abbreviation MMU_MMUSR_W :: u32 where "MMU_MMUSR_W \<equiv> 4"
abbreviation MMU_MMUSR_T :: u32 where "MMU_MMUSR_T \<equiv> 2"
abbreviation MMU_MMUSR_R :: u32 where "MMU_MMUSR_R \<equiv> 1"

abbreviation MMU_SSW_RW :: u16 where "MMU_SSW_RW \<equiv> 0x100"
abbreviation MMU_SSW_ATC :: u16 where "MMU_SSW_ATC \<equiv> 0x400"
abbreviation MMU_SSW_MA :: u16 where "MMU_SSW_MA \<equiv> 0x800"

definition ATC_TAG :: "u32 \<Rightarrow> u16" where
  "ATC_TAG addr = ucast (drop_bit 18 addr)"

definition ATC_L1_INDEX :: "u32 \<Rightarrow> nat" where
  "ATC_L1_INDEX addr = unat (drop_bit 12 addr) mod 256"

definition ATC_L2_INDEX :: "u32 \<Rightarrow> nat" where
  "ATC_L2_INDEX addr = unat (drop_bit 12 addr XOR drop_bit 20 addr) mod 4096"

section \<open>Transparent translation\<close>

definition mmu_set_ttr :: "nat \<Rightarrow> u32 \<Rightarrow> 'a mmu_scheme \<Rightarrow> 'a mmu_scheme option" where
  "mmu_set_ttr regno val s =
     (if regno = 4 then Some (s\<lparr>itt0 := val\<rparr>)
      else if regno = 5 then Some (s\<lparr>itt1 := val\<rparr>)
      else if regno = 6 then Some (s\<lparr>dtt0 := val\<rparr>)
      else if regno = 7 then Some (s\<lparr>dtt1 := val\<rparr>)
      else None)"

definition mmu_set_mmusr :: "u32 \<Rightarrow> 'a mmu_scheme \<Rightarrow> 'a mmu_scheme" where
  "mmu_set_mmusr val s = s\<lparr>mmusr := val\<rparr>"

definition transparent_region :: "u32 \<Rightarrow> u32 \<Rightarrow> u32" where
  "transparent_region baseaddr sz =
     baseaddr AND MMU_TTR_LOGICAL_BASE OR drop_bit 8 ((baseaddr + sz - 1) AND MMU_TTR_LOGICAL_BASE) OR
     MMU_TTR_BIT_ENABLED"

definition mmu_make_transparent_region :: "u32 \<Rightarrow> u32 \<Rightarrow> bool \<Rightarrow> 'a mmu_scheme \<Rightarrow> 'a mmu_scheme" where
  "mmu_make_transparent_region baseaddr sz datamode s =
     (if (if datamode then dtt1 s else itt1 s) AND MMU_TTR_BIT_ENABLED = 0
      then if datamode then s\<lparr>dtt1 := transparent_region baseaddr sz\<rparr>
           else s\<lparr>itt1 := transparent_region baseaddr sz\<rparr>
      else if (if datamode then dtt0 s else itt0 s) AND MMU_TTR_BIT_ENABLED = 0
      then if datamode then s\<lparr>dtt0 := transparent_region baseaddr sz\<rparr>
           else s\<lparr>itt0 := transparent_region baseaddr sz\<rparr>
      else s)"

definition mmu_do_match_ttr :: "u32 \<Rightarrow> u32 \<Rightarrow> bool \<Rightarrow> ttr_match" where
  "mmu_do_match_ttr ttr addr super =
     (if ttr AND MMU_TTR_BIT_ENABLED \<noteq> 0
      then let msb = ucast (drop_bit 24 ((addr XOR ttr) AND MMU_TTR_LOGICAL_BASE)) :: u8;
               msk = ucast (drop_bit 16 (ttr AND MMU_TTR_LOGICAL_MASK)) :: u8
           in if msb AND NOT msk = 0
              then if ttr AND MMU_TTR_BIT_SFIELD_ENABLED = 0 \<and>
                      (ttr AND MMU_TTR_BIT_SFIELD_SUPER = 0) \<noteq> (\<not> super)
                   then TTR_NO_MATCH
                   else if ttr AND MMU_TTR_BIT_WRITE_PROTECT \<noteq> 0 then TTR_NO_WRITE else TTR_OK_MATCH
              else TTR_NO_MATCH
      else TTR_NO_MATCH)"

definition mmu_match_ttr :: "u32 \<Rightarrow> bool \<Rightarrow> bool \<Rightarrow> 'a mmu_scheme \<Rightarrow> ttr_match" where
  "mmu_match_ttr addr super data s =
     (if data
      then let res = mmu_do_match_ttr (dtt0 s) addr super
           in if res = TTR_NO_MATCH then mmu_do_match_ttr (dtt1 s) addr super else res
      else let res = mmu_do_match_ttr (itt0 s) addr super
           in if res = TTR_NO_MATCH then mmu_do_match_ttr (itt1 s) addr super else res)"

section \<open>Faults\<close>

definition mmu_get_fc :: "bool \<Rightarrow> bool \<Rightarrow> u16" where
  "mmu_get_fc super data = (if super then 4 else 0) OR (if data then 1 else 2)"

definition mmu_bus_error :: "u32 \<Rightarrow> u16 \<Rightarrow> bool \<Rightarrow> wordsizes \<Rightarrow> ('a mmu_scheme, 'b) io" where
  "mmu_bus_error addr fc write sz s =
     (let ssw = fc AND 7;
          ssw = ssw OR (case sz of sz_byte \<Rightarrow> 0x20 | sz_word \<Rightarrow> 0x40 | sz_long \<Rightarrow> 0);
          s = s\<lparr>wb3_status := if write then 0x80 OR ssw else 0\<rparr>;
          ssw = (if \<not> write then ssw OR MMU_SSW_RW else ssw)
      in io_throw (s\<lparr>mmu_fault_addr := addr, mmu_ssw := ssw OR MMU_SSW_ATC\<rparr>))"

section \<open>Table search\<close>

definition set_used :: "'a mmu_scheme base_io list \<Rightarrow> u32 \<Rightarrow> u32 \<Rightarrow> ('a mmu_scheme, unit) io" where
  "set_used arhw desc_addr desc =
     (if desc AND MMU_DES_USED = 0 then phys_put_long arhw desc_addr (desc OR MMU_DES_USED) else io_return ())"

definition update_page_descriptor ::
  "'a mmu_scheme base_io list \<Rightarrow> u32 \<Rightarrow> u32 \<Rightarrow> bool \<Rightarrow> ('a mmu_scheme, u32) io" where
  "update_page_descriptor arhw desc_addr desc write =
     (let used = io_bind (phys_put_long arhw desc_addr (desc OR MMU_DES_USED)) (\<lambda>_. io_return (desc OR MMU_DES_USED));
          both = MMU_DES_USED OR MMU_DES_MODIFIED
      in if write
         then if desc AND MMU_DES_WP \<noteq> 0
              then if desc AND MMU_DES_USED = 0 then used else io_return desc
              else if desc AND both \<noteq> both
              then io_bind (phys_put_long arhw desc_addr (desc OR both)) (\<lambda>_. io_return (desc OR both))
              else io_return desc
         else if desc AND MMU_DES_USED = 0 then used else io_return desc)"

definition root_desc_addr :: "u32 \<Rightarrow> u32 \<Rightarrow> u32" where
  "root_desc_addr desc addr = (desc AND MMU_ROOT_PTR_ADDR_MASK) OR (drop_bit 23 addr AND 0x1fc)"

definition ptr_desc_addr :: "u32 \<Rightarrow> u32 \<Rightarrow> u32" where
  "ptr_desc_addr desc addr = (desc AND MMU_ROOT_PTR_ADDR_MASK) OR (drop_bit 16 addr AND 0x1fc)"

definition page_desc_addr :: "bool \<Rightarrow> u32 \<Rightarrow> u32 \<Rightarrow> u32" where
  "page_desc_addr pagesize_8k desc addr =
     (if pagesize_8k then (desc AND MMU_PTR_PAGE_ADDR_MASK_8) OR (drop_bit 11 addr AND 0x7c)
      else (desc AND MMU_PTR_PAGE_ADDR_MASK_4) OR (drop_bit 10 addr AND 0xfc))"

definition search_page ::
  "'a mmu_scheme base_io list \<Rightarrow> u32 \<Rightarrow> u32 \<Rightarrow> u32 \<Rightarrow> bool \<Rightarrow> ('a mmu_scheme, u32) io" where
  "search_page arhw addr root ptr write =
     io_bind (io_get (\<lambda>s. page_desc_addr (mmu_pagesize_8k s) ptr addr)) (\<lambda>page_addr.
     io_bind (phys_get_long arhw page_addr) (\<lambda>page.
     io_bind (if page AND 3 = 2
              then io_bind (phys_get_long arhw (page AND MMU_PAGE_INDIRECT_MASK)) (\<lambda>desc.
                     io_return (page AND MMU_PAGE_INDIRECT_MASK, desc))
              else io_return (page_addr, page)) (\<lambda>(desc_addr, desc).
       if desc AND 1 = 0 then io_return desc
       else update_page_descriptor arhw desc_addr (desc OR ((root OR ptr) AND MMU_DES_WP)) write)))"

definition search_ptr :: "'a mmu_scheme base_io list \<Rightarrow> u32 \<Rightarrow> u32 \<Rightarrow> bool \<Rightarrow> ('a mmu_scheme, u32) io" where
  "search_ptr arhw addr root write =
     io_bind (phys_get_long arhw (ptr_desc_addr root addr)) (\<lambda>ptr.
       if ptr AND 2 = 0 then io_return 0
       else io_bind (set_used arhw (ptr_desc_addr root addr) ptr) (\<lambda>_. search_page arhw addr root ptr write))"

definition mmu_lookup_pagetable ::
  "'a mmu_scheme base_io list \<Rightarrow> u32 \<Rightarrow> bool \<Rightarrow> bool \<Rightarrow> ('a mmu_scheme, u32) io" where
  "mmu_lookup_pagetable arhw addr super write =
     io_bind (io_get (\<lambda>s. root_desc_addr (if super then srp s else urp s) addr)) (\<lambda>root_addr.
     io_bind (phys_get_long arhw root_addr) (\<lambda>root.
       if root AND 2 = 0 then io_return 0
       else io_bind (set_used arhw root_addr root) (\<lambda>_. search_ptr arhw addr root write)))"

section \<open>Second level of the cache\<close>

definition l2_update :: "l2_ref \<Rightarrow> (mmu_atc_line \<Rightarrow> mmu_atc_line) \<Rightarrow> 'a mmu_scheme \<Rightarrow> 'a mmu_scheme" where
  "l2_update r f s = s\<lparr>atc_l2 := (atc_l2 s)(r := f (atc_l2 s r))\<rparr>"

definition l1_update :: "l1_ref \<Rightarrow> (mmu_atc_line \<Rightarrow> mmu_atc_line) \<Rightarrow> 'a mmu_scheme \<Rightarrow> 'a mmu_scheme" where
  "l1_update r f s = s\<lparr>atc_l1 := (atc_l1 s)(r := f (atc_l1 s r))\<rparr>"

definition valid_for :: "bool \<Rightarrow> mmu_atc_line \<Rightarrow> bool" where
  "valid_for data l = (if data then valid_data l else valid_inst l)"

definition transparent_line :: "ttr_match \<Rightarrow> bool \<Rightarrow> bool \<Rightarrow> mmu_atc_line \<Rightarrow> mmu_atc_line" where
  "transparent_line res same data l =
     l\<lparr>tt := True, valid_data := data \<or> same, valid_inst := \<not> data \<or> same, glob := True, modified := True,
       write_protect := (res = TTR_NO_WRITE), atc_phys := 0\<rparr>"

definition page_line :: "bool \<Rightarrow> u32 \<Rightarrow> u32 \<Rightarrow> mmu_atc_line \<Rightarrow> mmu_atc_line" where
  "page_line pagesize_8k desc addr l =
     l\<lparr>valid_data := True, valid_inst := True,
       atc_phys := if pagesize_8k then (desc AND NOT 0x1fff) - (addr AND NOT 0x1fff)
                   else (desc AND NOT 0xfff) - (addr AND NOT 0xfff),
       glob := (desc AND MMU_MMUSR_G \<noteq> 0), modified := (desc AND MMU_MMUSR_M \<noteq> 0),
       write_protect := (desc AND MMU_MMUSR_W \<noteq> 0)\<rparr>"

text \<open>No exception leaves the function: a bus error of the table search makes the line invalid.\<close>

definition mmu_fill_atc_l2 ::
  "'a mmu_scheme base_io list \<Rightarrow> u32 \<Rightarrow> bool \<Rightarrow> bool \<Rightarrow> bool \<Rightarrow> l2_ref \<Rightarrow> 'a mmu_scheme \<Rightarrow> u32 \<times> 'a mmu_scheme" where
  "mmu_fill_atc_l2 arhw addr super data write r s =
     (let s = l2_update r (\<lambda>l. l\<lparr>tag := ATC_TAG addr, hw := False, bus_fault := False\<rparr>) s;
          res = mmu_match_ttr addr super data s
      in if res \<noteq> TTR_NO_MATCH
         then (0, l2_update r (transparent_line res (mmu_match_ttr addr super (\<not> data) s = res) data) s)
         else
           let s = l2_update r (\<lambda>l. l\<lparr>tt := False\<rparr>) s
           in if \<not> mmu_enabled s
              then (0, l2_update r (\<lambda>l. l\<lparr>valid_data := True, valid_inst := True, glob := True, modified := True,
                         write_protect := False, atc_phys := 0\<rparr>) s)
              else
                let fail = l2_update r (\<lambda>l. l\<lparr>valid_data := False, valid_inst := False, glob := False\<rparr>)
                in case mmu_lookup_pagetable arhw addr super write s of
                     (None, s) \<Rightarrow> (0, fail s)
                   | (Some desc, s) \<Rightarrow>
                       if desc AND 1 = 0 \<or> \<not> super \<and> desc AND MMU_MMUSR_S \<noteq> 0 then (desc, fail s)
                       else (desc, l2_update r (page_line (mmu_pagesize_8k s) desc addr) s))"

text \<open>
  The loop at \<^verbatim>\<open>restart\<close>: a write to a page that is writable but not yet marked as modified repeats the
  table search. The result tells whether the line may be used.
\<close>

definition wants_restart :: "bool \<Rightarrow> bool \<Rightarrow> mmu_atc_line \<Rightarrow> bool" where
  "wants_restart data write l \<longleftrightarrow> valid_for data l \<and> write \<and> \<not> write_protect l \<and> \<not> modified l"

lemma mask_bit:
  fixes x :: u32
  shows "x AND 1 = 0 \<longleftrightarrow> \<not> bit x 0" "x AND 2 = 0 \<longleftrightarrow> \<not> bit x 1" "x AND 4 = 0 \<longleftrightarrow> \<not> bit x 2" "x AND 8 = 0 \<longleftrightarrow> \<not> bit x 3"
    "x AND 0x10 = 0 \<longleftrightarrow> \<not> bit x 4" "x AND 0x80 = 0 \<longleftrightarrow> \<not> bit x 7" "x AND 0x400 = 0 \<longleftrightarrow> \<not> bit x 10"
  using and_exp_eq_0_iff_not_bit [of x 0] and_exp_eq_0_iff_not_bit [of x 1] and_exp_eq_0_iff_not_bit [of x 2]
    and_exp_eq_0_iff_not_bit [of x 3] and_exp_eq_0_iff_not_bit [of x 4] and_exp_eq_0_iff_not_bit [of x 7]
    and_exp_eq_0_iff_not_bit [of x 10] by simp_all

lemma bit_24: "bit (24 :: u32) n \<longleftrightarrow> n = 3 \<or> n = 4"
proof -
  have "(24 :: u32) = 2 ^ 3 OR 2 ^ 4" by simp
  then show ?thesis by (simp only: bit_or_iff bit_exp_iff) auto
qed

lemma and_24: "(x :: u32) AND 24 = 24 \<longleftrightarrow> bit x 3 \<and> bit x 4"
proof -
  have "x AND 24 = 24 \<longleftrightarrow> (\<forall>n. bit (x AND 24) n = bit (24 :: u32) n)" by (metis bit_word_eqI)
  then show ?thesis unfolding bit_and_iff bit_24 by auto
qed

lemma bit_8: "bit (8 :: u32) n \<longleftrightarrow> n = 3"
proof -
  have "(8 :: u32) = 2 ^ 3" by simp
  then show ?thesis by (simp only: bit_exp_iff) auto
qed

lemma bit_or_mask:
  fixes x :: u32
  shows "bit (x OR 8) n \<longleftrightarrow> bit x n \<or> n = 3" "bit (x OR 24) n \<longleftrightarrow> bit x n \<or> n = 3 \<or> n = 4"
  unfolding bit_or_iff bit_24 bit_8 by auto

lemma update_page_modified:
  assumes "update_page_descriptor arhw a desc True s = (Some d, t)"
  shows "bit d 2 \<or> bit d 4"
  using assms
  by (auto simp: update_page_descriptor_def Let_def io_defs mask_bit and_24 bit_or_mask
      split: if_splits option.splits prod.splits)

lemma io_bind_Some: "io_bind m f s = (Some y, t) \<Longrightarrow> (\<And>x u. m s = (Some x, u) \<Longrightarrow> f x u = (Some y, t) \<Longrightarrow> P) \<Longrightarrow> P"
  by (auto simp: io_bind_def split: option.splits prod.splits)

lemma lookup_modified:
  assumes "mmu_lookup_pagetable arhw addr super True s = (Some d, t)" "bit d 0"
  shows "bit d 2 \<or> bit d 4"
  using assms unfolding mmu_lookup_pagetable_def search_ptr_def search_page_def
  by (elim io_bind_Some)
    (auto simp: io_return_def mask_bit split: if_splits elim!: io_bind_Some dest!: update_page_modified)

lemma fill_no_restart:
  "\<not> wants_restart data True (atc_l2 (snd (mmu_fill_atc_l2 arhw addr super data True r s)) r)"
proof -
  have page: "\<not> wants_restart data True (page_line k d addr l)"
    if "mmu_lookup_pagetable arhw addr super True u = (Some d, t)" "\<not> d AND 1 = 0" for k d l u t
    using lookup_modified [OF that(1)] that(2) by (auto simp: wants_restart_def page_line_def mask_bit)
  show ?thesis
    by (simp add: mmu_fill_atc_l2_def Let_def l2_update_def page split: option.split prod.split)
      (auto simp: wants_restart_def valid_for_def transparent_line_def page)
qed

function atc_restart ::
  "'a mmu_scheme base_io list \<Rightarrow> u32 \<Rightarrow> bool \<Rightarrow> bool \<Rightarrow> bool \<Rightarrow> l2_ref \<Rightarrow> 'a mmu_scheme \<Rightarrow> bool \<times> 'a mmu_scheme" where
  "atc_restart arhw addr super data write r s =
     (if \<not> valid_for data (atc_l2 s r) then (False, s)
      else if write \<and> write_protect (atc_l2 s r) then (False, s)
      else if write \<and> \<not> modified (atc_l2 s r)
      then atc_restart arhw addr super data write r (snd (mmu_fill_atc_l2 arhw addr super data write r s))
      else (True, s))"
  by auto
termination
  by (relation "measure (\<lambda>(arhw, addr, super, data, write, r, s). of_bool (wants_restart data write (atc_l2 s r)))")
    (auto simp: fill_no_restart, auto simp: wants_restart_def)

declare atc_restart.simps [simp del]

section \<open>First level of the cache\<close>

definition mmu_fill_atc_l1 ::
  "'a mmu_scheme base_io list \<Rightarrow> u32 \<Rightarrow> bool \<Rightarrow> bool \<Rightarrow> bool \<Rightarrow> l1_ref \<Rightarrow> 'a mmu_scheme \<Rightarrow> bool \<times> 'a mmu_scheme" where
  "mmu_fill_atc_l1 arhw addr super data write l1 s =
     (let r = (super, ATC_L2_INDEX addr);
          s = (if tag (atc_l2 s r) \<noteq> ATC_TAG addr then snd (mmu_fill_atc_l2 arhw addr super data write r s) else s);
          (usable, s) = atc_restart arhw addr super data write r s;
          fail = (\<lambda>s. (False, l1_update l1 (\<lambda>l. l\<lparr>tag := NOT (tag l)\<rparr>) s))
      in if \<not> usable then fail s
         else
           let s = l1_update l1 (\<lambda>_. atc_l2 s r) s;
               phys_addr = addr + atc_phys (atc_l1 s l1)
           in if phys_addr AND 0xfff00000 = 0x00f00000 then fail (l1_update l1 (\<lambda>l. l\<lparr>hw := True\<rparr>) s)
              else if phys_addr AND 0xfff00000 = 0xfff00000
              then fail (l1_update l1 (\<lambda>l. l\<lparr>hw := True, atc_phys := atc_phys l - 0xff000000\<rparr>) s)
              else if \<not> test_ram_boundary phys_addr 1 super write s
              then fail (l1_update l1 (\<lambda>l. l\<lparr>bus_fault := True\<rparr>) s)
              else (True, s))"

definition mmu_user_lookup :: "u32 \<Rightarrow> bool \<Rightarrow> bool \<Rightarrow> bool \<Rightarrow> 'a mmu_scheme \<Rightarrow> bool \<times> l1_ref" where
  "mmu_user_lookup addr super data write s =
     (let page = drop_bit 12 addr;
          cl = (super, data, write, unat page mod 256)
      in (ucast (tag (atc_l1 s cl)) = drop_bit 6 page, cl))"

definition mmu_lookup :: "u32 \<Rightarrow> bool \<Rightarrow> bool \<Rightarrow> 'a mmu_scheme \<Rightarrow> bool \<times> l1_ref" where
  "mmu_lookup addr data write s =
     (let page = drop_bit 12 addr;
          cl = (current_atc s, data, write, unat page mod 256)
      in (ucast (tag (atc_l1 s cl)) = drop_bit 6 page, cl))"

definition mmu_translate ::
  "'a mmu_scheme base_io list \<Rightarrow> u32 \<Rightarrow> bool \<Rightarrow> bool \<Rightarrow> bool \<Rightarrow> ('a mmu_scheme, u32) io" where
  "mmu_translate arhw addr super data write s =
     (let r = (super, ATC_L2_INDEX addr);
          s = snd (mmu_fill_atc_l2 arhw addr super data write r s)
      in if \<not> valid_for data (atc_l2 s r) then io_throw s else (Some (addr + atc_phys (atc_l2 s r)), s))"

section \<open>Accesses that miss the first level\<close>

text \<open>The functions of the three widths differ in the access to the device and to memory.\<close>

definition mmu_get_slow ::
  "(u32 \<Rightarrow> ('a mmu_scheme, 'v) io) \<Rightarrow> (u32 \<Rightarrow> (u32 \<Rightarrow> u8) \<Rightarrow> 'v) \<Rightarrow> 'a mmu_scheme base_io list \<Rightarrow>
     u32 \<Rightarrow> bool \<Rightarrow> bool \<Rightarrow> wordsizes \<Rightarrow> l1_ref \<Rightarrow> ('a mmu_scheme, 'v) io" where
  "mmu_get_slow HWget do_get arhw addr super data sz cl s =
     (let redo = (\<lambda>s. if hw (atc_l1 s cl) then HWget (atc_phys (atc_l1 s cl) + addr) s
                      else mmu_bus_error addr (mmu_get_fc super data) False sz s)
      in if tag (atc_l1 s cl) = NOT (ATC_TAG addr) then redo s
         else
           let (ok, s) = mmu_fill_atc_l1 arhw addr super data False cl s
           in if \<not> ok then redo s else (Some (do_get (atc_phys (atc_l1 s cl) + addr) (mem s)), s))"

definition mmu_put_slow ::
  "(u32 \<Rightarrow> 'v \<Rightarrow> ('a mmu_scheme, unit) io) \<Rightarrow> (u32 \<Rightarrow> 'v \<Rightarrow> (u32 \<Rightarrow> u8) \<Rightarrow> u32 \<Rightarrow> u8) \<Rightarrow> ('v \<Rightarrow> u32) \<Rightarrow>
     'a mmu_scheme base_io list \<Rightarrow> u32 \<Rightarrow> 'v \<Rightarrow> bool \<Rightarrow> bool \<Rightarrow> wordsizes \<Rightarrow> l1_ref \<Rightarrow> ('a mmu_scheme, unit) io" where
  "mmu_put_slow HWput do_put wb3 arhw addr val super data sz cl s =
     (let redo = (\<lambda>s. if hw (atc_l1 s cl) then HWput (atc_phys (atc_l1 s cl) + addr) val s
                      else mmu_bus_error addr (mmu_get_fc super data) True sz (s\<lparr>wb3_data := wb3 val\<rparr>))
      in if tag (atc_l1 s cl) = NOT (ATC_TAG addr) then redo s
         else
           let (ok, s) = mmu_fill_atc_l1 arhw addr super data True cl s
           in if \<not> ok then redo s else (Some (), mem_update (do_put (atc_phys (atc_l1 s cl) + addr) val) s))"

definition mmu_get_byte_slow where
  "mmu_get_byte_slow arhw = mmu_get_slow (HWget_b arhw) (\<lambda>a m. m a) arhw"

definition mmu_get_word_slow where
  "mmu_get_word_slow arhw = mmu_get_slow (HWget_w arhw) do_get_mem_word arhw"

definition mmu_get_long_slow where
  "mmu_get_long_slow arhw = mmu_get_slow (HWget_l arhw) do_get_mem_long arhw"

definition mmu_put_byte_slow where
  "mmu_put_byte_slow arhw = mmu_put_slow (HWput_b arhw) do_put_mem_byte ucast arhw"

definition mmu_put_word_slow where
  "mmu_put_word_slow arhw = mmu_put_slow (HWput_w arhw) do_put_mem_word ucast arhw"

definition mmu_put_long_slow where
  "mmu_put_long_slow arhw = mmu_put_slow (HWput_l arhw) do_put_mem_long id arhw"

definition mmu_get_quad_slow ::
  "'a mmu_scheme base_io list \<Rightarrow> u32 \<Rightarrow> bool \<Rightarrow> bool \<Rightarrow> l1_ref \<Rightarrow> ('a mmu_scheme, 64 word) io" where
  "mmu_get_quad_slow arhw addr super data cl =
     io_bind (mmu_get_long_slow arhw addr super data sz_long cl) (\<lambda>h.
     io_bind (mmu_get_long_slow arhw (addr + 4) super data sz_long cl) (\<lambda>l.
       io_return (push_bit 32 (ucast h) OR ucast l)))"

definition mmu_put_quad_slow ::
  "'a mmu_scheme base_io list \<Rightarrow> u32 \<Rightarrow> 64 word \<Rightarrow> bool \<Rightarrow> bool \<Rightarrow> l1_ref \<Rightarrow> ('a mmu_scheme, unit) io" where
  "mmu_put_quad_slow arhw addr val super data cl =
     io_bind (mmu_put_long_slow arhw addr (ucast (drop_bit 32 val)) super data sz_long cl) (\<lambda>_.
       mmu_put_long_slow arhw (addr + 4) (ucast val) super data sz_long cl)"

section \<open>Accesses of the processor\<close>

definition is_unaligned :: "u32 \<Rightarrow> u32 \<Rightarrow> bool" where
  "is_unaligned addr sz \<longleftrightarrow> addr AND (sz - 1) \<noteq> 0 \<and> (addr XOR (addr + sz - 1)) AND 0x1000 \<noteq> 0"

text \<open>An access through the first level; \<open>lookup\<close> is \<^verbatim>\<open>mmu_lookup\<close> or \<^verbatim>\<open>mmu_user_lookup\<close>.\<close>

definition mmu_get_fast ::
  "(u32 \<Rightarrow> (u32 \<Rightarrow> u8) \<Rightarrow> 'v) \<Rightarrow> ('a mmu_scheme \<Rightarrow> bool \<times> l1_ref) \<Rightarrow> u32 \<Rightarrow> (l1_ref \<Rightarrow> ('a mmu_scheme, 'v) io) \<Rightarrow>
     ('a mmu_scheme, 'v) io" where
  "mmu_get_fast do_get lookup addr slow s =
     (let (hit, cl) = lookup s
      in if hit then (Some (do_get (atc_phys (atc_l1 s cl) + addr) (mem s)), s) else slow cl s)"

definition mmu_put_fast ::
  "(u32 \<Rightarrow> 'v \<Rightarrow> (u32 \<Rightarrow> u8) \<Rightarrow> u32 \<Rightarrow> u8) \<Rightarrow> ('a mmu_scheme \<Rightarrow> bool \<times> l1_ref) \<Rightarrow> u32 \<Rightarrow> 'v \<Rightarrow>
     (l1_ref \<Rightarrow> ('a mmu_scheme, unit) io) \<Rightarrow> ('a mmu_scheme, unit) io" where
  "mmu_put_fast do_put lookup addr val slow s =
     (let (hit, cl) = lookup s
      in if hit then (Some (), mem_update (do_put (atc_phys (atc_l1 s cl) + addr) val) s) else slow cl s)"

definition mmu_get_byte :: "'a mmu_scheme base_io list \<Rightarrow> u32 \<Rightarrow> bool \<Rightarrow> wordsizes \<Rightarrow> ('a mmu_scheme, u8) io" where
  "mmu_get_byte arhw addr data sz =
     mmu_get_fast (\<lambda>a m. m a) (mmu_lookup addr data False) addr
       (\<lambda>cl s. mmu_get_byte_slow arhw addr (regs_s s) data sz cl s)"

definition mmu_get_word :: "'a mmu_scheme base_io list \<Rightarrow> u32 \<Rightarrow> bool \<Rightarrow> wordsizes \<Rightarrow> ('a mmu_scheme, u16) io" where
  "mmu_get_word arhw addr data sz =
     mmu_get_fast do_get_mem_word (mmu_lookup addr data False) addr
       (\<lambda>cl s. mmu_get_word_slow arhw addr (regs_s s) data sz cl s)"

definition mmu_get_long :: "'a mmu_scheme base_io list \<Rightarrow> u32 \<Rightarrow> bool \<Rightarrow> wordsizes \<Rightarrow> ('a mmu_scheme, u32) io" where
  "mmu_get_long arhw addr data sz =
     mmu_get_fast do_get_mem_long (mmu_lookup addr data False) addr
       (\<lambda>cl s. mmu_get_long_slow arhw addr (regs_s s) data sz cl s)"

definition mmu_put_byte :: "'a mmu_scheme base_io list \<Rightarrow> u32 \<Rightarrow> u8 \<Rightarrow> bool \<Rightarrow> wordsizes \<Rightarrow> ('a mmu_scheme, unit) io" where
  "mmu_put_byte arhw addr val data sz =
     mmu_put_fast do_put_mem_byte (mmu_lookup addr data True) addr val
       (\<lambda>cl s. mmu_put_byte_slow arhw addr val (regs_s s) data sz cl s)"

definition mmu_put_word :: "'a mmu_scheme base_io list \<Rightarrow> u32 \<Rightarrow> u16 \<Rightarrow> bool \<Rightarrow> wordsizes \<Rightarrow> ('a mmu_scheme, unit) io" where
  "mmu_put_word arhw addr val data sz =
     mmu_put_fast do_put_mem_word (mmu_lookup addr data True) addr val
       (\<lambda>cl s. mmu_put_word_slow arhw addr val (regs_s s) data sz cl s)"

definition mmu_put_long :: "'a mmu_scheme base_io list \<Rightarrow> u32 \<Rightarrow> u32 \<Rightarrow> bool \<Rightarrow> wordsizes \<Rightarrow> ('a mmu_scheme, unit) io" where
  "mmu_put_long arhw addr val data sz =
     mmu_put_fast do_put_mem_long (mmu_lookup addr data True) addr val
       (\<lambda>cl s. mmu_put_long_slow arhw addr val (regs_s s) data sz cl s)"

text \<open>The result type of \<^verbatim>\<open>mmu_get_quad\<close> and the value of \<^verbatim>\<open>put_quad\<close> have 32 bits in the source.\<close>

definition mmu_get_quad :: "'a mmu_scheme base_io list \<Rightarrow> u32 \<Rightarrow> bool \<Rightarrow> ('a mmu_scheme, u32) io" where
  "mmu_get_quad arhw addr data =
     io_bind (mmu_get_fast do_get_mem_quad (mmu_lookup addr data False) addr
        (\<lambda>cl s. mmu_get_quad_slow arhw addr (regs_s s) data cl s))
       (\<lambda>q. io_return (ucast q))"

definition mmu_put_quad :: "'a mmu_scheme base_io list \<Rightarrow> u32 \<Rightarrow> 64 word \<Rightarrow> bool \<Rightarrow> ('a mmu_scheme, unit) io" where
  "mmu_put_quad arhw addr val data =
     mmu_put_fast do_put_mem_quad (mmu_lookup addr data True) addr val
       (\<lambda>cl s. mmu_put_quad_slow arhw addr val (regs_s s) data cl s)"

definition get_quad :: "'a mmu_scheme base_io list \<Rightarrow> u32 \<Rightarrow> ('a mmu_scheme, 64 word) io" where
  "get_quad arhw addr = io_bind (mmu_get_quad arhw addr True) (\<lambda>v. io_return (ucast v))"

definition put_quad :: "'a mmu_scheme base_io list \<Rightarrow> u32 \<Rightarrow> u32 \<Rightarrow> ('a mmu_scheme, unit) io" where
  "put_quad arhw addr val = mmu_put_quad arhw addr (ucast val) True"

section \<open>Accesses across a page boundary\<close>

text \<open>The handlers of a fault in the second part of the access.\<close>

definition misaligned_read :: "u32 \<Rightarrow> ('a mmu_scheme, 'b) io" where
  "misaligned_read addr s = io_throw (s\<lparr>mmu_fault_addr := addr, mmu_ssw := mmu_ssw s OR MMU_SSW_MA\<rparr>)"

definition misaligned_write :: "u32 \<Rightarrow> u32 \<Rightarrow> ('a mmu_scheme, 'b) io" where
  "misaligned_write addr val s =
     (let s = s\<lparr>wb3_data := val\<rparr>
      in io_throw (if mmu_fault_addr s \<noteq> addr
                   then s\<lparr>mmu_fault_addr := addr, mmu_ssw := mmu_ssw s OR MMU_SSW_MA\<rparr> else s))"

definition word_unaligned :: "(u32 \<Rightarrow> ('a mmu_scheme, u8) io) \<Rightarrow> u32 \<Rightarrow> ('a mmu_scheme, u16) io" where
  "word_unaligned get_b addr =
     io_bind (get_b addr) (\<lambda>h.
     io_catch (io_bind (get_b (addr + 1)) (\<lambda>l. io_return (push_bit 8 (ucast h) OR ucast l)))
       (misaligned_read addr))"

definition long_unaligned ::
  "(u32 \<Rightarrow> ('a mmu_scheme, u8) io) \<Rightarrow> (u32 \<Rightarrow> ('a mmu_scheme, u16) io) \<Rightarrow> u32 \<Rightarrow> ('a mmu_scheme, u32) io" where
  "long_unaligned get_b get_w addr =
     (if addr AND 1 = 0
      then io_bind (get_w addr) (\<lambda>h.
           io_catch (io_bind (get_w (addr + 2)) (\<lambda>l. io_return (push_bit 16 (ucast h) OR ucast l)))
             (misaligned_read addr))
      else io_bind (get_b addr) (\<lambda>b0.
           io_catch
             (io_bind (get_b (addr + 1)) (\<lambda>b1.
              io_bind (get_b (addr + 2)) (\<lambda>b2.
              io_bind (get_b (addr + 3)) (\<lambda>b3.
                let res = push_bit 8 (ucast b0);
                    res = push_bit 8 (res OR ucast b1);
                    res = push_bit 8 (res OR ucast b2)
                in io_return (res OR ucast b3)))))
             (misaligned_read addr)))"

definition put_word_unaligned :: "(u32 \<Rightarrow> u8 \<Rightarrow> ('a mmu_scheme, unit) io) \<Rightarrow> u32 \<Rightarrow> u16 \<Rightarrow> ('a mmu_scheme, unit) io" where
  "put_word_unaligned put_b addr val =
     io_bind (put_b addr (ucast (drop_bit 8 val))) (\<lambda>_. put_b (addr + 1) (ucast val))"

definition put_long_unaligned ::
  "(u32 \<Rightarrow> u8 \<Rightarrow> ('a mmu_scheme, unit) io) \<Rightarrow> (u32 \<Rightarrow> u16 \<Rightarrow> ('a mmu_scheme, unit) io) \<Rightarrow>
     u32 \<Rightarrow> u32 \<Rightarrow> ('a mmu_scheme, unit) io" where
  "put_long_unaligned put_b put_w addr val =
     (if addr AND 1 = 0
      then io_bind (put_w addr (ucast (drop_bit 16 val))) (\<lambda>_. put_w (addr + 2) (ucast val))
      else io_bind (put_b addr (ucast (drop_bit 24 val))) (\<lambda>_.
           io_bind (put_b (addr + 1) (ucast (drop_bit 16 val))) (\<lambda>_.
           io_bind (put_b (addr + 2) (ucast (drop_bit 8 val))) (\<lambda>_.
             put_b (addr + 3) (ucast val)))))"

definition mmu_get_word_unaligned :: "'a mmu_scheme base_io list \<Rightarrow> u32 \<Rightarrow> bool \<Rightarrow> ('a mmu_scheme, u16) io" where
  "mmu_get_word_unaligned arhw addr data = word_unaligned (\<lambda>a. mmu_get_byte arhw a data sz_word) addr"

definition mmu_get_long_unaligned :: "'a mmu_scheme base_io list \<Rightarrow> u32 \<Rightarrow> bool \<Rightarrow> ('a mmu_scheme, u32) io" where
  "mmu_get_long_unaligned arhw addr data =
     long_unaligned (\<lambda>a. mmu_get_byte arhw a data sz_long) (\<lambda>a. mmu_get_word arhw a data sz_long) addr"

definition mmu_put_word_unaligned :: "'a mmu_scheme base_io list \<Rightarrow> u32 \<Rightarrow> u16 \<Rightarrow> bool \<Rightarrow> ('a mmu_scheme, unit) io" where
  "mmu_put_word_unaligned arhw addr val data =
     io_catch (put_word_unaligned (\<lambda>a v. mmu_put_byte arhw a v data sz_word) addr val)
       (misaligned_write addr (ucast val))"

definition mmu_put_long_unaligned :: "'a mmu_scheme base_io list \<Rightarrow> u32 \<Rightarrow> u32 \<Rightarrow> bool \<Rightarrow> ('a mmu_scheme, unit) io" where
  "mmu_put_long_unaligned arhw addr val data =
     io_catch (put_long_unaligned (\<lambda>a v. mmu_put_byte arhw a v data sz_long)
         (\<lambda>a v. mmu_put_word arhw a v data sz_long) addr val)
       (misaligned_write addr val)"

definition get_byte :: "'a mmu_scheme base_io list \<Rightarrow> u32 \<Rightarrow> ('a mmu_scheme, u8) io" where
  "get_byte arhw addr = mmu_get_byte arhw addr True sz_byte"

definition get_word :: "'a mmu_scheme base_io list \<Rightarrow> u32 \<Rightarrow> ('a mmu_scheme, u16) io" where
  "get_word arhw addr =
     (if is_unaligned addr 2 then mmu_get_word_unaligned arhw addr True else mmu_get_word arhw addr True sz_word)"

definition get_long :: "'a mmu_scheme base_io list \<Rightarrow> u32 \<Rightarrow> ('a mmu_scheme, u32) io" where
  "get_long arhw addr =
     (if is_unaligned addr 4 then mmu_get_long_unaligned arhw addr True else mmu_get_long arhw addr True sz_long)"

definition put_byte :: "'a mmu_scheme base_io list \<Rightarrow> u32 \<Rightarrow> u8 \<Rightarrow> ('a mmu_scheme, unit) io" where
  "put_byte arhw addr val = mmu_put_byte arhw addr val True sz_byte"

definition put_word :: "'a mmu_scheme base_io list \<Rightarrow> u32 \<Rightarrow> u16 \<Rightarrow> ('a mmu_scheme, unit) io" where
  "put_word arhw addr val =
     (if is_unaligned addr 2 then mmu_put_word_unaligned arhw addr val True
      else mmu_put_word arhw addr val True sz_word)"

definition put_long :: "'a mmu_scheme base_io list \<Rightarrow> u32 \<Rightarrow> u32 \<Rightarrow> ('a mmu_scheme, unit) io" where
  "put_long arhw addr val =
     (if is_unaligned addr 4 then mmu_put_long_unaligned arhw addr val True
      else mmu_put_long arhw addr val True sz_long)"

definition valid_address :: "'a mmu_scheme base_io list \<Rightarrow> u32 \<Rightarrow> bool \<Rightarrow> nat \<Rightarrow> ('a mmu_scheme, bool) io" where
  "valid_address arhw addr write sz s =
     io_catch
       (io_bind (mmu_translate arhw addr (regs_s s) True write) (\<lambda>a.
        io_bind (check_ram_boundary a sz write) (\<lambda>_. io_return True)))
       (io_return False) s"

section \<open>The MOVES instruction\<close>

definition mmu_get_user_byte where
  "mmu_get_user_byte arhw addr super data sz =
     mmu_get_fast (\<lambda>a m. m a) (mmu_user_lookup addr super data False) addr (mmu_get_byte_slow arhw addr super data sz)"

definition mmu_get_user_word where
  "mmu_get_user_word arhw addr super data sz =
     mmu_get_fast do_get_mem_word (mmu_user_lookup addr super data False) addr (mmu_get_word_slow arhw addr super data sz)"

definition mmu_get_user_long where
  "mmu_get_user_long arhw addr super data sz =
     mmu_get_fast do_get_mem_long (mmu_user_lookup addr super data False) addr (mmu_get_long_slow arhw addr super data sz)"

definition mmu_put_user_byte where
  "mmu_put_user_byte arhw addr val super data sz =
     mmu_put_fast do_put_mem_byte (mmu_user_lookup addr super data True) addr val
       (mmu_put_byte_slow arhw addr val super data sz)"

definition mmu_put_user_word where
  "mmu_put_user_word arhw addr val super data sz =
     mmu_put_fast do_put_mem_word (mmu_user_lookup addr super data True) addr val
       (mmu_put_word_slow arhw addr val super data sz)"

definition mmu_put_user_long where
  "mmu_put_user_long arhw addr val super data sz =
     mmu_put_fast do_put_mem_long (mmu_user_lookup addr super data True) addr val
       (mmu_put_long_slow arhw addr val super data sz)"

definition fc_super :: "u32 \<Rightarrow> bool" where "fc_super fc \<longleftrightarrow> fc AND 4 \<noteq> 0"
definition fc_data :: "u32 \<Rightarrow> bool" where "fc_data fc \<longleftrightarrow> fc AND 3 \<noteq> 2"

definition sfc_get_byte :: "'a mmu_scheme base_io list \<Rightarrow> u32 \<Rightarrow> ('a mmu_scheme, u8) io" where
  "sfc_get_byte arhw addr s = mmu_get_user_byte arhw addr (fc_super (sfc s)) (fc_data (sfc s)) sz_byte s"

definition sfc_get_word :: "'a mmu_scheme base_io list \<Rightarrow> u32 \<Rightarrow> ('a mmu_scheme, u16) io" where
  "sfc_get_word arhw addr s =
     (let super = fc_super (sfc s); data = fc_data (sfc s)
      in if \<not> is_unaligned addr 2 then mmu_get_user_word arhw addr super data sz_word s
         else word_unaligned (\<lambda>a. mmu_get_user_byte arhw a super data sz_word) addr s)"

definition sfc_get_long :: "'a mmu_scheme base_io list \<Rightarrow> u32 \<Rightarrow> ('a mmu_scheme, u32) io" where
  "sfc_get_long arhw addr s =
     (let super = fc_super (sfc s); data = fc_data (sfc s)
      in if \<not> is_unaligned addr 4 then mmu_get_user_long arhw addr super data sz_long s
         else long_unaligned (\<lambda>a. mmu_get_user_byte arhw a super data sz_long)
                (\<lambda>a. mmu_get_user_word arhw a super data sz_long) addr s)"

definition dfc_put_byte :: "'a mmu_scheme base_io list \<Rightarrow> u32 \<Rightarrow> u8 \<Rightarrow> ('a mmu_scheme, unit) io" where
  "dfc_put_byte arhw addr val s =
     io_catch (mmu_put_user_byte arhw addr val (fc_super (dfc s)) (fc_data (dfc s)) sz_byte)
       (\<lambda>s. io_throw (s\<lparr>wb3_data := ucast val\<rparr>)) s"

definition dfc_put_word :: "'a mmu_scheme base_io list \<Rightarrow> u32 \<Rightarrow> u16 \<Rightarrow> ('a mmu_scheme, unit) io" where
  "dfc_put_word arhw addr val s =
     (let super = fc_super (dfc s); data = fc_data (dfc s)
      in io_catch
           (if \<not> is_unaligned addr 2 then mmu_put_user_word arhw addr val super data sz_word
            else put_word_unaligned (\<lambda>a v. mmu_put_user_byte arhw a v super data sz_word) addr val)
           (misaligned_write addr (ucast val)) s)"

definition dfc_put_long :: "'a mmu_scheme base_io list \<Rightarrow> u32 \<Rightarrow> u32 \<Rightarrow> ('a mmu_scheme, unit) io" where
  "dfc_put_long arhw addr val s =
     (let super = fc_super (dfc s); data = fc_data (dfc s)
      in io_catch
           (if \<not> is_unaligned addr 4 then mmu_put_user_long arhw addr val super data sz_long
            else put_long_unaligned (\<lambda>a v. mmu_put_user_byte arhw a v super data sz_long)
                   (\<lambda>a v. mmu_put_user_word arhw a v super data sz_long) addr val)
           (misaligned_write addr val) s)"

section \<open>Control of the unit\<close>

definition flush_line :: "bool \<Rightarrow> mmu_atc_line \<Rightarrow> mmu_atc_line" where
  "flush_line global l = (if global \<or> \<not> glob l then l\<lparr>tag := 0x8000\<rparr> else l)"

definition flush_l1 :: "bool \<Rightarrow> nat \<Rightarrow> bool \<Rightarrow> 'a mmu_scheme \<Rightarrow> 'a mmu_scheme" where
  "flush_l1 super i global s =
     s\<lparr>atc_l1 := (\<lambda>(super', data, write, j).
         if super' = super \<and> j = i then flush_line global (atc_l1 s (super', data, write, j))
         else atc_l1 s (super', data, write, j))\<rparr>"

text \<open>
  The pointer of the loops over \<^verbatim>\<open>atc_l1\<close> is not set back between them: the one for the second half of
  an 8-kilobyte page runs over the lines that follow those of \<open>super\<close>, which are the ones of the
  supervisor for a user page and lie behind the array for a supervisor page.
\<close>

definition mmu_flush_atc :: "u32 \<Rightarrow> bool \<Rightarrow> bool \<Rightarrow> 'a mmu_scheme \<Rightarrow> 'a mmu_scheme" where
  "mmu_flush_atc addr super global s =
     (let s = flush_l1 super (ATC_L1_INDEX addr) global s;
          s = (if mmu_pagesize_8k s
               then if super then s\<lparr>beyond_atc := True\<rparr>
                    else flush_l1 True (ATC_L1_INDEX addr XOR 1) global s
               else s);
          i = ATC_L2_INDEX addr;
          s = l2_update (super, i) (flush_line global) s
      in if mmu_pagesize_8k s then l2_update (super, i XOR 1) (flush_line global) s else s)"

definition mmu_flush_atc_all :: "bool \<Rightarrow> 'a mmu_scheme \<Rightarrow> 'a mmu_scheme" where
  "mmu_flush_atc_all global s =
     s\<lparr>atc_l1 := flush_line global \<circ> atc_l1 s, atc_l2 := flush_line global \<circ> atc_l2 s\<rparr>"

text \<open>The result of \<^verbatim>\<open>mmu_op\<close> is \<open>True\<close> when it calls \<^verbatim>\<open>op_illg\<close>.\<close>

definition mmu_ptest :: "'a mmu_scheme base_io list \<Rightarrow> u32 \<Rightarrow> bool \<Rightarrow> bool \<Rightarrow> 'a mmu_scheme \<Rightarrow> 'a mmu_scheme" where
  "mmu_ptest arhw addr super write s =
     (let s = mmu_flush_atc addr super True s;
          data = fc_data (dfc s);
          r = (super, ATC_L2_INDEX addr);
          (desc, s) = mmu_fill_atc_l2 arhw addr super data write r s
      in if \<not> valid_for data (atc_l2 s r) then s\<lparr>mmusr := MMU_MMUSR_B\<rparr>
         else if tt (atc_l2 s r) then s\<lparr>mmusr := MMU_MMUSR_T OR MMU_MMUSR_R\<rparr>
         else s\<lparr>mmusr := (desc AND (NOT 0xfff OR MMU_MMUSR_G OR MMU_MMUSR_Ux OR MMU_MMUSR_S OR MMU_MMUSR_CM OR
                MMU_MMUSR_M OR MMU_MMUSR_W)) OR MMU_MMUSR_R\<rparr>)"

definition mmu_op :: "'a mmu_scheme base_io list \<Rightarrow> u32 \<Rightarrow> 'a mmu_scheme \<Rightarrow> bool \<times> 'a mmu_scheme" where
  "mmu_op arhw opcode s =
     (let super = fc_super (dfc s);
          addr = areg s (unat (opcode AND 7))
      in if opcode AND 0xfe0 = 0x0500
         then let global = (opcode AND 8 \<noteq> 0)
              in (False, if opcode AND 16 \<noteq> 0 then mmu_flush_atc_all global s else mmu_flush_atc addr super global s)
         else if opcode AND 0x0fd8 = 0x548 then (False, mmu_ptest arhw addr super (opcode AND 32 = 0) s)
         else (True, s))"

definition mmu_reset :: "'a mmu_scheme \<Rightarrow> 'a mmu_scheme" where
  "mmu_reset s =
     (mmu_flush_atc_all True s)\<lparr>urp := 0, srp := 0, itt0 := 0, itt1 := 0, dtt0 := 0, dtt1 := 0, mmusr := 0\<rparr>"

definition mmu_set_tc :: "u16 \<Rightarrow> 'a mmu_scheme \<Rightarrow> 'a mmu_scheme" where
  "mmu_set_tc val s =
     (if tc s = ucast val then s
      else mmu_flush_atc_all True
        (s\<lparr>tc := ucast val, mmu_enabled := (val AND 0x8000 \<noteq> 0), mmu_pagesize_8k := (val AND 0x4000 \<noteq> 0)\<rparr>))"

definition mmu_set_super :: "bool \<Rightarrow> 'a mmu_scheme \<Rightarrow> 'a mmu_scheme" where
  "mmu_set_super super s = s\<lparr>current_atc := super\<rparr>"

section \<open>Specification of the table search\<close>

text \<open>
  The search as a function of memory: all descriptors are those in memory before it. It marks the root and
  the pointer descriptor as used; the page descriptor it returns inherits the write protection of the upper
  levels and is marked as used, and as modified by a write to an unprotected page. It goes back to memory
  when one of these marks was missing.
\<close>

definition table_search :: "bool \<Rightarrow> bool \<Rightarrow> u32 \<Rightarrow> u32 \<Rightarrow> (u32 \<Rightarrow> u8) \<Rightarrow> u32 \<times> (u32 \<Rightarrow> u8)" where
  "table_search pagesize_8k write rp addr m =
     (let ra = root_desc_addr rp addr; root = do_get_mem_long ra m;
          qa = ptr_desc_addr root addr; ptr = do_get_mem_long qa m;
          pa = page_desc_addr pagesize_8k ptr addr; page = do_get_mem_long pa m;
          da = (if page AND 3 = 2 then page AND MMU_PAGE_INDIRECT_MASK else pa); desc = do_get_mem_long da m;
          m1 = do_put_mem_long ra (root OR MMU_DES_USED) m;
          m2 = do_put_mem_long qa (ptr OR MMU_DES_USED) m1;
          d = desc OR ((root OR ptr) AND MMU_DES_WP);
          d' = d OR (if write \<and> \<not> bit d 2 then 24 else 8)
      in if \<not> bit root 1 then (0, m)
         else if \<not> bit ptr 1 then (0, m1)
         else if \<not> bit desc 0 then (desc, m2)
         else (d', if d' = d then m2 else do_put_mem_long da d' m2))"

definition search_addrs :: "bool \<Rightarrow> u32 \<Rightarrow> u32 \<Rightarrow> (u32 \<Rightarrow> u8) \<Rightarrow> u32 list" where
  "search_addrs pagesize_8k rp addr m =
     (let ra = root_desc_addr rp addr; root = do_get_mem_long ra m;
          qa = ptr_desc_addr root addr; ptr = do_get_mem_long qa m;
          pa = page_desc_addr pagesize_8k ptr addr; page = do_get_mem_long pa m
      in if \<not> bit root 1 then [ra]
         else if \<not> bit ptr 1 then [ra, qa]
         else if page AND 3 = 2 then [ra, qa, pa, page AND MMU_PAGE_INDIRECT_MASK]
         else [ra, qa, pa])"

text \<open>A long word of plain memory that the processor may write.\<close>

definition ram_long :: "'a phys_scheme \<Rightarrow> u32 \<Rightarrow> bool" where
  "ram_long s a \<longleftrightarrow> addr_24 a = a \<and> \<not> is_hw a \<and> test_ram_boundary a 4 (regs_s s) True s"

definition tables_ok :: "u32 \<Rightarrow> bool \<Rightarrow> 'a mmu_scheme \<Rightarrow> bool" where
  "tables_ok addr super s \<longleftrightarrow>
     (let as = search_addrs (mmu_pagesize_8k s) (if super then srp s else urp s) addr (mem s)
      in distinct as \<and> list_all (ram_long s) as)"

definition aligned :: "u32 \<Rightarrow> bool" where
  "aligned a \<longleftrightarrow> take_bit 2 a = 0"

section \<open>Specification of the accesses\<close>

text \<open>
  The translation of an address without the caches: the physical address, or \<open>None\<close> when the access must
  fault, and memory after the table search.
\<close>

definition page_mask :: "bool \<Rightarrow> u32" where
  "page_mask pagesize_8k = (if pagesize_8k then 0x1fff else 0xfff)"

definition translation :: "u32 \<Rightarrow> bool \<Rightarrow> bool \<Rightarrow> bool \<Rightarrow> 'a mmu_scheme \<Rightarrow> u32 option \<times> (u32 \<Rightarrow> u8)" where
  "translation addr super data w s =
     (if mmu_match_ttr addr super data s \<noteq> TTR_NO_MATCH
      then (if w \<and> mmu_match_ttr addr super data s = TTR_NO_WRITE then None else Some addr, mem s)
      else if \<not> mmu_enabled s then (Some addr, mem s)
      else
        let (d, m) = table_search (mmu_pagesize_8k s) w (if super then srp s else urp s) addr (mem s);
            msk = page_mask (mmu_pagesize_8k s)
        in (if \<not> bit d 0 \<or> \<not> super \<and> bit d 7 \<or> w \<and> bit d 2 then None
            else Some ((d AND NOT msk) + (addr AND msk)), m))"

definition searchable :: "u32 \<Rightarrow> bool \<Rightarrow> bool \<Rightarrow> 'a mmu_scheme \<Rightarrow> bool" where
  "searchable addr super data s \<longleftrightarrow>
     mmu_match_ttr addr super data s \<noteq> TTR_NO_MATCH \<or> \<not> mmu_enabled s \<or> tables_ok addr super s"

definition same_page :: "u32 \<Rightarrow> u32 \<Rightarrow> bool" where
  "same_page a b \<longleftrightarrow> drop_bit 12 a = drop_bit 12 b"

text \<open>The second level has no line for an address, or the first level has one that maps it to \<open>pa\<close>.\<close>

definition l1_ref :: "u32 \<Rightarrow> bool \<Rightarrow> bool \<Rightarrow> bool \<Rightarrow> l1_ref" where
  "l1_ref addr super data w = (super, data, w, ATC_L1_INDEX addr)"

definition atc_misses :: "u32 \<Rightarrow> bool \<Rightarrow> bool \<Rightarrow> bool \<Rightarrow> 'a mmu_scheme \<Rightarrow> bool" where
  "atc_misses addr super data w s \<longleftrightarrow>
     tag (atc_l1 s (l1_ref addr super data w)) \<noteq> ATC_TAG addr \<and>
     tag (atc_l1 s (l1_ref addr super data w)) \<noteq> NOT (ATC_TAG addr) \<and>
     tag (atc_l2 s (super, ATC_L2_INDEX addr)) \<noteq> ATC_TAG addr"

definition atc_holds :: "u32 \<Rightarrow> bool \<Rightarrow> bool \<Rightarrow> bool \<Rightarrow> u32 \<Rightarrow> 'a mmu_scheme \<Rightarrow> bool" where
  "atc_holds addr super data w pa s \<longleftrightarrow>
     tag (atc_l1 s (l1_ref addr super data w)) = ATC_TAG addr \<and>
     atc_phys (atc_l1 s (l1_ref addr super data w)) + addr = pa"

definition fill_ok :: "u32 \<Rightarrow> bool \<Rightarrow> bool \<Rightarrow> u32 option \<Rightarrow> mmu_atc_line \<Rightarrow> bool" where
  "fill_ok addr data w r l \<longleftrightarrow> tag l = ATC_TAG addr \<and> \<not> hw l \<and> \<not> bus_fault l \<and>
     (valid_for data l \<and> \<not> (w \<and> write_protect l) \<longleftrightarrow> r \<noteq> None) \<and> \<not> wants_restart data w l \<and>
     (\<forall>pa. r = Some pa \<longrightarrow> atc_phys l + addr = pa)"

definition ram_target :: "bool \<Rightarrow> bool \<Rightarrow> u32 \<Rightarrow> 'a mmu_scheme \<Rightarrow> bool" where
  "ram_target super w pa s \<longleftrightarrow> pa AND 0xfff00000 \<noteq> 0x00f00000 \<and> pa AND 0xfff00000 \<noteq> 0xfff00000 \<and>
     test_ram_boundary pa 1 super w s"

text \<open>What an access sees when the caches hold nothing for its page.\<close>

definition fresh_access :: "u32 \<Rightarrow> bool \<Rightarrow> bool \<Rightarrow> 'a mmu_scheme \<Rightarrow> bool" where
  "fresh_access addr data w s \<longleftrightarrow> current_atc s = regs_s s \<and> searchable addr (regs_s s) data s \<and>
     atc_misses addr (regs_s s) data w s"

text \<open>
  A machine with a flushed cache in user mode: the page at 0 is mapped to \<open>0x20000\<close>, the one at \<open>0x1000\<close> is
  write-protected, the one at \<open>0x2000\<close> is not resident.
\<close>

definition empty_line :: mmu_atc_line where
  "empty_line = \<lparr>tag = 0x8000, tt = False, valid_data = False, valid_inst = False, glob = False, modified = False,
     write_protect = False, hw = False, bus_fault = False, atc_phys = 0\<rparr>"

definition mmu_new :: mmu where
  "mmu_new = \<lparr>mem = do_put_mem_long 0x10404 0x21005 (do_put_mem_long 0x10400 0x20001 (do_put_mem_long 0x10200 0x10402
       (do_put_mem_long 0x10000 0x10202 (\<lambda>_. 0)))),
     FastRAMSize = 0x1000000, VideoRAMBase = 0x2000000, regs_s = False, mmu_fault_addr = 0, mmu_ssw = 0,
     areg = (\<lambda>_. 0), sfc = 0, dfc = 0, urp = 0x10000, srp = 0x10000, tc = 0x8000, mmu_enabled = True,
     mmu_pagesize_8k = False, dtt0 = 0, dtt1 = 0, itt0 = 0, itt1 = 0, mmusr = 0, wb3_data = 0, wb3_status = 0,
     atc_l1 = (\<lambda>_. empty_line), current_atc = False, atc_l2 = (\<lambda>_. empty_line), beyond_atc = False\<rparr>"

text \<open>\<open>io_keeps P m\<close>: the access \<open>m\<close> keeps the property \<open>P\<close> of the state.\<close>

definition io_keeps :: "('s \<Rightarrow> bool) \<Rightarrow> ('s, 'a) io \<Rightarrow> bool" where
  "io_keeps P m \<longleftrightarrow> (\<forall>s. P s \<longrightarrow> P (snd (m s)))"

definition device_keeps :: "('s \<Rightarrow> bool) \<Rightarrow> 's base_io \<Rightarrow> bool" where
  "device_keeps P d \<longleftrightarrow> (\<forall>a. io_keeps P (io_read d a) \<and> io_keeps P (io_readW d a) \<and> io_keeps P (io_readL d a)) \<and>
     (\<forall>a v. io_keeps P (io_write d a v)) \<and> (\<forall>a v. io_keeps P (io_writeW d a v)) \<and> (\<forall>a v. io_keeps P (io_writeL d a v))"

text \<open>
  Every line of the first level that a write can use was filled from a page that is not protected and is
  marked as modified. The tags \<open>0x8000\<close> and \<open>0x7fff\<close> are those of a flushed line.
\<close>

definition writable_line :: "bool \<Rightarrow> mmu_atc_line \<Rightarrow> bool" where
  "writable_line data l \<longleftrightarrow>
     tag l = 0x8000 \<or> tag l = 0x7fff \<or> valid_for data l \<and> \<not> write_protect l \<and> modified l"

definition l1_writable :: "'a mmu_scheme \<Rightarrow> bool" where
  "l1_writable s \<longleftrightarrow> (\<forall>super data i. writable_line data (atc_l1 s (super, data, True, i)))"

inductive mmu_step :: "'a mmu_scheme base_io list \<Rightarrow> 'a mmu_scheme \<Rightarrow> 'a mmu_scheme \<Rightarrow> bool" for arhw where
  get_byte: "mmu_step arhw s (snd (mmu_get_byte arhw addr data sz s))"
| get_word: "mmu_step arhw s (snd (mmu_get_word arhw addr data sz s))"
| get_long: "mmu_step arhw s (snd (mmu_get_long arhw addr data sz s))"
| get_quad: "mmu_step arhw s (snd (mmu_get_quad arhw addr data s))"
| put_byte: "mmu_step arhw s (snd (mmu_put_byte arhw addr b data sz s))"
| put_word: "mmu_step arhw s (snd (mmu_put_word arhw addr v data sz s))"
| put_long: "mmu_step arhw s (snd (mmu_put_long arhw addr l data sz s))"
| put_quad: "mmu_step arhw s (snd (mmu_put_quad arhw addr q data s))"
| moves_get_byte: "mmu_step arhw s (snd (sfc_get_byte arhw addr s))"
| moves_get_word: "mmu_step arhw s (snd (sfc_get_word arhw addr s))"
| moves_get_long: "mmu_step arhw s (snd (sfc_get_long arhw addr s))"
| moves_put_byte: "mmu_step arhw s (snd (dfc_put_byte arhw addr b s))"
| moves_put_word: "mmu_step arhw s (snd (dfc_put_word arhw addr v s))"
| moves_put_long: "mmu_step arhw s (snd (dfc_put_long arhw addr l s))"
| translate: "mmu_step arhw s (snd (mmu_translate arhw addr super data write s))"
| pflush_ptest: "mmu_step arhw s (snd (mmu_op arhw opcode s))"
| set_tc: "mmu_step arhw s (mmu_set_tc val s)"
| set_super: "mmu_step arhw s (mmu_set_super super s)"
| processor: "atc_l1 t = atc_l1 s \<Longrightarrow> mmu_step arhw s t"

inductive mmu_reachable :: "'a mmu_scheme base_io list \<Rightarrow> 'a mmu_scheme \<Rightarrow> bool" for arhw where
  start: "mmu_reachable arhw (mmu_reset s)"
| step: "mmu_reachable arhw s \<Longrightarrow> mmu_step arhw s t \<Longrightarrow> mmu_reachable arhw t"

section \<open>Proofs: table search\<close>

lemma get_ram_long: "ram_long s a \<Longrightarrow> phys_get_long arhw a s = (Some (do_get_mem_long a (mem s)), s)"
  by (auto simp: ram_long_def phys_defs Let_def io_simps writable_readable)

lemma put_ram_long: "ram_long s a \<Longrightarrow> phys_put_long arhw a v s = (Some (), mem_update (do_put_mem_long a v) s)"
  by (auto simp: ram_long_def phys_defs Let_def io_simps)

lemma ram_long_mem [simp]: "ram_long (mem_update f s) a = ram_long s a"
  by (simp add: ram_long_def)

lemma put_same_word: "do_put_mem_word a (do_get_mem_word a m) m = m"
proof -
  have "ucast (drop_bit 8 (do_get_mem_word a m)) = m a" "ucast (do_get_mem_word a m) = m (a + 1)"
    unfolding do_get_mem_word_def by (rule bit_word_eqI, auto simp: bit_simps dest: bit_imp_le_length)+
  then show ?thesis by (auto simp: do_put_mem_word_def)
qed

lemma put_same_long: "do_put_mem_long a (do_get_mem_long a m) m = m"
proof -
  have "ucast (drop_bit 16 (do_get_mem_long a m)) = do_get_mem_word a m"
    "ucast (do_get_mem_long a m) = do_get_mem_word (a + 2) m"
    unfolding do_get_mem_long_def by (rule bit_word_eqI, auto simp: bit_simps dest: bit_imp_le_length)+
  then show ?thesis by (simp add: do_put_mem_long_def put_same_word)
qed

lemma set_used_ram:
  assumes "ram_long s a" "desc = do_get_mem_long a (mem s)"
  shows "set_used arhw a desc s = (Some (), mem_update (do_put_mem_long a (desc OR 8)) s)"
proof (cases "desc AND 8 = 0")
  case False
  then have "bit desc 3" by (simp add: mask_bit)
  then have "desc OR 8 = desc" by (intro bit_word_eqI) (auto simp: bit_or_mask)
  then have "mem_update (do_put_mem_long a (desc OR 8)) s = s" using assms(2) by (simp add: put_same_long)
  with False show ?thesis by (simp add: set_used_def io_simps)
qed (use assms in \<open>simp add: set_used_def put_ram_long\<close>)

lemma aligned_bits: "\<not> bit a 0 \<Longrightarrow> \<not> bit a 1 \<Longrightarrow> aligned a"
  unfolding aligned_def by (rule bit_word_eqI) (auto simp: bit_simps less_Suc_eq numeral_2_eq_2)

lemma aligned_desc:
  "aligned (root_desc_addr d a)" "aligned (ptr_desc_addr d a)" "aligned (page_desc_addr k d a)"
  "aligned (d AND MMU_PAGE_INDIRECT_MASK)"
  by (auto intro!: aligned_bits simp: root_desc_addr_def ptr_desc_addr_def page_desc_addr_def bit_simps)

lemma aligned_page: 
  assumes "aligned a" "i < 4"
  shows "drop_bit 2 (a + of_nat i) = drop_bit 2 a"
proof -
  have "uint (take_bit 2 a) = 0" using assms(1) by (simp add: aligned_def)
  then have "uint a mod 4 = 0" unfolding unsigned_take_bit_eq by (simp add: take_bit_eq_mod)
  then obtain k where k: "uint a = 4 * k" by (metis mod_0_imp_dvd dvdE)
  have "uint a < 2 ^ 32" using unsigned_less [of a, where 'a = int] by simp
  with k assms(2) have "uint (a + of_nat i) = 4 * k + int i" by (subst uint_offset) simp_all
  then have "uint (drop_bit 2 (a + of_nat i)) = uint (drop_bit 2 a)"
    using assms(2) k by (simp add: uint_drop_bit)
  then show ?thesis by (simp only: word_uint_eq_iff)
qed

lemma aligned_disjoint:
  assumes "aligned a" "aligned b" "a \<noteq> b"
  shows "cell_bytes a 4 \<inter> cell_bytes b 4 = {}"
proof (rule ccontr)
  assume "\<not> ?thesis"
  then obtain i j where "a + of_nat i = b + of_nat j" "i < 4" "j < 4" by (auto simp: cell_bytes_def)
  then have "drop_bit 2 a = drop_bit 2 b" using aligned_page assms(1,2) by metis
  moreover have "push_bit 2 (drop_bit 2 x) = x" if "aligned x" for x
    using that bits_ident [of 2 x] by (simp add: aligned_def)
  ultimately show False using assms by metis
qed

lemma get_put_desc:
  assumes "aligned a" "aligned b" "a \<noteq> b"
  shows "do_get_mem_long b (do_put_mem_long a v m) = do_get_mem_long b m"
  by (rule long_cell.get_put_other) (rule aligned_disjoint [OF assms])

lemma update_page_ram:
  assumes "ram_long s a"
  shows "update_page_descriptor arhw a d write s =
    (let d' = d OR (if write \<and> \<not> bit d 2 then 24 else 8)
     in (Some d', if d' = d then s else mem_update (do_put_mem_long a d') s))"
proof -
  have "d OR 8 = d \<longleftrightarrow> bit d 3" "d OR 24 = d \<longleftrightarrow> bit d 3 \<and> bit d 4"
    by (auto intro!: bit_word_eqI simp: bit_or_mask) (metis bit_or_mask)+
  then show ?thesis using assms
    by (auto simp: update_page_descriptor_def Let_def io_defs put_ram_long mask_bit and_24)
qed

lemma mem_update_const: "mem_update f s = s\<lparr>mem := f (mem s)\<rparr>"
  by (cases s) simp

lemma io_bind_get [simp]: "io_bind (io_get f) g s = g (f s) s"
  by (simp add: io_defs)

lemma io_bind_return [simp]: "io_bind (io_return x) g s = g x s"
  by (simp add: io_defs)

lemma io_bind_ram: "ram_long s a \<Longrightarrow> io_bind (phys_get_long arhw a) g s = g (do_get_mem_long a (mem s)) s"
  by (simp add: io_defs get_ram_long)

lemma io_bind_used:
  "ram_long s a \<Longrightarrow> d = do_get_mem_long a (mem s) \<Longrightarrow>
   io_bind (set_used arhw a d) g s = g () (s\<lparr>mem := do_put_mem_long a (d OR 8) (mem s)\<rparr>)"
  unfolding io_bind_def set_used_ram mem_update_const [of "do_put_mem_long a (d OR 8)" s, symmetric] by simp

lemma search_page_ram:
  fixes s :: "'a mmu_scheme"
  assumes pa: "page_desc_addr (mmu_pagesize_8k s) ptr addr = pa" "do_get_mem_long pa (mem s) = page" "ram_long s pa"
    and da: "da = (if page AND 3 = 2 then page AND MMU_PAGE_INDIRECT_MASK else pa)"
      "do_get_mem_long da (mem s) = desc" "ram_long s da"
    and d: "d = desc OR ((root OR ptr) AND MMU_DES_WP)" "d' = d OR (if w \<and> \<not> bit d 2 then 24 else 8)"
  shows "search_page arhw addr root ptr w s =
    (if \<not> bit desc 0 then (Some desc, s)
     else (Some d', if d' = d then s else s\<lparr>mem := do_put_mem_long da d' (mem s)\<rparr>))"
proof -
  have step: "io_bind (if page AND 3 = 2
          then io_bind (phys_get_long arhw (page AND MMU_PAGE_INDIRECT_MASK)) (\<lambda>desc.
                 io_return (page AND MMU_PAGE_INDIRECT_MASK, desc))
          else io_return (pa, page)) f s = f (da, desc) s" for f :: "u32 \<times> u32 \<Rightarrow> ('a mmu_scheme, u32) io"
  proof (cases "page AND 3 = 2")
    case True
    with da show ?thesis by (simp add: io_defs get_ram_long)
  next
    case False
    then have "da = pa" using da(1) by simp
    moreover have "desc = page" using da(2) pa(2) \<open>da = pa\<close> by blast
    ultimately show ?thesis using False by (simp add: io_defs)
  qed
  have "search_page arhw addr root ptr w s =
      (if desc AND 1 = 0 then io_return desc else update_page_descriptor arhw da d w) s"
    unfolding search_page_def io_bind_get pa(1) io_bind_ram [OF pa(3)] pa(2) step by (simp add: d(1))
  then show ?thesis
    using update_page_ram [OF da(3)] mem_update_const [of "do_put_mem_long da d'" s]
    by (simp add: mask_bit io_return_def d(2) Let_def)
qed

lemma search_refines:
  assumes "tables_ok addr super s"
  shows "mmu_lookup_pagetable arhw addr super w s =
    (case table_search (mmu_pagesize_8k s) w (if super then srp s else urp s) addr (mem s) of
       (d, m) \<Rightarrow> (Some d, s\<lparr>mem := m\<rparr>))"
proof -
  define rp where "rp = (if super then srp s else urp s)"
  define ra where "ra = root_desc_addr rp addr"
  define root where "root = do_get_mem_long ra (mem s)"
  define qa where "qa = ptr_desc_addr root addr"
  define ptr where "ptr = do_get_mem_long qa (mem s)"
  define pa where "pa = page_desc_addr (mmu_pagesize_8k s) ptr addr"
  define page where "page = do_get_mem_long pa (mem s)"
  define da where "da = (if page AND 3 = 2 then page AND MMU_PAGE_INDIRECT_MASK else pa)"
  define desc where "desc = do_get_mem_long da (mem s)"
  define d where "d = desc OR ((root OR ptr) AND MMU_DES_WP)"
  define m1 where "m1 = do_put_mem_long ra (root OR 8) (mem s)"
  define m2 where "m2 = do_put_mem_long qa (ptr OR 8) m1"
  note folds = rp_def [symmetric] ra_def [symmetric] root_def [symmetric] qa_def [symmetric] ptr_def [symmetric]
    pa_def [symmetric] page_def [symmetric] da_def [symmetric] desc_def [symmetric] d_def [symmetric]
    m1_def [symmetric] m2_def [symmetric]
  have al: "aligned ra" "aligned qa" "aligned pa" "aligned da"
    by (simp_all add: ra_def qa_def pa_def da_def aligned_desc)
  have spec: "table_search (mmu_pagesize_8k s) w rp addr (mem s) =
      (if \<not> bit root 1 then (0, mem s) else if \<not> bit ptr 1 then (0, m1) else if \<not> bit desc 0 then (desc, m2)
       else (d OR (if w \<and> \<not> bit d 2 then 24 else 8),
         if d OR (if w \<and> \<not> bit d 2 then 24 else 8) = d then m2
         else do_put_mem_long da (d OR (if w \<and> \<not> bit d 2 then 24 else 8)) m2))"
    unfolding table_search_def Let_def folds ..
  have ok: "let as = (if \<not> bit root 1 then [ra] else if \<not> bit ptr 1 then [ra, qa]
      else if page AND 3 = 2 then [ra, qa, pa, page AND MMU_PAGE_INDIRECT_MASK] else [ra, qa, pa])
    in distinct as \<and> list_all (ram_long s) as"
    using assms unfolding tables_ok_def search_addrs_def Let_def folds .
  then have ra: "ram_long s ra" by (simp add: Let_def split: if_splits)
  have root_level: "mmu_lookup_pagetable arhw addr super w s =
      (if \<not> bit root 1 then (Some 0, s) else search_ptr arhw addr root w (s\<lparr>mem := m1\<rparr>))"
    using ra by (simp add: mmu_lookup_pagetable_def folds io_bind_ram io_bind_used mask_bit io_return_def)
  have mem_simps: "mem (s\<lparr>mem := m2\<rparr>) = m2" "mmu_pagesize_8k (s\<lparr>mem := m2\<rparr>) = mmu_pagesize_8k s"
    "s\<lparr>mem := m2, mem := x\<rparr> = s\<lparr>mem := x\<rparr>" for x by simp_all
  have ram_m2: "ram_long (s\<lparr>mem := m2\<rparr>) a = ram_long s a" for a by simp
  have ptr_level: "search_ptr arhw addr root w (s\<lparr>mem := m1\<rparr>) =
      (if \<not> bit ptr 1 then (Some 0, s\<lparr>mem := m1\<rparr>) else search_page arhw addr root ptr w (s\<lparr>mem := m2\<rparr>))"
    if "bit root 1"
  proof -
    have qa: "ram_long s qa" "ra \<noteq> qa" using ok that by (auto simp: Let_def split: if_splits)
    then have "do_get_mem_long qa m1 = ptr" using al by (simp add: m1_def get_put_desc folds(5))
    then show ?thesis using qa ram_long_mem [of "\<lambda>_. m1" s qa]
      by (simp add: search_ptr_def folds(4) io_bind_ram io_bind_used mask_bit io_return_def m2_def)
  qed
  have page_level: "search_page arhw addr root ptr w (s\<lparr>mem := m2\<rparr>) =
      (if \<not> bit desc 0 then (Some desc, s\<lparr>mem := m2\<rparr>)
       else (Some (d OR (if w \<and> \<not> bit d 2 then 24 else 8)),
         if d OR (if w \<and> \<not> bit d 2 then 24 else 8) = d then s\<lparr>mem := m2\<rparr>
         else s\<lparr>mem := do_put_mem_long da (d OR (if w \<and> \<not> bit d 2 then 24 else 8)) m2\<rparr>))"
    if "bit root 1" "bit ptr 1"
  proof -
    have pa: "ram_long s pa" "ram_long s da" "pa \<noteq> ra" "pa \<noteq> qa" "da \<noteq> ra" "da \<noteq> qa"
      using ok that by (auto simp: Let_def da_def split: if_splits)
    then have "do_get_mem_long pa m2 = page" "do_get_mem_long da m2 = desc"
      using al by (simp_all add: m2_def m1_def get_put_desc page_def desc_def)
    with pa(1,2) show ?thesis
      using search_page_ram [of "s\<lparr>mem := m2\<rparr>" ptr addr pa page da desc d root _ w arhw, OF _ _ _ da_def _ _ d_def refl]
      by (simp only: mem_simps folds ram_m2)
  qed
  show ?thesis unfolding folds spec root_level using ptr_level page_level by simp
qed

section \<open>Proofs: cache\<close>

lemma mmu_match_ttr_l2 [simp]:
  "mmu_match_ttr addr super data (l2_update r f s) = mmu_match_ttr addr super data s"
  by (simp add: mmu_match_ttr_def l2_update_def Let_def)

lemma l2_update_simps [simp]:
  "mem (l2_update r f s) = mem s" "mmu_enabled (l2_update r f s) = mmu_enabled s"
  "mmu_pagesize_8k (l2_update r f s) = mmu_pagesize_8k s" "srp (l2_update r f s) = srp s" "urp (l2_update r f s) = urp s"
  "atc_l1 (l2_update r f s) = atc_l1 s" "regs_s (l2_update r f s) = regs_s s" "current_atc (l2_update r f s) = current_atc s"
  "atc_l2 (l2_update r f s) = (atc_l2 s)(r := f (atc_l2 s r))" "beyond_atc (l2_update r f s) = beyond_atc s"
  by (simp_all add: l2_update_def)

lemma test_ram_boundary_l2 [simp]:
  "test_ram_boundary a n super w (l2_update r f s) = test_ram_boundary a n super w s"
  by (simp add: test_ram_boundary_def l2_update_def)

lemma tables_ok_l2 [simp]: "tables_ok addr super (l2_update r f s) = tables_ok addr super s"
  by (simp add: tables_ok_def ram_long_def [abs_def])

lemma masked_sum: "((d AND NOT msk) - (a AND NOT msk)) + a = (d AND NOT msk) + (a AND msk)" for a :: u32
proof -
  define A where "A = a AND NOT msk"
  define B where "B = a AND msk"
  have "A + B = A OR B"
    by (rule disjunctive_add_eq_or) (auto intro!: bit_word_eqI simp: bit_simps A_def B_def)
  also have "\<dots> = a" by (rule bit_word_eqI) (auto simp: bit_simps A_def B_def)
  finally have "a = A + B" by (rule sym)
  then have "(d AND NOT msk) - A + a = (d AND NOT msk) + B" by (simp add: algebra_simps)
  then show ?thesis unfolding A_def B_def .
qed

lemma fill_l2_search:
  assumes "tables_ok addr super s" "mmu_enabled s" "mmu_match_ttr addr super data s = TTR_NO_MATCH"
    and "translation addr super data w s = (r, m)"
  shows "\<exists>l. snd (mmu_fill_atc_l2 arhw addr super data w k s) = s\<lparr>mem := m, atc_l2 := (atc_l2 s)(k := l)\<rparr> \<and>
    fill_ok addr data w r l"
proof -
  define s' where "s' = l2_update k (\<lambda>l. l\<lparr>tt := False\<rparr>)
    (l2_update k (\<lambda>l. l\<lparr>tag := ATC_TAG addr, hw := False, bus_fault := False\<rparr>) s)"
  obtain d where ts: "table_search (mmu_pagesize_8k s) w (if super then srp s else urp s) addr (mem s) = (d, m)"
    using assms(2-4) by (auto simp: translation_def Let_def split: prod.splits)
  have s': "mem s' = mem s" "mmu_pagesize_8k s' = mmu_pagesize_8k s" "srp s' = srp s" "urp s' = urp s"
    "tables_ok addr super s'" using assms(1) by (simp_all add: s'_def)
  have look: "mmu_lookup_pagetable arhw addr super w s' = (Some d, s'\<lparr>mem := m\<rparr>)"
    using search_refines [OF s'(5), of arhw w] unfolding s'(1-4) ts by simp
  then have md: "w \<Longrightarrow> bit d 0 \<Longrightarrow> bit d 2 \<or> bit d 4"
    using lookup_modified [of arhw addr super s' d "s'\<lparr>mem := m\<rparr>"] by (cases w) simp_all
  have r: "r = (if \<not> bit d 0 \<or> \<not> super \<and> bit d 7 \<or> w \<and> bit d 2 then None
      else Some ((d AND NOT (page_mask (mmu_pagesize_8k s))) + (addr AND page_mask (mmu_pagesize_8k s))))"
    using assms(2-4) ts by (simp add: translation_def Let_def)
  have fill: "snd (mmu_fill_atc_l2 arhw addr super data w k s) =
      (if d AND 1 = 0 \<or> \<not> super \<and> d AND MMU_MMUSR_S \<noteq> 0
       then l2_update k (\<lambda>l. l\<lparr>valid_data := False, valid_inst := False, glob := False\<rparr>) (s'\<lparr>mem := m\<rparr>)
       else l2_update k (page_line (mmu_pagesize_8k s) d addr) (s'\<lparr>mem := m\<rparr>))"
  proof -
    have "mmu_fill_atc_l2 arhw addr super data w k s =
        (case mmu_lookup_pagetable arhw addr super w s' of
           (None, s) \<Rightarrow> (0, l2_update k (\<lambda>l. l\<lparr>valid_data := False, valid_inst := False, glob := False\<rparr>) s)
         | (Some desc, s) \<Rightarrow>
             if desc AND 1 = 0 \<or> \<not> super \<and> desc AND MMU_MMUSR_S \<noteq> 0
             then (desc, l2_update k (\<lambda>l. l\<lparr>valid_data := False, valid_inst := False, glob := False\<rparr>) s)
             else (desc, l2_update k (page_line (mmu_pagesize_8k s) desc addr) s))"
      using assms(2,3) by (simp add: mmu_fill_atc_l2_def Let_def s'_def split del: if_split)
    then show ?thesis unfolding look by (simp add: s'(2))
  qed
  show ?thesis
  proof (cases "bit d 0 \<and> (super \<or> \<not> bit d 7)")
    case True
    then have "snd (mmu_fill_atc_l2 arhw addr super data w k s) =
        l2_update k (page_line (mmu_pagesize_8k s) d addr) (s'\<lparr>mem := m\<rparr>)"
      by (auto simp: fill mask_bit)
    then show ?thesis using True md r masked_sum [of d "page_mask (mmu_pagesize_8k s)" addr]
      by (intro exI [of _ "page_line (mmu_pagesize_8k s) d addr (atc_l2 s' k)"])
        (auto simp: s'_def l2_update_def fill_ok_def page_line_def valid_for_def wants_restart_def mask_bit page_mask_def)
  next
    case False
    then show ?thesis using r
      by (intro exI [of _ "(atc_l2 s' k)\<lparr>valid_data := False, valid_inst := False, glob := False\<rparr>"])
        (auto simp: fill s'_def l2_update_def fill_ok_def valid_for_def wants_restart_def mask_bit)
  qed
qed

lemma fill_l2_spec:
  assumes "searchable addr super data s" "translation addr super data w s = (r, m)"
  shows "\<exists>l. snd (mmu_fill_atc_l2 arhw addr super data w k s) = s\<lparr>mem := m, atc_l2 := (atc_l2 s)(k := l)\<rparr> \<and>
    fill_ok addr data w r l"
proof -
  let ?l = "(atc_l2 s k)\<lparr>tag := ATC_TAG addr, hw := False, bus_fault := False\<rparr>"
  let ?res = "mmu_match_ttr addr super data s"
  consider "?res \<noteq> TTR_NO_MATCH" | "?res = TTR_NO_MATCH" "\<not> mmu_enabled s"
    | "?res = TTR_NO_MATCH" "mmu_enabled s" "tables_ok addr super s"
    using assms(1) by (auto simp: searchable_def)
  then show ?thesis
  proof cases
    case 1
    then have r: "r = (if w \<and> ?res = TTR_NO_WRITE then None else Some addr)" "m = mem s"
      using assms(2) by (simp_all add: translation_def)
    have "snd (mmu_fill_atc_l2 arhw addr super data w k s) =
        s\<lparr>mem := m, atc_l2 := (atc_l2 s)(k := transparent_line ?res (mmu_match_ttr addr super (\<not> data) s = ?res) data ?l)\<rparr>"
      using 1 by (simp add: mmu_fill_atc_l2_def Let_def r(2)) (simp add: l2_update_def)
    moreover have "fill_ok addr data w r (transparent_line ?res (mmu_match_ttr addr super (\<not> data) s = ?res) data ?l)"
      using 1 by (simp add: fill_ok_def transparent_line_def valid_for_def wants_restart_def r(1))
    ultimately show ?thesis by blast
  next
    case 2
    then have r: "r = Some addr" "m = mem s" using assms(2) by (simp_all add: translation_def)
    let ?n = "?l\<lparr>tt := False, valid_data := True, valid_inst := True, glob := True, modified := True,
            write_protect := False, atc_phys := 0\<rparr>"
    have "snd (mmu_fill_atc_l2 arhw addr super data w k s) = s\<lparr>mem := m, atc_l2 := (atc_l2 s)(k := ?n)\<rparr>"
      using 2 by (simp add: mmu_fill_atc_l2_def Let_def r(2)) (simp add: l2_update_def)
    moreover have "fill_ok addr data w r ?n" by (simp add: fill_ok_def valid_for_def wants_restart_def r(1))
    ultimately show ?thesis by blast
  next
    case 3
    with assms(2) show ?thesis by (intro fill_l2_search)
  qed
qed

lemma test_ram_boundary_atc [simp]:
  "test_ram_boundary a n super w (atc_l1_update f s) = test_ram_boundary a n super w s"
  "test_ram_boundary a n super w (atc_l2_update g s) = test_ram_boundary a n super w s"
  by (simp_all add: test_ram_boundary_def)

lemma restart_stop:
  "\<not> wants_restart data w (atc_l2 t r) \<Longrightarrow>
   atc_restart arhw addr super data w r t = (valid_for data (atc_l2 t r) \<and> \<not> (w \<and> write_protect (atc_l2 t r)), t)"
  by (subst atc_restart.simps) (auto simp: wants_restart_def)

lemma restart_unfold:
  "atc_restart arhw addr super data w r s =
    (let t = (if wants_restart data w (atc_l2 s r) then snd (mmu_fill_atc_l2 arhw addr super data w r s) else s)
     in (valid_for data (atc_l2 t r) \<and> \<not> (w \<and> write_protect (atc_l2 t r)), t))"
proof (cases "wants_restart data w (atc_l2 s r)")
  case True
  then have "w" and "atc_restart arhw addr super data w r s =
      atc_restart arhw addr super data w r (snd (mmu_fill_atc_l2 arhw addr super data w r s))"
    by (auto simp: wants_restart_def atc_restart.simps [of arhw addr super data True r s])
  with True show ?thesis using restart_stop [OF fill_no_restart] by (simp add: Let_def)
qed (simp add: restart_stop)

text \<open>
  C11. The loop at \<^verbatim>\<open>restart\<close> ends: it repeats the table search at most once, and then the line is usable
  unless the page is not resident or the write is not allowed.
\<close>

theorem atc_restart_once:
  "atc_restart arhw addr super data w r s =
    (let t = (if wants_restart data w (atc_l2 s r) then snd (mmu_fill_atc_l2 arhw addr super data w r s) else s)
     in (valid_for data (atc_l2 t r) \<and> \<not> (w \<and> write_protect (atc_l2 t r)), t))"
  by (rule restart_unfold)

lemma fill_l1_spec:
  assumes "searchable addr super data s" "translation addr super data w s = (r, m)"
    and "tag (atc_l2 s (super, ATC_L2_INDEX addr)) \<noteq> ATC_TAG addr"
  obtains l where "fill_ok addr data w r l"
    "r = None \<Longrightarrow> mmu_fill_atc_l1 arhw addr super data w cl s =
       (False, s\<lparr>mem := m, atc_l2 := (atc_l2 s)((super, ATC_L2_INDEX addr) := l),
          atc_l1 := (atc_l1 s)(cl := (atc_l1 s cl)\<lparr>tag := NOT (tag (atc_l1 s cl))\<rparr>)\<rparr>)"
    "\<And>pa. r = Some pa \<Longrightarrow> ram_target super w pa s \<Longrightarrow> mmu_fill_atc_l1 arhw addr super data w cl s =
       (True, s\<lparr>mem := m, atc_l2 := (atc_l2 s)((super, ATC_L2_INDEX addr) := l), atc_l1 := (atc_l1 s)(cl := l)\<rparr>)"
proof -
  let ?k = "(super, ATC_L2_INDEX addr)"
  obtain l where l: "snd (mmu_fill_atc_l2 arhw addr super data w ?k s) = s\<lparr>mem := m, atc_l2 := (atc_l2 s)(?k := l)\<rparr>"
    "fill_ok addr data w r l" using fill_l2_spec [OF assms(1,2)] by blast
  have re: "atc_restart arhw addr super data w ?k (s\<lparr>mem := m, atc_l2 := (atc_l2 s)(?k := l)\<rparr>) =
      (r \<noteq> None, s\<lparr>mem := m, atc_l2 := (atc_l2 s)(?k := l)\<rparr>)"
    using l(2) by (subst restart_stop) (simp_all add: fill_ok_def)
  have pa: "r = Some pa \<Longrightarrow> addr + atc_phys l = pa" for pa using l(2) by (simp add: fill_ok_def add.commute)
  show thesis
  proof (rule that [of l])
    show "fill_ok addr data w r l" by (rule l(2))
    show "mmu_fill_atc_l1 arhw addr super data w cl s =
       (False, s\<lparr>mem := m, atc_l2 := (atc_l2 s)(?k := l),
          atc_l1 := (atc_l1 s)(cl := (atc_l1 s cl)\<lparr>tag := NOT (tag (atc_l1 s cl))\<rparr>)\<rparr>)" if "r = None"
      using that assms(3) re by (simp add: mmu_fill_atc_l1_def Let_def l(1) l1_update_def)
    show "mmu_fill_atc_l1 arhw addr super data w cl s =
       (True, s\<lparr>mem := m, atc_l2 := (atc_l2 s)(?k := l), atc_l1 := (atc_l1 s)(cl := l)\<rparr>)"
      if "r = Some pa" "ram_target super w pa s" for pa
      using that assms(3) re pa [OF that(1)]
      by (simp add: mmu_fill_atc_l1_def Let_def l(1) l1_update_def ram_target_def)
  qed
qed

lemma fill_l1_Some:
  assumes "searchable addr super data s" "translation addr super data w s = (Some pa, m)"
    and "tag (atc_l2 s (super, ATC_L2_INDEX addr)) \<noteq> ATC_TAG addr" "ram_target super w pa s"
  shows "\<exists>l. mmu_fill_atc_l1 arhw addr super data w cl s =
     (True, s\<lparr>mem := m, atc_l2 := (atc_l2 s)((super, ATC_L2_INDEX addr) := l), atc_l1 := (atc_l1 s)(cl := l)\<rparr>) \<and>
     tag l = ATC_TAG addr \<and> atc_phys l + addr = pa"
proof (rule fill_l1_spec [OF assms(1-3), of arhw cl])
  fix l
  assume "fill_ok addr data w (Some pa) l" and "\<And>p. Some pa = Some p \<Longrightarrow> ram_target super w p s \<Longrightarrow>
    mmu_fill_atc_l1 arhw addr super data w cl s =
     (True, s\<lparr>mem := m, atc_l2 := (atc_l2 s)((super, ATC_L2_INDEX addr) := l), atc_l1 := (atc_l1 s)(cl := l)\<rparr>)"
  from this(1) this(2) [OF refl assms(4)] show ?thesis by (intro exI [of _ l]) (simp add: fill_ok_def)
qed

lemma fill_l1_None:
  assumes "searchable addr super data s" "translation addr super data w s = (None, m)"
    and "tag (atc_l2 s (super, ATC_L2_INDEX addr)) \<noteq> ATC_TAG addr"
  shows "\<exists>l. mmu_fill_atc_l1 arhw addr super data w cl s =
       (False, s\<lparr>mem := m, atc_l2 := (atc_l2 s)((super, ATC_L2_INDEX addr) := l),
          atc_l1 := (atc_l1 s)(cl := (atc_l1 s cl)\<lparr>tag := NOT (tag (atc_l1 s cl))\<rparr>)\<rparr>)"
proof (rule fill_l1_spec [OF assms, of arhw cl])
  fix l
  assume "None = None \<Longrightarrow> mmu_fill_atc_l1 arhw addr super data w cl s =
       (False, s\<lparr>mem := m, atc_l2 := (atc_l2 s)((super, ATC_L2_INDEX addr) := l),
          atc_l1 := (atc_l1 s)(cl := (atc_l1 s cl)\<lparr>tag := NOT (tag (atc_l1 s cl))\<rparr>)\<rparr>)"
  from this [OF refl] show ?thesis by (rule exI [of _ l])
qed

section \<open>Proofs: accesses\<close>

lemma tag_iff: "ucast t = drop_bit 18 addr \<longleftrightarrow> t = ATC_TAG addr" for t :: u16
proof -
  have "ucast (ucast (drop_bit 18 addr) :: u16) = drop_bit 18 addr"
    by (rule bit_word_eqI) (auto simp: bit_simps dest: bit_imp_le_length)
  moreover have "ucast (ucast t :: u32) = t" by (rule bit_word_eqI) (auto simp: bit_simps)
  ultimately show ?thesis unfolding ATC_TAG_def by metis
qed

lemma mmu_user_lookup_ref:
  "mmu_user_lookup addr super data w s = (tag (atc_l1 s (l1_ref addr super data w)) = ATC_TAG addr, l1_ref addr super data w)"
  by (simp add: mmu_user_lookup_def Let_def tag_iff l1_ref_def ATC_L1_INDEX_def)

lemma mmu_lookup_ref:
  "mmu_lookup addr data w s =
    (tag (atc_l1 s (l1_ref addr (current_atc s) data w)) = ATC_TAG addr, l1_ref addr (current_atc s) data w)"
  by (simp add: mmu_lookup_def Let_def tag_iff l1_ref_def ATC_L1_INDEX_def)

lemma same_page_ref: "same_page addr addr' \<Longrightarrow> l1_ref addr' super data w = l1_ref addr super data w"
  "same_page addr addr' \<Longrightarrow> ATC_TAG addr' = ATC_TAG addr"
proof -
  assume *: "same_page addr addr'"
  then show "l1_ref addr' super data w = l1_ref addr super data w"
    by (simp add: l1_ref_def same_page_def ATC_L1_INDEX_def)
  have "drop_bit 18 addr' = drop_bit 18 addr"
    using arg_cong [OF * [unfolded same_page_def], of "drop_bit 6"] by simp
  then show "ATC_TAG addr' = ATC_TAG addr" by (simp add: ATC_TAG_def)
qed

lemma get_hit:
  assumes "atc_holds addr (current_atc t) data False pa t" "same_page addr addr'"
  shows "mmu_get_fast do_get (mmu_lookup addr' data False) addr' slow t = (Some (do_get (pa + (addr' - addr)) (mem t)), t)"
proof -
  have "atc_phys (atc_l1 t (l1_ref addr (current_atc t) data False)) + addr' = pa + (addr' - addr)"
    "tag (atc_l1 t (l1_ref addr (current_atc t) data False)) = ATC_TAG addr"
    using assms(1) by (auto simp: atc_holds_def)
  then show ?thesis unfolding mmu_get_fast_def mmu_lookup_ref same_page_ref [OF assms(2)] by simp (simp add: algebra_simps)
qed

lemma get_miss:
  fixes s :: "'a mmu_scheme"
  assumes "fresh_access addr data False s" "translation addr (regs_s s) data False s = (Some pa, m)"
    and "ram_target (regs_s s) False pa s"
  shows "\<exists>t. mmu_get_fast do_get (mmu_lookup addr data False) addr
      (\<lambda>cl s. mmu_get_slow HWget do_get arhw addr (regs_s s) data sz cl s) s = (Some (do_get pa m), t) \<and>
    mem t = m \<and> current_atc t = current_atc s \<and> atc_holds addr (current_atc s) data False pa t"
proof -
  let ?cl = "l1_ref addr (regs_s s) data False"
  obtain l where "tag l = ATC_TAG addr" "atc_phys l + addr = pa" and
    "mmu_fill_atc_l1 arhw addr (regs_s s) data False ?cl s =
      (True, s\<lparr>mem := m, atc_l2 := (atc_l2 s)((regs_s s, ATC_L2_INDEX addr) := l), atc_l1 := (atc_l1 s)(?cl := l)\<rparr>)"
    using fill_l1_Some [of addr "regs_s s" data s False pa m arhw ?cl] assms
    unfolding fresh_access_def atc_misses_def by blast
  then show ?thesis using assms(1)
    by (simp add: mmu_get_fast_def mmu_lookup_ref mmu_get_slow_def fresh_access_def atc_misses_def atc_holds_def)
qed

lemma read_fault:
  fixes s :: "'a mmu_scheme"
  assumes "fresh_access addr data False s" "translation addr (regs_s s) data False s = (None, m)"
    and "\<not> hw (atc_l1 s (l1_ref addr (regs_s s) data False))"
  shows "\<exists>t. mmu_get_fast do_get (mmu_lookup addr data False) addr
      (\<lambda>cl s. mmu_get_slow HWget do_get arhw addr (regs_s s) data sz cl s) s = (None, t) \<and>
    mem t = m \<and> mmu_fault_addr t = addr \<and> bit (mmu_ssw t) 8"
proof -
  let ?cl = "l1_ref addr (regs_s s) data False"
  obtain l where
    "mmu_fill_atc_l1 arhw addr (regs_s s) data False ?cl s =
      (False, s\<lparr>mem := m, atc_l2 := (atc_l2 s)((regs_s s, ATC_L2_INDEX addr) := l),
          atc_l1 := (atc_l1 s)(?cl := (atc_l1 s ?cl)\<lparr>tag := NOT (tag (atc_l1 s ?cl))\<rparr>)\<rparr>)"
    using fill_l1_None [of addr "regs_s s" data s False m arhw ?cl] assms
    unfolding fresh_access_def atc_misses_def by blast
  then show ?thesis using assms(1,3)
    by (simp add: mmu_get_fast_def mmu_lookup_ref mmu_get_slow_def fresh_access_def atc_misses_def mmu_bus_error_def
        io_defs bit_or_iff Let_def)
qed

lemma put_miss:
  fixes s :: "'a mmu_scheme"
  assumes "fresh_access addr data True s" "translation addr (regs_s s) data True s = (Some pa, m)"
    and "ram_target (regs_s s) True pa s"
  shows "\<exists>t. mmu_put_fast do_put (mmu_lookup addr data True) addr val
      (\<lambda>cl s. mmu_put_slow HWput do_put wb3 arhw addr val (regs_s s) data sz cl s) s = (Some (), t) \<and>
    mem t = do_put pa val m \<and> current_atc t = current_atc s \<and> atc_holds addr (current_atc s) data True pa t"
proof -
  let ?cl = "l1_ref addr (regs_s s) data True"
  obtain l where "tag l = ATC_TAG addr" "atc_phys l + addr = pa" and
    "mmu_fill_atc_l1 arhw addr (regs_s s) data True ?cl s =
      (True, s\<lparr>mem := m, atc_l2 := (atc_l2 s)((regs_s s, ATC_L2_INDEX addr) := l), atc_l1 := (atc_l1 s)(?cl := l)\<rparr>)"
    using fill_l1_Some [of addr "regs_s s" data s True pa m arhw ?cl] assms
    unfolding fresh_access_def atc_misses_def by blast
  then show ?thesis using assms(1)
    by (simp add: mmu_put_fast_def mmu_lookup_ref mmu_put_slow_def fresh_access_def atc_misses_def atc_holds_def)
qed

lemma write_fault:
  fixes s :: "'a mmu_scheme"
  assumes "fresh_access addr data True s" "translation addr (regs_s s) data True s = (None, m)"
    and "\<not> hw (atc_l1 s (l1_ref addr (regs_s s) data True))"
  shows "\<exists>t. mmu_put_fast do_put (mmu_lookup addr data True) addr val
      (\<lambda>cl s. mmu_put_slow HWput do_put wb3 arhw addr val (regs_s s) data sz cl s) s = (None, t) \<and>
    mem t = m \<and> mmu_fault_addr t = addr \<and> \<not> bit (mmu_ssw t) 8 \<and> wb3_data t = wb3 val"
proof -
  let ?cl = "l1_ref addr (regs_s s) data True"
  obtain l where
    "mmu_fill_atc_l1 arhw addr (regs_s s) data True ?cl s =
      (False, s\<lparr>mem := m, atc_l2 := (atc_l2 s)((regs_s s, ATC_L2_INDEX addr) := l),
          atc_l1 := (atc_l1 s)(?cl := (atc_l1 s ?cl)\<lparr>tag := NOT (tag (atc_l1 s ?cl))\<rparr>)\<rparr>)"
    using fill_l1_None [of addr "regs_s s" data s True m arhw ?cl] assms
    unfolding fresh_access_def atc_misses_def by blast
  then show ?thesis using assms(1,3)
    by (simp add: mmu_put_fast_def mmu_lookup_ref mmu_put_slow_def fresh_access_def atc_misses_def mmu_bus_error_def
        io_defs bit_or_iff bit_and_iff Let_def mmu_get_fc_def split: wordsizes.split)
qed

lemma put_hit:
  assumes "atc_holds addr (current_atc t) data True pa t" "same_page addr addr'"
  shows "mmu_put_fast do_put (mmu_lookup addr' data True) addr' val slow t =
    (Some (), mem_update (do_put (pa + (addr' - addr)) val) t)"
proof -
  have "atc_phys (atc_l1 t (l1_ref addr (current_atc t) data True)) + addr' = pa + (addr' - addr)"
    "tag (atc_l1 t (l1_ref addr (current_atc t) data True)) = ATC_TAG addr"
    using assms(1) by (auto simp: atc_holds_def)
  then show ?thesis unfolding mmu_put_fast_def mmu_lookup_ref same_page_ref [OF assms(2)]
    by simp (simp add: algebra_simps)
qed

lemmas slow_defs = mmu_get_byte_slow_def mmu_get_word_slow_def mmu_get_long_slow_def
  mmu_put_byte_slow_def mmu_put_word_slow_def mmu_put_long_slow_def

lemmas access_defs = mmu_get_byte_def mmu_get_word_def mmu_get_long_def
  mmu_put_byte_def mmu_put_word_def mmu_put_long_def

text \<open>
  C8. A read through the memory management unit: when the caches hold nothing for its page, a read of a
  long word returns what memory holds at the physical address that the transparent translation registers
  and the page tables give, and leaves the page in the cache, so that every later read of the same page, of any
  width, reads at the corresponding physical address and changes nothing. When they give none, the read
  raises a bus error that reports the logical address, unless the line of the cache was one of a device.
\<close>

theorem mmu_read:
  assumes "fresh_access addr True False s"
  shows "case translation addr (regs_s s) True False s of
    (Some pa, m) \<Rightarrow> ram_target (regs_s s) False pa s \<longrightarrow>
      (\<exists>t. mmu_get_long arhw addr True sz_long s = (Some (do_get_mem_long pa m), t) \<and> mem t = m \<and>
        (\<forall>addr' sz. same_page addr addr' \<longrightarrow>
          mmu_get_byte arhw addr' True sz t = (Some (m (pa + (addr' - addr))), t) \<and>
          mmu_get_word arhw addr' True sz t = (Some (do_get_mem_word (pa + (addr' - addr)) m), t) \<and>
          mmu_get_long arhw addr' True sz t = (Some (do_get_mem_long (pa + (addr' - addr)) m), t)))
  | (None, m) \<Rightarrow> \<not> hw (atc_l1 s (l1_ref addr (regs_s s) True False)) \<longrightarrow>
      (\<exists>t. mmu_get_long arhw addr True sz_long s = (None, t) \<and> mem t = m \<and> mmu_fault_addr t = addr \<and> bit (mmu_ssw t) 8)"
proof (cases "translation addr (regs_s s) True False s")
  case (Pair r m)
  show ?thesis
  proof (cases r)
    case None
    with Pair read_fault [OF assms, of m do_get_mem_long "HWget_l arhw" arhw sz_long] show ?thesis
      by (simp add: access_defs slow_defs)
  next
    case (Some pa)
    show ?thesis
    proof (cases "ram_target (regs_s s) False pa s")
      case True
      from get_miss [OF assms _ True, of m do_get_mem_long "HWget_l arhw" arhw sz_long] Pair Some
      obtain t where t: "mmu_get_long arhw addr True sz_long s = (Some (do_get_mem_long pa m), t)" "mem t = m"
        "current_atc t = current_atc s" "atc_holds addr (current_atc s) True False pa t"
        by (auto simp: access_defs slow_defs)
      then have hold: "atc_holds addr (current_atc t) True False pa t" by simp
      have "mmu_get_byte arhw addr' True sz t = (Some (m (pa + (addr' - addr))), t) \<and>
          mmu_get_word arhw addr' True sz t = (Some (do_get_mem_word (pa + (addr' - addr)) m), t) \<and>
          mmu_get_long arhw addr' True sz t = (Some (do_get_mem_long (pa + (addr' - addr)) m), t)"
        if "same_page addr addr'" for addr' sz
        unfolding access_defs by (simp add: get_hit [OF hold that] t(2))
      with t(1,2) Pair Some show ?thesis by auto
    qed (simp add: Pair Some)
  qed
qed

text \<open>
  C9. A write through the memory management unit: when the caches hold nothing for its page, a write of a
  long word changes memory at the physical address that the transparent translation registers and the
  page tables give, the page then is in the cache for writes, and nothing but the descriptors changes
  besides. When the page is not resident, is reserved for the supervisor, or is protected at any level of the
  tables or by a transparent translation register, memory keeps its contents up to the descriptors, and the
  write raises a bus error that reports the logical address and the data, unless the line of the cache was
  one of a device.
\<close>

theorem mmu_write:
  assumes "fresh_access addr True True s"
  shows "case translation addr (regs_s s) True True s of
    (Some pa, m) \<Rightarrow> ram_target (regs_s s) True pa s \<longrightarrow>
      (\<exists>t. mmu_put_long arhw addr val True sz_long s = (Some (), t) \<and> mem t = do_put_mem_long pa val m \<and>
        (\<forall>addr' v sz. same_page addr addr' \<longrightarrow>
          mmu_put_byte arhw addr' v True sz t = (Some (), mem_update (do_put_mem_byte (pa + (addr' - addr)) v) t)))
  | (None, m) \<Rightarrow> \<not> hw (atc_l1 s (l1_ref addr (regs_s s) True True)) \<longrightarrow>
      (\<exists>t. mmu_put_long arhw addr val True sz_long s = (None, t) \<and> mem t = m \<and> mmu_fault_addr t = addr \<and>
        \<not> bit (mmu_ssw t) 8 \<and> wb3_data t = val)"
proof (cases "translation addr (regs_s s) True True s")
  case (Pair r m)
  show ?thesis
  proof (cases r)
    case None
    with Pair write_fault [OF assms, of m do_put_mem_long val "HWput_l arhw" id arhw sz_long] show ?thesis
      by (simp add: access_defs slow_defs)
  next
    case (Some pa)
    show ?thesis
    proof (cases "ram_target (regs_s s) True pa s")
      case True
      from put_miss [OF assms _ True, of m do_put_mem_long val "HWput_l arhw" id arhw sz_long] Pair Some
      obtain t where t: "mmu_put_long arhw addr val True sz_long s = (Some (), t)" "mem t = do_put_mem_long pa val m"
        "current_atc t = current_atc s" "atc_holds addr (current_atc s) True True pa t"
        by (auto simp: access_defs slow_defs)
      then have hold: "atc_holds addr (current_atc t) True True pa t" by simp
      have "mmu_put_byte arhw addr' v True sz t = (Some (), mem_update (do_put_mem_byte (pa + (addr' - addr)) v) t)"
        if "same_page addr addr'" for addr' v sz
        unfolding access_defs by (simp add: put_hit [OF hold that])
      with t(1,2) Pair Some show ?thesis by auto
    qed (simp add: Pair Some)
  qed
qed

section \<open>Defects\<close>

lemma not_complement: "NOT x \<noteq> (x :: u16)"
proof
  assume "NOT x = x"
  then have "bit (NOT x) 0 = bit x 0" by simp
  then show False by (simp add: bit_simps)
qed

text \<open>
  C12. A fault exposes the line of another page: let the first level hold the mark of a page \<open>a\<close> whose
  physical address is outside memory, so that reads of \<open>a\<close> raise a bus error. After the fault of a read of
  a page \<open>b\<close> that shares the line and is not resident, a read of \<open>a\<close> hits the cache and reads the address
  outside memory: the code complements the tag of the old contents of the line.
\<close>

theorem mmu_fault_exposes_line:
  assumes "fresh_access b True False s" and "translation b (regs_s s) True False s = (None, m)"
    and "ATC_L1_INDEX a = ATC_L1_INDEX b" and "atc_l1 s (l1_ref a (regs_s s) True False) = l"
    and "tag l = NOT (ATC_TAG a)" and "\<not> hw l"
  shows "fst (mmu_get_byte arhw a True sz_byte s) = None \<and>
    (let t = snd (mmu_get_byte arhw b True sz_byte s)
     in mmu_get_byte arhw a True sz_byte t = (Some (m (atc_phys l + a)), t))"
proof -
  let ?cl = "l1_ref b (regs_s s) True False"
  have cl: "l1_ref a (regs_s s) True False = ?cl" using assms(3) by (simp add: l1_ref_def)
  have cur: "current_atc s = regs_s s" using assms(1) by (simp add: fresh_access_def)
  obtain k where fill: "mmu_fill_atc_l1 arhw b (regs_s s) True False ?cl s =
      (False, s\<lparr>mem := m, atc_l2 := (atc_l2 s)((regs_s s, ATC_L2_INDEX b) := k),
          atc_l1 := (atc_l1 s)(?cl := (atc_l1 s ?cl)\<lparr>tag := NOT (tag (atc_l1 s ?cl))\<rparr>)\<rparr>)"
    using fill_l1_None [of b "regs_s s" True s False m arhw ?cl] assms(1,2)
    unfolding fresh_access_def atc_misses_def by blast
  have "fst (mmu_get_byte arhw a True sz_byte s) = None"
    using assms(4-6) not_complement [of "ATC_TAG a"]
    by (simp add: mmu_get_byte_def mmu_get_byte_slow_def mmu_get_fast_def mmu_lookup_ref cur
        mmu_get_slow_def mmu_bus_error_def io_defs)
  moreover have "atc_l1 (snd (mmu_get_byte arhw b True sz_byte s)) ?cl = l\<lparr>tag := ATC_TAG a\<rparr>"
    "mem (snd (mmu_get_byte arhw b True sz_byte s)) = m" "current_atc (snd (mmu_get_byte arhw b True sz_byte s)) = regs_s s"
    using fill assms(1,4-6) by (simp_all add: mmu_get_byte_def mmu_get_byte_slow_def mmu_get_fast_def mmu_lookup_ref cur
        mmu_get_slow_def mmu_bus_error_def io_defs fresh_access_def atc_misses_def cl)
  ultimately show ?thesis
    by (simp add: mmu_get_byte_def mmu_get_fast_def mmu_lookup_ref cl Let_def)
qed

text \<open>
  C13. Flushing a page of 8 kilobytes leaves one half of it in the cache: of a user page, the line of the
  other half stays as it is; for a supervisor page, the loop writes behind the end of the array.
\<close>

theorem mmu_flush_8k:
  assumes "mmu_pagesize_8k s" and "atc_holds (addr XOR 0x1000) False data w pa s"
  shows "atc_holds (addr XOR 0x1000) False data w pa (mmu_flush_atc addr False global s) \<and>
    beyond_atc (mmu_flush_atc addr True global s)"
proof -
  have "bit (ATC_L1_INDEX a) 0 \<longleftrightarrow> bit a 12" for a
  proof -
    have "ATC_L1_INDEX a = take_bit 8 (unat (drop_bit 12 a))" by (simp add: ATC_L1_INDEX_def take_bit_eq_mod)
    then show ?thesis by (simp only: bit_take_bit_iff bit_unsigned_iff bit_drop_bit_eq) simp
  qed
  moreover have "bit (addr XOR 0x1000) 12 \<noteq> bit addr 12" by (simp add: bit_xor_iff)
  ultimately have "ATC_L1_INDEX (addr XOR 0x1000) \<noteq> ATC_L1_INDEX addr" by metis
  with assms show ?thesis
    by (simp add: mmu_flush_atc_def Let_def flush_l1_def atc_holds_def l1_ref_def)
qed

text \<open>
  C14. A 64-bit write through the cache stores only the low half of its value: \<^verbatim>\<open>put_quad\<close> takes an argument
  of 32 bits.
\<close>

theorem put_quad_loses_half:
  assumes "atc_holds addr (current_atc s) True True pa s"
  shows "do_get_mem_quad pa (mem (snd (put_quad arhw addr (ucast q) s))) = q AND 0xffffffff"
proof -
  have "ucast (ucast q :: u32) = q AND 0xffffffff"
    using take_bit_eq_mask [of 32 q] by (simp add: mask_eq_exp_minus_1 bit_eq_iff) (auto simp: bit_simps)
  moreover have "mem (snd (put_quad arhw addr v s)) = do_put_mem_quad pa (ucast v) (mem s)" for v
    using assms by (simp add: put_quad_def mmu_put_quad_def put_hit [of addr s True pa addr] same_page_def)
  ultimately show ?thesis by (simp add: quad_cell.get_put)
qed

section \<open>Writes respect the protection\<close>

named_theorems keeps \<open>accesses that keep a property\<close>

lemma keeps_basic [keeps]:
  "io_keeps P (io_return x)" "io_keeps P io_throw" "io_keeps P (io_get f)"
  by (simp_all add: io_keeps_def io_defs)

lemma keeps_bind [keeps]: "io_keeps P m \<Longrightarrow> (\<And>x. io_keeps P (f x)) \<Longrightarrow> io_keeps P (io_bind m f)"
  unfolding io_keeps_def io_bind_def by (simp split: option.split prod.split) (metis snd_conv)

lemma keeps_catch [keeps]: "io_keeps P m \<Longrightarrow> io_keeps P h \<Longrightarrow> io_keeps P (io_catch m h)"
  unfolding io_keeps_def io_catch_def by (simp split: option.split prod.split) (metis snd_conv)

lemma keeps_if [keeps]: "(c \<Longrightarrow> io_keeps P m) \<Longrightarrow> (\<not> c \<Longrightarrow> io_keeps P n) \<Longrightarrow> io_keeps P (if c then m else n)"
  by simp

lemma keeps_prod [keeps]: "(\<And>a b. io_keeps P (f a b)) \<Longrightarrow> io_keeps P (case p of (a, b) \<Rightarrow> f a b)"
  by (cases p) simp

lemma keepsD: "io_keeps P m \<Longrightarrow> P s \<Longrightarrow> P (snd (m s))"
  by (simp add: io_keeps_def)

lemma keeps_let_state: "(\<And>s. io_keeps P (m s)) \<Longrightarrow> io_keeps P (\<lambda>s. m s s)"
  by (simp add: io_keeps_def)

lemma l1_writable_cong: "atc_l1 t = atc_l1 s \<Longrightarrow> l1_writable t = l1_writable s"
  by (simp add: l1_writable_def)

lemma l1_writable_simps [simp]:
  "l1_writable (mem_update f s) = l1_writable s" "l1_writable (s\<lparr>mmu_fault_addr := a\<rparr>) = l1_writable s"
  "l1_writable (s\<lparr>mmu_ssw := w\<rparr>) = l1_writable s" "l1_writable (s\<lparr>wb3_status := w\<rparr>) = l1_writable s"
  "l1_writable (s\<lparr>wb3_data := l\<rparr>) = l1_writable s" "l1_writable (s\<lparr>mmusr := l\<rparr>) = l1_writable s"
  "l1_writable (s\<lparr>beyond_atc := c\<rparr>) = l1_writable s" "l1_writable (l2_update r g s) = l1_writable s"
  "l1_writable (s\<lparr>current_atc := c\<rparr>) = l1_writable s"
  by (simp_all add: l1_writable_def l2_update_def)

lemma keeps_BUS_ERROR [keeps]: "io_keeps l1_writable (BUS_ERROR a)"
  by (simp add: io_keeps_def BUS_ERROR_def io_defs)

lemma keeps_check [keeps]: "io_keeps l1_writable (check_ram_boundary a n w)"
  by (simp add: io_keeps_def check_ram_boundary_def)

lemma keeps_mem [keeps]: "io_keeps l1_writable (io_modify (mem_update f))"
  by (simp add: io_keeps_def io_modify_def)

lemma keeps_faults [keeps]:
  "io_keeps l1_writable (mmu_bus_error a fc w sz)" "io_keeps l1_writable (misaligned_read a)"
  "io_keeps l1_writable (misaligned_write a v)"
  by (simp_all add: io_keeps_def mmu_bus_error_def misaligned_read_def misaligned_write_def io_defs Let_def)

lemma restart_usable:
  assumes "atc_restart arhw addr super data w r s = (True, t)"
  shows "valid_for data (atc_l2 t r)" "w \<Longrightarrow> \<not> write_protect (atc_l2 t r) \<and> modified (atc_l2 t r)"
  using assms fill_no_restart [of data arhw addr super r s]
  by (auto simp: restart_unfold Let_def wants_restart_def split: if_splits)

lemma l1_writable_update:
  "l1_writable s \<Longrightarrow> (\<And>data l. writable_line data l \<Longrightarrow> writable_line data (f l)) \<Longrightarrow> l1_writable (l1_update cl f s)"
  by (auto simp: l1_writable_def l1_update_def)

lemma writable_line_updates [simp, intro]:
  "writable_line data l \<Longrightarrow> writable_line data (l\<lparr>tag := NOT (tag l)\<rparr>)"
  "writable_line data l \<Longrightarrow> writable_line data (l\<lparr>hw := True\<rparr>)"
  "writable_line data l \<Longrightarrow> writable_line data (l\<lparr>hw := True, atc_phys := a\<rparr>)"
  "writable_line data l \<Longrightarrow> writable_line data (l\<lparr>bus_fault := True\<rparr>)"
  "writable_line data l \<Longrightarrow> writable_line data (flush_line global l)"
  by (auto simp: writable_line_def valid_for_def flush_line_def)

lemma l1_writable_fill:
  "l1_writable s \<Longrightarrow> valid_for data l \<Longrightarrow> (w \<Longrightarrow> \<not> write_protect l \<and> modified l) \<Longrightarrow>
   l1_writable (l1_update (super, data, w, i) (\<lambda>_. l) s)"
  by (auto simp: l1_writable_def l1_update_def writable_line_def)

locale atc_devices =
  fixes arhw :: "'a mmu_scheme base_io list"
  assumes devices: "list_all (device_keeps l1_writable) arhw"
begin

lemma keeps_HW [keeps]:
  "io_keeps l1_writable (HWget_b arhw a)" "io_keeps l1_writable (HWget_w arhw a)" "io_keeps l1_writable (HWget_l arhw a)"
  "io_keeps l1_writable (HWput_b arhw a b)" "io_keeps l1_writable (HWput_w arhw a w)" "io_keeps l1_writable (HWput_l arhw a l)"
  using devices unfolding HWget_b_def HWget_w_def HWget_l_def HWput_b_def HWput_w_def HWput_l_def getModule_def
  by (auto split: option.split intro: keeps_BUS_ERROR simp: find_Some_iff list_all_iff device_keeps_def)

lemma keeps_phys [keeps]:
  "io_keeps l1_writable (phys_get_long arhw a)" "io_keeps l1_writable (phys_put_long arhw a l)"
  unfolding phys_get_long_def phys_put_long_def Let_def by (intro keeps)+

lemma keeps_lookup [keeps]: "io_keeps l1_writable (mmu_lookup_pagetable arhw addr super w)"
  unfolding mmu_lookup_pagetable_def search_ptr_def search_page_def set_used_def update_page_descriptor_def Let_def
  by (intro keeps)

lemma fill_l2_keeps: 
  assumes "l1_writable s"
  shows "l1_writable (snd (mmu_fill_atc_l2 arhw addr super data w r s))"
proof -
  have "l1_writable (snd (mmu_lookup_pagetable arhw addr super w
      (l2_update r (\<lambda>l. l\<lparr>tt := False\<rparr>) (l2_update r (\<lambda>l. l\<lparr>tag := ATC_TAG addr, hw := False, bus_fault := False\<rparr>) s))))"
    by (rule keepsD [OF keeps_lookup]) (simp add: assms)
  then show ?thesis using assms by (auto simp: mmu_fill_atc_l2_def Let_def split: prod.split option.split)
qed

lemma restart_keeps: "l1_writable s \<Longrightarrow> l1_writable (snd (atc_restart arhw addr super data w r s))"
  by (simp add: restart_unfold Let_def fill_l2_keeps)

lemma fill_l1_keeps:
  assumes "l1_writable s"
  shows "l1_writable (snd (mmu_fill_atc_l1 arhw addr super data w (super', data, w, i) s))"
proof -
  define t where "t = (if tag (atc_l2 s (super, ATC_L2_INDEX addr)) \<noteq> ATC_TAG addr
    then snd (mmu_fill_atc_l2 arhw addr super data w (super, ATC_L2_INDEX addr) s) else s)"
  have t: "l1_writable t" using assms by (simp add: t_def fill_l2_keeps)
  obtain usable u where u: "atc_restart arhw addr super data w (super, ATC_L2_INDEX addr) t = (usable, u)"
    by (cases "atc_restart arhw addr super data w (super, ATC_L2_INDEX addr) t")
  have "l1_writable u" using restart_keeps [OF t, of addr super data w "(super, ATC_L2_INDEX addr)"] unfolding u by simp
  define v where "v = l1_update (super', data, w, i) (\<lambda>_. atc_l2 u (super, ATC_L2_INDEX addr)) u"
  have "l1_writable v" if usable
    using restart_usable [OF u [unfolded eqTrueI [OF that]]] \<open>l1_writable u\<close>
    unfolding v_def by (intro l1_writable_fill) simp_all
  with \<open>l1_writable u\<close> show ?thesis
    by (auto simp: mmu_fill_atc_l1_def Let_def t_def [symmetric] v_def [symmetric] u intro!: l1_writable_update)
qed

lemma slow_keeps:
  "(\<And>a. io_keeps l1_writable (HWget a)) \<Longrightarrow>
   io_keeps l1_writable (mmu_get_slow HWget do_get arhw addr super data sz (super', data, False, i))"
  "(\<And>a. io_keeps l1_writable (HWput a v)) \<Longrightarrow>
   io_keeps l1_writable (mmu_put_slow HWput do_put wb3 arhw addr v super data sz (super', data, True, i))"
  using fill_l1_keeps
  by (auto simp: io_keeps_def mmu_get_slow_def mmu_put_slow_def mmu_bus_error_def io_throw_def Let_def split: prod.splits)
    (metis snd_conv)+

lemma fast_keeps:
  "(\<And>k i s. l1_writable s \<Longrightarrow> l1_writable (snd (slow (k, data, False, i) s))) \<Longrightarrow>
   io_keeps l1_writable (mmu_get_fast do_get (mmu_lookup addr data False) addr slow)"
  "(\<And>k i s. l1_writable s \<Longrightarrow> l1_writable (snd (slow' (k, data, True, i) s))) \<Longrightarrow>
   io_keeps l1_writable (mmu_put_fast do_put (mmu_lookup addr data True) addr v slow')"
  "(\<And>k i s. l1_writable s \<Longrightarrow> l1_writable (snd (slow (k, data, False, i) s))) \<Longrightarrow>
   io_keeps l1_writable (mmu_get_fast do_get (mmu_user_lookup addr super data False) addr slow)"
  "(\<And>k i s. l1_writable s \<Longrightarrow> l1_writable (snd (slow' (k, data, True, i) s))) \<Longrightarrow>
   io_keeps l1_writable (mmu_put_fast do_put (mmu_user_lookup addr super data True) addr v slow')"
  by (auto simp: io_keeps_def mmu_get_fast_def mmu_put_fast_def mmu_lookup_def mmu_user_lookup_def Let_def split: prod.splits)

lemmas slow_defs = mmu_get_byte_slow_def mmu_get_word_slow_def mmu_get_long_slow_def mmu_put_byte_slow_def
  mmu_put_word_slow_def mmu_put_long_slow_def

lemmas access_defs = mmu_get_byte_def mmu_get_word_def mmu_get_long_def mmu_put_byte_def mmu_put_word_def mmu_put_long_def
  mmu_get_quad_def mmu_put_quad_def mmu_get_user_byte_def mmu_get_user_word_def mmu_get_user_long_def
  mmu_put_user_byte_def mmu_put_user_word_def mmu_put_user_long_def

lemma slow_accesses_keep:
  "io_keeps l1_writable (mmu_get_byte_slow arhw addr super data sz (k, data, False, i))"
  "io_keeps l1_writable (mmu_get_word_slow arhw addr super data sz (k, data, False, i))"
  "io_keeps l1_writable (mmu_get_long_slow arhw addr super data sz (k, data, False, i))"
  "io_keeps l1_writable (mmu_put_byte_slow arhw addr b super data sz (k, data, True, i))"
  "io_keeps l1_writable (mmu_put_word_slow arhw addr w super data sz (k, data, True, i))"
  "io_keeps l1_writable (mmu_put_long_slow arhw addr l super data sz (k, data, True, i))"
  unfolding slow_defs by (intro slow_keeps keeps)+

lemma quad_slow_keep:
  "io_keeps l1_writable (mmu_get_quad_slow arhw addr super data (k, data, False, i))"
  "io_keeps l1_writable (mmu_put_quad_slow arhw addr q super data (k, data, True, i))"
  unfolding mmu_get_quad_slow_def mmu_put_quad_slow_def by (intro keeps slow_accesses_keep)+

lemma access_keeps [keeps]:
  "io_keeps l1_writable (mmu_get_byte arhw addr data sz)" "io_keeps l1_writable (mmu_get_word arhw addr data sz)"
  "io_keeps l1_writable (mmu_get_long arhw addr data sz)" "io_keeps l1_writable (mmu_get_quad arhw addr data)"
  "io_keeps l1_writable (mmu_put_byte arhw addr b data sz)" "io_keeps l1_writable (mmu_put_word arhw addr w data sz)"
  "io_keeps l1_writable (mmu_put_long arhw addr l data sz)" "io_keeps l1_writable (mmu_put_quad arhw addr q data)"
  unfolding access_defs
  by (intro keeps fast_keeps; simp add: slow_accesses_keep [THEN keepsD] quad_slow_keep [THEN keepsD])+

lemma user_access_keeps [keeps]:
  "io_keeps l1_writable (mmu_get_user_byte arhw addr super data sz)"
  "io_keeps l1_writable (mmu_get_user_word arhw addr super data sz)"
  "io_keeps l1_writable (mmu_get_user_long arhw addr super data sz)"
  "io_keeps l1_writable (mmu_put_user_byte arhw addr b super data sz)"
  "io_keeps l1_writable (mmu_put_user_word arhw addr w super data sz)"
  "io_keeps l1_writable (mmu_put_user_long arhw addr l super data sz)"
  unfolding access_defs by (intro fast_keeps; simp add: slow_accesses_keep [THEN keepsD])+

lemma moves_keeps:
  "io_keeps l1_writable (sfc_get_byte arhw addr)" "io_keeps l1_writable (sfc_get_word arhw addr)"
  "io_keeps l1_writable (sfc_get_long arhw addr)" "io_keeps l1_writable (dfc_put_byte arhw addr b)"
  "io_keeps l1_writable (dfc_put_word arhw addr w)" "io_keeps l1_writable (dfc_put_long arhw addr l)"
proof -
  have get: "io_keeps l1_writable (mmu_get_user_byte arhw addr x y z)"
    "io_keeps l1_writable (mmu_get_user_word arhw addr x y z)" "io_keeps l1_writable (mmu_get_user_long arhw addr x y z)"
    "io_keeps l1_writable (word_unaligned (\<lambda>a. mmu_get_user_byte arhw a x y z) addr)"
    "io_keeps l1_writable (long_unaligned (\<lambda>a. mmu_get_user_byte arhw a x y z) (\<lambda>a. mmu_get_user_word arhw a x y z) addr)"
    for x y z
    unfolding word_unaligned_def long_unaligned_def Let_def by (intro keeps)+
  have put: "io_keeps l1_writable (io_catch (mmu_put_user_byte arhw addr b x y z) (\<lambda>s. io_throw (s\<lparr>wb3_data := ucast b\<rparr>)))"
    "io_keeps l1_writable (io_catch (if \<not> c then mmu_put_user_word arhw addr w x y z
       else put_word_unaligned (\<lambda>a v. mmu_put_user_byte arhw a v x y z) addr w) (misaligned_write addr (ucast w)))"
    "io_keeps l1_writable (io_catch (if \<not> c then mmu_put_user_long arhw addr l x y z
       else put_long_unaligned (\<lambda>a v. mmu_put_user_byte arhw a v x y z) (\<lambda>a v. mmu_put_user_word arhw a v x y z) addr l)
         (misaligned_write addr l))" for x y z c
    unfolding put_word_unaligned_def put_long_unaligned_def Let_def
    by (intro keeps, simp add: io_keeps_def io_throw_def) (intro keeps)+
  show "io_keeps l1_writable (sfc_get_byte arhw addr)" "io_keeps l1_writable (sfc_get_word arhw addr)"
    "io_keeps l1_writable (sfc_get_long arhw addr)"
    using get [unfolded io_keeps_def]
    by (simp_all add: io_keeps_def sfc_get_byte_def sfc_get_word_def sfc_get_long_def Let_def)
  show "io_keeps l1_writable (dfc_put_byte arhw addr b)" "io_keeps l1_writable (dfc_put_word arhw addr w)"
    "io_keeps l1_writable (dfc_put_long arhw addr l)"
    using put [unfolded io_keeps_def] by (simp_all add: io_keeps_def dfc_put_byte_def dfc_put_word_def dfc_put_long_def Let_def)
qed

lemma l1_writable_flush: 
  "l1_writable s \<Longrightarrow> l1_writable (mmu_flush_atc addr super global s)" "l1_writable s \<Longrightarrow> l1_writable (mmu_flush_atc_all global s)"
  "l1_writable (mmu_flush_atc_all True s)"
  by (auto simp: l1_writable_def mmu_flush_atc_def mmu_flush_atc_all_def flush_l1_def Let_def l2_update_def)
    (simp add: writable_line_def flush_line_def)

lemma op_keeps:
  assumes "l1_writable s"
  shows "l1_writable (snd (mmu_op arhw opcode s))" "l1_writable (snd (mmu_translate arhw addr super data w s))"
proof -
  have "l1_writable (mmu_ptest arhw a p q s)" for a p q
    using fill_l2_keeps [OF l1_writable_flush(1) [OF assms, of a p True]]
    by (simp add: mmu_ptest_def Let_def split: prod.split) (metis snd_conv)
  then show "l1_writable (snd (mmu_op arhw opcode s))" using assms by (simp add: mmu_op_def Let_def l1_writable_flush)
  show "l1_writable (snd (mmu_translate arhw addr super data w s))"
    using assms by (simp add: mmu_translate_def Let_def io_throw_def fill_l2_keeps)
qed

lemma step_keeps: "mmu_step arhw s t \<Longrightarrow> l1_writable s \<Longrightarrow> l1_writable t"
  by (induction rule: mmu_step.induct)
    (simp_all add: access_keeps [THEN keepsD] moves_keeps [THEN keepsD] op_keeps mmu_set_tc_def mmu_set_super_def
      l1_writable_flush, simp add: l1_writable_def)

lemma reachable_keeps: "mmu_reachable arhw s \<Longrightarrow> l1_writable s"
proof (induction rule: mmu_reachable.induct)
  case (start s)
  have "atc_l1 (mmu_reset s) = atc_l1 (mmu_flush_atc_all True s)" by (simp add: mmu_reset_def)
  then show ?case using l1_writable_flush(3) l1_writable_cong by blast
qed (rule step_keeps)

end

text \<open>
  C7. Writes respect the protection of pages: in every state that the accesses, the instructions PFLUSH, PTEST
  and MOVES and changes of the control registers reach from a reset, a line of the first level of the cache
  that a write hits was filled from a page that is resident for the access, not write-protected and marked as
  modified. The emulated devices must leave the cache alone.
\<close>

theorem mmu_write_hits_writable:
  assumes "list_all (device_keeps l1_writable) arhw" "mmu_reachable arhw s"
    and "mmu_user_lookup addr super data True s = (True, cl)"
  shows "valid_for data (atc_l1 s cl) \<and> \<not> write_protect (atc_l1 s cl) \<and> modified (atc_l1 s cl)"
proof -
  have "l1_writable s" using atc_devices.reachable_keeps [OF atc_devices.intro] assms by blast
  moreover obtain i where cl: "cl = (super, data, True, i)" and hit: "ucast (tag (atc_l1 s cl)) = drop_bit 18 addr"
    using assms(3) by (auto simp: mmu_user_lookup_def Let_def drop_bit_drop_bit)
  ultimately have "writable_line data (atc_l1 s cl)" by (simp add: l1_writable_def)
  moreover have "\<not> bit (drop_bit 18 addr) 14" "\<not> bit (drop_bit 18 addr) 15"
    using bit_imp_le_length [of addr 32] bit_imp_le_length [of addr 33] by (auto simp: bit_drop_bit_eq)
  then have "tag (atc_l1 s cl) \<noteq> 0x8000" "tag (atc_l1 s cl) \<noteq> 0x7fff" using hit [symmetric] by (auto simp: bit_simps)
  ultimately show ?thesis
    by (auto simp: writable_line_def)
qed

section \<open>A mapped machine\<close>

lemma mmu_new_reads:
  "do_get_mem_long 0x10000 (mem mmu_new) = 0x10202" "do_get_mem_long 0x10200 (mem mmu_new) = 0x10402"
  "do_get_mem_long 0x10400 (mem mmu_new) = 0x20001" "do_get_mem_long 0x10404 (mem mmu_new) = 0x21005"
  "do_get_mem_long 0x10408 (mem mmu_new) = 0"
  by (simp_all add: mmu_new_def do_get_mem_long_def do_get_mem_word_def do_put_mem_long_def do_put_mem_word_def)

lemma mmu_new_search:
  "\<exists>m. table_search False w 0x10000 0x345 (mem mmu_new) = (if w then 0x20019 else 0x20009, m)"
  "\<exists>m. table_search False w 0x10000 0x1345 (mem mmu_new) = (0x2100d, m)"
  "\<exists>m. table_search False w 0x10000 0x2345 (mem mmu_new) = (0, m)"
  by (simp_all add: table_search_def root_desc_addr_def ptr_desc_addr_def page_desc_addr_def Let_def mmu_new_reads
    mask_bit [symmetric] mask_bit(2) [symmetric, unfolded One_nat_def])

lemma mmu_new_translation:
  "\<exists>m. translation 0x345 False True w mmu_new = (Some 0x20345, m)"
  "\<exists>m. translation 0x1345 False True True mmu_new = (None, m)"
  "\<exists>m. translation 0x2345 False True w mmu_new = (None, m)"
  using mmu_new_search [of w] mmu_new_search(2) [of True]
  by (auto simp: translation_def mmu_match_ttr_def mmu_do_match_ttr_def Let_def page_mask_def mask_bit [symmetric]
    mmu_new_def simp del: bit_0)

lemma mmu_new_addrs:
  "search_addrs False 0x10000 0x345 (mem mmu_new) = [0x10000, 0x10200, 0x10400]"
  "search_addrs False 0x10000 0x1345 (mem mmu_new) = [0x10000, 0x10200, 0x10404]"
  "search_addrs False 0x10000 0x2345 (mem mmu_new) = [0x10000, 0x10200, 0x10408]"
  by (simp_all add: search_addrs_def root_desc_addr_def ptr_desc_addr_def page_desc_addr_def Let_def mmu_new_reads
    mask_bit [symmetric] mask_bit(2) [symmetric, unfolded One_nat_def])

lemma mmu_new_tables: "addr \<in> {0x345, 0x1345, 0x2345} \<Longrightarrow> tables_ok addr False mmu_new"
proof -
  assume "addr \<in> {0x345, 0x1345, 0x2345}"
  moreover have "mmu_pagesize_8k mmu_new = False" "urp mmu_new = 0x10000" by (simp_all add: mmu_new_def)
  moreover have "list_all (ram_long mmu_new) [0x10000, 0x10200, 0x10400, 0x10404, 0x10408]"
    by (simp add: ram_long_def addr_24_def is_hw_def test_ram_boundary_def mmu_new_def)
  ultimately show ?thesis by (auto simp: tables_ok_def mmu_new_addrs)
qed

lemma mmu_new_fields:
  "mmu_pagesize_8k mmu_new = False" "urp mmu_new = 0x10000" "regs_s mmu_new = False" "current_atc mmu_new = False"
  "atc_l1 mmu_new = (\<lambda>_. empty_line)" "atc_l2 mmu_new = (\<lambda>_. empty_line)"
  by (simp_all add: mmu_new_def)

lemma mmu_new_fresh: "addr \<in> {0x345, 0x1345, 0x2345} \<Longrightarrow> fresh_access addr True w mmu_new"
  using mmu_new_tables [of addr]
  by (auto simp: fresh_access_def searchable_def atc_misses_def ATC_TAG_def mmu_new_fields empty_line_def)

text \<open>
  C10. The table search is a function of memory: when the descriptors on its way are different long words of
  plain memory, \<^verbatim>\<open>mmu_lookup_pagetable\<close> raises no exception and gives the page descriptor of the
  specification, with the write protection of the upper levels, and leaves memory with the marks of use and
  modification of the specification and no other change.
\<close>

theorem mmu_table_search:
  assumes "tables_ok addr super s"
  shows "mmu_lookup_pagetable arhw addr super w s =
    (case table_search (mmu_pagesize_8k s) w (if super then srp s else urp s) addr (mem s) of
       (d, m) \<Rightarrow> (Some d, s\<lparr>mem := m\<rparr>))"
  using assms by (rule search_refines)

theorem mmu_table_search_witness:
  "fst (mmu_lookup_pagetable [] 0x345 False True mmu_new) = Some 0x20019"
  using mmu_table_search [of "0x345" False mmu_new "[]" True] mmu_new_tables [of "0x345"] mmu_new_search(1) [of True]
  by (auto simp: mmu_new_fields)

lemma mmu_new_ram: "ram_target False w 0x20345 mmu_new"
  by (simp add: mmu_new_def ram_target_def test_ram_boundary_def)

theorem mmu_read_witness:
  "(\<exists>m t. mmu_get_long [] 0x345 True sz_long mmu_new = (Some (do_get_mem_long 0x20345 m), t) \<and> mem t = m \<and>
     mmu_get_byte [] 0x346 True sz_byte t = (Some (m 0x20346), t)) \<and>
   (\<exists>t. mmu_get_long [] 0x2345 True sz_long mmu_new = (None, t) \<and> mmu_fault_addr t = 0x2345)"
proof -
  obtain m m' where m: "translation 0x345 False True False mmu_new = (Some 0x20345, m)"
    "translation 0x2345 False True False mmu_new = (None, m')" using mmu_new_translation by blast
  have "regs_s mmu_new = False" "\<not> hw (atc_l1 mmu_new x)" for x
    by (simp_all add: mmu_new_fields empty_line_def)
  with mmu_read [OF mmu_new_fresh, of "0x345" "[]"] mmu_read [OF mmu_new_fresh, of "0x2345" "[]"] m
  show ?thesis using mmu_new_ram [of False] by (auto simp: same_page_def)
qed

theorem mmu_write_witness:
  "(\<exists>m t. mmu_put_long [] 0x345 0xdeadbeef True sz_long mmu_new = (Some (), t) \<and>
     mem t = do_put_mem_long 0x20345 0xdeadbeef m \<and>
     mmu_put_byte [] 0x346 1 True sz_byte t = (Some (), mem_update (do_put_mem_byte 0x20346 1) t)) \<and>
   (\<exists>t. mmu_put_long [] 0x1345 0xdeadbeef True sz_long mmu_new = (None, t) \<and> mmu_fault_addr t = 0x1345)"
proof -
  obtain m m' where m: "translation 0x345 False True True mmu_new = (Some 0x20345, m)"
    "translation 0x1345 False True True mmu_new = (None, m')" using mmu_new_translation by blast
  have "regs_s mmu_new = False" "\<not> hw (atc_l1 mmu_new x)" for x
    by (simp_all add: mmu_new_fields empty_line_def)
  with mmu_write [OF mmu_new_fresh, of "0x345" "[]" "0xdeadbeef"] mmu_write [OF mmu_new_fresh, of "0x1345" "[]" "0xdeadbeef"] m
  show ?thesis using mmu_new_ram [of True] by (auto simp: same_page_def)
qed

lemma mmu_new_l1_update:
  "translation addr super data w (l1_update r f mmu_new) = translation addr super data w mmu_new"
  "searchable addr super data (l1_update r f mmu_new) = searchable addr super data mmu_new"
  "regs_s (l1_update r f mmu_new) = False" "current_atc (l1_update r f mmu_new) = False"
  "atc_l1 (l1_update r f mmu_new) = (\<lambda>_. empty_line)(r := f empty_line)"
  "atc_l2 (l1_update r f mmu_new) = (\<lambda>_. empty_line)"
proof -
  have ttr: "mmu_match_ttr addr super data (l1_update r f mmu_new) = mmu_match_ttr addr super data mmu_new" for addr super data
    by (simp add: l1_update_def mmu_match_ttr_def Let_def)
  have rest: "ram_long (l1_update r f mmu_new) = ram_long mmu_new" "mmu_enabled (l1_update r f mmu_new) = mmu_enabled mmu_new"
    "mem (l1_update r f mmu_new) = mem mmu_new" "mmu_pagesize_8k (l1_update r f mmu_new) = mmu_pagesize_8k mmu_new"
    "srp (l1_update r f mmu_new) = srp mmu_new" "urp (l1_update r f mmu_new) = urp mmu_new"
    by (simp_all add: l1_update_def ram_long_def [abs_def] test_ram_boundary_def)
  show "translation addr super data w (l1_update r f mmu_new) = translation addr super data w mmu_new"
    "searchable addr super data (l1_update r f mmu_new) = searchable addr super data mmu_new"
    unfolding translation_def searchable_def tables_ok_def ttr rest by (rule refl)+
qed (simp_all add: l1_update_def mmu_new_fields)

theorem mmu_fault_exposes_line_witness:
  "let s = l1_update (False, True, False, 2) (\<lambda>l. l\<lparr>tag := NOT (ATC_TAG 0x102345), bus_fault := True\<rparr>) mmu_new
   in fst (mmu_get_byte [] 0x102345 True sz_byte s) = None \<and>
      fst (mmu_get_byte [] 0x102345 True sz_byte (snd (mmu_get_byte [] 0x2345 True sz_byte s))) \<noteq> None"
proof -
  define s where "s = l1_update (False, True, False, 2) (\<lambda>l. l\<lparr>tag := NOT (ATC_TAG 0x102345), bus_fault := True\<rparr>) mmu_new"
  obtain m where "translation 0x2345 (regs_s s) True False s = (None, m)"
    using mmu_new_translation(3) by (auto simp: s_def mmu_new_l1_update)
  moreover have "fresh_access 0x2345 True False s"
    using mmu_new_fresh [of "0x2345" False]
    by (simp add: s_def fresh_access_def mmu_new_l1_update atc_misses_def mmu_new_fields l1_ref_def ATC_L1_INDEX_def
      ATC_TAG_def empty_line_def)
  ultimately show ?thesis
    using mmu_fault_exposes_line [of "0x2345" s m "0x102345" "atc_l1 s (l1_ref 0x102345 False True False)" "[]"]
    by (simp add: s_def [symmetric] Let_def)
      (simp add: s_def mmu_new_l1_update ATC_L1_INDEX_def l1_ref_def empty_line_def)
qed

theorem mmu_flush_8k_witness:
  "let s = (l1_update (False, True, True, 1) (\<lambda>l. l\<lparr>tag := ATC_TAG 0x1000, atc_phys := 0x20000\<rparr>) mmu_new)\<lparr>mmu_pagesize_8k := True\<rparr>
   in atc_holds 0x1000 False True True 0x21000 (mmu_flush_atc 0 False True s)"
  using mmu_flush_8k [of "(l1_update (False, True, True, 1) (\<lambda>l. l\<lparr>tag := ATC_TAG 0x1000, atc_phys := 0x20000\<rparr>) mmu_new)
      \<lparr>mmu_pagesize_8k := True\<rparr>" 0 True True "0x21000" True]
  by (simp add: Let_def atc_holds_def [of _ _ _ _ _ "_\<lparr>mmu_pagesize_8k := True\<rparr>"] mmu_new_l1_update l1_ref_def ATC_L1_INDEX_def)

theorem put_quad_loses_half_witness:
  "let s = l1_update (False, True, True, 0) (\<lambda>l. l\<lparr>tag := ATC_TAG 0x348, atc_phys := 0x20000\<rparr>) mmu_new
   in do_get_mem_quad 0x20348 (mem (snd (put_quad [] 0x348 (ucast (0x123456789abcdef0 :: 64 word)) s))) = 0x9abcdef0"
  using put_quad_loses_half [of "0x348" "l1_update (False, True, True, 0) (\<lambda>l. l\<lparr>tag := ATC_TAG 0x348, atc_phys := 0x20000\<rparr>) mmu_new"
      "0x20348" "[]" "0x123456789abcdef0"]
  by (simp add: Let_def atc_holds_def mmu_new_l1_update l1_ref_def ATC_L1_INDEX_def)

lemma mmu_new_reachable: "mmu_reachable arhw mmu_new"
proof (rule mmu_reachable.step [OF mmu_reachable.start [of _ mmu_new]])
  show "mmu_step arhw (mmu_reset mmu_new) mmu_new"
    by (rule mmu_step.processor)
      (auto simp: mmu_reset_def mmu_flush_atc_all_def mmu_new_fields flush_line_def empty_line_def)
qed

theorem mmu_write_hits_writable_witness:
  "let t = snd (mmu_put_byte [] 0x345 1 True sz_byte mmu_new); l = atc_l1 t (l1_ref 0x345 False True True)
   in mmu_reachable [] t \<and> mmu_user_lookup 0x345 False True True t = (True, l1_ref 0x345 False True True) \<and>
      valid_for True l \<and> \<not> write_protect l \<and> modified l"
proof -
  define t where "t = snd (mmu_put_byte [] 0x345 1 True sz_byte mmu_new)"
  have "mmu_reachable [] t"
    unfolding t_def by (rule mmu_reachable.step [OF mmu_new_reachable mmu_step.put_byte])
  moreover have "mmu_user_lookup 0x345 False True True t = (True, l1_ref 0x345 False True True)"
  proof -
    obtain m where "translation 0x345 (regs_s mmu_new) True True mmu_new = (Some 0x20345, m)"
      using mmu_new_translation by (metis mmu_new_fields(3))
    from put_miss [OF mmu_new_fresh this, of do_put_mem_byte 1 "HWput_b []" ucast "[]" sz_byte] mmu_new_ram [of True]
    show ?thesis by (auto simp: mmu_new_fields t_def mmu_put_byte_def mmu_put_byte_slow_def mmu_user_lookup_ref atc_holds_def)
  qed
  ultimately show ?thesis
    using mmu_write_hits_writable [of "[]" t "0x345" False True "l1_ref 0x345 False True True"] by (simp add: t_def Let_def)
qed

end
