(* ===== verification/Hw_Blitter.thy ===== *)
theory Hw_Blitter
  imports Cpu_Mmu
begin

text \<open>
  The blitter (\<^verbatim>\<open>src/blitter.cpp\<close>): its registers, the word operation on a destination word, the loops of
  the macro \<^verbatim>\<open>HOP_OPS\<close> over the words of a line and the lines, and the start of a transfer. Memory is reached
  through the physical accesses, which may raise a bus error in the middle of a transfer. The build modelled
  is the one without \<^verbatim>\<open>BLITTER_MEMMOVE\<close>.
\<close>

section \<open>State\<close>

record blitter =
  halftone_ram :: "u16 list"
  end_mask_1 :: u16
  end_mask_2 :: u16
  end_mask_3 :: u16
  NFSR :: bool
  FXSR :: bool
  x_count :: u16
  y_count :: u16
  hop :: u8
  opr :: u8
  line_num :: u8
  skewreg :: u8
  halftone_curroffset :: u16
  halftone_direction :: u16
  source_x_inc :: u16
  source_y_inc :: u16
  dest_x_inc :: u16
  dest_y_inc :: u16
  source_addr :: u32
  source_addr_backup :: u32
  dest_addr :: u32
  dest_addr_backup :: u32
  blit :: bool

text \<open>The machine with its blitter; \<open>opr\<close> is the field \<^verbatim>\<open>op\<close>.\<close>

record blt_machine = mmu +
  blt :: blitter

type_synonym ('a, 'b) blt_io = "('a blt_machine_scheme, 'b) io"

definition blt_get :: "(blitter \<Rightarrow> 'b) \<Rightarrow> ('a, 'b) blt_io" where
  "blt_get f = io_get (\<lambda>s. f (blt s))"

definition blt_set :: "(blitter \<Rightarrow> blitter) \<Rightarrow> ('a, unit) blt_io" where
  "blt_set f = io_modify (\<lambda>s. s\<lparr>blt := f (blt s)\<rparr>)"

definition BLITTER_reset :: "blitter \<Rightarrow> blitter" where
  "BLITTER_reset b =
     b\<lparr>end_mask_1 := 0, end_mask_2 := 0, end_mask_3 := 0, NFSR := False, FXSR := False, x_count := 0, y_count := 0,
       hop := 0, opr := 0, line_num := 0, skewreg := 0, halftone_curroffset := 0, halftone_direction := 0,
       source_x_inc := 0, source_y_inc := 0, dest_x_inc := 0, dest_y_inc := 0, source_addr := 0, dest_addr := 0,
       blit := False\<rparr>"

section \<open>Memory accesses\<close>

definition LM_UW :: "'a blt_machine_scheme base_io list \<Rightarrow> u32 \<Rightarrow> ('a, u16) blt_io" where
  "LM_UW arhw addr = phys_get_word arhw addr"

definition SM_UW :: "'a blt_machine_scheme base_io list \<Rightarrow> u32 \<Rightarrow> u16 \<Rightarrow> ('a, unit) blt_io" where
  "SM_UW arhw addr value =
     (if addr \<le> 0x800 \<or> addr \<ge> 0x0e00000 \<and> addr < 0x1000000 then io_return () else phys_put_word arhw addr value)"

section \<open>The word operation\<close>

definition hop_op :: "u8 \<Rightarrow> u16 \<Rightarrow> u16 \<Rightarrow> u16" where
  "hop_op n opd dst =
     [0, opd AND dst, opd AND NOT dst, opd, NOT opd AND dst, dst, opd XOR dst, opd OR dst,
      NOT opd AND NOT dst, NOT opd XOR dst, NOT dst, opd OR NOT dst, NOT opd, NOT opd OR dst, NOT opd OR NOT dst,
      0xffff] ! unat n"

text \<open>
  The operand \<^verbatim>\<open>_HOP_0\<close> to \<^verbatim>\<open>_HOP_3\<close>, and the instances of the macro that read the source. The tables for
  a negative source increment (\<open>neg\<close>) fill \<^verbatim>\<open>source_buffer\<close> from the other side.
\<close>

definition hop_data :: "blitter \<Rightarrow> u32 \<Rightarrow> u16" where
  "hop_data b buf =
     (let half = halftone_ram b ! unat (halftone_curroffset b);
          source = ucast (drop_bit (unat (skewreg b AND 15)) buf)
      in [0xffff, half, source, source AND half] ! unat (hop b))"

definition hop_reads :: "blitter \<Rightarrow> bool" where
  "hop_reads b \<longleftrightarrow> hop b \<ge> 2 \<and> opr b \<notin> {0, 5, 10, 15}"

definition source_shift :: "bool \<Rightarrow> u32 \<Rightarrow> u32" where
  "source_shift neg buf = (if neg then drop_bit 16 buf else push_bit 16 buf)"

definition source_fill :: "bool \<Rightarrow> u16 \<Rightarrow> u32 \<Rightarrow> u32" where
  "source_fill neg w buf = buf OR (if neg then push_bit 16 (ucast w) else ucast w)"

definition get_source :: "'a blt_machine_scheme base_io list \<Rightarrow> bool \<Rightarrow> u32 \<Rightarrow> ('a, u32) blt_io" where
  "get_source arhw neg buf =
     io_bind (blt_get (\<lambda>b. (hop_reads b, source_addr b))) (\<lambda>(reads, a).
       if reads then io_bind (LM_UW arhw a) (\<lambda>w. io_return (source_fill neg w buf)) else io_return buf)"

definition add_source :: "(blitter \<Rightarrow> u16) \<Rightarrow> ('a, unit) blt_io" where
  "add_source inc = blt_set (\<lambda>b. b\<lparr>source_addr := source_addr b + scast (inc b)\<rparr>)"

definition add_dest :: "(blitter \<Rightarrow> u16) \<Rightarrow> ('a, unit) blt_io" where
  "add_dest inc = blt_set (\<lambda>b. b\<lparr>dest_addr := dest_addr b + scast (inc b)\<rparr>)"

definition put_dest :: "'a blt_machine_scheme base_io list \<Rightarrow> (blitter \<Rightarrow> u16) \<Rightarrow> u32 \<Rightarrow> ('a, unit) blt_io" where
  "put_dest arhw end_mask buf =
     io_bind (blt_get dest_addr) (\<lambda>a.
     io_bind (LM_UW arhw a) (\<lambda>dst_data.
     io_bind (blt_get (\<lambda>b. (hop_op (opr b) (hop_data b buf) dst_data, end_mask b))) (\<lambda>(v, msk).
       SM_UW arhw a ((dst_data AND NOT msk) OR (v AND msk)))))"

section \<open>The loops\<close>

text \<open>
  The loop over the middle words of a line. The first argument bounds the number of its rounds; 65536 is
  enough, since \<open>x\<close> stays below 65534.
\<close>

fun blit_middle :: "nat \<Rightarrow> 'a blt_machine_scheme base_io list \<Rightarrow> bool \<Rightarrow> u16 \<Rightarrow> u32 \<Rightarrow> ('a, u32) blt_io" where
  "blit_middle 0 arhw neg x buf = io_return buf"
| "blit_middle (Suc n) arhw neg x buf =
     io_bind (blt_get (\<lambda>b. uint x < uint (x_count b) - 2)) (\<lambda>more.
       if \<not> more then io_return buf
       else io_bind (add_source source_x_inc) (\<lambda>_.
            io_bind (add_dest dest_x_inc) (\<lambda>_.
            io_bind (get_source arhw neg (source_shift neg buf)) (\<lambda>buf.
            io_bind (put_dest arhw end_mask_2 buf) (\<lambda>_.
              blit_middle n arhw neg (x + 1) buf)))))"

definition blit_first :: "'a blt_machine_scheme base_io list \<Rightarrow> bool \<Rightarrow> u32 \<Rightarrow> ('a, u32) blt_io" where
  "blit_first arhw neg buf =
     io_bind (blt_get FXSR) (\<lambda>fxsr.
     io_bind (if fxsr
              then io_bind (get_source arhw neg (source_shift neg buf)) (\<lambda>buf.
                   io_bind (add_source source_x_inc) (\<lambda>_. io_return buf))
              else io_return buf) (\<lambda>buf.
     io_bind (get_source arhw neg (source_shift neg buf)) (\<lambda>buf.
     io_bind (put_dest arhw end_mask_1 buf) (\<lambda>_. io_return buf))))"

text \<open>
  In the last word, \<^verbatim>\<open>~(0xffff>>skew)\<close> is a negative \<^verbatim>\<open>int\<close> and compared as such with the mask.
\<close>

definition last_reads :: "blitter \<Rightarrow> bool" where
  "last_reads b \<longleftrightarrow> \<not> NFSR b \<or>
     NOT (drop_bit (unat (skewreg b AND 15)) (0xffff :: int)) > uint (end_mask_3 b)"

definition blit_last :: "'a blt_machine_scheme base_io list \<Rightarrow> bool \<Rightarrow> u32 \<Rightarrow> ('a, u32) blt_io" where
  "blit_last arhw neg buf =
     io_bind (blt_get (\<lambda>b. x_count b \<ge> 2)) (\<lambda>more.
       if \<not> more then io_return buf
       else io_bind (add_dest dest_x_inc) (\<lambda>_.
            io_bind (blt_get last_reads) (\<lambda>reads.
            io_bind (if reads
                     then io_bind (add_source source_x_inc) (\<lambda>_. get_source arhw neg (source_shift neg buf))
                     else io_return (source_shift neg buf)) (\<lambda>buf.
            io_bind (put_dest arhw end_mask_3 buf) (\<lambda>_. io_return buf)))))"

definition halftone_inc :: "blitter \<Rightarrow> blitter" where
  "halftone_inc b =
     (if hop b AND 1 \<noteq> 0
      then b\<lparr>halftone_curroffset := (halftone_curroffset b + halftone_direction b) AND 15\<rparr> else b)"

definition blit_line :: "'a blt_machine_scheme base_io list \<Rightarrow> bool \<Rightarrow> u32 \<Rightarrow> ('a, u32) blt_io" where
  "blit_line arhw neg buf =
     io_bind (blit_first arhw neg buf) (\<lambda>buf.
     io_bind (blit_middle 65536 arhw neg 0 buf) (\<lambda>buf.
     io_bind (blit_last arhw neg buf) (\<lambda>buf.
     io_bind (add_source source_y_inc) (\<lambda>_.
     io_bind (add_dest dest_y_inc) (\<lambda>_.
     io_bind (blt_set halftone_inc) (\<lambda>_. io_return buf))))))"

text \<open>
  The loop over the lines, with a bound on the number of its rounds: 65536 are enough when no access changes
  \<^verbatim>\<open>y_count\<close>, which only a transfer into the registers of the blitter itself does.
\<close>

fun blit_lines :: "nat \<Rightarrow> 'a blt_machine_scheme base_io list \<Rightarrow> bool \<Rightarrow> u32 \<Rightarrow> ('a, unit) blt_io" where
  "blit_lines 0 arhw neg buf = io_return ()"
| "blit_lines (Suc n) arhw neg buf =
     io_bind (blit_line arhw neg buf) (\<lambda>buf.
     io_bind (blt_set (\<lambda>b. b\<lparr>y_count := y_count b - 1\<rparr>)) (\<lambda>_.
     io_bind (blt_get (\<lambda>b. y_count b > 0)) (\<lambda>more.
       if more then blit_lines n arhw neg buf else io_return ())))"

definition halftone_start :: "blitter \<Rightarrow> blitter" where
  "halftone_start b =
     (if hop b AND 1 \<noteq> 0
      then b\<lparr>halftone_curroffset := ucast (if line_num b AND 0x20 \<noteq> 0 then skewreg b AND 15 else line_num b AND 15),
             halftone_direction := if sint (dest_y_inc b) \<ge> 0 then 1 else - 1\<rparr>
      else b)"

definition do_hop_op :: "'a blt_machine_scheme base_io list \<Rightarrow> bool \<Rightarrow> ('a, unit) blt_io" where
  "do_hop_op arhw neg = io_bind (blt_set halftone_start) (\<lambda>_. blit_lines 65536 arhw neg 0)"

definition restore_addresses :: "blitter \<Rightarrow> blitter" where
  "restore_addresses b = b\<lparr>source_addr := source_addr_backup b, dest_addr := dest_addr_backup b\<rparr>"

definition source_out_of_range :: "blitter \<Rightarrow> bool" where
  "source_out_of_range b \<longleftrightarrow> hop b \<noteq> 0 \<and> hop b \<noteq> 1 \<and> opr b \<noteq> 0 \<and> opr b \<noteq> 5 \<and> opr b \<noteq> 10 \<and> opr b \<noteq> 15 \<and>
     (source_addr b \<le> 0x800 \<or> source_addr b \<ge> 0x0e80000 \<and> source_addr b < 0x1000000)"

definition dest_out_of_range :: "blitter \<Rightarrow> bool" where
  "dest_out_of_range b \<longleftrightarrow> dest_addr b \<le> 0x800 \<or> dest_addr b \<ge> 0x0e00000 \<and> dest_addr b < 0x1000000"

definition Do_Blit :: "'a blt_machine_scheme base_io list \<Rightarrow> ('a, unit) blt_io" where
  "Do_Blit arhw =
     io_bind (blt_set restore_addresses) (\<lambda>_.
     io_bind (blt_get (\<lambda>b. (source_out_of_range b \<or> dest_out_of_range b, sint (source_x_inc b) < 0))) (\<lambda>(bad, neg).
       if bad then io_return () else do_hop_op arhw neg))"

section \<open>Registers\<close>

definition LOAD_B_ff8a3c :: "blitter \<Rightarrow> u8" where
  "LOAD_B_ff8a3c b = line_num b AND 0x3f"

definition STORE_B_ff8a3a :: "u8 \<Rightarrow> blitter \<Rightarrow> blitter" where
  "STORE_B_ff8a3a v b = b\<lparr>hop := v AND 3\<rparr>"

definition STORE_B_ff8a3b :: "u8 \<Rightarrow> blitter \<Rightarrow> blitter" where
  "STORE_B_ff8a3b v b = b\<lparr>opr := v AND 15\<rparr>"

definition STORE_B_ff8a3c :: "u8 \<Rightarrow> blitter \<Rightarrow> blitter" where
  "STORE_B_ff8a3c v b =
     (let b = b\<lparr>line_num := v AND 0x3f\<rparr> in if y_count b \<noteq> 0 \<and> v AND 0x80 \<noteq> 0 then b\<lparr>blit := True\<rparr> else b)"

definition STORE_B_ff8a3d :: "u8 \<Rightarrow> blitter \<Rightarrow> blitter" where
  "STORE_B_ff8a3d v b = b\<lparr>NFSR := (v AND 0x40 \<noteq> 0), FXSR := (v AND 0x80 \<noteq> 0), skewreg := v AND 0xcf\<rparr>"

text \<open>The argument \<open>off\<close> is the address of the device.\<close>

definition BLITTER_handleRead :: "u32 \<Rightarrow> u32 \<Rightarrow> ('a, u8) blt_io" where
  "BLITTER_handleRead off addr =
     blt_get (\<lambda>b. let a = addr - off
       in if a = 0x3a then hop b else if a = 0x3b then opr b else if a = 0x3c then LOAD_B_ff8a3c b
          else if a = 0x3d then skewreg b else 0)"

definition register_word :: "blitter \<Rightarrow> u32 \<Rightarrow> u16" where
  "register_word b a =
     (if a = 0x20 then source_x_inc b else if a = 0x22 then source_y_inc b
      else if a = 0x24 then ucast (drop_bit 16 (source_addr b)) else if a = 0x26 then ucast (source_addr b)
      else if a = 0x28 then end_mask_1 b else if a = 0x2a then end_mask_2 b else if a = 0x2c then end_mask_3 b
      else if a = 0x2e then dest_x_inc b else if a = 0x30 then dest_y_inc b
      else if a = 0x32 then ucast (drop_bit 16 (dest_addr b)) else if a = 0x34 then ucast (dest_addr b)
      else if a = 0x36 then x_count b else if a = 0x38 then y_count b else 0)"

definition BLITTER_handleReadW :: "u32 \<Rightarrow> u32 \<Rightarrow> ('a, u16) blt_io" where
  "BLITTER_handleReadW off addr =
     (let a = addr - off
      in if a < 0x20 then blt_get (\<lambda>b. halftone_ram b ! (unat a div 2))
         else if a = 0x3a \<or> a = 0x3c then BASE_IO_handleReadW (BLITTER_handleRead off) addr
         else blt_get (\<lambda>b. register_word b a))"

definition BLITTER_handleReadL :: "u32 \<Rightarrow> u32 \<Rightarrow> ('a, u32) blt_io" where
  "BLITTER_handleReadL off addr =
     (let a = addr - off
      in if a < 0x20 then BASE_IO_handleReadL (BLITTER_handleReadW off) addr
         else blt_get (\<lambda>b. if a = 0x24 then source_addr b else if a = 0x32 then dest_addr b else 0))"

definition blit_if_started :: "'a blt_machine_scheme base_io list \<Rightarrow> ('a, unit) blt_io" where
  "blit_if_started arhw =
     io_bind (blt_get blit) (\<lambda>start.
       if start then io_bind (Do_Blit arhw) (\<lambda>_. blt_set (\<lambda>b. b\<lparr>blit := False\<rparr>)) else io_return ())"

definition store_byte :: "u32 \<Rightarrow> u8 \<Rightarrow> blitter \<Rightarrow> blitter" where
  "store_byte a value =
     (if a = 0x3a then STORE_B_ff8a3a value else if a = 0x3b then STORE_B_ff8a3b value
      else if a = 0x3c then STORE_B_ff8a3c value else if a = 0x3d then STORE_B_ff8a3d value else id)"

definition BLITTER_handleWrite :: "'a blt_machine_scheme base_io list \<Rightarrow> u32 \<Rightarrow> u32 \<Rightarrow> u8 \<Rightarrow> ('a, unit) blt_io" where
  "BLITTER_handleWrite arhw off addr value =
     io_bind (blt_set (store_byte (addr - off) value)) (\<lambda>_. blit_if_started arhw)"

definition set_source :: "u32 \<Rightarrow> blitter \<Rightarrow> blitter" where
  "set_source a b = b\<lparr>source_addr := a, source_addr_backup := a\<rparr>"

definition set_dest :: "u32 \<Rightarrow> blitter \<Rightarrow> blitter" where
  "set_dest a b = b\<lparr>dest_addr := a, dest_addr_backup := a\<rparr>"

definition store_word :: "u32 \<Rightarrow> u16 \<Rightarrow> blitter \<Rightarrow> blitter" where
  "store_word a value b =
     (if a = 0x20 then b\<lparr>source_x_inc := value\<rparr> else if a = 0x22 then b\<lparr>source_y_inc := value\<rparr>
      else if a = 0x24 then set_source ((source_addr b AND 0x0000ffff) OR push_bit 16 (ucast value)) b
      else if a = 0x26 then set_source ((source_addr b AND 0xffff0000) OR ucast (value AND 0xfffe)) b
      else if a = 0x28 then b\<lparr>end_mask_1 := value\<rparr> else if a = 0x2a then b\<lparr>end_mask_2 := value\<rparr>
      else if a = 0x2c then b\<lparr>end_mask_3 := value\<rparr>
      else if a = 0x2e then b\<lparr>dest_x_inc := value\<rparr> else if a = 0x30 then b\<lparr>dest_y_inc := value\<rparr>
      else if a = 0x32 then set_dest ((dest_addr b AND 0x0000ffff) OR push_bit 16 (ucast value)) b
      else if a = 0x34 then set_dest ((dest_addr b AND 0xffff0000) OR ucast (value AND 0xfffe)) b
      else if a = 0x36 then b\<lparr>x_count := value\<rparr> else if a = 0x38 then b\<lparr>y_count := value\<rparr>
      else if a = 0x3a then STORE_B_ff8a3b (ucast value) (STORE_B_ff8a3a (ucast (drop_bit 8 value)) b)
      else if a = 0x3c then STORE_B_ff8a3d (ucast value) (STORE_B_ff8a3c (ucast (drop_bit 8 value)) b)
      else b)"

definition BLITTER_handleWriteW :: "'a blt_machine_scheme base_io list \<Rightarrow> u32 \<Rightarrow> u32 \<Rightarrow> u16 \<Rightarrow> ('a, unit) blt_io" where
  "BLITTER_handleWriteW arhw off addr value =
     (let a = addr - off
      in if a < 0x20 then blt_set (\<lambda>b. b\<lparr>halftone_ram := (halftone_ram b)[unat a div 2 := value]\<rparr>)
         else io_bind (blt_set (store_word a value)) (\<lambda>_. blit_if_started arhw))"

definition BLITTER_handleWriteL :: "'a blt_machine_scheme base_io list \<Rightarrow> u32 \<Rightarrow> u32 \<Rightarrow> u32 \<Rightarrow> ('a, unit) blt_io" where
  "BLITTER_handleWriteL arhw off addr value =
     (let a = addr - off
      in if a = 0x24 then blt_set (set_source (value AND 0xfffffffe))
         else if a = 0x32 then blt_set (set_dest (value AND 0xfffffffe))
         else BASE_IO_handleWriteL (BLITTER_handleWriteW arhw off) addr value)"

section \<open>Specification of a transfer\<close>

text \<open>
  The rectangle of a transfer: its width and height, the addresses of its words, the mask of a column and
  the halftone line of a row. \<open>row_reads\<close> counts the source words that a row reads.
\<close>

definition blit_width :: "blitter \<Rightarrow> nat" where
  "blit_width b = max 1 (unat (x_count b))"

definition blit_height :: "blitter \<Rightarrow> nat" where
  "blit_height b = (if y_count b = 0 then 65536 else unat (y_count b))"

definition lead :: "blitter \<Rightarrow> nat" where
  "lead b = of_bool (FXSR b)"

definition skips_last :: "blitter \<Rightarrow> bool" where
  "skips_last b \<longleftrightarrow> NFSR b \<and> x_count b \<ge> 2"

definition row_reads :: "blitter \<Rightarrow> nat" where
  "row_reads b = blit_width b + lead b - of_bool (skips_last b)"

definition src_at :: "blitter \<Rightarrow> nat \<Rightarrow> nat \<Rightarrow> u32" where
  "src_at b r k = source_addr b +
     of_nat r * (of_nat (row_reads b - 1) * scast (source_x_inc b) + scast (source_y_inc b)) + of_nat k * scast (source_x_inc b)"

definition dst_at :: "blitter \<Rightarrow> nat \<Rightarrow> nat \<Rightarrow> u32" where
  "dst_at b r c = dest_addr b +
     of_nat r * (of_nat (blit_width b - 1) * scast (dest_x_inc b) + scast (dest_y_inc b)) + of_nat c * scast (dest_x_inc b)"

definition mask_at :: "blitter \<Rightarrow> nat \<Rightarrow> u16" where
  "mask_at b c = (if c = 0 then end_mask_1 b else if c = blit_width b - 1 then end_mask_3 b else end_mask_2 b)"

definition half_at :: "blitter \<Rightarrow> nat \<Rightarrow> u16" where
  "half_at b r = (if hop b AND 1 \<noteq> 0 then (halftone_curroffset b + of_nat r * halftone_direction b) AND 15
     else halftone_curroffset b)"

text \<open>
  The \<open>k\<close>-th word that row \<open>r\<close> shifts into the source buffer, the word before it, and the buffer of a
  column: the words of the row, behind the last word of the row above. With \<^verbatim>\<open>FXSR\<close> a row starts one word
  earlier, with \<^verbatim>\<open>NFSR\<close> its last word is not read.
\<close>

definition shifted_in :: "blitter \<Rightarrow> (u32 \<Rightarrow> u8) \<Rightarrow> nat \<Rightarrow> nat \<Rightarrow> u16" where
  "shifted_in b m r k = (if hop_reads b \<and> k < row_reads b then do_get_mem_word (src_at b r k) m else 0)"

definition row_length :: "blitter \<Rightarrow> nat" where
  "row_length b = blit_width b + lead b"

definition shifted_before :: "blitter \<Rightarrow> (u32 \<Rightarrow> u8) \<Rightarrow> nat \<Rightarrow> nat \<Rightarrow> u16" where
  "shifted_before b m r k =
     (if k > 0 then shifted_in b m r (k - 1) else if r > 0 then shifted_in b m (r - 1) (row_length b - 1) else 0)"

definition window :: "bool \<Rightarrow> u16 \<Rightarrow> u16 \<Rightarrow> u32" where
  "window neg before cur = (if neg then push_bit 16 (ucast cur) OR ucast before else push_bit 16 (ucast before) OR ucast cur)"

definition buffer_at :: "blitter \<Rightarrow> (u32 \<Rightarrow> u8) \<Rightarrow> nat \<Rightarrow> nat \<Rightarrow> u32" where
  "buffer_at b m r k = window (sint (source_x_inc b) < 0) (shifted_before b m r k) (shifted_in b m r k)"

definition blit_value :: "blitter \<Rightarrow> (u32 \<Rightarrow> u8) \<Rightarrow> nat \<Rightarrow> nat \<Rightarrow> u16" where
  "blit_value b m r c =
     (let dst = do_get_mem_word (dst_at b r c) m;
          opd = hop_data (b\<lparr>halftone_curroffset := half_at b r\<rparr>) (buffer_at b m r (c + lead b))
      in (dst AND NOT (mask_at b c)) OR (hop_op (opr b) opd dst AND mask_at b c))"

definition blit_cells :: "blitter \<Rightarrow> u32 set" where
  "blit_cells b = (\<Union>r < blit_height b. \<Union>c < blit_width b. cell_bytes (dst_at b r c) 2)"

text \<open>All words of the rectangles lie in plain memory, and no destination word overlaps another word.\<close>

definition ram_read :: "'a phys_scheme \<Rightarrow> u32 \<Rightarrow> bool" where
  "ram_read s a \<longleftrightarrow> addr_24 a = a \<and> \<not> is_hw a \<and> test_ram_boundary a 2 (regs_s s) False s"

definition ram_write :: "'a phys_scheme \<Rightarrow> u32 \<Rightarrow> bool" where
  "ram_write s a \<longleftrightarrow> addr_24 a = a \<and> \<not> is_hw a \<and> test_ram_boundary a 2 (regs_s s) True s \<and>
     \<not> (a \<le> 0x800 \<or> a \<ge> 0x0e00000 \<and> a < 0x1000000)"

definition blit_plain :: "'a phys_scheme \<Rightarrow> blitter \<Rightarrow> bool" where
  "blit_plain s b \<longleftrightarrow>
     (\<forall>r < blit_height b. \<forall>c < blit_width b. ram_write s (dst_at b r c)) \<and>
     (hop_reads b \<longrightarrow> (\<forall>r < blit_height b. \<forall>k < row_reads b. ram_read s (src_at b r k)))"

definition blit_disjoint :: "blitter \<Rightarrow> bool" where
  "blit_disjoint b \<longleftrightarrow>
     (\<forall>r < blit_height b. \<forall>c < blit_width b. \<forall>r' < blit_height b. \<forall>c' < blit_width b.
        (r, c) \<noteq> (r', c') \<longrightarrow> cell_bytes (dst_at b r c) 2 \<inter> cell_bytes (dst_at b r' c') 2 = {}) \<and>
     (hop_reads b \<longrightarrow> (\<forall>r < blit_height b. \<forall>k < row_reads b. cell_bytes (src_at b r k) 2 \<inter> blit_cells b = {}))"

text \<open>The registers before row \<open>r\<close> and at its column \<open>c\<close>, and memory with the words \<open>K\<close> of the rectangle done.\<close>

definition blit_row :: "blitter \<Rightarrow> nat \<Rightarrow> blitter" where
  "blit_row b r = b\<lparr>source_addr := src_at b r 0, dest_addr := dst_at b r 0, halftone_curroffset := half_at b r,
     y_count := y_count b - of_nat r\<rparr>"

definition blit_pos :: "blitter \<Rightarrow> nat \<Rightarrow> nat \<Rightarrow> blitter" where
  "blit_pos b r c = (blit_row b r)\<lparr>source_addr := src_at b r (c + lead b), dest_addr := dst_at b r c\<rparr>"

definition wrote :: "blitter \<Rightarrow> (u32 \<Rightarrow> u8) \<Rightarrow> (nat \<times> nat) set \<Rightarrow> (u32 \<Rightarrow> u8) \<Rightarrow> bool" where
  "wrote b m0 K m \<longleftrightarrow> K \<subseteq> {..<blit_height b} \<times> {..<blit_width b} \<and>
     (\<forall>(r, c) \<in> K. do_get_mem_word (dst_at b r c) m = blit_value b m0 r c) \<and>
     (\<forall>a. a \<notin> (\<Union>(r, c) \<in> K. cell_bytes (dst_at b r c) 2) \<longrightarrow> m a = m0 a)"

text \<open>
  A property of the registers that the steps of a transfer keep. It then holds at the end of a transfer and
  also after a bus error in the middle of it, when the devices that the transfer reaches keep it.
\<close>

definition blitter_ok :: "blitter \<Rightarrow> bool" where
  "blitter_ok b \<longleftrightarrow> length (halftone_ram b) = 16 \<and> hop b < 4 \<and> opr b < 16 \<and> halftone_curroffset b < 16"

inductive blt_step :: "'a blt_machine_scheme base_io list \<Rightarrow> u32 \<Rightarrow> 'a blt_machine_scheme \<Rightarrow> 'a blt_machine_scheme \<Rightarrow> bool"
  for arhw off where
  read_byte: "blt_step arhw off s (snd (BLITTER_handleRead off addr s))"
| read_word: "blt_step arhw off s (snd (BLITTER_handleReadW off addr s))"
| read_long: "blt_step arhw off s (snd (BLITTER_handleReadL off addr s))"
| write_byte: "blt_step arhw off s (snd (BLITTER_handleWrite arhw off addr v s))"
| write_word: "blt_step arhw off s (snd (BLITTER_handleWriteW arhw off addr w s))"
| write_long: "blt_step arhw off s (snd (BLITTER_handleWriteL arhw off addr l s))"
| reset: "blt_step arhw off s (s\<lparr>blt := BLITTER_reset (blt s)\<rparr>)"
| others: "blt t = blt s \<Longrightarrow> blt_step arhw off s t"

inductive blt_reachable :: "'a blt_machine_scheme base_io list \<Rightarrow> u32 \<Rightarrow> 'a blt_machine_scheme \<Rightarrow> bool" for arhw off where
  start: "length (halftone_ram (blt s)) = 16 \<Longrightarrow> blt_reachable arhw off (s\<lparr>blt := BLITTER_reset (blt s)\<rparr>)"
| step: "blt_reachable arhw off s \<Longrightarrow> blt_step arhw off s t \<Longrightarrow> blt_reachable arhw off t"

text \<open>
  A transfer of two lines of two words with a skew of four bits, from \<open>0x10000\<close> to \<open>0x20000\<close> in the machine
  with 14 megabytes of ST-RAM.
\<close>

definition blt_job :: blitter where
  "blt_job = \<lparr>halftone_ram = replicate 16 0, end_mask_1 = 0x0fff, end_mask_2 = 0xffff, end_mask_3 = 0xfff0, NFSR = False,
     FXSR = False, x_count = 2, y_count = 2, hop = 2, opr = 3, line_num = 0, skewreg = 4, halftone_curroffset = 0,
     halftone_direction = 0, source_x_inc = 2, source_y_inc = 2, dest_x_inc = 2, dest_y_inc = 6,
     source_addr = 0x10000, source_addr_backup = 0x10000, dest_addr = 0x20000, dest_addr_backup = 0x20000, blit = True\<rparr>"

definition blt_new :: "blitter \<Rightarrow> blt_machine" where
  "blt_new b = \<lparr>mem = do_put_mem_word 0x10002 0x5678 (do_put_mem_word 0x10000 0x1234 (\<lambda>_. 0)),
     FastRAMSize = 0x1000000, VideoRAMBase = 0x2000000, regs_s = True, mmu_fault_addr = 0, mmu_ssw = 0,
     areg = (\<lambda>_. 0), sfc = 0, dfc = 0, urp = 0, srp = 0, tc = 0, mmu_enabled = False,
     mmu_pagesize_8k = False, dtt0 = 0, dtt1 = 0, itt0 = 0, itt1 = 0, mmusr = 0, wb3_data = 0, wb3_status = 0,
     atc_l1 = (\<lambda>_. empty_line), current_atc = True, atc_l2 = (\<lambda>_. empty_line), beyond_atc = False, blt = b\<rparr>"


section \<open>Proofs\<close>

section \<open>Steps of a transfer\<close>

lemma test_ram_boundary_blt: "test_ram_boundary a n super w (s\<lparr>mem := m, blt := b\<rparr>) = test_ram_boundary a n super w s"
  by (simp add: test_ram_boundary_def)

lemma LM_UW_run:
  "ram_read s a \<Longrightarrow> LM_UW arhw a (s\<lparr>mem := m, blt := b\<rparr>) = (Some (do_get_mem_word a m), s\<lparr>mem := m, blt := b\<rparr>)"
  by (simp add: LM_UW_def phys_get_word_def ram_read_def io_simps test_ram_boundary_blt)

lemma SM_UW_run:
  "ram_write s a \<Longrightarrow> SM_UW arhw a v (s\<lparr>mem := m, blt := b\<rparr>) = (Some (), s\<lparr>mem := do_put_mem_word a v m, blt := b\<rparr>)"
  by (auto simp: SM_UW_def phys_put_word_def ram_write_def io_simps test_ram_boundary_blt)

lemma ram_write_read: "ram_write s a \<Longrightarrow> ram_read s a"
  by (auto simp: ram_write_def ram_read_def writable_readable)

lemma blt_get_run: "blt_get f (s\<lparr>mem := m, blt := b\<rparr>) = (Some (f b), s\<lparr>mem := m, blt := b\<rparr>)"
  by (simp add: blt_get_def io_get_def)

lemma blt_set_run: "blt_set f (s\<lparr>mem := m, blt := b\<rparr>) = (Some (), s\<lparr>mem := m, blt := f b\<rparr>)"
  by (simp add: blt_set_def io_modify_def)

lemma add_run:
  "add_source inc (s\<lparr>mem := m, blt := b\<rparr>) = (Some (), s\<lparr>mem := m, blt := b\<lparr>source_addr := source_addr b + scast (inc b)\<rparr>\<rparr>)"
  "add_dest inc (s\<lparr>mem := m, blt := b\<rparr>) = (Some (), s\<lparr>mem := m, blt := b\<lparr>dest_addr := dest_addr b + scast (inc b)\<rparr>\<rparr>)"
  by (simp_all add: add_source_def add_dest_def blt_set_run)

lemma get_source_run:
  "(hop_reads b \<Longrightarrow> ram_read s (source_addr b)) \<Longrightarrow>
   get_source arhw neg buf (s\<lparr>mem := m, blt := b\<rparr>) =
     (Some (source_fill neg (if hop_reads b then do_get_mem_word (source_addr b) m else 0) buf), s\<lparr>mem := m, blt := b\<rparr>)"
  by (simp add: get_source_def io_bind_def blt_get_run LM_UW_run io_return_def source_fill_def)

lemma put_dest_run:
  "ram_write s (dest_addr b) \<Longrightarrow>
   put_dest arhw msk buf (s\<lparr>mem := m, blt := b\<rparr>) =
     (Some (), s\<lparr>mem := (let dst = do_get_mem_word (dest_addr b) m
        in do_put_mem_word (dest_addr b) ((dst AND NOT (msk b)) OR (hop_op (opr b) (hop_data b buf) dst AND msk b)) m), blt := b\<rparr>)"
  by (simp add: put_dest_def io_bind_def blt_get_run LM_UW_run ram_write_read SM_UW_run Let_def)

lemma window_shift: "source_fill neg cur (source_shift neg (window neg x before)) = window neg before cur"
  unfolding source_fill_def source_shift_def window_def
  by (rule bit_word_eqI) (auto simp: bit_simps dest: bit_imp_le_length)

lemma window_shift_0: "source_shift neg (window neg x before) = window neg before 0"
  using window_shift [of neg 0 x before] by (cases neg) (simp_all add: source_fill_def)

lemma last_reads_iff: "last_reads b \<longleftrightarrow> \<not> NFSR b"
proof -
  have "drop_bit n (0xffff :: int) \<ge> 0" for n by simp
  then have "NOT (drop_bit n (0xffff :: int)) < 0" for n unfolding not_int_def by (smt (verit))
  then show ?thesis unfolding last_reads_def by (smt (verit) uint_ge_0)
qed

lemma wrote_outside:
  assumes "wrote b m0 K m" "\<And>r c. (r, c) \<in> K \<Longrightarrow> cell_bytes a 2 \<inter> cell_bytes (dst_at b r c) 2 = {}"
  shows "do_get_mem_word a m = do_get_mem_word a m0"
  by (rule word_cell.get_cong) (use assms in \<open>unfold wrote_def, blast\<close>)

lemma wrote_dst:
  assumes "blit_disjoint b" "wrote b m0 K m" "r < blit_height b" "c < blit_width b" "(r, c) \<notin> K"
  shows "do_get_mem_word (dst_at b r c) m = do_get_mem_word (dst_at b r c) m0"
proof (rule wrote_outside [OF assms(2)])
  fix r' c' assume "(r', c') \<in> K"
  with assms(2,5) have "r' < blit_height b" "c' < blit_width b" "(r, c) \<noteq> (r', c')" by (auto simp: wrote_def)
  with assms(1,3,4) show "cell_bytes (dst_at b r c) 2 \<inter> cell_bytes (dst_at b r' c') 2 = {}"
    unfolding blit_disjoint_def by blast
qed

lemma wrote_put:
  assumes "blit_disjoint b" "wrote b m0 K m" "r < blit_height b" "c < blit_width b" "(r, c) \<notin> K"
  shows "wrote b m0 (insert (r, c) K) (do_put_mem_word (dst_at b r c) (blit_value b m0 r c) m)"
proof -
  have "do_get_mem_word (dst_at b r' c') (do_put_mem_word (dst_at b r c) (blit_value b m0 r c) m) = blit_value b m0 r' c'"
    if "(r', c') \<in> insert (r, c) K" for r' c'
  proof (cases "(r', c') = (r, c)")
    case False
    with that assms(2) have "(r', c') \<in> K" "r' < blit_height b" "c' < blit_width b" by (auto simp: wrote_def)
    with assms False have "cell_bytes (dst_at b r c) 2 \<inter> cell_bytes (dst_at b r' c') 2 = {}"
      unfolding blit_disjoint_def by metis
    with \<open>(r', c') \<in> K\<close> assms(2) show ?thesis by (auto simp: word_cell.get_put_other wrote_def)
  qed (simp add: word_cell.get_put)
  moreover have "do_put_mem_word (dst_at b r c) v m a = m0 a"
    if "a \<notin> (\<Union>(r, c) \<in> insert (r, c) K. cell_bytes (dst_at b r c) 2)" for a v
    using that assms(2) by (auto simp: wrote_def word_cell.put_outside)
  ultimately show ?thesis using assms unfolding wrote_def by auto
qed

lemma wrote_src:
  assumes "blit_disjoint b" "wrote b m0 K m" "hop_reads b" "r < blit_height b" "k < row_reads b"
  shows "do_get_mem_word (src_at b r k) m = shifted_in b m0 r k"
proof -
  have "do_get_mem_word (src_at b r k) m = do_get_mem_word (src_at b r k) m0"
  proof (rule wrote_outside [OF assms(2)])
    fix r' c' assume "(r', c') \<in> K"
    then have "cell_bytes (dst_at b r' c') 2 \<subseteq> blit_cells b" using assms(2) by (fastforce simp: wrote_def blit_cells_def)
    with assms(1,3-5) show "cell_bytes (src_at b r k) 2 \<inter> cell_bytes (dst_at b r' c') 2 = {}"
      unfolding blit_disjoint_def by blast
  qed
  with assms(3,5) show ?thesis by (simp add: shifted_in_def)
qed

lemma blit_pos_fields [simp]:
  "source_addr (blit_pos b r c) = src_at b r (c + lead b)" "dest_addr (blit_pos b r c) = dst_at b r c"
  "opr (blit_pos b r c) = opr b" "hop (blit_pos b r c) = hop b" "x_count (blit_pos b r c) = x_count b"
  "end_mask_1 (blit_pos b r c) = end_mask_1 b" "end_mask_2 (blit_pos b r c) = end_mask_2 b"
  "end_mask_3 (blit_pos b r c) = end_mask_3 b" "source_x_inc (blit_pos b r c) = source_x_inc b"
  "source_y_inc (blit_pos b r c) = source_y_inc b" "dest_x_inc (blit_pos b r c) = dest_x_inc b"
  "dest_y_inc (blit_pos b r c) = dest_y_inc b" "NFSR (blit_pos b r c) = NFSR b" "FXSR (blit_pos b r c) = FXSR b"
  "hop_reads (blit_pos b r c) = hop_reads b"
  by (simp_all add: blit_pos_def blit_row_def hop_reads_def)

lemma hop_data_pos: "hop_data (blit_pos b r c) buf = hop_data (b\<lparr>halftone_curroffset := half_at b r\<rparr>) buf"
  by (simp add: hop_data_def blit_pos_def blit_row_def)

lemma put_dest_at:
  assumes "blit_plain s b" "blit_disjoint b" "wrote b m0 K m" "r < blit_height b" "c < blit_width b" "(r, c) \<notin> K"
    and "b' = (blit_pos b r c)\<lparr>source_addr := a\<rparr>" "msk b' = mask_at b c"
  shows "put_dest arhw msk (buffer_at b m0 r (c + lead b)) (s\<lparr>mem := m, blt := b'\<rparr>) =
    (Some (), s\<lparr>mem := do_put_mem_word (dst_at b r c) (blit_value b m0 r c) m, blt := b'\<rparr>)"
proof -
  have "dest_addr b' = dst_at b r c" "opr b' = opr b" by (simp_all add: assms(7))
  moreover have "hop_data b' buf = hop_data (b\<lparr>halftone_curroffset := half_at b r\<rparr>) buf" for buf
    by (simp add: assms(7) hop_data_def blit_pos_def blit_row_def)
  moreover have "ram_write s (dst_at b r c)" using assms(1,4,5) by (simp add: blit_plain_def)
  ultimately show ?thesis using wrote_dst [OF assms(2-6)] assms(8)
    by (simp add: put_dest_run Let_def blit_value_def)
qed

lemma blit_pos_source: "(blit_pos b r c)\<lparr>source_addr := src_at b r (c + lead b)\<rparr> = blit_pos b r c"
  by (simp add: blit_pos_def)

lemmas put_dest_pos = put_dest_at [OF _ _ _ _ _ _ blit_pos_source [symmetric]]

lemma address_steps:
  "src_at b r k + scast (source_x_inc b) = src_at b r (Suc k)" "dst_at b r c + scast (dest_x_inc b) = dst_at b r (Suc c)"
  "src_at b r (row_reads b - 1) + scast (source_y_inc b) = src_at b (Suc r) 0"
  "dst_at b r (blit_width b - 1) + scast (dest_y_inc b) = dst_at b (Suc r) 0"
  by (simp_all add: src_at_def dst_at_def algebra_simps)

lemma blit_pos_step:
  "(blit_pos b r c)\<lparr>source_addr := src_at b r (Suc (c + lead b)), dest_addr := dst_at b r (Suc c)\<rparr> = blit_pos b r (Suc c)"
  "(blit_pos b r c)\<lparr>dest_addr := dst_at b r (Suc c), source_addr := src_at b r (Suc (c + lead b))\<rparr> = blit_pos b r (Suc c)"
  by (simp_all add: blit_pos_def)

lemma get_source_at:
  assumes "blit_plain s b" "blit_disjoint b" "wrote b m0 K m" "r < blit_height b" "k < row_reads b"
    and "source_addr b' = src_at b r k" "hop_reads b' = hop_reads b"
  shows "get_source arhw (sint (source_x_inc b) < 0)
      (source_shift (sint (source_x_inc b) < 0) (window (sint (source_x_inc b) < 0) x (shifted_before b m0 r k)))
      (s\<lparr>mem := m, blt := b'\<rparr>) = (Some (buffer_at b m0 r k), s\<lparr>mem := m, blt := b'\<rparr>)"
proof -
  have "hop_reads b' \<Longrightarrow> ram_read s (source_addr b')" using assms(1,4-7) by (auto simp: blit_plain_def)
  note get_source_run [OF this, of arhw]
  moreover have "(if hop_reads b then do_get_mem_word (src_at b r k) m else 0) = shifted_in b m0 r k"
    using wrote_src [OF assms(2,3) _ assms(4,5)] by (simp add: shifted_in_def)
  ultimately show ?thesis unfolding assms(6,7) buffer_at_def by (simp only: window_shift)
qed

lemma get_source_next:
  assumes "blit_plain s b" "blit_disjoint b" "wrote b m0 K m" "r < blit_height b" "Suc k < row_reads b"
    and "source_addr b' = src_at b r (Suc k)" "hop_reads b' = hop_reads b"
  shows "get_source arhw (sint (source_x_inc b) < 0) (source_shift (sint (source_x_inc b) < 0) (buffer_at b m0 r k))
      (s\<lparr>mem := m, blt := b'\<rparr>) = (Some (buffer_at b m0 r (Suc k)), s\<lparr>mem := m, blt := b'\<rparr>)"
  using get_source_at [OF assms(1-7)] unfolding buffer_at_def [of b m0 r k] by (simp add: shifted_before_def)

lemma row_reads_bounds:
  "0 < row_reads b" "FXSR b \<Longrightarrow> Suc 0 < row_reads b" "Suc c < blit_width b - 1 \<Longrightarrow> Suc (c + lead b) < row_reads b"
  "\<not> NFSR b \<Longrightarrow> c < blit_width b \<Longrightarrow> c + lead b < row_reads b"
proof -
  have "skips_last b \<Longrightarrow> 2 \<le> blit_width b" by (auto simp: skips_last_def blit_width_def word_le_nat_alt)
  moreover have "1 \<le> blit_width b" by (simp add: blit_width_def)
  ultimately show "0 < row_reads b" "FXSR b \<Longrightarrow> Suc 0 < row_reads b"
    "Suc c < blit_width b - 1 \<Longrightarrow> Suc (c + lead b) < row_reads b"
    by (auto simp: row_reads_def lead_def)
  show "\<not> NFSR b \<Longrightarrow> c < blit_width b \<Longrightarrow> c + lead b < row_reads b" by (simp add: row_reads_def skips_last_def)
qed

lemma blit_first_run:
  assumes "blit_plain s b" "blit_disjoint b" "wrote b m0 K m" "r < blit_height b" "(r, 0) \<notin> K"
  shows "blit_first arhw (sint (source_x_inc b) < 0) (window (sint (source_x_inc b) < 0) x (shifted_before b m0 r 0))
      (s\<lparr>mem := m, blt := blit_row b r\<rparr>) =
    (Some (buffer_at b m0 r (lead b)),
     s\<lparr>mem := do_put_mem_word (dst_at b r 0) (blit_value b m0 r 0) m, blt := blit_pos b r 0\<rparr>)"
proof -
  have "0 < blit_width b" by (simp add: blit_width_def)
  note put = put_dest_pos [OF assms(1-4) this assms(5), of end_mask_1 arhw]
  note get = get_source_at [OF assms(1-4) row_reads_bounds(1), of "blit_row b r" arhw x]
  show ?thesis
  proof (cases "FXSR b")
    case True
    then have l: "lead b = Suc 0" by (simp add: lead_def)
    have "(blit_row b r)\<lparr>source_addr := src_at b r (Suc 0)\<rparr> = blit_pos b r 0"
      by (simp add: blit_pos_def blit_row_def lead_def True)
    with True put get get_source_next [OF assms(1-4) row_reads_bounds(2), of "blit_pos b r 0" arhw] show ?thesis
      by (simp add: blit_first_def io_bind_def io_return_def blt_get_run add_run blit_row_def hop_reads_def mask_at_def
          address_steps l)
  next
    case False
    then have l: "lead b = 0" by (simp add: lead_def)
    have "blit_row b r = blit_pos b r 0" by (simp add: blit_pos_def blit_row_def lead_def False)
    with False put get show ?thesis
      by (simp add: blit_first_def io_bind_def io_return_def blt_get_run mask_at_def l)
  qed
qed

lemma blit_middle_run:
  assumes "blit_plain s b" "blit_disjoint b" "r < blit_height b" "X = unat (x_count b) - 2"
  shows "wrote b m0 K m \<Longrightarrow> K \<inter> {r} \<times> {x<..} = {} \<Longrightarrow> x \<le> X \<Longrightarrow> X - x < n \<Longrightarrow>
    \<exists>m'. blit_middle n arhw (sint (source_x_inc b) < 0) (of_nat x) (buffer_at b m0 r (x + lead b))
        (s\<lparr>mem := m, blt := blit_pos b r x\<rparr>) =
      (Some (buffer_at b m0 r (X + lead b)), s\<lparr>mem := m', blt := blit_pos b r X\<rparr>) \<and>
      wrote b m0 (K \<union> {r} \<times> {x<..X}) m'"
proof (induction n arbitrary: x m K)
  case (Suc n)
  have X: "X < 65536" using assms(4) unsigned_less [of "x_count b", where ?'a = nat] by simp
  have x: "uint (of_nat x :: u16) = int x" using Suc.prems(3) X by (simp add: unsigned_of_nat take_bit_nat_eq_self take_bit_int_eq_self)
  have more: "uint (of_nat x :: u16) < uint (x_count b) - 2 \<longleftrightarrow> x < X"
  proof -
    have "uint (x_count b) = int (unat (x_count b))" by simp
    with assms(4) show ?thesis unfolding x by linarith
  qed
  show ?case
  proof (cases "x < X")
    case False
    then show ?thesis using Suc.prems more by (auto simp: io_bind_def blt_get_run io_return_def)
  next
    case True
    then have w: "Suc x < blit_width b - 1" "Suc x < blit_width b" using assms(4) by (auto simp: blit_width_def)
    have notin: "(r, Suc x) \<notin> K" using Suc.prems(2) by auto
    let ?m = "do_put_mem_word (dst_at b r (Suc x)) (blit_value b m0 r (Suc x)) m"
    have "wrote b m0 (insert (r, Suc x) K) ?m" by (rule wrote_put [OF assms(2) Suc.prems(1) assms(3) w(2) notin])
    moreover have "insert (r, Suc x) K \<inter> {r} \<times> {Suc x<..} = {}" using Suc.prems(2) by auto
    moreover have "X - Suc x < n" using True Suc.prems(4) by linarith
    ultimately obtain m' where m': "blit_middle n arhw (sint (source_x_inc b) < 0) (of_nat (Suc x))
        (buffer_at b m0 r (Suc x + lead b)) (s\<lparr>mem := ?m, blt := blit_pos b r (Suc x)\<rparr>) =
      (Some (buffer_at b m0 r (X + lead b)), s\<lparr>mem := m', blt := blit_pos b r X\<rparr>)"
      and K': "wrote b m0 (insert (r, Suc x) K \<union> {r} \<times> {Suc x<..X}) m'"
      using Suc.IH [of "insert (r, Suc x) K" ?m "Suc x"] True by (auto simp del: of_nat_Suc)
    have K: "insert (r, Suc x) K \<union> {r} \<times> {Suc x<..X} = K \<union> {r} \<times> {x<..X}" using True by auto
    have put: "put_dest arhw end_mask_2 (buffer_at b m0 r (Suc x + lead b))
        (s\<lparr>mem := m, blt := blit_pos b r (Suc x)\<rparr>) = (Some (), s\<lparr>mem := ?m, blt := blit_pos b r (Suc x)\<rparr>)"
      by (rule put_dest_pos [OF assms(1,2) Suc.prems(1) assms(3) w(2) notin]) (use w(1) in \<open>simp add: mask_at_def\<close>)
    have get: "get_source arhw (sint (source_x_inc b) < 0)
        (source_shift (sint (source_x_inc b) < 0) (buffer_at b m0 r (x + lead b)))
        (s\<lparr>mem := m, blt := blit_pos b r (Suc x)\<rparr>) =
      (Some (buffer_at b m0 r (Suc x + lead b)), s\<lparr>mem := m, blt := blit_pos b r (Suc x)\<rparr>)"
      using get_source_next [OF assms(1,2) Suc.prems(1) assms(3) row_reads_bounds(3) [OF w(1)], of "blit_pos b r (Suc x)" arhw]
      by simp
    have "blit_middle (Suc n) arhw (sint (source_x_inc b) < 0) (of_nat x) (buffer_at b m0 r (x + lead b))
        (s\<lparr>mem := m, blt := blit_pos b r x\<rparr>) =
      blit_middle n arhw (sint (source_x_inc b) < 0) (of_nat x + 1) (buffer_at b m0 r (Suc x + lead b))
        (s\<lparr>mem := ?m, blt := blit_pos b r (Suc x)\<rparr>)"
      using True more get put
      by (simp add: io_bind_def blt_get_run add_run address_steps blit_pos_step)
    moreover have "(of_nat x + 1 :: u16) = of_nat (Suc x)" by simp
    ultimately show ?thesis using m' K' unfolding K by metis
  qed
qed simp

lemma blit_last_run:
  assumes "blit_plain s b" "blit_disjoint b" "r < blit_height b" "X = unat (x_count b) - 2"
    and "wrote b m0 K m" "K \<inter> {r} \<times> {X<..} = {}"
  shows "\<exists>m'. blit_last arhw (sint (source_x_inc b) < 0) (buffer_at b m0 r (X + lead b))
        (s\<lparr>mem := m, blt := blit_pos b r X\<rparr>) =
      (Some (buffer_at b m0 r (row_length b - 1)),
       s\<lparr>mem := m', blt := (blit_pos b r (blit_width b - 1))\<lparr>source_addr := src_at b r (row_reads b - 1)\<rparr>\<rparr>) \<and>
      wrote b m0 (K \<union> {r} \<times> {X<..<blit_width b}) m'"
proof (cases "x_count b \<ge> 2")
  case False
  then have "unat (x_count b) < 2" by (simp add: word_le_nat_alt)
  then have X: "X = 0" "blit_width b = 1" "\<not> skips_last b" using assms(4) False by (auto simp: blit_width_def skips_last_def)
  have k: "row_length b - 1 = lead b" "row_reads b - 1 = 0 + lead b" "{X<..<blit_width b} = {}"
    using X by (auto simp: row_length_def row_reads_def)
  have "(blit_pos b r (blit_width b - 1))\<lparr>source_addr := src_at b r (row_reads b - 1)\<rparr> = blit_pos b r X"
    unfolding k X using blit_pos_source [of b r 0] by (simp only: diff_self_eq_0)
  then show ?thesis using False assms(5) unfolding k(1,3)
    by (intro exI [of _ m]) (simp add: blit_last_def io_bind_def blt_get_run io_return_def X)
next
  case True
  then have "2 \<le> unat (x_count b)" by (simp add: word_le_nat_alt)
  then have w: "blit_width b = Suc (Suc X)" "Suc X < blit_width b" using assms(4) by (auto simp: blit_width_def)
  then have len: "row_length b - 1 = Suc X + lead b" "{X<..<blit_width b} = {Suc X}" by (auto simp: row_length_def)
  have notin: "(r, Suc X) \<notin> K" using assms(6) by auto
  let ?m = "do_put_mem_word (dst_at b r (Suc X)) (blit_value b m0 r (Suc X)) m"
  let ?b = "(blit_pos b r (Suc X))\<lparr>source_addr := src_at b r (row_reads b - 1)\<rparr>"
  have put: "put_dest arhw end_mask_3 (buffer_at b m0 r (Suc X + lead b)) (s\<lparr>mem := m, blt := ?b\<rparr>) =
      (Some (), s\<lparr>mem := ?m, blt := ?b\<rparr>)"
    by (rule put_dest_at [OF assms(1,2,5,3) w(2) notin refl]) (simp add: mask_at_def w(1))
  have "blit_last arhw (sint (source_x_inc b) < 0) (buffer_at b m0 r (X + lead b))
      (s\<lparr>mem := m, blt := blit_pos b r X\<rparr>) = (Some (buffer_at b m0 r (Suc X + lead b)), s\<lparr>mem := ?m, blt := ?b\<rparr>)"
  proof (cases "NFSR b")
    case True
    with \<open>2 \<le> x_count b\<close> have "skips_last b" by (simp add: skips_last_def)
    then have k: "row_reads b = Suc (X + lead b)" by (simp add: row_reads_def w)
    then have "buffer_at b m0 r (Suc X + lead b) =
        source_shift (sint (source_x_inc b) < 0) (buffer_at b m0 r (X + lead b))"
      unfolding buffer_at_def window_shift_0 by (simp add: shifted_before_def shifted_in_def)
    moreover have "?b = (blit_pos b r X)\<lparr>dest_addr := dst_at b r (Suc X)\<rparr>" by (simp add: k blit_pos_def)
    ultimately show ?thesis using put True \<open>2 \<le> x_count b\<close>
      by (simp add: blit_last_def io_bind_def blt_get_run add_run io_return_def last_reads_iff address_steps)
  next
    case False
    then have k: "row_reads b - 1 = Suc X + lead b" by (simp add: row_reads_def w skips_last_def)
    have "?b = blit_pos b r (Suc X)" unfolding k by (rule blit_pos_source)
    with put get_source_next [OF assms(1,2,5,3), of "X + lead b" "blit_pos b r (Suc X)" arhw]
      row_reads_bounds(4) [OF False w(2)] False \<open>2 \<le> x_count b\<close>
    show ?thesis
      by (simp add: blit_last_def io_bind_def blt_get_run add_run io_return_def last_reads_iff address_steps blit_pos_step)
  qed
  moreover have "wrote b m0 (K \<union> {r} \<times> {X<..<blit_width b}) ?m"
    unfolding len using wrote_put [OF assms(2,5,3) w(2) notin] by simp
  ultimately show ?thesis unfolding len by (auto simp: w)
qed

lemma and_15_uint: "uint (x AND 15 :: u16) = uint x mod 16"
proof -
  have "x AND 15 = take_bit 4 x" by (simp add: take_bit_eq_mask mask_numeral)
  then have "uint (x AND 15) = take_bit 4 (uint x)" by (simp only: unsigned_take_bit_eq)
  then show ?thesis by (simp add: take_bit_eq_mod)
qed

lemma half_at_step: "halftone_inc ((blit_pos b r c)\<lparr>source_addr := src_at b (Suc r) 0, dest_addr := dst_at b (Suc r) 0\<rparr>) =
    (blit_row b (Suc r))\<lparr>y_count := y_count b - of_nat r\<rparr>"
proof -
  have "uint (((x AND 15) + y) AND 15) = uint ((x + y) AND 15)" for x y :: u16
    by (simp add: and_15_uint uint_word_ariths mod_mod_cancel mod_add_left_eq)
  then have "((x AND 15) + y) AND 15 = (x + y) AND 15" for x y :: u16 by (metis word_uint_eqI)
  then show ?thesis by (simp add: halftone_inc_def half_at_def blit_pos_def blit_row_def algebra_simps)
qed

lemma blit_line_run:
  assumes "blit_plain s b" "blit_disjoint b" "r < blit_height b" "wrote b m0 ({..<r} \<times> {..<blit_width b}) m"
  shows "\<exists>m' x'. blit_line arhw (sint (source_x_inc b) < 0) (window (sint (source_x_inc b) < 0) x (shifted_before b m0 r 0))
        (s\<lparr>mem := m, blt := blit_row b r\<rparr>) =
      (Some (window (sint (source_x_inc b) < 0) x' (shifted_before b m0 (Suc r) 0)),
       s\<lparr>mem := m', blt := (blit_row b (Suc r))\<lparr>y_count := y_count b - of_nat r\<rparr>\<rparr>) \<and>
      wrote b m0 ({..<Suc r} \<times> {..<blit_width b}) m'"
proof -
  let ?K = "{..<r} \<times> {..<blit_width b}" and ?X = "unat (x_count b) - 2"
  have w0: "0 < blit_width b" "(r, 0) \<notin> ?K" by (simp_all add: blit_width_def)
  note first = blit_first_run [OF assms(1,2,4,3) w0(2), of arhw x]
  have 1: "wrote b m0 (insert (r, 0) ?K) (do_put_mem_word (dst_at b r 0) (blit_value b m0 r 0) m)"
    by (rule wrote_put [OF assms(2,4,3) w0])
  have "insert (r, 0) ?K \<inter> {r} \<times> {0<..} = {}" "?X - 0 < 65536"
    using unsigned_less [of "x_count b", where ?'a = nat] by auto
  with blit_middle_run [OF assms(1-3) refl 1, of 0 65536 arhw]
  obtain m1 where middle: "blit_middle 65536 arhw (sint (source_x_inc b) < 0) (of_nat 0) (buffer_at b m0 r (0 + lead b))
        (s\<lparr>mem := do_put_mem_word (dst_at b r 0) (blit_value b m0 r 0) m, blt := blit_pos b r 0\<rparr>) =
      (Some (buffer_at b m0 r (?X + lead b)), s\<lparr>mem := m1, blt := blit_pos b r ?X\<rparr>)"
    and 2: "wrote b m0 (insert (r, 0) ?K \<union> {r} \<times> {0<..?X}) m1" by blast
  have "(insert (r, 0) ?K \<union> {r} \<times> {0<..?X}) \<inter> {r} \<times> {?X<..} = {}" by auto
  from blit_last_run [OF assms(1-3) refl 2 this, of arhw]
  obtain m2 where last: "blit_last arhw (sint (source_x_inc b) < 0) (buffer_at b m0 r (?X + lead b))
        (s\<lparr>mem := m1, blt := blit_pos b r ?X\<rparr>) =
      (Some (buffer_at b m0 r (row_length b - 1)),
       s\<lparr>mem := m2, blt := (blit_pos b r (blit_width b - 1))\<lparr>source_addr := src_at b r (row_reads b - 1)\<rparr>\<rparr>)"
    and 3: "wrote b m0 (insert (r, 0) ?K \<union> {r} \<times> {0<..?X} \<union> {r} \<times> {?X<..<blit_width b}) m2" by blast
  have "insert (r, 0) ?K \<union> {r} \<times> {0<..?X} \<union> {r} \<times> {?X<..<blit_width b} = {..<Suc r} \<times> {..<blit_width b}"
    using w0(1) by (auto simp: blit_width_def less_Suc_eq)
  with 3 have 4: "wrote b m0 ({..<Suc r} \<times> {..<blit_width b}) m2" by simp
  have buf: "buffer_at b m0 r (row_length b - 1) =
      window (sint (source_x_inc b) < 0) (shifted_before b m0 r (row_length b - 1)) (shifted_before b m0 (Suc r) 0)"
    by (simp add: buffer_at_def shifted_before_def [of b m0 "Suc r" 0])
  show ?thesis
  proof (intro exI conjI)
    show "blit_line arhw (sint (source_x_inc b) < 0) (window (sint (source_x_inc b) < 0) x (shifted_before b m0 r 0))
        (s\<lparr>mem := m, blt := blit_row b r\<rparr>) =
      (Some (window (sint (source_x_inc b) < 0) (shifted_before b m0 r (row_length b - 1)) (shifted_before b m0 (Suc r) 0)),
       s\<lparr>mem := m2, blt := (blit_row b (Suc r))\<lparr>y_count := y_count b - of_nat r\<rparr>\<rparr>)"
      using first middle last
      by (simp add: blit_line_def io_bind_def add_run blt_set_run io_return_def address_steps [simplified]
        buf [simplified] half_at_step)
  qed (rule 4)
qed

lemma y_count_more: "r < blit_height b \<Longrightarrow> y_count b - of_nat (Suc r) > 0 \<longleftrightarrow> Suc r < blit_height b"
proof -
  assume r: "r < blit_height b"
  have "y_count b = of_nat (Suc r) \<longleftrightarrow> unat (y_count b) = Suc r mod 65536"
    by (simp add: word_unat_eq_iff unsigned_of_nat take_bit_eq_mod del: of_nat_Suc)
  then have "y_count b = of_nat (Suc r) \<longleftrightarrow> Suc r = blit_height b"
    using r unsigned_less [of "y_count b", where ?'a = nat]
    by (cases "y_count b = 0") (auto simp: blit_height_def unat_eq_0 mod_if split: if_splits)
  then show ?thesis using r by (auto simp: word_gt_0 simp del: of_nat_Suc)
qed

lemma blit_lines_run:
  assumes "blit_plain s b" "blit_disjoint b"
  shows "wrote b m0 ({..<r} \<times> {..<blit_width b}) m \<Longrightarrow> r < blit_height b \<Longrightarrow> blit_height b - r \<le> n \<Longrightarrow>
    \<exists>m'. blit_lines n arhw (sint (source_x_inc b) < 0) (window (sint (source_x_inc b) < 0) x (shifted_before b m0 r 0))
        (s\<lparr>mem := m, blt := blit_row b r\<rparr>) = (Some (), s\<lparr>mem := m', blt := blit_row b (blit_height b)\<rparr>) \<and>
      wrote b m0 ({..<blit_height b} \<times> {..<blit_width b}) m'"
proof (induction n arbitrary: r m x)
  case (Suc n)
  obtain m1 x1 where line: "blit_line arhw (sint (source_x_inc b) < 0) (window (sint (source_x_inc b) < 0) x (shifted_before b m0 r 0))
        (s\<lparr>mem := m, blt := blit_row b r\<rparr>) =
      (Some (window (sint (source_x_inc b) < 0) x1 (shifted_before b m0 (Suc r) 0)),
       s\<lparr>mem := m1, blt := (blit_row b (Suc r))\<lparr>y_count := y_count b - of_nat r\<rparr>\<rparr>)"
    and m1: "wrote b m0 ({..<Suc r} \<times> {..<blit_width b}) m1"
    using blit_line_run [OF assms Suc.prems(2,1)] by blast
  have y: "(blit_row b (Suc r))\<lparr>y_count := y_count b - of_nat r - 1\<rparr> = blit_row b (Suc r)"
    "y_count (blit_row b (Suc r)) = y_count b - of_nat (Suc r)"
    by (simp_all add: blit_row_def algebra_simps)
  have step: "blit_lines (Suc n) arhw (sint (source_x_inc b) < 0) (window (sint (source_x_inc b) < 0) x (shifted_before b m0 r 0))
        (s\<lparr>mem := m, blt := blit_row b r\<rparr>) =
      (if Suc r < blit_height b
       then blit_lines n arhw (sint (source_x_inc b) < 0) (window (sint (source_x_inc b) < 0) x1 (shifted_before b m0 (Suc r) 0))
         (s\<lparr>mem := m1, blt := blit_row b (Suc r)\<rparr>)
       else (Some (), s\<lparr>mem := m1, blt := blit_row b (Suc r)\<rparr>))"
    using y_count_more [OF Suc.prems(2)]
    by (simp add: io_bind_def line blt_set_run blt_get_run io_return_def y del: of_nat_Suc)
  show ?case
  proof (cases "Suc r < blit_height b")
    case True
    with Suc.IH [OF m1 True, of x1] Suc.prems(3) show ?thesis unfolding step by auto
  next
    case False
    then have "Suc r = blit_height b" using Suc.prems(2) by simp
    with False m1 show ?thesis unfolding step by auto
  qed
qed simp

text \<open>
  C6. A transfer of the blitter computes the operation on a rectangle: when the words it reads and writes lie
  in plain memory and the destination words overlap neither each other nor the source, \<^verbatim>\<open>Do_Blit\<close> ends
  without a bus error, every word of the destination rectangle holds the logical operation on its old value
  and the shifted source and halftone words in the bits of its end mask and its old value elsewhere, no other
  byte of memory changes, and the registers end with the addresses behind the rectangles and no lines left.
  This covers all sixteen operations, the four operand modes, skew, the extra and the missing source word,
  both directions and up to 65536 lines.
\<close>

theorem blit_rectangle:
  assumes "b = halftone_start (restore_addresses (blt s))" "\<not> source_out_of_range b" "\<not> dest_out_of_range b"
    and "blit_plain s b" "blit_disjoint b"
  shows "\<exists>t. Do_Blit arhw s = (Some (), t) \<and> t = s\<lparr>mem := mem t, blt := blit_row b (blit_height b)\<rparr> \<and>
    y_count (blt t) = 0 \<and>
    (\<forall>r < blit_height b. \<forall>c < blit_width b. do_get_mem_word (dst_at b r c) (mem t) = blit_value b (mem s) r c) \<and>
    (\<forall>a. a \<notin> blit_cells b \<longrightarrow> mem t a = mem s a)"
proof -
  let ?neg = "sint (source_x_inc b) < 0" and ?b = "restore_addresses (blt s)"
  have same: "source_out_of_range ?b = source_out_of_range b" "dest_out_of_range ?b = dest_out_of_range b"
    "source_x_inc ?b = source_x_inc b"
    by (simp_all add: assms(1) halftone_start_def source_out_of_range_def dest_out_of_range_def)
  have "ucast (v AND 15) AND 15 = (ucast (v AND 15) :: u16)" for v :: u8
    by (rule bit_word_eqI) (auto simp: bit_simps)
  then have "half_at b 0 = halftone_curroffset b" by (simp add: assms(1) half_at_def halftone_start_def)
  then have row: "blit_row b 0 = b" by (simp add: blit_row_def src_at_def dst_at_def)
  have "wrote b (mem s) ({..<0} \<times> {..<blit_width b}) (mem s)" by (simp add: wrote_def)
  moreover have "0 < blit_height b" "blit_height b - 0 \<le> 65536"
    using unsigned_less [of "y_count b", where ?'a = nat] by (auto simp: blit_height_def unat_gt_0)
  ultimately obtain m' where lines: "blit_lines 65536 arhw ?neg (window ?neg 0 (shifted_before b (mem s) 0 0))
        (s\<lparr>mem := mem s, blt := blit_row b 0\<rparr>) = (Some (), s\<lparr>mem := m', blt := blit_row b (blit_height b)\<rparr>)"
    and m': "wrote b (mem s) ({..<blit_height b} \<times> {..<blit_width b}) m'"
    using blit_lines_run [OF assms(4,5)] by blast
  have "window ?neg 0 (shifted_before b (mem s) 0 0) = 0" by (simp add: window_def shifted_before_def)
  with lines have "Do_Blit arhw s = (Some (), s\<lparr>mem := m', blt := blit_row b (blit_height b)\<rparr>)"
    using assms(1-3) same row
    by (simp add: Do_Blit_def do_hop_op_def io_bind_def blt_set_def blt_get_def io_modify_def io_get_def)
  moreover have "y_count (blit_row b (blit_height b)) = 0" by (simp add: blit_row_def blit_height_def)
  ultimately show ?thesis using m' by (auto simp: wrote_def blit_cells_def)
qed

section \<open>Properties of the registers\<close>

lemma keeps_blt_get [keeps]: "io_keeps P (blt_get f)"
  by (simp add: io_keeps_def blt_get_def io_get_def)


lemma keeps_blt_set: "(\<And>b. Q b \<Longrightarrow> Q (f b)) \<Longrightarrow> io_keeps (\<lambda>s. Q (blt s)) (blt_set f)"
  by (simp add: io_keeps_def blt_set_def io_modify_def)

locale blt_property =
  fixes Q :: "blitter \<Rightarrow> bool"
  assumes source: "Q b \<Longrightarrow> Q (b\<lparr>source_addr := a\<rparr>)"
    and dest: "Q b \<Longrightarrow> Q (b\<lparr>dest_addr := a\<rparr>)"
    and lines: "Q b \<Longrightarrow> Q (b\<lparr>y_count := y\<rparr>)"
    and halftone: "Q b \<Longrightarrow> Q (halftone_start b)" "Q b \<Longrightarrow> Q (halftone_inc b)"
begin

abbreviation blt_keeps :: "('a blt_machine_scheme \<Rightarrow> 'b option \<times> 'a blt_machine_scheme) \<Rightarrow> bool" where
  "blt_keeps \<equiv> io_keeps (\<lambda>s. Q (blt s))"

abbreviation devices_keep :: "'a blt_machine_scheme base_io list \<Rightarrow> bool" where
  "devices_keep \<equiv> list_all (device_keeps (\<lambda>s. Q (blt s)))"

lemma keeps_memory:
  "devices_keep arhw \<Longrightarrow> blt_keeps (LM_UW arhw a)" "devices_keep arhw \<Longrightarrow> blt_keeps (SM_UW arhw a v)"
  unfolding LM_UW_def SM_UW_def phys_get_word_def phys_put_word_def HWget_w_def HWput_w_def getModule_def
  by (auto simp: Let_def io_keeps_def io_simps find_Some_iff list_all_iff device_keeps_def split: option.split)

lemma keeps_registers:
  "blt_keeps (add_source inc)" "blt_keeps (add_dest inc)" "blt_keeps (blt_set halftone_inc)"
  "blt_keeps (blt_set halftone_start)" "blt_keeps (blt_set restore_addresses)" "blt_keeps (blt_set (\<lambda>b. b\<lparr>y_count := f b\<rparr>))"
  unfolding add_source_def add_dest_def restore_addresses_def
  by (auto intro!: keeps_blt_set source dest lines halftone)

lemmas blt_keeps_rules = keeps keeps_memory keeps_registers

lemma keeps_words:
  assumes "devices_keep arhw"
  shows "blt_keeps (get_source arhw neg buf)" "blt_keeps (put_dest arhw msk buf)"
  unfolding get_source_def put_dest_def by (intro blt_keeps_rules assms)+

lemma keeps_middle: "devices_keep arhw \<Longrightarrow> blt_keeps (blit_middle n arhw neg x buf)"
  by (induction n arhw neg x buf rule: blit_middle.induct) (simp_all, (intro blt_keeps_rules keeps_words | assumption)+)

lemma keeps_line: "devices_keep arhw \<Longrightarrow> blt_keeps (blit_line arhw neg buf)"
  unfolding blit_line_def blit_first_def blit_last_def by (intro blt_keeps_rules keeps_words keeps_middle | assumption)+

lemma keeps_lines: "devices_keep arhw \<Longrightarrow> blt_keeps (blit_lines n arhw neg buf)"
  by (induction n arhw neg buf rule: blit_lines.induct) (simp_all, (intro blt_keeps_rules keeps_line | assumption)+)

lemma keeps_Do_Blit: "devices_keep arhw \<Longrightarrow> blt_keeps (Do_Blit arhw)"
  unfolding Do_Blit_def do_hop_op_def by (intro blt_keeps_rules keeps_lines | assumption)+

end

lemma and_lt: "v AND 3 < (4 :: u8)" "v AND 15 < (16 :: u8)" "x AND 15 < (16 :: u16)"
  "ucast (v AND 15) < (16 :: u16)" for v :: u8 and x :: u16
proof -
  have *: "v AND 3 \<le> (3 :: u8)" "v AND 15 \<le> (15 :: u8)" "x AND 15 \<le> (15 :: u16)" by (simp_all add: word_and_le1)
  then show "v AND 3 < (4 :: u8)" "v AND 15 < (16 :: u8)" "x AND 15 < (16 :: u16)"
    by (auto simp: word_le_nat_alt word_less_nat_alt)
  have "unat (ucast (v AND 15) :: u16) = unat (v AND 15)" by (simp add: unsigned_ucast_eq take_bit_nat_eq_self unsigned_less [THEN less_trans])
  with * show "ucast (v AND 15) < (16 :: u16)" by (simp add: word_le_nat_alt word_less_nat_alt)
qed


interpretation registers: blt_property blitter_ok
  by unfold_locales (auto simp: blitter_ok_def halftone_start_def halftone_inc_def and_lt)

lemma store_ok:
  "blitter_ok b \<Longrightarrow> blitter_ok (store_byte a v b)" "blitter_ok b \<Longrightarrow> blitter_ok (store_word a w b)"
  by (auto simp: blitter_ok_def store_byte_def store_word_def STORE_B_ff8a3a_def STORE_B_ff8a3b_def STORE_B_ff8a3c_def
      STORE_B_ff8a3d_def set_source_def set_dest_def Let_def and_lt)

lemma started_ok:
  assumes "list_all (device_keeps (\<lambda>s. blitter_ok (blt s))) arhw"
  shows "io_keeps (\<lambda>s. blitter_ok (blt s)) (blit_if_started arhw)"
proof -
  have "io_keeps (\<lambda>s. blitter_ok (blt s)) (blt_set (\<lambda>b. b\<lparr>blit := False\<rparr>))"
    by (rule keeps_blt_set) (simp add: blitter_ok_def)
  then show ?thesis unfolding blit_if_started_def by (intro keeps registers.keeps_Do_Blit assms)
qed

lemma handlers_ok:
  assumes "list_all (device_keeps (\<lambda>s. blitter_ok (blt s))) arhw"
  shows "io_keeps (\<lambda>s. blitter_ok (blt s)) (BLITTER_handleWrite arhw off addr v)"
    "io_keeps (\<lambda>s. blitter_ok (blt s)) (BLITTER_handleWriteW arhw off addr w)"
    "io_keeps (\<lambda>s. blitter_ok (blt s)) (BLITTER_handleWriteL arhw off addr l)"
proof -
  have half: "io_keeps (\<lambda>s. blitter_ok (blt s)) (blt_set (\<lambda>b. b\<lparr>halftone_ram := (halftone_ram b)[i := v]\<rparr>))" for i v
    by (rule keeps_blt_set) (simp add: blitter_ok_def)
  have addr: "io_keeps (\<lambda>s. blitter_ok (blt s)) (blt_set (set_source a))" "io_keeps (\<lambda>s. blitter_ok (blt s)) (blt_set (set_dest a))" for a
    by (rule keeps_blt_set, simp add: blitter_ok_def set_source_def set_dest_def)+
  note rules = keeps keeps_blt_set store_ok started_ok [OF assms] half addr
  show "io_keeps (\<lambda>s. blitter_ok (blt s)) (BLITTER_handleWrite arhw off addr v)"
    unfolding BLITTER_handleWrite_def by (intro rules | assumption)+
  show word: "io_keeps (\<lambda>s. blitter_ok (blt s)) (BLITTER_handleWriteW arhw off addr w)" for addr w
    unfolding BLITTER_handleWriteW_def Let_def by (intro rules | assumption)+
  show "io_keeps (\<lambda>s. blitter_ok (blt s)) (BLITTER_handleWriteL arhw off addr l)"
    unfolding BLITTER_handleWriteL_def BASE_IO_handleWriteL_def Let_def by (intro rules word)+
qed

lemma reset_ok: "blitter_ok b \<Longrightarrow> blitter_ok (BLITTER_reset b)"
  by (simp add: blitter_ok_def BLITTER_reset_def)

lemma reads_keep:
  "io_keeps P (BLITTER_handleRead off addr)" "io_keeps P (BLITTER_handleReadW off addr)" "io_keeps P (BLITTER_handleReadL off addr)"
  unfolding BLITTER_handleReadL_def BASE_IO_handleReadL_def BLITTER_handleReadW_def BASE_IO_handleReadW_def BLITTER_handleRead_def Let_def
  by (intro keeps)+

text \<open>
  C35. The registers of the blitter stay in their ranges: in every state that register accesses, transfers
  (also those that a bus error ends) and resets reach, the halftone memory has sixteen words, \<^verbatim>\<open>hop\<close> is below
  4, \<^verbatim>\<open>op\<close> below 16 and the halftone offset below 16, so that every access to the halftone memory and to the
  tables \<^verbatim>\<open>do_hop_op_N\<close> and \<^verbatim>\<open>do_hop_op_P\<close> is inside. The devices that a transfer reaches must keep this.
\<close>

theorem blitter_registers_typed:
  assumes "list_all (device_keeps (\<lambda>s. blitter_ok (blt s))) arhw" "blt_reachable arhw off s"
  shows "blitter_ok (blt s)"
  using assms(2)
proof (induction rule: blt_reachable.induct)
  case (start s)
  then show ?case by (simp add: blitter_ok_def BLITTER_reset_def)
next
  case (step s t)
  from step.hyps(2) step.IH show ?case
    by (induction rule: blt_step.induct)
      (simp_all add: reads_keep [where P = "\<lambda>s. blitter_ok (blt s)", THEN keepsD] handlers_ok [OF assms(1), THEN keepsD] reset_ok)
qed


text \<open>
  C36. The sixteen logical operations: the operation number is the truth table of the result, its bits 0 to 3
  giving the result for a set operand and destination bit, a set operand bit alone, a set destination bit
  alone and none.
\<close>

theorem hop_op_truth_table:
  assumes "n < 16" "i < 16"
  shows "bit (hop_op n opd dst) i \<longleftrightarrow>
    bit n (if bit opd i then if bit dst i then 0 else 1 else if bit dst i then 2 else 3)"
proof -
  have "unat n \<in> set [0..<16]" using assms(1) by (simp add: word_less_nat_alt)
  moreover have "n = of_nat (unat n)" by simp
  ultimately have "n \<in> of_nat ` set [0..<16]" by blast
  then have n: "n \<in> {0, 1, 2, 3, 4, 5, 6, 7, 8, 9, 10, 11, 12, 13, 14, 15}" by (simp add: upt_rec)
  have all_ones: "bit (0xffff :: u16) i"
    using assms(2) bit_mask_iff [where ?'a = "16 word", of 16 i] by (simp add: mask_eq_exp_minus_1)
  from n show ?thesis using assms(2) all_ones
    by (elim insertE) (auto simp: hop_op_def bit_simps)
qed

lemma blt_job_start: "halftone_start (restore_addresses (blt (blt_new blt_job))) = blt_job"
  by (simp add: blt_new_def blt_job_def halftone_start_def restore_addresses_def)

lemma blt_job_size: "blit_height blt_job = 2" "blit_width blt_job = 2" "row_reads blt_job = 2" "lead blt_job = 0" "hop_reads blt_job"
  by (simp_all add: blit_height_def blit_width_def row_reads_def lead_def skips_last_def blt_job_def hop_reads_def)

lemma blt_job_at:
  "dst_at blt_job 0 0 = 0x20000" "dst_at blt_job 0 1 = 0x20002" "dst_at blt_job 1 0 = 0x20008" "dst_at blt_job 1 1 = 0x2000a"
  "src_at blt_job 0 0 = 0x10000" "src_at blt_job 0 1 = 0x10002" "src_at blt_job 1 0 = 0x10004" "src_at blt_job 1 1 = 0x10006"
  unfolding dst_at_def src_at_def blt_job_size by (simp_all add: blt_job_def)

lemma blt_job_fields:
  "opr blt_job = 3" "hop blt_job = 2" "skewreg blt_job = 4" "end_mask_1 blt_job = 0x0fff" "end_mask_3 blt_job = 0xfff0"
  "source_x_inc blt_job = 2" "halftone_ram blt_job = replicate 16 0"
  by (simp_all add: blt_job_def)

lemma blt_new_words:
  "do_get_mem_word 0x10000 (mem (blt_new b)) = 0x1234" "do_get_mem_word 0x10002 (mem (blt_new b)) = 0x5678"
  "do_get_mem_word 0x20000 (mem (blt_new b)) = 0" "do_get_mem_word 0x20002 (mem (blt_new b)) = 0" "mem (blt_new b) 0x10000 = 0x12"
  by (simp_all add: blt_new_def do_get_mem_word_def do_put_mem_word_def)

lemma less_2: "(\<forall>r < 2. P r) \<longleftrightarrow> P 0 \<and> P (1 :: nat)"
  by (auto simp: less_2_cases_iff)

lemma UN_less_2: "(\<Union>r < 2. A r) = A 0 \<union> A (1 :: nat)"
  by (auto simp: less_2_cases_iff)

theorem blit_rectangle_witness:
  "\<exists>t. Do_Blit [] (blt_new blt_job) = (Some (), t) \<and> y_count (blt t) = 0 \<and>
    do_get_mem_word 0x20000 (mem t) = 0x0123 \<and> do_get_mem_word 0x20002 (mem t) = 0x4560 \<and> mem t 0x10000 = 0x12"
proof -
  have "\<not> source_out_of_range blt_job" "\<not> dest_out_of_range blt_job"
    by (simp_all add: source_out_of_range_def dest_out_of_range_def blt_job_def)
  moreover have "blit_plain (blt_new blt_job) blt_job"
    unfolding blit_plain_def blt_job_size less_2 blt_job_at
    by (simp add: ram_read_def ram_write_def addr_24_def is_hw_def test_ram_boundary_def blt_new_def)
  moreover have cells: "blit_cells blt_job = {0x20000, 0x20001, 0x20002, 0x20003, 0x20008, 0x20009, 0x2000a, 0x2000b}"
    unfolding blit_cells_def blt_job_size UN_less_2 blt_job_at by (auto simp: cell_bytes_numeral)
  moreover have "blit_disjoint blt_job"
    unfolding blit_disjoint_def cells blt_job_size less_2 blt_job_at by (simp add: cell_bytes_numeral)
  moreover have "blit_value blt_job (mem (blt_new blt_job)) 0 0 = 0x0123" "blit_value blt_job (mem (blt_new blt_job)) 0 1 = 0x4560"
    by (simp_all add: blit_value_def blt_job_at [simplified] blt_job_size buffer_at_def shifted_before_def shifted_in_def
        mask_at_def blt_new_words window_def hop_data_def hop_op_def blt_job_fields Let_def)
  ultimately show ?thesis
    using blt_new_words(5) blit_rectangle [OF blt_job_start [symmetric], of "[]"] unfolding blt_job_size less_2 blt_job_at
    by force
qed

theorem blitter_registers_typed_witness:
  "blitter_ok (blt (snd (BLITTER_handleWriteW [] 0xff8a00 0xff8a3a 0x0203
    ((blt_new blt_job)\<lparr>blt := BLITTER_reset (blt (blt_new blt_job))\<rparr>))))"
proof (rule blitter_registers_typed [of "[]" "0xff8a00"])
  have "length (halftone_ram (blt (blt_new blt_job))) = 16" by (simp add: blt_new_def blt_job_def)
  then show "blt_reachable [] 0xff8a00 (snd (BLITTER_handleWriteW [] 0xff8a00 0xff8a3a 0x0203
      ((blt_new blt_job)\<lparr>blt := BLITTER_reset (blt (blt_new blt_job))\<rparr>)))"
    by (rule blt_reachable.step [OF blt_reachable.start blt_step.write_word])
qed simp

theorem hop_op_truth_table_witness: "bit (hop_op 6 0xf0f0 0xff00) 4 \<longleftrightarrow> bit (6 :: u8) 1"
  using hop_op_truth_table [of 6 4 "0xf0f0" "0xff00"] by simp





text \<open>
  C38. The guard of the blitter misses the mirror of low memory: it drops a write to the system variables and
  exception vectors below \<open>0x801\<close>, but in supervisor mode the same write through the top 16 megabytes of the
  address space, which are the first 16 again, changes them.
\<close>

theorem blit_guard_mirror:
  assumes "8 \<le> a" "a \<le> 0x800" "regs_s s"
  shows "SM_UW arhw a v s = (Some (), s) \<and>
    SM_UW arhw (0xff000000 + a) v s = (Some (), mem_update (do_put_mem_word a v) s)"
proof -
  have a: "8 \<le> uint a" "uint a \<le> 0x800" using assms(1,2) by (simp_all add: word_le_def)
  have u: "uint (0xff000000 + a) = 0xff000000 + uint a" using a by (simp add: uint_word_ariths)
  have msk: "(0x00ffffff :: u32) = mask 24" by (simp add: mask_eq_exp_minus_1)
  have "uint ((0xff000000 + a) AND 0x00ffffff) = uint a"
    using a mod_mult_self1 [of "uint a" 255 "2 ^ 24"] unfolding msk
    by (simp only: take_bit_eq_mask [symmetric] unsigned_take_bit_eq u) (simp add: take_bit_eq_mod add.commute)
  then have "addr_24 (0xff000000 + a) = a" using u a unfolding addr_24_def by (simp add: word_less_def word_uint_eq_iff)
  moreover have "\<not> is_hw a"
    using a word_and_le2 [of a "0xfff00000"] by (auto simp: is_hw_def word_le_def)
  moreover have "test_ram_boundary a 2 True True s"
  proof -
    have "uint a \<le> FastRAM_BEGIN + uint (FastRAMSize s) - int 2" using a uint_ge_0 [of "FastRAMSize s"] by linarith
    then show ?thesis using a by (simp add: test_ram_boundary_def Let_def)
  qed
  moreover have "\<not> (0xff000000 + a \<le> 0x800)" "\<not> (0xff000000 + a < 0x1000000)"
    using u a by (simp_all add: word_le_def word_less_def)
  ultimately show ?thesis using assms by (simp add: SM_UW_def phys_put_word_def io_simps)
qed

theorem blit_guard_mirror_witness:
  "do_get_mem_word 0x100 (mem (snd (SM_UW [] 0xff000100 0xbeef (blt_new blt_job)))) = 0xbeef"
  using blit_guard_mirror [of "0x100" "blt_new blt_job" "[]" "0xbeef"]
  by (simp add: blt_new_def word_cell.get_put)

end
