(* ===== verification/Spec2Isabelle.thy ===== *)
theory Spec2Isabelle
  imports Dsp_System Hw_Ikbd Hw_Rtc Hw_Blitter
begin

text \<open>
  Verification of parts of ARAnyM, the Atari Running on Any Machine emulator.
\<close>

end
